(* ===== verification/Unicode_Tables.thy ===== *)
theory Unicode_Tables
  imports Main
begin

text \<open>
  The character tables of the Go package \<open>unicode\<close> (Unicode 15.0.0) that the program consults,
  as lists of inclusive code-point ranges: the format characters (category Cf, consulted by
  \<open>unicode.In(r, unicode.Cf)\<close> in \<open>alertmessage.Parse\<close> and \<open>localcontrol.validateAuditText\<close>), the
  other symbols (category So, consulted by \<open>alertmessage.validEmojiJoiner\<close>), the printable
  characters (\<open>strconv.IsPrint\<close>, which \<open>strconv.Quote\<close> and the verb \<open>%q\<close> consult) and the simple
  lower-case mapping (\<open>unicode.ToLower\<close>).  The tables are data; the functions that read them
  are in the theory Unicode_Text.
\<close>

fun in_ranges :: "(nat \<times> nat) list \<Rightarrow> nat \<Rightarrow> bool" where
  "in_ranges [] r = False"
| "in_ranges ((lo, hi) # rest) r = ((lo \<le> r \<and> r \<le> hi) \<or> in_ranges rest r)"

text \<open>Category Cf.\<close>

definition Cf_table :: "(nat \<times> nat) list" where
  "Cf_table = [
   (173, 173), (1536, 1541), (1564, 1564), (1757, 1757), (1807, 1807), (2192, 2193),
   (2274, 2274), (6158, 6158), (8203, 8207), (8234, 8238), (8288, 8292), (8294, 8303),
   (65279, 65279), (65529, 65531), (69821, 69821), (69837, 69837), (78896, 78911),
   (113824, 113827), (119155, 119162), (917505, 917505), (917536, 917631)]"

text \<open>Category So.\<close>

definition So_table :: "(nat \<times> nat) list" where
  "So_table = [
   (166, 166), (169, 169), (174, 174), (176, 176), (1154, 1154), (1421, 1422), (1550, 1551),
   (1758, 1758), (1769, 1769), (1789, 1790), (2038, 2038), (2554, 2554), (2928, 2928),
   (3059, 3064), (3066, 3066), (3199, 3199), (3407, 3407), (3449, 3449), (3841, 3843),
   (3859, 3859), (3861, 3863), (3866, 3871), (3892, 3892), (3894, 3894), (3896, 3896),
   (4030, 4037), (4039, 4044), (4046, 4047), (4053, 4056), (4254, 4255), (5008, 5017),
   (5741, 5741), (6464, 6464), (6622, 6655), (7009, 7018), (7028, 7036), (8448, 8449),
   (8451, 8454), (8456, 8457), (8468, 8468), (8470, 8471), (8478, 8483), (8485, 8485),
   (8487, 8487), (8489, 8489), (8494, 8494), (8506, 8507), (8522, 8522), (8524, 8525),
   (8527, 8527), (8586, 8587), (8597, 8601), (8604, 8607), (8609, 8610), (8612, 8613),
   (8615, 8621), (8623, 8653), (8656, 8657), (8659, 8659), (8661, 8691), (8960, 8967),
   (8972, 8991), (8994, 9000), (9003, 9083), (9085, 9114), (9140, 9179), (9186, 9254),
   (9280, 9290), (9372, 9449), (9472, 9654), (9656, 9664), (9666, 9719), (9728, 9838),
   (9840, 10087), (10132, 10175), (10240, 10495), (11008, 11055), (11077, 11078),
   (11085, 11123), (11126, 11157), (11159, 11263), (11493, 11498), (11856, 11857),
   (11904, 11929), (11931, 12019), (12032, 12245), (12272, 12283), (12292, 12292),
   (12306, 12307), (12320, 12320), (12342, 12343), (12350, 12351), (12688, 12689),
   (12694, 12703), (12736, 12771), (12800, 12830), (12842, 12871), (12880, 12880),
   (12896, 12927), (12938, 12976), (12992, 13311), (19904, 19967), (42128, 42182),
   (43048, 43051), (43062, 43063), (43065, 43065), (43639, 43641), (64832, 64847),
   (64975, 64975), (65021, 65023), (65508, 65508), (65512, 65512), (65517, 65518),
   (65532, 65533), (65847, 65855), (65913, 65929), (65932, 65934), (65936, 65948),
   (65952, 65952), (66000, 66044), (67703, 67704), (68296, 68296), (71487, 71487),
   (73685, 73692), (73697, 73713), (92988, 92991), (92997, 92997), (113820, 113820),
   (118608, 118723), (118784, 119029), (119040, 119078), (119081, 119140), (119146, 119148),
   (119171, 119172), (119180, 119209), (119214, 119274), (119296, 119361), (119365, 119365),
   (119552, 119638), (120832, 121343), (121399, 121402), (121453, 121460), (121462, 121475),
   (121477, 121478), (123215, 123215), (126124, 126124), (126254, 126254), (126976, 127019),
   (127024, 127123), (127136, 127150), (127153, 127167), (127169, 127183), (127185, 127221),
   (127245, 127405), (127462, 127490), (127504, 127547), (127552, 127560), (127568, 127569),
   (127584, 127589), (127744, 127994), (128000, 128727), (128732, 128748), (128752, 128764),
   (128768, 128886), (128891, 128985), (128992, 129003), (129008, 129008), (129024, 129035),
   (129040, 129095), (129104, 129113), (129120, 129159), (129168, 129197), (129200, 129201),
   (129280, 129619), (129632, 129645), (129648, 129660), (129664, 129672), (129680, 129725),
   (129727, 129733), (129742, 129755), (129760, 129768), (129776, 129784), (129792, 129938),
   (129940, 129994)]"

text \<open>Categories L, M, N, P and S, and the space U+0020.\<close>

definition print_table :: "(nat \<times> nat) list" where
  "print_table = [
   (32, 126), (161, 172), (174, 887), (890, 895), (900, 906), (908, 908), (910, 929),
   (931, 1327), (1329, 1366), (1369, 1418), (1421, 1423), (1425, 1479), (1488, 1514),
   (1519, 1524), (1542, 1563), (1565, 1756), (1758, 1805), (1808, 1866), (1869, 1969),
   (1984, 2042), (2045, 2093), (2096, 2110), (2112, 2139), (2142, 2142), (2144, 2154),
   (2160, 2190), (2200, 2273), (2275, 2435), (2437, 2444), (2447, 2448), (2451, 2472),
   (2474, 2480), (2482, 2482), (2486, 2489), (2492, 2500), (2503, 2504), (2507, 2510),
   (2519, 2519), (2524, 2525), (2527, 2531), (2534, 2558), (2561, 2563), (2565, 2570),
   (2575, 2576), (2579, 2600), (2602, 2608), (2610, 2611), (2613, 2614), (2616, 2617),
   (2620, 2620), (2622, 2626), (2631, 2632), (2635, 2637), (2641, 2641), (2649, 2652),
   (2654, 2654), (2662, 2678), (2689, 2691), (2693, 2701), (2703, 2705), (2707, 2728),
   (2730, 2736), (2738, 2739), (2741, 2745), (2748, 2757), (2759, 2761), (2763, 2765),
   (2768, 2768), (2784, 2787), (2790, 2801), (2809, 2815), (2817, 2819), (2821, 2828),
   (2831, 2832), (2835, 2856), (2858, 2864), (2866, 2867), (2869, 2873), (2876, 2884),
   (2887, 2888), (2891, 2893), (2901, 2903), (2908, 2909), (2911, 2915), (2918, 2935),
   (2946, 2947), (2949, 2954), (2958, 2960), (2962, 2965), (2969, 2970), (2972, 2972),
   (2974, 2975), (2979, 2980), (2984, 2986), (2990, 3001), (3006, 3010), (3014, 3016),
   (3018, 3021), (3024, 3024), (3031, 3031), (3046, 3066), (3072, 3084), (3086, 3088),
   (3090, 3112), (3114, 3129), (3132, 3140), (3142, 3144), (3146, 3149), (3157, 3158),
   (3160, 3162), (3165, 3165), (3168, 3171), (3174, 3183), (3191, 3212), (3214, 3216),
   (3218, 3240), (3242, 3251), (3253, 3257), (3260, 3268), (3270, 3272), (3274, 3277),
   (3285, 3286), (3293, 3294), (3296, 3299), (3302, 3311), (3313, 3315), (3328, 3340),
   (3342, 3344), (3346, 3396), (3398, 3400), (3402, 3407), (3412, 3427), (3430, 3455),
   (3457, 3459), (3461, 3478), (3482, 3505), (3507, 3515), (3517, 3517), (3520, 3526),
   (3530, 3530), (3535, 3540), (3542, 3542), (3544, 3551), (3558, 3567), (3570, 3572),
   (3585, 3642), (3647, 3675), (3713, 3714), (3716, 3716), (3718, 3722), (3724, 3747),
   (3749, 3749), (3751, 3773), (3776, 3780), (3782, 3782), (3784, 3790), (3792, 3801),
   (3804, 3807), (3840, 3911), (3913, 3948), (3953, 3991), (3993, 4028), (4030, 4044),
   (4046, 4058), (4096, 4293), (4295, 4295), (4301, 4301), (4304, 4680), (4682, 4685),
   (4688, 4694), (4696, 4696), (4698, 4701), (4704, 4744), (4746, 4749), (4752, 4784),
   (4786, 4789), (4792, 4798), (4800, 4800), (4802, 4805), (4808, 4822), (4824, 4880),
   (4882, 4885), (4888, 4954), (4957, 4988), (4992, 5017), (5024, 5109), (5112, 5117),
   (5120, 5759), (5761, 5788), (5792, 5880), (5888, 5909), (5919, 5942), (5952, 5971),
   (5984, 5996), (5998, 6000), (6002, 6003), (6016, 6109), (6112, 6121), (6128, 6137),
   (6144, 6157), (6159, 6169), (6176, 6264), (6272, 6314), (6320, 6389), (6400, 6430),
   (6432, 6443), (6448, 6459), (6464, 6464), (6468, 6509), (6512, 6516), (6528, 6571),
   (6576, 6601), (6608, 6618), (6622, 6683), (6686, 6750), (6752, 6780), (6783, 6793),
   (6800, 6809), (6816, 6829), (6832, 6862), (6912, 6988), (6992, 7038), (7040, 7155),
   (7164, 7223), (7227, 7241), (7245, 7304), (7312, 7354), (7357, 7367), (7376, 7418),
   (7424, 7957), (7960, 7965), (7968, 8005), (8008, 8013), (8016, 8023), (8025, 8025),
   (8027, 8027), (8029, 8029), (8031, 8061), (8064, 8116), (8118, 8132), (8134, 8147),
   (8150, 8155), (8157, 8175), (8178, 8180), (8182, 8190), (8208, 8231), (8240, 8286),
   (8304, 8305), (8308, 8334), (8336, 8348), (8352, 8384), (8400, 8432), (8448, 8587),
   (8592, 9254), (9280, 9290), (9312, 11123), (11126, 11157), (11159, 11507), (11513, 11557),
   (11559, 11559), (11565, 11565), (11568, 11623), (11631, 11632), (11647, 11670),
   (11680, 11686), (11688, 11694), (11696, 11702), (11704, 11710), (11712, 11718),
   (11720, 11726), (11728, 11734), (11736, 11742), (11744, 11869), (11904, 11929),
   (11931, 12019), (12032, 12245), (12272, 12283), (12289, 12351), (12353, 12438),
   (12441, 12543), (12549, 12591), (12593, 12686), (12688, 12771), (12784, 12830),
   (12832, 42124), (42128, 42182), (42192, 42539), (42560, 42743), (42752, 42954),
   (42960, 42961), (42963, 42963), (42965, 42969), (42994, 43052), (43056, 43065),
   (43072, 43127), (43136, 43205), (43214, 43225), (43232, 43347), (43359, 43388),
   (43392, 43469), (43471, 43481), (43486, 43518), (43520, 43574), (43584, 43597),
   (43600, 43609), (43612, 43714), (43739, 43766), (43777, 43782), (43785, 43790),
   (43793, 43798), (43808, 43814), (43816, 43822), (43824, 43883), (43888, 44013),
   (44016, 44025), (44032, 55203), (55216, 55238), (55243, 55291), (63744, 64109),
   (64112, 64217), (64256, 64262), (64275, 64279), (64285, 64310), (64312, 64316),
   (64318, 64318), (64320, 64321), (64323, 64324), (64326, 64450), (64467, 64911),
   (64914, 64967), (64975, 64975), (65008, 65049), (65056, 65106), (65108, 65126),
   (65128, 65131), (65136, 65140), (65142, 65276), (65281, 65470), (65474, 65479),
   (65482, 65487), (65490, 65495), (65498, 65500), (65504, 65510), (65512, 65518),
   (65532, 65533), (65536, 65547), (65549, 65574), (65576, 65594), (65596, 65597),
   (65599, 65613), (65616, 65629), (65664, 65786), (65792, 65794), (65799, 65843),
   (65847, 65934), (65936, 65948), (65952, 65952), (66000, 66045), (66176, 66204),
   (66208, 66256), (66272, 66299), (66304, 66339), (66349, 66378), (66384, 66426),
   (66432, 66461), (66463, 66499), (66504, 66517), (66560, 66717), (66720, 66729),
   (66736, 66771), (66776, 66811), (66816, 66855), (66864, 66915), (66927, 66938),
   (66940, 66954), (66956, 66962), (66964, 66965), (66967, 66977), (66979, 66993),
   (66995, 67001), (67003, 67004), (67072, 67382), (67392, 67413), (67424, 67431),
   (67456, 67461), (67463, 67504), (67506, 67514), (67584, 67589), (67592, 67592),
   (67594, 67637), (67639, 67640), (67644, 67644), (67647, 67669), (67671, 67742),
   (67751, 67759), (67808, 67826), (67828, 67829), (67835, 67867), (67871, 67897),
   (67903, 67903), (67968, 68023), (68028, 68047), (68050, 68099), (68101, 68102),
   (68108, 68115), (68117, 68119), (68121, 68149), (68152, 68154), (68159, 68168),
   (68176, 68184), (68192, 68255), (68288, 68326), (68331, 68342), (68352, 68405),
   (68409, 68437), (68440, 68466), (68472, 68497), (68505, 68508), (68521, 68527),
   (68608, 68680), (68736, 68786), (68800, 68850), (68858, 68903), (68912, 68921),
   (69216, 69246), (69248, 69289), (69291, 69293), (69296, 69297), (69373, 69415),
   (69424, 69465), (69488, 69513), (69552, 69579), (69600, 69622), (69632, 69709),
   (69714, 69749), (69759, 69820), (69822, 69826), (69840, 69864), (69872, 69881),
   (69888, 69940), (69942, 69959), (69968, 70006), (70016, 70111), (70113, 70132),
   (70144, 70161), (70163, 70209), (70272, 70278), (70280, 70280), (70282, 70285),
   (70287, 70301), (70303, 70313), (70320, 70378), (70384, 70393), (70400, 70403),
   (70405, 70412), (70415, 70416), (70419, 70440), (70442, 70448), (70450, 70451),
   (70453, 70457), (70459, 70468), (70471, 70472), (70475, 70477), (70480, 70480),
   (70487, 70487), (70493, 70499), (70502, 70508), (70512, 70516), (70656, 70747),
   (70749, 70753), (70784, 70855), (70864, 70873), (71040, 71093), (71096, 71133),
   (71168, 71236), (71248, 71257), (71264, 71276), (71296, 71353), (71360, 71369),
   (71424, 71450), (71453, 71467), (71472, 71494), (71680, 71739), (71840, 71922),
   (71935, 71942), (71945, 71945), (71948, 71955), (71957, 71958), (71960, 71989),
   (71991, 71992), (71995, 72006), (72016, 72025), (72096, 72103), (72106, 72151),
   (72154, 72164), (72192, 72263), (72272, 72354), (72368, 72440), (72448, 72457),
   (72704, 72712), (72714, 72758), (72760, 72773), (72784, 72812), (72816, 72847),
   (72850, 72871), (72873, 72886), (72960, 72966), (72968, 72969), (72971, 73014),
   (73018, 73018), (73020, 73021), (73023, 73031), (73040, 73049), (73056, 73061),
   (73063, 73064), (73066, 73102), (73104, 73105), (73107, 73112), (73120, 73129),
   (73440, 73464), (73472, 73488), (73490, 73530), (73534, 73561), (73648, 73648),
   (73664, 73713), (73727, 74649), (74752, 74862), (74864, 74868), (74880, 75075),
   (77712, 77810), (77824, 78895), (78912, 78933), (82944, 83526), (92160, 92728),
   (92736, 92766), (92768, 92777), (92782, 92862), (92864, 92873), (92880, 92909),
   (92912, 92917), (92928, 92997), (93008, 93017), (93019, 93025), (93027, 93047),
   (93053, 93071), (93760, 93850), (93952, 94026), (94031, 94087), (94095, 94111),
   (94176, 94180), (94192, 94193), (94208, 100343), (100352, 101589), (101632, 101640),
   (110576, 110579), (110581, 110587), (110589, 110590), (110592, 110882), (110898, 110898),
   (110928, 110930), (110933, 110933), (110948, 110951), (110960, 111355), (113664, 113770),
   (113776, 113788), (113792, 113800), (113808, 113817), (113820, 113823), (118528, 118573),
   (118576, 118598), (118608, 118723), (118784, 119029), (119040, 119078), (119081, 119154),
   (119163, 119274), (119296, 119365), (119488, 119507), (119520, 119539), (119552, 119638),
   (119648, 119672), (119808, 119892), (119894, 119964), (119966, 119967), (119970, 119970),
   (119973, 119974), (119977, 119980), (119982, 119993), (119995, 119995), (119997, 120003),
   (120005, 120069), (120071, 120074), (120077, 120084), (120086, 120092), (120094, 120121),
   (120123, 120126), (120128, 120132), (120134, 120134), (120138, 120144), (120146, 120485),
   (120488, 120779), (120782, 121483), (121499, 121503), (121505, 121519), (122624, 122654),
   (122661, 122666), (122880, 122886), (122888, 122904), (122907, 122913), (122915, 122916),
   (122918, 122922), (122928, 122989), (123023, 123023), (123136, 123180), (123184, 123197),
   (123200, 123209), (123214, 123215), (123536, 123566), (123584, 123641), (123647, 123647),
   (124112, 124153), (124896, 124902), (124904, 124907), (124909, 124910), (124912, 124926),
   (124928, 125124), (125127, 125142), (125184, 125259), (125264, 125273), (125278, 125279),
   (126065, 126132), (126209, 126269), (126464, 126467), (126469, 126495), (126497, 126498),
   (126500, 126500), (126503, 126503), (126505, 126514), (126516, 126519), (126521, 126521),
   (126523, 126523), (126530, 126530), (126535, 126535), (126537, 126537), (126539, 126539),
   (126541, 126543), (126545, 126546), (126548, 126548), (126551, 126551), (126553, 126553),
   (126555, 126555), (126557, 126557), (126559, 126559), (126561, 126562), (126564, 126564),
   (126567, 126570), (126572, 126578), (126580, 126583), (126585, 126588), (126590, 126590),
   (126592, 126601), (126603, 126619), (126625, 126627), (126629, 126633), (126635, 126651),
   (126704, 126705), (126976, 127019), (127024, 127123), (127136, 127150), (127153, 127167),
   (127169, 127183), (127185, 127221), (127232, 127405), (127462, 127490), (127504, 127547),
   (127552, 127560), (127568, 127569), (127584, 127589), (127744, 128727), (128732, 128748),
   (128752, 128764), (128768, 128886), (128891, 128985), (128992, 129003), (129008, 129008),
   (129024, 129035), (129040, 129095), (129104, 129113), (129120, 129159), (129168, 129197),
   (129200, 129201), (129280, 129619), (129632, 129645), (129648, 129660), (129664, 129672),
   (129680, 129725), (129727, 129733), (129742, 129755), (129760, 129768), (129776, 129784),
   (129792, 129938), (129940, 129994), (130032, 130041), (131072, 173791), (173824, 177977),
   (177984, 178205), (178208, 183969), (183984, 191456), (194560, 195101), (196608, 201546),
   (201552, 205743), (917760, 917999)]"

text \<open>
  The lower-case mapping: an entry \<open>(lo, hi, stride, target)\<close> sends the code points
  \<open>lo, lo + stride, ..., hi\<close> to \<open>target, target + stride, ...\<close>.
\<close>

type_synonym case_entry = "nat \<times> nat \<times> nat \<times> nat"

definition lower_table :: "case_entry list" where
  "lower_table = [
   (65, 90, 1, 97), (192, 214, 1, 224), (216, 222, 1, 248), (256, 302, 2, 257),
   (304, 304, 1, 105), (306, 310, 2, 307), (313, 327, 2, 314), (330, 374, 2, 331),
   (376, 376, 1, 255), (377, 381, 2, 378), (385, 385, 1, 595), (386, 388, 2, 387),
   (390, 390, 1, 596), (391, 391, 1, 392), (393, 394, 1, 598), (395, 395, 1, 396),
   (398, 398, 1, 477), (399, 399, 1, 601), (400, 400, 1, 603), (401, 401, 1, 402),
   (403, 403, 1, 608), (404, 404, 1, 611), (406, 406, 1, 617), (407, 407, 1, 616),
   (408, 408, 1, 409), (412, 412, 1, 623), (413, 413, 1, 626), (415, 415, 1, 629),
   (416, 420, 2, 417), (422, 422, 1, 640), (423, 423, 1, 424), (425, 425, 1, 643),
   (428, 428, 1, 429), (430, 430, 1, 648), (431, 431, 1, 432), (433, 434, 1, 650),
   (435, 437, 2, 436), (439, 439, 1, 658), (440, 440, 1, 441), (444, 444, 1, 445),
   (452, 452, 1, 454), (453, 453, 1, 454), (455, 455, 1, 457), (456, 456, 1, 457),
   (458, 458, 1, 460), (459, 475, 2, 460), (478, 494, 2, 479), (497, 497, 1, 499),
   (498, 500, 2, 499), (502, 502, 1, 405), (503, 503, 1, 447), (504, 542, 2, 505),
   (544, 544, 1, 414), (546, 562, 2, 547), (570, 570, 1, 11365), (571, 571, 1, 572),
   (573, 573, 1, 410), (574, 574, 1, 11366), (577, 577, 1, 578), (579, 579, 1, 384),
   (580, 580, 1, 649), (581, 581, 1, 652), (582, 590, 2, 583), (880, 882, 2, 881),
   (886, 886, 1, 887), (895, 895, 1, 1011), (902, 902, 1, 940), (904, 906, 1, 941),
   (908, 908, 1, 972), (910, 911, 1, 973), (913, 929, 1, 945), (931, 939, 1, 963),
   (975, 975, 1, 983), (984, 1006, 2, 985), (1012, 1012, 1, 952), (1015, 1015, 1, 1016),
   (1017, 1017, 1, 1010), (1018, 1018, 1, 1019), (1021, 1023, 1, 891), (1024, 1039, 1, 1104),
   (1040, 1071, 1, 1072), (1120, 1152, 2, 1121), (1162, 1214, 2, 1163), (1216, 1216, 1, 1231),
   (1217, 1229, 2, 1218), (1232, 1326, 2, 1233), (1329, 1366, 1, 1377), (4256, 4293, 1, 11520),
   (4295, 4295, 1, 11559), (4301, 4301, 1, 11565), (5024, 5103, 1, 43888),
   (5104, 5109, 1, 5112), (7312, 7354, 1, 4304), (7357, 7359, 1, 4349), (7680, 7828, 2, 7681),
   (7838, 7838, 1, 223), (7840, 7934, 2, 7841), (7944, 7951, 1, 7936), (7960, 7965, 1, 7952),
   (7976, 7983, 1, 7968), (7992, 7999, 1, 7984), (8008, 8013, 1, 8000), (8025, 8031, 2, 8017),
   (8040, 8047, 1, 8032), (8072, 8079, 1, 8064), (8088, 8095, 1, 8080), (8104, 8111, 1, 8096),
   (8120, 8121, 1, 8112), (8122, 8123, 1, 8048), (8124, 8124, 1, 8115), (8136, 8139, 1, 8050),
   (8140, 8140, 1, 8131), (8152, 8153, 1, 8144), (8154, 8155, 1, 8054), (8168, 8169, 1, 8160),
   (8170, 8171, 1, 8058), (8172, 8172, 1, 8165), (8184, 8185, 1, 8056), (8186, 8187, 1, 8060),
   (8188, 8188, 1, 8179), (8486, 8486, 1, 969), (8490, 8490, 1, 107), (8491, 8491, 1, 229),
   (8498, 8498, 1, 8526), (8544, 8559, 1, 8560), (8579, 8579, 1, 8580), (9398, 9423, 1, 9424),
   (11264, 11311, 1, 11312), (11360, 11360, 1, 11361), (11362, 11362, 1, 619),
   (11363, 11363, 1, 7549), (11364, 11364, 1, 637), (11367, 11371, 2, 11368),
   (11373, 11373, 1, 593), (11374, 11374, 1, 625), (11375, 11375, 1, 592),
   (11376, 11376, 1, 594), (11378, 11378, 1, 11379), (11381, 11381, 1, 11382),
   (11390, 11391, 1, 575), (11392, 11490, 2, 11393), (11499, 11501, 2, 11500),
   (11506, 11506, 1, 11507), (42560, 42604, 2, 42561), (42624, 42650, 2, 42625),
   (42786, 42798, 2, 42787), (42802, 42862, 2, 42803), (42873, 42875, 2, 42874),
   (42877, 42877, 1, 7545), (42878, 42886, 2, 42879), (42891, 42891, 1, 42892),
   (42893, 42893, 1, 613), (42896, 42898, 2, 42897), (42902, 42920, 2, 42903),
   (42922, 42922, 1, 614), (42923, 42923, 1, 604), (42924, 42924, 1, 609),
   (42925, 42925, 1, 620), (42926, 42926, 1, 618), (42928, 42928, 1, 670),
   (42929, 42929, 1, 647), (42930, 42930, 1, 669), (42931, 42931, 1, 43859),
   (42932, 42946, 2, 42933), (42948, 42948, 1, 42900), (42949, 42949, 1, 642),
   (42950, 42950, 1, 7566), (42951, 42953, 2, 42952), (42960, 42960, 1, 42961),
   (42966, 42968, 2, 42967), (42997, 42997, 1, 42998), (65313, 65338, 1, 65345),
   (66560, 66599, 1, 66600), (66736, 66771, 1, 66776), (66928, 66938, 1, 66967),
   (66940, 66954, 1, 66979), (66956, 66962, 1, 66995), (66964, 66965, 1, 67003),
   (68736, 68786, 1, 68800), (71840, 71871, 1, 71872), (93760, 93791, 1, 93792),
   (125184, 125217, 1, 125218)]"

fun map_case :: "case_entry list \<Rightarrow> nat \<Rightarrow> nat" where
  "map_case [] r = r"
| "map_case ((lo, hi, stride, target) # rest) r =
     (if lo \<le> r \<and> r \<le> hi \<and> (r - lo) mod stride = 0 then target + (r - lo)
      else map_case rest r)"

end
