(* ===== verification/Unicode_Text.thy ===== *)
theory Unicode_Text
  imports Prelude Unicode_Tables
begin

text \<open>
  Text as the Go packages \<open>unicode/utf8\<close>, \<open>unicode\<close> and \<open>strings\<close> see it: decoding and encoding
  of UTF-8, the character classes the program asks about, and the functions of \<open>strings\<close> and
  \<open>strconv\<close> that work on code points (\<open>TrimSpace\<close>, \<open>Fields\<close>, \<open>ToLower\<close>, \<open>Quote\<close>).
\<close>

subsection \<open>UTF-8\<close>

abbreviation RuneError :: nat where
  "RuneError \<equiv> 0xFFFD"

text \<open>A continuation byte whose value lies in a range.\<close>

definition cont_in :: "nat \<Rightarrow> nat \<Rightarrow> char \<Rightarrow> bool" where
  "cont_in lo hi c \<longleftrightarrow> lo \<le> byte c \<and> byte c \<le> hi"

text \<open>
  \<open>utf8.DecodeRune\<close>: the first code point and the number of bytes it takes; \<open>(RuneError, 1)\<close> on an
  invalid encoding, \<open>(RuneError, 0)\<close> on the empty string.
\<close>

fun DecodeRune :: "string \<Rightarrow> nat \<times> nat" where
  "DecodeRune [] = (RuneError, 0)"
| "DecodeRune (a # s) =
     (let x = byte a in
      if x < 0x80 then (x, 1)
      else if x < 0xC2 \<or> 0xF4 < x then (RuneError, 1)
      else if x < 0xE0 then
        (case s of
          b # _ \<Rightarrow> if cont_in 0x80 0xBF b then ((x - 0xC0) * 64 + (byte b - 0x80), 2) else (RuneError, 1)
        | _ \<Rightarrow> (RuneError, 1))
      else if x < 0xF0 then
        (case s of
          b # c # _ \<Rightarrow>
            if cont_in (if x = 0xE0 then 0xA0 else 0x80) (if x = 0xED then 0x9F else 0xBF) b \<and>
               cont_in 0x80 0xBF c
            then ((x - 0xE0) * 4096 + (byte b - 0x80) * 64 + (byte c - 0x80), 3)
            else (RuneError, 1)
        | _ \<Rightarrow> (RuneError, 1))
      else
        (case s of
          b # c # d # _ \<Rightarrow>
            if cont_in (if x = 0xF0 then 0x90 else 0x80) (if x = 0xF4 then 0x8F else 0xBF) b \<and>
               cont_in 0x80 0xBF c \<and> cont_in 0x80 0xBF d
            then ((x - 0xF0) * 262144 + (byte b - 0x80) * 4096 + (byte c - 0x80) * 64 + (byte d - 0x80), 4)
            else (RuneError, 1)
        | _ \<Rightarrow> (RuneError, 1)))"

declare DecodeRune.simps(2) [simp del]

lemma DecodeRune_size_pos: "s \<noteq> [] \<Longrightarrow> 0 < snd (DecodeRune s)"
  by (cases s) (auto simp: DecodeRune.simps Let_def split: list.splits)

lemma DecodeRune_size_le: "snd (DecodeRune s) \<le> length s"
  by (cases s) (auto simp: DecodeRune.simps Let_def split: list.splits)

lemma DecodeRune_ascii [simp]: "byte a < 0x80 \<Longrightarrow> DecodeRune (a # s) = (byte a, 1)"
  by (simp add: DecodeRune.simps)

text \<open>\<open>[]rune(s)\<close>: the code points of a string, and each with the bytes it was read from.\<close>

function rune_chunks :: "string \<Rightarrow> (nat \<times> string) list" where
  "rune_chunks [] = []"
| "rune_chunks (a # s) =
     (let (r, n) = DecodeRune (a # s)
      in (r, take n (a # s)) # rune_chunks (drop n (a # s)))"
  by pat_completeness auto
termination
proof (relation "measure length", goal_cases)
  case (2 a s x r n)
  then have "0 < n"
    using DecodeRune_size_pos [of "a # s"] by (metis list.distinct(1) snd_conv)
  then show ?case by simp
qed simp

declare rune_chunks.simps(2) [simp del]

definition runes :: "string \<Rightarrow> nat list" where
  "runes s = map fst (rune_chunks s)"

text \<open>\<open>utf8.ValidString\<close>: no position decodes as an invalid one-byte encoding.\<close>

definition ValidString :: "string \<Rightarrow> bool" where
  "ValidString s \<longleftrightarrow> (\<forall>p \<in> set (rune_chunks s). \<not> (fst p = RuneError \<and> length (snd p) = 1))"

text \<open>\<open>utf8.EncodeRune\<close>; surrogates and values out of range are encoded as \<open>RuneError\<close>.\<close>

definition EncodeRune :: "nat \<Rightarrow> string" where
  "EncodeRune r =
     (if r < 0x80 then [char_of r]
      else if r < 0x800 then [char_of (0xC0 + r div 64), char_of (0x80 + r mod 64)]
      else if (0xD800 \<le> r \<and> r \<le> 0xDFFF) \<or> 0x10FFFF < r
      then [CHR 0xEF, CHR 0xBF, CHR 0xBD]
      else if r < 0x10000
      then [char_of (0xE0 + r div 4096), char_of (0x80 + r div 64 mod 64), char_of (0x80 + r mod 64)]
      else [char_of (0xF0 + r div 262144), char_of (0x80 + r div 4096 mod 64),
            char_of (0x80 + r div 64 mod 64), char_of (0x80 + r mod 64)])"

text \<open>\<open>utf8.RuneStart\<close> and \<open>utf8.DecodeLastRune\<close> (on the reversed string it looks back at most four
  bytes for a start byte).\<close>

definition RuneStart :: "char \<Rightarrow> bool" where
  "RuneStart c \<longleftrightarrow> \<not> cont_in 0x80 0xBF c"

fun last_start :: "nat \<Rightarrow> nat \<Rightarrow> string \<Rightarrow> nat" where
  "last_start 0 i s = i"
| "last_start (Suc k) i s =
     (if i = 0 then 0 else if RuneStart (s ! (i - 1)) then i - 1 else last_start k (i - 1) s)"

definition DecodeLastRune :: "string \<Rightarrow> nat \<times> nat" where
  "DecodeLastRune s =
     (if s = [] then (RuneError, 0)
      else if byte (last s) < 0x80 then (byte (last s), 1)
      else
        (let start = last_start 3 (length s - 1) s;
             (r, size) = DecodeRune (drop start s)
         in if start + size \<noteq> length s then (RuneError, 1) else (r, size)))"

lemma DecodeLastRune_size_pos: "s \<noteq> [] \<Longrightarrow> 0 < snd (DecodeLastRune s)"
proof -
  assume s: "s \<noteq> []"
  have "last_start k i t < length t" if "i < length t" for k i and t :: string
    using that by (induction k i t rule: last_start.induct) auto
  from this [of "length s - 1" s 3] s have "drop (last_start 3 (length s - 1) s) s \<noteq> []"
    by simp
  from DecodeRune_size_pos [OF this] show ?thesis
    using s by (auto simp: DecodeLastRune_def Let_def split: prod.splits)
qed

subsection \<open>Character classes\<close>

definition IsControl :: "nat \<Rightarrow> bool" where
  "IsControl r \<longleftrightarrow> r < 0x20 \<or> (0x7F \<le> r \<and> r < 0xA0)"

definition IsSpace :: "nat \<Rightarrow> bool" where
  "IsSpace r \<longleftrightarrow>
     (9 \<le> r \<and> r \<le> 13) \<or> r = 0x20 \<or> r = 0x85 \<or> r = 0xA0 \<or> r = 0x1680 \<or>
     (0x2000 \<le> r \<and> r \<le> 0x200A) \<or> r = 0x2028 \<or> r = 0x2029 \<or> r = 0x202F \<or> r = 0x205F \<or> r = 0x3000"

definition is_Cf :: "nat \<Rightarrow> bool" where
  "is_Cf r \<longleftrightarrow> in_ranges Cf_table r"

definition is_So :: "nat \<Rightarrow> bool" where
  "is_So r \<longleftrightarrow> in_ranges So_table r"

definition IsPrint :: "nat \<Rightarrow> bool" where
  "IsPrint r \<longleftrightarrow> in_ranges print_table r"

definition unicode_ToLower :: "nat \<Rightarrow> nat" where
  "unicode_ToLower r = map_case lower_table r"

subsection \<open>strings.TrimSpace, strings.Fields\<close>

function trim_left_space :: "string \<Rightarrow> string" where
  "trim_left_space s =
     (if s \<noteq> [] \<and> IsSpace (fst (DecodeRune s))
      then trim_left_space (drop (snd (DecodeRune s)) s) else s)"
  by pat_completeness auto
termination
  by (relation "measure length") (auto intro!: diff_less DecodeRune_size_pos)

function trim_right_space :: "string \<Rightarrow> string" where
  "trim_right_space s =
     (if s \<noteq> [] \<and> IsSpace (fst (DecodeLastRune s))
      then trim_right_space (take (length s - snd (DecodeLastRune s)) s) else s)"
  by pat_completeness auto
termination
proof (relation "measure length", goal_cases)
  case (2 s)
  then show ?case using DecodeLastRune_size_pos [of s] by (cases s) auto
qed simp

declare trim_left_space.simps [simp del] trim_right_space.simps [simp del]

definition TrimSpace :: "string \<Rightarrow> string" where
  "TrimSpace s = trim_right_space (trim_left_space s)"

text \<open>\<open>strings.Fields\<close>: the maximal runs of code points that are not white space.\<close>

fun fields_of :: "(nat \<times> string) list \<Rightarrow> string \<Rightarrow> string list" where
  "fields_of [] acc = (if acc = [] then [] else [acc])"
| "fields_of ((r, bs) # rest) acc =
     (if IsSpace r then (if acc = [] then fields_of rest [] else acc # fields_of rest [])
      else fields_of rest (acc @ bs))"

definition Fields :: "string \<Rightarrow> string list" where
  "Fields s = fields_of (rune_chunks s) []"

subsection \<open>strings.ToLower\<close>

text \<open>An ASCII string is lowered byte by byte, any other one code point by code point; an invalid
  byte becomes the encoding of \<open>RuneError\<close>, as \<open>strings.Map\<close> writes it.\<close>

definition lower_byte :: "char \<Rightarrow> char" where
  "lower_byte c = (if is_upper c then char_of (byte c + 32) else c)"

definition ToLower :: "string \<Rightarrow> string" where
  "ToLower s =
     (if \<forall>c \<in> set s. byte c < 0x80 then map lower_byte s
      else concat (map (\<lambda>r. EncodeRune (unicode_ToLower r)) (runes s)))"

subsection \<open>strconv.Quote\<close>

definition hex_digit :: "nat \<Rightarrow> char" where
  "hex_digit d = (if d < 10 then char_of (48 + d) else char_of (87 + d))"

fun hex_pad :: "nat \<Rightarrow> nat \<Rightarrow> string" where
  "hex_pad 0 n = []"
| "hex_pad (Suc k) n = hex_pad k (n div 16) @ [hex_digit (n mod 16)]"

definition quote_rune :: "nat \<times> string \<Rightarrow> string" where
  "quote_rune p =
     (case p of (r, bs) \<Rightarrow>
      if r = RuneError \<and> length bs = 1 then [CHR 0x5C, CHR ''x''] @ hex_pad 2 (byte (hd bs))
      else if r = 0x22 \<or> r = 0x5C then [CHR 0x5C, char_of r]
      else if IsPrint r then EncodeRune r
      else if r = 7 then [CHR 0x5C, CHR ''a'']
      else if r = 8 then [CHR 0x5C, CHR ''b'']
      else if r = 12 then [CHR 0x5C, CHR ''f'']
      else if r = 10 then [CHR 0x5C, CHR ''n'']
      else if r = 13 then [CHR 0x5C, CHR ''r'']
      else if r = 9 then [CHR 0x5C, CHR ''t'']
      else if r = 11 then [CHR 0x5C, CHR ''v'']
      else if r < 0x20 \<or> r = 0x7F then [CHR 0x5C, CHR ''x''] @ hex_pad 2 r
      else if r < 0x10000 then [CHR 0x5C, CHR ''u''] @ hex_pad 4 r
      else [CHR 0x5C, CHR ''U''] @ hex_pad 8 r)"

definition Quote :: "string \<Rightarrow> string" where
  "Quote s = DQUOTE # concat (map quote_rune (rune_chunks s)) @ [DQUOTE]"

end
