(* ===== verification/Go_Errors.thy ===== *)
theory Go_Errors
  imports Unicode_Text
begin

text \<open>
  Go errors as values.  A package-level \<open>var ErrX = errors.New(...)\<close> of package \<open>p\<close> is the
  sentinel \<open>p_ErrX\<close>; \<open>os.ErrNotExist\<close>, \<open>os.ErrExist\<close> and \<open>flag.ErrHelp\<close> are the sentinels of the
  standard library the program compares with.  \<open>errors.Is\<close> and the message text (\<open>err.Error()\<close>) follow
  \<open>fmt.Errorf\<close> with \<open>%w\<close> operands and \<open>errors.Join\<close>; an error formatted with \<open>%v\<close> is not wrapped.
\<close>

datatype sentinel =
    Os_ErrNotExist
  | Os_ErrExist
  | alertmessage_ErrEmpty
  | alertmessage_ErrTooLarge
  | alertmessage_ErrInvalidUTF8
  | alertmessage_ErrControlCharacter
  | alertmessage_ErrFormatCharacter
  | alertstore_ErrInvalidRoot
  | alertstore_ErrInvalidBackupRoot
  | alertstore_ErrInvalidTarget
  | alertstore_ErrInvalidMessage
  | alertstore_ErrAlreadyExists
  | alertstore_ErrLegacyConflict
  | alertstore_ErrOversizedConflict
  | alertstore_ErrManagedConflict
  | alertstore_ErrSourceChanged
  | alertstore_ErrUnsafeFile
  | alertstore_ErrClosed
  | alerttarget_ErrInvalid
  | appconfig_ErrInvalidConfig
  | appconfig_ErrUnsupportedVersion
  | appconfig_ErrTooLarge
  | appconfig_ErrDurabilityUncertain
  | arednauth_ErrUnavailable
  | arednauth_ErrInvalidResponse
  | aredndhcp_ErrInvalidSource
  | aredndhcp_ErrAmbiguousLease
  | aredndhcp_ErrUnavailable
  | aredndhcp_ErrDataTooLarge
  | arednhosts_ErrRead
  | arednhosts_ErrDataTooLarge
  | arednnodes_ErrUnavailable
  | arednsource_ErrInvalidSource
  | arednsource_ErrAmbiguous
  | arednsource_ErrRouteQuery
  | arednsource_ErrHostRecords
  | arednsource_ErrDataTooLarge
  | cgibridge_ErrInvalidEnvironment
  | localcontrol_ErrResponseTooLarge
  | localcontrol_ErrInvalidResponse
  | localcontrol_ErrControlUnavailable
  | localcontrol_ErrRequestTooLarge
  | localcontrol_ErrInvalidRequest
  | localcontrol_ErrUnsupportedVersion
  | localcontrol_ErrUnknownOperation
  | localcontrol_ErrUnsafeRuntimeDir
  | localcontrol_ErrSocketPathExists
  | localcontrol_ErrSocketOwnership
  | minihttp_ErrUseLastResponse
  | minihttp_ErrServerClosed
  | webadmin_ErrInvalidServer
  | main_ErrInvalidArguments
  | Flag_ErrHelp

fun sentinel_text :: "sentinel \<Rightarrow> string" where
  "sentinel_text Os_ErrNotExist = ''file does not exist''"
| "sentinel_text Os_ErrExist = ''file already exists''"
| "sentinel_text alertmessage_ErrEmpty = ''alert message is empty''"
| "sentinel_text alertmessage_ErrTooLarge = ''alert message is too large''"
| "sentinel_text alertmessage_ErrInvalidUTF8 = ''alert message is not valid UTF-8''"
| "sentinel_text alertmessage_ErrControlCharacter = ''alert message contains a control character''"
| "sentinel_text alertmessage_ErrFormatCharacter = ''alert message contains an unsupported Unicode format character''"
| "sentinel_text alertstore_ErrInvalidRoot = ''invalid alert directory''"
| "sentinel_text alertstore_ErrInvalidBackupRoot = ''invalid backup directory''"
| "sentinel_text alertstore_ErrInvalidTarget = ''invalid alert target''"
| "sentinel_text alertstore_ErrInvalidMessage = ''invalid alert message''"
| "sentinel_text alertstore_ErrAlreadyExists = ''alert already exists''"
| "sentinel_text alertstore_ErrLegacyConflict = ''legacy alert requires explicit conversion''"
| "sentinel_text alertstore_ErrOversizedConflict = ''oversized alert requires explicit conversion''"
| "sentinel_text alertstore_ErrManagedConflict = ''managed alert does not require conversion''"
| "sentinel_text alertstore_ErrSourceChanged = ''alert changed during conversion''"
| "sentinel_text alertstore_ErrUnsafeFile = ''alert file is not a regular file''"
| "sentinel_text alertstore_ErrClosed = ''alert store is closed''"
| "sentinel_text alerttarget_ErrInvalid = ''invalid alert target''"
| "sentinel_text appconfig_ErrInvalidConfig = ''invalid application configuration''"
| "sentinel_text appconfig_ErrUnsupportedVersion = ''unsupported application configuration version''"
| "sentinel_text appconfig_ErrTooLarge = ''application configuration exceeds size limit''"
| "sentinel_text appconfig_ErrDurabilityUncertain = ''application configuration durability is uncertain''"
| "sentinel_text arednauth_ErrUnavailable = ''AREDN authentication verifier unavailable''"
| "sentinel_text arednauth_ErrInvalidResponse = ''invalid AREDN authentication response''"
| "sentinel_text aredndhcp_ErrInvalidSource = ''invalid DHCP source address''"
| "sentinel_text aredndhcp_ErrAmbiguousLease = ''ambiguous DHCP lease''"
| "sentinel_text aredndhcp_ErrUnavailable = ''AREDN DHCP lease data unavailable''"
| "sentinel_text aredndhcp_ErrDataTooLarge = ''AREDN DHCP lease data exceeds limit''"
| "sentinel_text arednhosts_ErrRead = ''AREDN host record read failed''"
| "sentinel_text arednhosts_ErrDataTooLarge = ''AREDN host data exceeds limit''"
| "sentinel_text arednnodes_ErrUnavailable = ''AREDN local node discovery unavailable''"
| "sentinel_text arednsource_ErrInvalidSource = ''invalid source address''"
| "sentinel_text arednsource_ErrAmbiguous = ''ambiguous AREDN source''"
| "sentinel_text arednsource_ErrRouteQuery = ''AREDN route query failed''"
| "sentinel_text arednsource_ErrHostRecords = ''AREDN host record read failed''"
| "sentinel_text arednsource_ErrDataTooLarge = ''AREDN source data exceeds limit''"
| "sentinel_text cgibridge_ErrInvalidEnvironment = ''invalid CGI environment''"
| "sentinel_text localcontrol_ErrResponseTooLarge = ''control response exceeds size limit''"
| "sentinel_text localcontrol_ErrInvalidResponse = ''invalid control response''"
| "sentinel_text localcontrol_ErrControlUnavailable = ''local control unavailable''"
| "sentinel_text localcontrol_ErrRequestTooLarge = ''control request exceeds size limit''"
| "sentinel_text localcontrol_ErrInvalidRequest = ''invalid control request''"
| "sentinel_text localcontrol_ErrUnsupportedVersion = ''unsupported control protocol version''"
| "sentinel_text localcontrol_ErrUnknownOperation = ''unknown control operation''"
| "sentinel_text localcontrol_ErrUnsafeRuntimeDir = ''unsafe control runtime directory''"
| "sentinel_text localcontrol_ErrSocketPathExists = ''control socket path already exists''"
| "sentinel_text localcontrol_ErrSocketOwnership = ''control socket ownership mismatch''"
| "sentinel_text minihttp_ErrUseLastResponse = ''net/http: use last response''"
| "sentinel_text minihttp_ErrServerClosed = ''http: Server closed''"
| "sentinel_text webadmin_ErrInvalidServer = ''invalid web server configuration''"
| "sentinel_text main_ErrInvalidArguments = ''invalid command arguments''"
| "sentinel_text Flag_ErrHelp = ''flag: help requested''"

text \<open>The kind of a failed system call, as far as the program distinguishes them.\<close>

datatype os_kind = NotExist | Exist | OtherKind

datatype goerror =
    Sentinel sentinel
  | OsError os_kind string
  | Errorf string "goerror list"
  | Joined "goerror list"
  | RemoteError string string

text \<open>The text of \<open>errors.Join\<close>: one line per error.\<close>

fun join_lines :: "string list \<Rightarrow> string" where
  "join_lines [] = []"
| "join_lines [x] = x"
| "join_lines (x # y # ys) = x @ [LF] @ join_lines (y # ys)"

text \<open>\<open>err.Error()\<close>; the method of \<open>*localcontrol.RemoteError\<close> falls back to its code.\<close>

fun error_text :: "goerror \<Rightarrow> string" where
  "error_text (Sentinel s) = sentinel_text s"
| "error_text (OsError k t) = t"
| "error_text (Errorf t es) = t"
| "error_text (Joined es) = join_lines (map error_text es)"
| "error_text (RemoteError code msg) = (if msg \<noteq> [] then msg else code)"

text \<open>\<open>errors.Is(err, target)\<close> for a sentinel target.\<close>

fun errors_is :: "goerror \<Rightarrow> sentinel \<Rightarrow> bool" where
  "errors_is (Sentinel s) t = (s = t)"
| "errors_is (OsError k x) t =
     ((k = NotExist \<and> t = Os_ErrNotExist) \<or> (k = Exist \<and> t = Os_ErrExist))"
| "errors_is (Errorf x es) t = list_ex (\<lambda>e. errors_is e t) es"
| "errors_is (Joined es) t = list_ex (\<lambda>e. errors_is e t) es"
| "errors_is (RemoteError code msg) t = False"

text \<open>\<open>errors.As(err, &remoteErr)\<close>: the first \<open>*RemoteError\<close> of the tree.\<close>

fun find_remote :: "goerror \<Rightarrow> (string \<times> string) option"
  and find_remote_list :: "goerror list \<Rightarrow> (string \<times> string) option"
where
  "find_remote (RemoteError code msg) = Some (code, msg)"
| "find_remote (Sentinel s) = None"
| "find_remote (OsError k x) = None"
| "find_remote (Errorf x es) = find_remote_list es"
| "find_remote (Joined es) = find_remote_list es"
| "find_remote_list [] = None"
| "find_remote_list (e # es) =
     (case find_remote e of None \<Rightarrow> find_remote_list es | Some r \<Rightarrow> Some r)"

text \<open>The shapes of \<open>fmt.Errorf\<close> the program uses: \<open>"text: %w"\<close>, \<open>"%w: text"\<close>, \<open>"text"\<close>.\<close>

definition wrapf :: "string \<Rightarrow> goerror \<Rightarrow> goerror" where
  "wrapf prefix e = Errorf (prefix @ '': '' @ error_text e) [e]"

definition sentinelf :: "sentinel \<Rightarrow> string \<Rightarrow> goerror" where
  "sentinelf s suffix = Errorf (sentinel_text s @ '': '' @ suffix) [Sentinel s]"

definition new_error :: "string \<Rightarrow> goerror" where
  "new_error text = Errorf text []"

lemma errors_is_wrapf [simp]: "errors_is (wrapf p e) t = errors_is e t"
  by (simp add: wrapf_def)

lemma errors_is_sentinelf [simp]: "errors_is (sentinelf s x) t \<longleftrightarrow> s = t"
  by (simp add: sentinelf_def)

lemma errors_is_new_error [simp]: "\<not> errors_is (new_error x) t"
  by (simp add: new_error_def)

text \<open>\<open>errors.Join\<close> of optional errors: nil when all are nil.\<close>

definition errors_Join :: "goerror option list \<Rightarrow> goerror option" where
  "errors_Join es =
     (let present = map the (filter (\<lambda>e. e \<noteq> None) es)
      in if present = [] then None else Some (Joined present))"

lemma errors_Join_None [simp]: "errors_Join es = None \<longleftrightarrow> (\<forall>e \<in> set es. e = None)"
  by (induction es) (auto simp: errors_Join_def Let_def)

end
