(* ===== verification/Json.thy ===== *)
theory Json
  imports Go_Errors
begin

text \<open>
  The parts of the package \<open>encoding/json\<close> that the program uses: reading one value from a stream
  (\<open>json.NewDecoder(bytes.NewReader(data))\<close>, \<open>DisallowUnknownFields\<close>, \<open>Decode\<close>), storing it into
  structs, strings, integers, booleans and pointers, and printing (\<open>json.Marshal\<close>, which escapes
  \<open><\<close>, \<open>>\<close> and \<open>&\<close>).  The texts of the decoder's own error messages are a parameter
  (\<open>json_texts\<close>): they are only ever shown.  An \<open>int\<close> has 64 bits.
\<close>

datatype json =
    JNull
  | JBool bool
  | JNumber string
  | JString string
  | JArray "json list"
  | JObject "(string \<times> json) list"

abbreviation BSLASH :: char where "BSLASH \<equiv> CHR 0x5C"

subsection \<open>The scanner\<close>

definition json_space :: "char \<Rightarrow> bool" where
  "json_space c \<longleftrightarrow> c = CHR '' '' \<or> c = TAB \<or> c = LF \<or> c = CR"

definition skip_space :: "string \<Rightarrow> string" where
  "skip_space s = dropWhile json_space s"

definition is_hex :: "char \<Rightarrow> bool" where
  "is_hex c \<longleftrightarrow> is_digit c \<or> (97 \<le> byte c \<and> byte c \<le> 102) \<or> (65 \<le> byte c \<and> byte c \<le> 70)"

text \<open>A string literal after its opening quote: the raw text up to the closing quote, and the rest.\<close>

fun scan_string :: "string \<Rightarrow> (string \<times> string) option" where
  "scan_string [] = None"
| "scan_string (c # s) =
     (if c = DQUOTE then Some ([], s)
      else if c = BSLASH then
        (case s of
           [] \<Rightarrow> None
         | e # s1 \<Rightarrow>
             if e \<in> set (''bfnrt/'' @ [BSLASH, DQUOTE]) then map_option (apfst (\<lambda>raw. c # e # raw)) (scan_string s1)
             else if e = CHR ''u'' then
               (case s1 of
                  h1 # h2 # h3 # h4 # s2 \<Rightarrow>
                    if is_hex h1 \<and> is_hex h2 \<and> is_hex h3 \<and> is_hex h4
                    then map_option (apfst (\<lambda>raw. c # e # h1 # h2 # h3 # h4 # raw)) (scan_string s2)
                    else None
                | _ \<Rightarrow> None)
             else None)
      else if byte c < 0x20 then None
      else map_option (apfst (\<lambda>raw. c # raw)) (scan_string s))"

text \<open>A number literal and the rest: sign, integer part, fraction, exponent.\<close>

definition scan_digits :: "string \<Rightarrow> (string \<times> string) option" where
  "scan_digits s =
     (let ds = takeWhile is_digit s in if ds = [] then None else Some (ds, dropWhile is_digit s))"

definition scan_integer :: "string \<Rightarrow> (string \<times> string) option" where
  "scan_integer s = (case s of c # r \<Rightarrow> if c = CHR ''0'' then Some ([c], r) else scan_digits s | [] \<Rightarrow> None)"

definition scan_fraction :: "string \<Rightarrow> (string \<times> string) option" where
  "scan_fraction s =
     (case s of
        c # r \<Rightarrow> if c = CHR ''.'' then map_option (apfst (\<lambda>ds. c # ds)) (scan_digits r) else Some ([], s)
      | [] \<Rightarrow> Some ([], []))"

definition scan_sign :: "char list \<Rightarrow> string \<Rightarrow> string \<times> string" where
  "scan_sign signs s = (case s of c # r \<Rightarrow> if c \<in> set signs then ([c], r) else ([], s) | [] \<Rightarrow> ([], []))"

definition scan_exponent :: "string \<Rightarrow> (string \<times> string) option" where
  "scan_exponent s =
     (case s of
        c # r \<Rightarrow>
          if c = CHR ''e'' \<or> c = CHR ''E''
          then (case scan_sign ''+-'' r of (sg, r1) \<Rightarrow>
                  map_option (apfst (\<lambda>ds. c # sg @ ds)) (scan_digits r1))
          else Some ([], s)
      | [] \<Rightarrow> Some ([], []))"

definition scan_number :: "string \<Rightarrow> (string \<times> string) option" where
  "scan_number s =
     (case scan_sign ''-'' s of (sg, s1) \<Rightarrow>
      case scan_integer s1 of None \<Rightarrow> None | Some (i, s2) \<Rightarrow>
      case scan_fraction s2 of None \<Rightarrow> None | Some (f, s3) \<Rightarrow>
      case scan_exponent s3 of None \<Rightarrow> None | Some (e, s4) \<Rightarrow> Some (sg @ i @ f @ e, s4))"

subsection \<open>Unquoting\<close>

definition hex_digit_value :: "char \<Rightarrow> nat" where
  "hex_digit_value c = (if is_digit c then byte c - 48 else if 97 \<le> byte c then byte c - 87 else byte c - 55)"

text \<open>\<open>getu4\<close> reads \<open>\uXXXX\<close>.\<close>

definition getu4 :: "string \<Rightarrow> nat option" where
  "getu4 s =
     (case s of
        b # u # h1 # h2 # h3 # h4 # _ \<Rightarrow>
          if b = BSLASH \<and> u = CHR ''u'' \<and> is_hex h1 \<and> is_hex h2 \<and> is_hex h3 \<and> is_hex h4
          then Some (((hex_digit_value h1 * 16 + hex_digit_value h2) * 16 + hex_digit_value h3) * 16 + hex_digit_value h4)
          else None
      | _ \<Rightarrow> None)"

definition simple_escape :: "char \<Rightarrow> char" where
  "simple_escape e =
     (if e = CHR ''b'' then CHR 0x08 else if e = CHR ''f'' then CHR 0x0C else if e = CHR ''n'' then LF
      else if e = CHR ''r'' then CR else if e = CHR ''t'' then TAB else e)"

text \<open>The code point of an escape, with a second surrogate taken along, and the bytes it used.\<close>

definition unicode_escape :: "string \<Rightarrow> nat \<times> nat" where
  "unicode_escape s =
     (case getu4 s of
        None \<Rightarrow> (RuneError, 2)
      | Some rr \<Rightarrow>
          if 0xD800 \<le> rr \<and> rr < 0xE000 then
            (case getu4 (drop 6 s) of
               Some r2 \<Rightarrow>
                 if rr < 0xDC00 \<and> 0xDC00 \<le> r2 \<and> r2 < 0xE000
                 then ((rr - 0xD800) * 1024 + (r2 - 0xDC00) + 0x10000, 12) else (RuneError, 6)
             | None \<Rightarrow> (RuneError, 6))
          else (rr, 6))"

function unquote :: "string \<Rightarrow> string" where
  "unquote [] = []"
| "unquote (c # s) =
     (if c = BSLASH then
        (case s of
           [] \<Rightarrow> []
         | e # s1 \<Rightarrow>
             if e = CHR ''u''
             then (let (r, n) = unicode_escape (c # s) in EncodeRune r @ unquote (drop n (c # s)))
             else simple_escape e # unquote s1)
      else if byte c < 0x80 then c # unquote s
      else (let (r, n) = DecodeRune (c # s) in EncodeRune r @ unquote (drop n (c # s))))"
  by pat_completeness auto
termination
proof (relation "measure length", goal_cases)
  case (2 c s e s1 x r n)
  then have "0 < n"
    by (auto simp: unicode_escape_def split: option.splits if_splits)
  with 2 show ?case by simp
next
  case (5 c s x r n)
  then have "0 < n"
    using DecodeRune_size_pos [of "c # s"] by (metis list.distinct(1) snd_conv)
  then show ?case by simp
qed auto

declare unquote.simps(2) [simp del]

subsection \<open>Values\<close>

text \<open>
  The depth that is left (the decoder allows 10000 open brackets) and fuel; \<open>2 * length s + 2\<close> units of
  fuel are always enough (\<open>parse_fuel\<close> below).  \<open>None\<close> is a syntax error.
\<close>

definition scan_literal :: "string \<Rightarrow> json \<Rightarrow> string \<Rightarrow> (json \<times> string) option" where
  "scan_literal word j s = (if HasPrefix s word then Some (j, drop (length word) s) else None)"

fun parse_value :: "nat \<Rightarrow> nat \<Rightarrow> string \<Rightarrow> (json \<times> string) option"
  and parse_elements :: "nat \<Rightarrow> nat \<Rightarrow> string \<Rightarrow> (json list \<times> string) option"
  and parse_members :: "nat \<Rightarrow> nat \<Rightarrow> string \<Rightarrow> ((string \<times> json) list \<times> string) option"
where
  "parse_value 0 d s = None"
| "parse_value (Suc n) d s =
     (case skip_space s of
        [] \<Rightarrow> None
      | c # r \<Rightarrow>
          if c = DQUOTE then map_option (\<lambda>(raw, r1). (JString (unquote raw), r1)) (scan_string r)
          else if c = CHR ''{'' then
            (if d = 0 then None
             else case skip_space r of
                [] \<Rightarrow> None
              | c1 # r1 \<Rightarrow> if c1 = CHR ''}'' then Some (JObject [], r1)
                          else map_option (apfst JObject) (parse_members n (d - 1) r))
          else if c = CHR ''['' then
            (if d = 0 then None
             else case skip_space r of
                [] \<Rightarrow> None
              | c1 # r1 \<Rightarrow> if c1 = CHR '']'' then Some (JArray [], r1)
                          else map_option (apfst JArray) (parse_elements n (d - 1) r))
          else if c = CHR ''t'' then scan_literal ''true'' (JBool True) (c # r)
          else if c = CHR ''f'' then scan_literal ''false'' (JBool False) (c # r)
          else if c = CHR ''n'' then scan_literal ''null'' JNull (c # r)
          else map_option (apfst JNumber) (scan_number (c # r)))"
| "parse_elements 0 d s = None"
| "parse_elements (Suc n) d s =
     (case parse_value n d s of
        None \<Rightarrow> None
      | Some (v, r) \<Rightarrow>
          (case skip_space r of
             [] \<Rightarrow> None
           | c # r1 \<Rightarrow>
               if c = CHR '','' then map_option (apfst (\<lambda>vs. v # vs)) (parse_elements n d r1)
               else if c = CHR '']'' then Some ([v], r1) else None))"
| "parse_members 0 d s = None"
| "parse_members (Suc n) d s =
     (case skip_space s of
        [] \<Rightarrow> None
      | c # r \<Rightarrow>
          if c \<noteq> DQUOTE then None
          else case scan_string r of
            None \<Rightarrow> None
          | Some (raw, r1) \<Rightarrow>
              (case skip_space r1 of
                 [] \<Rightarrow> None
               | c1 # r2 \<Rightarrow>
                   if c1 \<noteq> CHR '':'' then None
                   else case parse_value n d r2 of
                     None \<Rightarrow> None
                   | Some (v, r3) \<Rightarrow>
                       (case skip_space r3 of
                          [] \<Rightarrow> None
                        | c2 # r4 \<Rightarrow>
                            if c2 = CHR '','' then map_option (apfst (\<lambda>ms. (unquote raw, v) # ms)) (parse_members n d r4)
                            else if c2 = CHR ''}'' then Some ([(unquote raw, v)], r4) else None)))"

declare parse_value.simps(2) [simp del] parse_elements.simps(2) [simp del] parse_members.simps(2) [simp del]

datatype decode_step = Dec_EOF | Dec_Syntax | Dec_Value json string

definition max_depth :: nat where
  "max_depth = 10000"

definition next_value :: "string \<Rightarrow> decode_step" where
  "next_value s =
     (if skip_space s = [] then Dec_EOF
      else case parse_value (2 * length s + 2) max_depth s of
        None \<Rightarrow> Dec_Syntax
      | Some (j, rest) \<Rightarrow> Dec_Value j rest)"

subsection \<open>Storing into Go values\<close>

text \<open>A decoder stores a value into a variable; the flag says that it saved a type error.  Decoding
  goes on after such an error, and \<open>null\<close> leaves anything but a pointer alone.\<close>

type_synonym 'r into = "'r \<Rightarrow> json \<Rightarrow> 'r \<times> bool"

definition into_string :: "string into" where
  "into_string x j = (case j of JNull \<Rightarrow> (x, False) | JString s \<Rightarrow> (s, False) | _ \<Rightarrow> (x, True))"

definition into_bool :: "bool into" where
  "into_bool x j = (case j of JNull \<Rightarrow> (x, False) | JBool b \<Rightarrow> (b, False) | _ \<Rightarrow> (x, True))"

definition decimal_value :: "string \<Rightarrow> nat" where
  "decimal_value ds = foldl (\<lambda>n c. n * 10 + (byte c - 48)) 0 ds"

text \<open>\<open>strconv.ParseInt(s, 10, 64)\<close> on a number literal.\<close>

definition ParseInt :: "string \<Rightarrow> int option" where
  "ParseInt s =
     (case scan_sign ''-'' s of (sg, ds) \<Rightarrow>
      if ds = [] \<or> \<not> list_all is_digit ds then None
      else
        let v = int (decimal_value ds); i = (if sg = [] then v else - v)
        in if - (2 ^ 63) \<le> i \<and> i < 2 ^ 63 then Some i else None)"

definition into_int :: "int into" where
  "into_int x j =
     (case j of
        JNull \<Rightarrow> (x, False)
      | JNumber s \<Rightarrow> (case ParseInt s of Some i \<Rightarrow> (i, False) | None \<Rightarrow> (x, True))
      | _ \<Rightarrow> (x, True))"

text \<open>A pointer: \<open>null\<close> makes it nil, anything else allocates a zero value unless it has one.\<close>

definition into_pointer :: "'r \<Rightarrow> 'r into \<Rightarrow> 'r option into" where
  "into_pointer zero into_r p j =
     (case j of
        JNull \<Rightarrow> (None, False)
      | _ \<Rightarrow> map_prod Some id (into_r (case p of None \<Rightarrow> zero | Some x \<Rightarrow> x) j))"

text \<open>A field of a struct: its name in the JSON, and how to store a value into it.\<close>

definition field_of :: "string \<Rightarrow> ('r \<Rightarrow> 'f) \<Rightarrow> (('f \<Rightarrow> 'f) \<Rightarrow> 'r \<Rightarrow> 'r) \<Rightarrow> 'f into \<Rightarrow> string \<times> 'r into" where
  "field_of name get upd into_f =
     (name, \<lambda>r j. case into_f (get r) j of (x, e) \<Rightarrow> (upd (\<lambda>_. x) r, e))"

text \<open>\<open>foldName\<close>: names are compared under simple case folding; besides the letters of ASCII only
  U+017F and U+212A fold to one of them.\<close>

definition fold_rune :: "nat \<Rightarrow> nat" where
  "fold_rune r =
     (if 97 \<le> r \<and> r \<le> 122 then r - 32 else if r = 0x17F then 83 else if r = 0x212A then 75 else r)"

text \<open>\<open>strings.EqualFold\<close>, exact when one side has no characters but ASCII, U+0130 and U+212A, as every
  name that is a valid target.\<close>

definition EqualFold :: "string \<Rightarrow> string \<Rightarrow> bool" where
  "EqualFold s t \<longleftrightarrow> map fold_rune (runes s) = map fold_rune (runes t)"

definition find_field :: "(string \<times> 'a) list \<Rightarrow> string \<Rightarrow> 'a option" where
  "find_field fields key =
     (case map_of fields key of
        Some f \<Rightarrow> Some f
      | None \<Rightarrow> map_option snd
          (find (\<lambda>(name, _). map fold_rune (runes name) = map fold_rune (runes key)) fields))"

text \<open>The members in turn; an unknown name is an error when \<open>strict\<close> (\<open>DisallowUnknownFields\<close>).\<close>

fun store_members :: "bool \<Rightarrow> (string \<times> 'r into) list \<Rightarrow> 'r \<Rightarrow> (string \<times> json) list \<Rightarrow> 'r \<times> bool" where
  "store_members strict fields r [] = (r, False)"
| "store_members strict fields r ((key, v) # ms) =
     (case find_field fields key of
        None \<Rightarrow> (case store_members strict fields r ms of (r1, e) \<Rightarrow> (r1, strict \<or> e))
      | Some f \<Rightarrow>
          (case f r v of (r1, e1) \<Rightarrow>
           case store_members strict fields r1 ms of (r2, e2) \<Rightarrow> (r2, e1 \<or> e2)))"

definition into_struct :: "bool \<Rightarrow> (string \<times> 'r into) list \<Rightarrow> 'r into" where
  "into_struct strict fields r j =
     (case j of JNull \<Rightarrow> (r, False) | JObject ms \<Rightarrow> store_members strict fields r ms | _ \<Rightarrow> (r, True))"

subsection \<open>Decoding exactly one value\<close>

text \<open>The texts of the errors of \<open>Decode\<close>, by what is left of the input: of the first call, and of the
  second one, which decodes into an \<open>any\<close>.\<close>

record json_texts =
  jt_first :: "string \<Rightarrow> string"
  jt_second :: "string \<Rightarrow> string"

text \<open>A number decoded into an \<open>any\<close> becomes a \<open>float64\<close>, which fails when it is too large.  As
  \<open>strconv\<close> reads it, digits of an exponent from 10000 on are dropped.\<close>

definition exponent_value :: "string \<Rightarrow> int" where
  "exponent_value s =
     (case scan_sign ''+-'' s of (sg, ds) \<Rightarrow>
      let v = foldl (\<lambda>n c. if n < 10000 then n * 10 + (byte c - 48) else n) 0 ds
      in if sg = ''-'' then - int v else int v)"

definition float_overflows :: "string \<Rightarrow> bool" where
  "float_overflows s =
     (let s1 = snd (scan_sign ''-'' s);
          i = takeWhile is_digit s1;
          s2 = dropWhile is_digit s1;
          f = (if HasPrefix s2 ''.'' then takeWhile is_digit (tl s2) else []);
          s3 = (if HasPrefix s2 ''.'' then dropWhile is_digit (tl s2) else s2);
          e = (if s3 = [] then 0 else exponent_value (tl s3)) - int (length f);
          m = decimal_value (i @ f);
          limit = 2 ^ 1024 - 2 ^ 970
      in if 0 \<le> e then m * 10 ^ nat e \<ge> limit else m \<ge> limit * 10 ^ nat (- e))"

fun json_overflows :: "json \<Rightarrow> bool" where
  "json_overflows (JNumber s) = float_overflows s"
| "json_overflows (JArray vs) = list_ex json_overflows vs"
| "json_overflows (JObject ms) = list_ex (\<lambda>(k, v). json_overflows v) ms"
| "json_overflows _ = False"

text \<open>
  The pattern the program repeats: \<open>Decode(&r)\<close>, then \<open>Decode(&extra)\<close>, which has to report the end
  of the input.  The second component is the text after \<open>"%w: "\<close> when there is an error.
\<close>

definition decode_single :: "json_texts \<Rightarrow> 'r into \<Rightarrow> 'r \<Rightarrow> string \<Rightarrow> 'r \<times> string option" where
  "decode_single texts into_r zero data =
     (case next_value data of
        Dec_Value j rest \<Rightarrow>
          (case into_r zero j of (r, failed) \<Rightarrow>
           if failed then (r, Some (jt_first texts data))
           else case next_value rest of
             Dec_EOF \<Rightarrow> (r, None)
           | Dec_Syntax \<Rightarrow> (r, Some (''trailing data: '' @ jt_second texts rest))
           | Dec_Value extra _ \<Rightarrow>
               if json_overflows extra then (r, Some (''trailing data: '' @ jt_second texts rest))
               else (r, Some ''multiple JSON values''))
      | _ \<Rightarrow> (zero, Some (jt_first texts data)))"

subsection \<open>Printing\<close>

definition json_chunk :: "nat \<times> string \<Rightarrow> string" where
  "json_chunk p =
     (case p of (r, bs) \<Rightarrow>
      if r = RuneError \<and> length bs = 1 then BSLASH # ''ufffd''
      else if r = 0x2028 \<or> r = 0x2029 then BSLASH # ''u202'' @ [hex_digit (r mod 16)]
      else if 0x80 \<le> r then bs
      else if r = 0x5C \<or> r = 0x22 then [BSLASH, char_of r]
      else if r = 8 then [BSLASH, CHR ''b'']
      else if r = 12 then [BSLASH, CHR ''f'']
      else if r = 10 then [BSLASH, CHR ''n'']
      else if r = 13 then [BSLASH, CHR ''r'']
      else if r = 9 then [BSLASH, CHR ''t'']
      else if r < 0x20 \<or> r = 60 \<or> r = 62 \<or> r = 38 then BSLASH # ''u00'' @ hex_pad 2 r
      else bs)"

definition json_quote :: "string \<Rightarrow> string" where
  "json_quote s = DQUOTE # concat (map json_chunk (rune_chunks s)) @ [DQUOTE]"

fun comma_join :: "string list \<Rightarrow> string" where
  "comma_join [] = []"
| "comma_join [x] = x"
| "comma_join (x # y # ys) = x @ '','' @ comma_join (y # ys)"

fun json_print :: "json \<Rightarrow> string" where
  "json_print JNull = ''null''"
| "json_print (JBool b) = (if b then ''true'' else ''false'')"
| "json_print (JNumber s) = s"
| "json_print (JString s) = json_quote s"
| "json_print (JArray vs) = ''['' @ comma_join (map json_print vs) @ '']''"
| "json_print (JObject ms) = ''{'' @ comma_join (map (\<lambda>(k, v). json_quote k @ '':'' @ json_print v) ms) @ ''}''"

text \<open>A field with the option \<open>omitempty\<close> is left out when it is the empty string or a nil pointer.\<close>

definition omit_empty :: "string \<Rightarrow> string \<Rightarrow> (string \<times> json) list" where
  "omit_empty name s = (if s = [] then [] else [(name, JString s)])"

definition omit_nil :: "string \<Rightarrow> ('a \<Rightarrow> json) \<Rightarrow> 'a option \<Rightarrow> (string \<times> json) list" where
  "omit_nil name f p = (case p of None \<Rightarrow> [] | Some x \<Rightarrow> [(name, f x)])"

definition JInt :: "int \<Rightarrow> json" where
  "JInt i = JNumber (show_int i)"

end
