(* ===== verification/Html.thy ===== *)
theory Html
  imports Unicode_Text Html_Entities
begin

text \<open>
  The functions \<open>EscapeString\<close> and \<open>UnescapeString\<close> of the Go package \<open>html\<close>, with the theorem
  that unescaping undoes escaping on every byte string.
\<close>

subsection \<open>html.EscapeString\<close>

definition escape_char :: "char \<Rightarrow> string" where
  "escape_char c =
     (if c = CHR ''&'' then ''&amp;''
      else if c = SQUOTE then ''&#39;''
      else if c = CHR ''<'' then ''&lt;''
      else if c = CHR ''>'' then ''&gt;''
      else if c = DQUOTE then ''&#34;''
      else [c])"

definition EscapeString :: "string \<Rightarrow> string" where
  "EscapeString s = concat (map escape_char s)"

lemma EscapeString_Nil [simp]: "EscapeString [] = []"
  by (simp add: EscapeString_def)

lemma EscapeString_Cons: "EscapeString (c # s) = escape_char c @ EscapeString s"
  by (simp add: EscapeString_def)

subsection \<open>html.UnescapeString\<close>

text \<open>The Windows-1252 replacements of the numeric references 0x80 to 0x9F.\<close>

definition replacementTable :: "nat list" where
  "replacementTable =
     [0x20AC, 0x81, 0x201A, 0x0192, 0x201E, 0x2026, 0x2020, 0x2021,
      0x02C6, 0x2030, 0x0160, 0x2039, 0x0152, 0x8D, 0x017D, 0x8F,
      0x90, 0x2018, 0x2019, 0x201C, 0x201D, 0x2022, 0x2013, 0x2014,
      0x02DC, 0x2122, 0x0161, 0x203A, 0x0153, 0x9D, 0x017E, 0x0178]"

definition is_hex_digit :: "char \<Rightarrow> bool" where
  "is_hex_digit c \<longleftrightarrow>
     is_digit c \<or> (97 \<le> byte c \<and> byte c \<le> 102) \<or> (65 \<le> byte c \<and> byte c \<le> 70)"

definition hex_value :: "char \<Rightarrow> nat" where
  "hex_value c =
     (if is_digit c then byte c - 48 else if 97 \<le> byte c then byte c - 87 else byte c - 55)"

definition is_alnum :: "char \<Rightarrow> bool" where
  "is_alnum c \<longleftrightarrow> is_lower c \<or> is_upper c \<or> is_digit c"

text \<open>The value of the digits, accumulated in a Go \<open>rune\<close> (a signed 32-bit integer that wraps).\<close>

fun digits_value :: "nat \<Rightarrow> 32 word \<Rightarrow> string \<Rightarrow> 32 word" where
  "digits_value base x [] = x"
| "digits_value base x (c # cs) = digits_value base (of_nat base * x + of_nat (hex_value c)) cs"

definition numeric_rune :: "32 word \<Rightarrow> nat" where
  "numeric_rune x =
     (let v = sint x in
      if 0x80 \<le> v \<and> v \<le> 0x9F then replacementTable ! nat (v - 0x80)
      else if v \<le> 0 \<or> (0xD800 \<le> v \<and> v \<le> 0xDFFF) \<or> 0x10FFFF < v then RuneError
      else nat v)"

text \<open>
  \<open>unescapeEntity\<close> on the text from an ampersand on: the bytes written and the number of bytes
  consumed.
\<close>

definition unescape_numeric :: "string \<Rightarrow> string \<times> nat" where
  "unescape_numeric s =
     (if length s \<le> 3 then (''&'', 1)
      else
        let hex = (s ! 2 = CHR ''x'' \<or> s ! 2 = CHR ''X'');
            start = (if hex then 3 else 2);
            digits = takeWhile (if hex then is_hex_digit else is_digit) (drop start s);
            i0 = start + length digits;
            i = (if i0 < length s \<and> s ! i0 = CHR '';'' then i0 + 1 else i0)
        in if i \<le> 3 then (''&'', 1)
           else (EncodeRune (numeric_rune (digits_value (if hex then 16 else 10) 0 digits)), i))"

fun longest_prefix :: "nat \<Rightarrow> string \<Rightarrow> (string \<times> nat) option" where
  "longest_prefix 0 name = None"
| "longest_prefix (Suc j) name =
     (if Suc j \<le> 1 then None
      else (case html_entity (take (Suc j) name) of
              Some [x] \<Rightarrow> Some (EncodeRune x, Suc j + 1)
            | _ \<Rightarrow> longest_prefix j name))"

definition unescape_named :: "string \<Rightarrow> string \<times> nat" where
  "unescape_named s =
     (let word = takeWhile is_alnum (tl s);
          i0 = 1 + length word;
          i = (if i0 < length s \<and> s ! i0 = CHR '';'' then i0 + 1 else i0);
          name = take (i - 1) (tl s)
      in if name = [] then (take i s, i)
         else (case html_entity name of
                 Some xs \<Rightarrow> (concat (map EncodeRune xs), i)
               | None \<Rightarrow>
                   (case longest_prefix (min (length name - 1) 6) name of
                      Some r \<Rightarrow> r
                    | None \<Rightarrow> (take i s, i))))"

definition unescape_entity :: "string \<Rightarrow> string \<times> nat" where
  "unescape_entity s =
     (if length s \<le> 1 then (''&'', 1)
      else if s ! 1 = CHR ''#'' then unescape_numeric s
      else unescape_named s)"

lemma longest_prefix_pos: "longest_prefix k name = Some (out, n) \<Longrightarrow> 0 < n"
  by (induction k name rule: longest_prefix.induct) (auto split: if_splits option.splits list.splits)

lemma unescape_numeric_pos: "0 < snd (unescape_numeric s)"
  by (simp add: unescape_numeric_def Let_def)

lemma unescape_named_pos: "0 < snd (unescape_named s)"
  by (auto simp: unescape_named_def Let_def longest_prefix_pos split: option.splits)

lemma unescape_entity_pos: "0 < snd (unescape_entity s)"
  by (simp add: unescape_entity_def unescape_numeric_pos unescape_named_pos)

function UnescapeString :: "string \<Rightarrow> string" where
  "UnescapeString [] = []"
| "UnescapeString (c # s) =
     (if c = CHR ''&''
      then fst (unescape_entity (c # s)) @
           UnescapeString (drop (snd (unescape_entity (c # s))) (c # s))
      else c # UnescapeString s)"
  by pat_completeness auto
termination
  by (relation "measure length") (auto simp: unescape_entity_pos)

declare UnescapeString.simps(2) [simp del]

subsection \<open>The round trip\<close>

lemma unescape_amp: "UnescapeString (''&amp;'' @ s) = CHR ''&'' # UnescapeString s"
  by (simp add: UnescapeString.simps unescape_entity_def unescape_named_def is_alnum_def
      is_lower_def is_upper_def is_digit_def EncodeRune_def Let_def char_of_eq_iff)

lemma unescape_lt: "UnescapeString (''&lt;'' @ s) = CHR ''<'' # UnescapeString s"
  by (simp add: UnescapeString.simps unescape_entity_def unescape_named_def is_alnum_def
      is_lower_def is_upper_def is_digit_def EncodeRune_def Let_def char_of_eq_iff)

lemma unescape_gt: "UnescapeString (''&gt;'' @ s) = CHR ''>'' # UnescapeString s"
  by (simp add: UnescapeString.simps unescape_entity_def unescape_named_def is_alnum_def
      is_lower_def is_upper_def is_digit_def EncodeRune_def Let_def char_of_eq_iff)

lemma unescape_squote: "UnescapeString (''&#39;'' @ s) = SQUOTE # UnescapeString s"
  by (simp add: UnescapeString.simps unescape_entity_def unescape_numeric_def is_digit_def
      EncodeRune_def numeric_rune_def hex_value_def Let_def char_of_eq_iff)

lemma unescape_dquote: "UnescapeString (''&#34;'' @ s) = DQUOTE # UnescapeString s"
  by (simp add: UnescapeString.simps unescape_entity_def unescape_numeric_def is_digit_def
      EncodeRune_def numeric_rune_def hex_value_def Let_def char_of_eq_iff)

lemma unescape_plain: "c \<noteq> CHR ''&'' \<Longrightarrow> UnescapeString (c # s) = c # UnescapeString s"
  by (simp add: UnescapeString.simps)

lemma unescape_escape_char: "UnescapeString (escape_char c @ s) = c # UnescapeString s"
proof -
  consider "c = CHR ''&''" | "c = SQUOTE" | "c = CHR ''<''" | "c = CHR ''>''" | "c = DQUOTE"
    | "c \<noteq> CHR ''&''" "c \<noteq> SQUOTE" "c \<noteq> CHR ''<''" "c \<noteq> CHR ''>''" "c \<noteq> DQUOTE"
    by blast
  then show ?thesis
  proof cases
    case 6
    then show ?thesis by (simp add: escape_char_def unescape_plain)
  qed (simp_all only: escape_char_def if_True if_False char.inject HOL.simp_thms unescape_amp unescape_lt
      unescape_gt unescape_squote unescape_dquote)
qed

lemma UnescapeString_EscapeString [simp]: "UnescapeString (EscapeString s) = s"
  by (induction s) (simp_all add: EscapeString_Cons unescape_escape_char)

end
