(* ===== verification/Alert_Message.thy ===== *)
theory Alert_Message
  imports Go_Errors Html
begin

text \<open>
  The package \<open>internal/alertmessage\<close>: the text of an alert.  A message is made by
  \<open>alertmessage.Parse\<close> (or \<open>ParseManagedHTML\<close>, which calls it); the file of a managed alert holds
  \<open>Message.EscapedHTML\<close>.  The results: a parsed message is normalised, bounded valid UTF-8 without
  control or stray format characters; parsing is idempotent; \<open>ParseManagedHTML\<close> recognises exactly
  the texts \<open>EscapedHTML\<close> writes; and those texts contain no markup but line breaks.
\<close>

definition MaxBytes :: nat where
  "MaxBytes = 4096"

record message =
  message_value :: string

definition message_String :: "message \<Rightarrow> string" where
  "message_String m = message_value m"

subsection \<open>Parsing\<close>

definition isEmojiSequenceModifier :: "nat \<Rightarrow> bool" where
  "isEmojiSequenceModifier character \<longleftrightarrow>
     character = 0xFE0E \<or> character = 0xFE0F \<or> (0x1F3FB \<le> character \<and> character \<le> 0x1F3FF)"

text \<open>The loop that moves \<open>left\<close> down over modifiers; \<open>skip_left characters n\<close> starts with
  \<open>left = n - 1\<close> and gives the final \<open>left\<close>, \<open>None\<close> for \<open>-1\<close>.\<close>

fun skip_left :: "nat list \<Rightarrow> nat \<Rightarrow> nat option" where
  "skip_left characters 0 = None"
| "skip_left characters (Suc n) =
     (if isEmojiSequenceModifier (characters ! n) then skip_left characters n else Some n)"

definition validEmojiJoiner :: "nat list \<Rightarrow> nat \<Rightarrow> bool" where
  "validEmojiJoiner characters index =
     (let right = index + 1 in
      case skip_left characters index of
        None \<Rightarrow> False
      | Some left \<Rightarrow>
          if right \<ge> length characters then False
          else is_So (characters ! left) \<and> is_So (characters ! right))"

text \<open>The loop over the code points, from \<open>index\<close> on.\<close>

fun check_characters :: "nat list \<Rightarrow> nat \<Rightarrow> nat list \<Rightarrow> goerror option" where
  "check_characters characters index [] = None"
| "check_characters characters index (character # rest) =
     (if character = 10 \<or> character = 9 then check_characters characters (Suc index) rest
      else if IsControl character then Some (Sentinel alertmessage_ErrControlCharacter)
      else if is_Cf character then
        (if character = 0x200D \<and> validEmojiJoiner characters index
         then check_characters characters (Suc index) rest
         else Some (Sentinel alertmessage_ErrFormatCharacter))
      else check_characters characters (Suc index) rest)"

definition normalize_newlines :: "string \<Rightarrow> string" where
  "normalize_newlines value = ReplaceAll (ReplaceAll value [CR, LF] [LF]) [CR] [LF]"

definition message_Parse :: "string \<Rightarrow> goerror + message" where
  "message_Parse value =
     (if MaxBytes < length value then Inl (Sentinel alertmessage_ErrTooLarge)
      else if \<not> ValidString value then Inl (Sentinel alertmessage_ErrInvalidUTF8)
      else
        let value = normalize_newlines value in
        if TrimSpace value = [] then Inl (Sentinel alertmessage_ErrEmpty)
        else
          let characters = runes value in
          case check_characters characters 0 characters of
            Some e \<Rightarrow> Inl e
          | None \<Rightarrow> Inr \<lparr>message_value = value\<rparr>)"

definition EscapedHTML :: "message \<Rightarrow> string" where
  "EscapedHTML m = ReplaceAll (EscapeString (message_value m)) [LF] (''<br>'' @ [LF])"

text \<open>\<open>ParseManagedHTML\<close>: \<open>None\<close> stands for \<open>(Message{}, false)\<close>.\<close>

definition ParseManagedHTML :: "string \<Rightarrow> message option" where
  "ParseManagedHTML value =
     (let decoded = UnescapeString (ReplaceAll value (''<br>'' @ [LF]) [LF]) in
      case message_Parse decoded of
        Inl e \<Rightarrow> None
      | Inr message \<Rightarrow> if EscapedHTML message \<noteq> value then None else Some message)"

subsection \<open>Replacing one byte\<close>

lemma ReplaceAll_single: "ReplaceAll s [c] new = concat (map (\<lambda>x. if x = c then new else [x]) s)"
  by (induction s) (auto simp: HasPrefix_def)

lemma ReplaceAll_skip:
  assumes "c \<notin> set x"
  shows "ReplaceAll (x @ s) (c # old) new = x @ ReplaceAll s (c # old) new"
  using assms by (induction x) (auto simp: HasPrefix_def)

lemma ReplaceAll_hit: "ReplaceAll (c # old @ s) (c # old) new = new @ ReplaceAll s (c # old) new"
  by (simp add: HasPrefix_def)

subsection \<open>Line-break normalisation\<close>

fun norm :: "string \<Rightarrow> string" where
  "norm [] = []"
| "norm [c] = [if c = CR then LF else c]"
| "norm (c # d # ds) =
     (if c = CR then LF # (if d = LF then norm ds else norm (d # ds)) else c # norm (d # ds))"

lemma norm_Cons: "c \<noteq> CR \<Longrightarrow> norm (c # s) = c # norm s"
  by (cases s) auto

lemma normalize_newlines_norm: "normalize_newlines s = norm s"
  by (induction s rule: norm.induct)
    (auto simp: normalize_newlines_def HasPrefix_def ReplaceAll_single)

lemma norm_no_CR: "CR \<notin> set (norm s)"
  by (induction s rule: norm.induct) auto

lemma norm_id: "CR \<notin> set s \<Longrightarrow> norm s = s"
  by (induction s rule: norm.induct) auto

lemma length_norm: "length (norm s) \<le> length s"
  by (induction s rule: norm.induct) auto

lemma norm_append: "CR \<notin> set x \<Longrightarrow> norm (x @ s) = x @ norm s"
  by (induction x) (auto simp: norm_Cons)

subsection \<open>Normalising keeps UTF-8 valid\<close>

definition valid_step :: "nat \<times> nat \<Rightarrow> bool" where
  "valid_step p \<longleftrightarrow> \<not> (fst p = RuneError \<and> snd p = 1)"

lemma ValidString_Nil [simp]: "ValidString []"
  by (simp add: ValidString_def)

lemma ValidString_Cons:
  "ValidString (a # s) \<longleftrightarrow>
     valid_step (DecodeRune (a # s)) \<and> ValidString (drop (snd (DecodeRune (a # s))) (a # s))"
proof (cases "DecodeRune (a # s)")
  case (Pair r n)
  with DecodeRune_size_le [of "a # s"] show ?thesis
    by (simp add: ValidString_def valid_step_def rune_chunks.simps min_def)
qed

lemma ValidString_ascii: "byte a < 0x80 \<Longrightarrow> ValidString (a # s) \<longleftrightarrow> ValidString s"
  by (simp add: ValidString_Cons valid_step_def)

text \<open>A valid code point is read from its own bytes, whatever follows them, and the bytes of a
  code point outside ASCII are all outside ASCII.\<close>

lemma valid_step_cases:
  assumes "valid_step (DecodeRune (a # s))" "\<not> byte a < 0x80"
  obtains
    (two) b u where "s = b # u" "0xC2 \<le> byte a" "byte a < 0xE0" "cont_in 0x80 0xBF b"
  | (three) b c u where "s = b # c # u" "0xE0 \<le> byte a" "byte a < 0xF0"
      "cont_in (if byte a = 0xE0 then 0xA0 else 0x80) (if byte a = 0xED then 0x9F else 0xBF) b"
      "cont_in 0x80 0xBF c"
  | (four) b c d u where "s = b # c # d # u" "0xF0 \<le> byte a" "byte a \<le> 0xF4"
      "cont_in (if byte a = 0xF0 then 0x90 else 0x80) (if byte a = 0xF4 then 0x8F else 0xBF) b"
      "cont_in 0x80 0xBF c" "cont_in 0x80 0xBF d"
proof -
  consider "byte a < 0xC2 \<or> 0xF4 < byte a" | "0xC2 \<le> byte a" "byte a < 0xE0"
    | "0xE0 \<le> byte a" "byte a < 0xF0" | "0xF0 \<le> byte a" "byte a \<le> 0xF4"
    by linarith
  then show thesis
  proof cases
    case 1
    with assms show thesis by (simp add: valid_step_def DecodeRune.simps Let_def)
  next
    case 2
    with assms show thesis
      by (intro two [of "hd s" "tl s"])
        (auto simp: valid_step_def DecodeRune.simps Let_def split: list.splits if_splits)
  next
    case 3
    with assms obtain b c u where "s = b # c # u"
      by (auto simp: valid_step_def DecodeRune.simps Let_def split: list.splits)
    with 3 assms show thesis
      by (intro three [of b c u]) (auto simp: valid_step_def DecodeRune.simps Let_def split: if_split_asm)
  next
    case 4
    with assms obtain b c d u where "s = b # c # d # u"
      by (auto simp: valid_step_def DecodeRune.simps Let_def split: list.splits)
    with 4 assms show thesis
      by (intro four [of b c d u]) (auto simp: valid_step_def DecodeRune.simps Let_def split: if_split_asm)
  qed
qed

lemma DecodeRune_local:
  assumes "valid_step (DecodeRune (a # s))"
  shows "DecodeRune (take (snd (DecodeRune (a # s))) (a # s) @ t) = DecodeRune (a # s)"
proof (cases "byte a < 0x80")
  case False
  from assms False show ?thesis
    by (cases rule: valid_step_cases) (simp_all add: DecodeRune.simps Let_def)
qed simp

lemma DecodeRune_high_bytes:
  assumes "valid_step (DecodeRune (a # s))" "\<not> byte a < 0x80" "c \<in> set (take (snd (DecodeRune (a # s))) (a # s))"
  shows "0x80 \<le> byte c"
  using assms(1,2)
proof (cases rule: valid_step_cases)
  case two
  with assms show ?thesis by (auto simp: DecodeRune.simps cont_in_def Let_def)
next
  case three
  with assms show ?thesis by (auto simp: DecodeRune.simps cont_in_def Let_def split: if_split_asm)
next
  case four
  with assms show ?thesis by (auto simp: DecodeRune.simps cont_in_def Let_def split: if_split_asm)
qed

lemma ValidString_norm: "ValidString s \<Longrightarrow> ValidString (norm s)"
proof (induction s rule: rune_chunks.induct)
  case (2 a s)
  obtain r n where rn: "DecodeRune (a # s) = (r, n)" by fastforce
  have valid: "valid_step (r, n)" "ValidString (drop n (a # s))"
    using "2.prems" rn by (auto simp: ValidString_Cons)
  have IH: "ValidString (norm (drop n (a # s)))"
    using "2.IH" [OF rn [symmetric] refl] valid by blast
  show ?case
  proof (cases "byte a < 0x80")
    case True
    with rn have n: "n = 1" by simp
    show ?thesis
    proof (cases s)
      case (Cons b u)
      have "ValidString (norm u)" if "b = LF"
        using IH n Cons that by (simp add: ValidString_ascii norm_Cons)
      with IH n True Cons show ?thesis
        by (cases "a = CR") (auto simp: ValidString_ascii norm_Cons)
    qed (use True in \<open>auto simp: ValidString_ascii\<close>)
  next
    case False
    let ?x = "take n (a # s)"
    have high: "\<forall>c \<in> set ?x. 0x80 \<le> byte c"
      using DecodeRune_high_bytes [of a s] valid rn False by auto
    then have "CR \<notin> set ?x" by fastforce
    then have eq: "norm (a # s) = ?x @ norm (drop n (a # s))"
      by (metis append_take_drop_id norm_append)
    obtain y where y: "?x = a # y" "length ?x = n"
      using DecodeRune_size_pos [of "a # s"] DecodeRune_size_le [of "a # s"] rn
      by (cases n) auto
    let ?t = "norm (drop n (a # s))"
    have dec: "DecodeRune (a # y @ ?t) = (r, n)"
      using DecodeRune_local [of a s ?t] valid rn y(1) by simp
    have rest: "drop n (a # y @ ?t) = ?t"
      using y by (metis append_Cons append_eq_conv_conj)
    have "ValidString (a # y @ ?t)"
      using ValidString_Cons [of a "y @ ?t"] dec rest valid(1) IH by simp
    then show ?thesis
      using eq y(1) by simp
  qed
qed simp

subsection \<open>Messages that Parse makes\<close>

text \<open>The code points a parsed message may hold, with the position that makes a joiner legal.\<close>

definition allowed_at :: "nat list \<Rightarrow> nat \<Rightarrow> bool" where
  "allowed_at characters i \<longleftrightarrow>
     characters ! i = 10 \<or> characters ! i = 9 \<or>
     (\<not> IsControl (characters ! i) \<and>
      (is_Cf (characters ! i) \<longrightarrow> characters ! i = 0x200D \<and> validEmojiJoiner characters i))"

lemma check_characters_Cons:
  "check_characters characters i (c # rest) = None \<longleftrightarrow>
     (c = 10 \<or> c = 9 \<or>
       (\<not> IsControl c \<and> (is_Cf c \<longrightarrow> c = 0x200D \<and> validEmojiJoiner characters i))) \<and>
     check_characters characters (Suc i) rest = None"
  by auto

lemma check_characters_None:
  "check_characters characters i rest = None \<longleftrightarrow>
     (\<forall>k < length rest. rest ! k = 10 \<or> rest ! k = 9 \<or>
        (\<not> IsControl (rest ! k) \<and>
         (is_Cf (rest ! k) \<longrightarrow> rest ! k = 0x200D \<and> validEmojiJoiner characters (i + k))))"
  by (induction rest arbitrary: i)
    (simp, simp only: check_characters_Cons length_Cons All_less_Suc2 nth_Cons_0 nth_Cons_Suc
      add_Suc_right add_Suc add_0_right)

lemma check_characters_allowed:
  "check_characters characters 0 characters = None \<longleftrightarrow>
     (\<forall>i < length characters. allowed_at characters i)"
  by (simp add: check_characters_None allowed_at_def)

definition wf_message :: "message \<Rightarrow> bool" where
  "wf_message m \<longleftrightarrow>
     length (message_value m) \<le> MaxBytes \<and> ValidString (message_value m) \<and>
     CR \<notin> set (message_value m) \<and> TrimSpace (message_value m) \<noteq> [] \<and>
     (\<forall>i < length (runes (message_value m)). allowed_at (runes (message_value m)) i)"

lemma message_Parse_wf: "message_Parse s = Inr m \<Longrightarrow> wf_message m"
  using length_norm [of s]
  by (auto simp: message_Parse_def wf_message_def Let_def normalize_newlines_norm norm_no_CR
      ValidString_norm check_characters_allowed split: if_splits option.splits)

lemma wf_message_Parse: "wf_message m \<Longrightarrow> message_Parse (message_value m) = Inr m"
  using check_characters_allowed [of "runes (message_value m)"]
  by (simp add: message_Parse_def wf_message_def normalize_newlines_norm norm_id)

lemma TrimSpace_Nil [simp]: "TrimSpace [] = []"
  by (simp add: TrimSpace_def trim_left_space.simps trim_right_space.simps)

lemma wf_message_nonempty [simp]: "wf_message m \<Longrightarrow> message_value m \<noteq> []"
  by (auto simp: wf_message_def)

subsection \<open>The canonical HTML form\<close>

definition html_piece :: "char \<Rightarrow> string" where
  "html_piece c = (if c = LF then ''<br>'' @ [LF] else escape_char c)"

lemma EscapedHTML_pieces: "EscapedHTML m = concat (map html_piece (message_value m))"
proof -
  have "ReplaceAll (EscapeString s) [LF] (''<br>'' @ [LF]) = concat (map html_piece s)" for s
    by (induction s) (auto simp: EscapeString_Cons ReplaceAll_single html_piece_def escape_char_def)
  then show ?thesis by (simp add: EscapedHTML_def)
qed

lemma unbreak_pieces: "ReplaceAll (concat (map html_piece s)) (''<br>'' @ [LF]) [LF] = EscapeString s"
proof (induction s)
  case (Cons c s)
  show ?case
  proof (cases "c = LF")
    case True
    with Cons show ?thesis
      by (simp add: html_piece_def EscapeString_Cons escape_char_def HasPrefix_def)
  next
    case False
    have "CHR ''<'' \<notin> set (escape_char c)"
      by (simp add: escape_char_def)
    with False Cons show ?thesis
      using ReplaceAll_skip [of "CHR ''<''" "escape_char c"]
      by (simp add: html_piece_def EscapeString_Cons)
  qed
qed simp

lemma unescape_EscapedHTML:
  "UnescapeString (ReplaceAll (EscapedHTML m) (''<br>'' @ [LF]) [LF]) = message_value m"
  by (simp add: EscapedHTML_pieces unbreak_pieces del: append.simps)

lemma length_html_piece: "length (html_piece c) \<le> 5"
  by (simp add: html_piece_def escape_char_def)

lemma length_EscapedHTML: "length (EscapedHTML m) \<le> 5 * length (message_value m)"
proof -
  have "length (concat (map html_piece s)) \<le> 5 * length s" for s
    by (induction s) (auto intro: add_mono order_trans length_html_piece)
  then show ?thesis by (simp add: EscapedHTML_pieces)
qed

lemma length_EscapedHTML_wf: "wf_message m \<Longrightarrow> length (EscapedHTML m) \<le> 20480"
  using length_EscapedHTML [of m] by (simp add: wf_message_def MaxBytes_def)

lemma EscapedHTML_inject: "EscapedHTML m = EscapedHTML n \<Longrightarrow> m = n"
  by (metis unescape_EscapedHTML message.equality old.unit.exhaust)

lemma ParseManagedHTML_EscapedHTML: "wf_message m \<Longrightarrow> ParseManagedHTML (EscapedHTML m) = Some m"
  by (simp only: ParseManagedHTML_def Let_def unescape_EscapedHTML wf_message_Parse sum.case if_False
      HOL.simp_thms)

lemma ParseManagedHTML_Some:
  "ParseManagedHTML v = Some m \<longleftrightarrow> wf_message m \<and> v = EscapedHTML m"
proof
  assume "ParseManagedHTML v = Some m"
  then show "wf_message m \<and> v = EscapedHTML m"
    by (auto simp: ParseManagedHTML_def Let_def dest: message_Parse_wf split: sum.splits if_splits)
qed (auto simp: ParseManagedHTML_EscapedHTML)

subsection \<open>The properties\<close>

text \<open>
  A parsed message is normalised, bounded, printable text, and parsing is stable: it has at
  most 4096 bytes, is valid UTF-8, has no carriage return, is not blank, every code point of it
  that is not a line feed or a tab is neither a control character nor a format character (other
  than a zero-width joiner between two symbols), and it parses to itself.
\<close>

theorem message_parse_wellformed:
  assumes "message_Parse s = Inr m"
  shows "wf_message m \<and> message_Parse (message_String m) = Inr m \<and>
         length (message_String m) \<le> length s"
proof -
  have wf: "wf_message m"
    using assms by (rule message_Parse_wf)
  moreover have "message_value m = norm s"
    using assms by (auto simp: message_Parse_def Let_def normalize_newlines_norm
        split: if_splits option.splits)
  ultimately show ?thesis
    using wf_message_Parse [OF wf] length_norm [of s] by (simp add: message_String_def)
qed

text \<open>Two lines and a family emoji: a man (U+1F468), a joiner (U+200D), a woman (U+1F469).\<close>

definition emoji_text :: string where
  "emoji_text = ''Hi'' @ [CR, LF, CHR 0xF0, CHR 0x9F, CHR 0x91, CHR 0xA8, CHR 0xE2, CHR 0x80,
     CHR 0x8D, CHR 0xF0, CHR 0x9F, CHR 0x91, CHR 0xA9]"

definition emoji_value :: string where
  "emoji_value = ''Hi'' @ [LF, CHR 0xF0, CHR 0x9F, CHR 0x91, CHR 0xA8, CHR 0xE2, CHR 0x80,
     CHR 0x8D, CHR 0xF0, CHR 0x9F, CHR 0x91, CHR 0xA9]"

lemma emoji_runes: "runes emoji_value = [72, 105, 10, 128104, 8205, 128105]"
  by (simp add: runes_def emoji_value_def rune_chunks.simps DecodeRune.simps cont_in_def Let_def)

lemma emoji_valid: "ValidString emoji_text"
  by (simp add: emoji_text_def ValidString_Cons valid_step_def DecodeRune.simps cont_in_def Let_def)

lemma emoji_norm: "normalize_newlines emoji_text = emoji_value"
  by (simp add: normalize_newlines_norm emoji_text_def emoji_value_def)

lemma emoji_trim: "TrimSpace emoji_value \<noteq> []"
  by (simp add: TrimSpace_def emoji_value_def trim_left_space.simps trim_right_space.simps
      IsSpace_def DecodeLastRune_def DecodeRune.simps cont_in_def RuneStart_def numeral_3_eq_3 Let_def)

lemma emoji_symbols: "is_So 128104" "is_So 128105"
  by (simp_all add: is_So_def So_table_def)

lemma emoji_check: "check_characters (runes emoji_value) 0 (runes emoji_value) = None"
  by (simp add: emoji_runes IsControl_def is_Cf_def Cf_table_def validEmojiJoiner_def
      isEmojiSequenceModifier_def emoji_symbols)

lemma emoji_parse: "message_Parse emoji_text = Inr \<lparr>message_value = emoji_value\<rparr>"
proof -
  have "\<not> MaxBytes < length emoji_text"
    by (simp add: MaxBytes_def emoji_text_def)
  then show ?thesis
    by (simp add: message_Parse_def emoji_valid emoji_norm emoji_trim emoji_check Let_def)
qed

lemma message_parse_wellformed_witness:
  "message_Parse emoji_text = Inr \<lparr>message_value = emoji_value\<rparr> \<and>
   wf_message \<lparr>message_value = emoji_value\<rparr>"
  using emoji_parse message_parse_wellformed [OF emoji_parse] by blast

text \<open>
  C26: \<open>ParseManagedHTML\<close> recognises exactly the files AAMM-NG writes: it accepts a text, with
  message \<open>m\<close>, if and only if \<open>Parse\<close> can make \<open>m\<close> and the text is the canonical HTML of \<open>m\<close>.  So no
  managed file is ever read back as legacy, and no other file is taken for a managed one.
\<close>

theorem parse_managed_html_exact:
  "ParseManagedHTML v = Some m \<longleftrightarrow> (\<exists>s. message_Parse s = Inr m) \<and> v = EscapedHTML m"
  using ParseManagedHTML_Some [of v m] message_Parse_wf [of _ m] wf_message_Parse [of m] by blast

text \<open>
  C27: the HTML of a message contains no markup but its line breaks and can be decoded: after the
  \<open><br>\<close> line breaks are removed no angle bracket and no quote is left, unescaping what is left
  gives the message back, and the text is at most five times as long as the message.
\<close>

theorem escaped_html_safe:
  "set (ReplaceAll (EscapedHTML m) (''<br>'' @ [LF]) [LF]) \<inter> {CHR ''<'', CHR ''>'', DQUOTE, SQUOTE} = {} \<and>
   UnescapeString (ReplaceAll (EscapedHTML m) (''<br>'' @ [LF]) [LF]) = message_String m \<and>
   length (EscapedHTML m) \<le> 5 * length (message_String m)"
proof -
  have "set (EscapeString s) \<inter> {CHR ''<'', CHR ''>'', DQUOTE, SQUOTE} = {}" for s
    by (induction s) (auto simp: EscapeString_Cons escape_char_def split: if_splits)
  then show ?thesis
    using unescape_EscapedHTML [of m] length_EscapedHTML [of m]
    by (simp only: EscapedHTML_pieces unbreak_pieces message_String_def HOL.simp_thms)
qed

end
