(* ===== verification/Json_Facts.thy ===== *)
theory Json_Facts
  imports Json Alert_Message
begin

text \<open>
  What holds of the JSON reader and printer: the fuel of the reader is always enough, and what the
  printer writes is read back as it was, whatever follows it.
\<close>

subsection \<open>The rest of the input gets shorter\<close>

lemma scan_string_step:
  assumes "scan_string (c # s) = Some (raw, r)"
  shows "r = s \<or> (\<exists>k raw1. scan_string (drop k s) = Some (raw1, r))"
proof -
  consider "c = DQUOTE" | e s1 where "c = BSLASH" "s = e # s1" "e \<noteq> CHR ''u''"
    | h1 h2 h3 h4 s2 where "c = BSLASH" "s = CHR ''u'' # h1 # h2 # h3 # h4 # s2"
    | "c \<noteq> DQUOTE" "c \<noteq> BSLASH"
    using assms by (auto split: if_split_asm list.split_asm)
  then show ?thesis
  proof cases
    case 2
    with assms have "\<exists>raw1. scan_string (drop 1 s) = Some (raw1, r)" by (auto split: if_split_asm)
    then show ?thesis by blast
  next
    case 3
    with assms have "\<exists>raw1. scan_string (drop 5 s) = Some (raw1, r)" by (auto split: if_split_asm)
    then show ?thesis by blast
  next
    case 4
    with assms have "\<exists>raw1. scan_string (drop 0 s) = Some (raw1, r)" by (auto split: if_split_asm)
    then show ?thesis by blast
  qed (use assms in auto)
qed

lemma scan_string_rest: "scan_string s = Some (raw, r) \<Longrightarrow> length r < length s"
proof (induction s arbitrary: raw rule: length_induct)
  case (1 s)
  then obtain c t where s: "s = c # t" by (cases s) auto
  show ?case
  proof (cases "r = t")
    case False
    with scan_string_step [of c t raw r] 1(2) s obtain k raw1
      where "scan_string (drop k t) = Some (raw1, r)" by auto
    moreover have "length (drop k t) < length s" using s by simp
    ultimately have "length r < length (drop k t)" using 1(1) by blast
    with s show ?thesis by simp
  qed (simp add: s)
qed

lemma length_dropWhile: "length (dropWhile P s) \<le> length s"
  by (induction s) auto

lemma scan_sign_rest: "scan_sign sg s = (x, r) \<Longrightarrow> length r \<le> length s"
  by (auto simp: scan_sign_def split: list.splits if_splits)

lemma scan_digits_rest: "scan_digits s = Some (x, r) \<Longrightarrow> length r < length s"
  by (cases s) (auto simp: scan_digits_def Let_def le_imp_less_Suc length_dropWhile split: if_splits)

lemma scan_integer_rest: "scan_integer s = Some (x, r) \<Longrightarrow> length r < length s"
  by (auto simp: scan_integer_def dest: scan_digits_rest split: list.splits if_splits)

lemma scan_fraction_rest: "scan_fraction s = Some (x, r) \<Longrightarrow> length r \<le> length s"
  by (auto simp: scan_fraction_def dest: scan_digits_rest split: list.splits if_splits)

lemma scan_exponent_rest: "scan_exponent s = Some (x, r) \<Longrightarrow> length r \<le> length s"
  by (fastforce simp: scan_exponent_def dest: scan_digits_rest scan_sign_rest
      split: list.splits if_splits prod.splits)

lemma scan_number_rest: "scan_number s = Some (x, r) \<Longrightarrow> length r < length s"
  by (auto simp: scan_number_def split: prod.splits option.splits
      dest!: scan_sign_rest scan_integer_rest scan_fraction_rest scan_exponent_rest)

lemma skip_space_rest: "length (skip_space s) \<le> length s"
  by (simp add: skip_space_def length_dropWhile)

lemma skip_space_Cons: "skip_space s = c # r \<Longrightarrow> length r < length s"
  using skip_space_rest [of s] by simp

lemma scan_literal_rest: "scan_literal w j s = Some (v, r) \<Longrightarrow> w \<noteq> [] \<Longrightarrow> length r < length s"
  by (auto simp: scan_literal_def HasPrefix_iff split: if_splits)

lemma parse_rest:
  "parse_value n d s = Some (v, r) \<Longrightarrow> length r < length s"
  "parse_elements n d s = Some (vs, r) \<Longrightarrow> length r < length s"
  "parse_members n d s = Some (ms, r) \<Longrightarrow> length r < length s"
proof (induction n d s and n d s and n d s arbitrary: v r and vs r and ms r
    rule: parse_value_parse_elements_parse_members.induct)
  case (2 n d s)
  then show ?case
    by (fastforce simp: parse_value.simps dest: skip_space_Cons scan_string_rest scan_number_rest scan_literal_rest
        split: list.splits if_splits)
next
  case (4 n d s)
  from 4 show ?case
    by (fastforce simp: parse_elements.simps dest: skip_space_Cons split: list.splits if_splits option.splits)
next
  case (6 n d s)
  from 6 show ?case
    by (fastforce simp: parse_members.simps dest!: skip_space_Cons scan_string_rest split: list.splits if_splits option.splits)
qed auto

subsection \<open>Fuel\<close>

lemma case_option_cong2: "x = y \<Longrightarrow> (\<And>z. y = Some z \<Longrightarrow> f z = g z) \<Longrightarrow>
   (case x of None \<Rightarrow> a | Some z \<Rightarrow> f z) = (case y of None \<Rightarrow> a | Some z \<Rightarrow> g z)"
  by (auto split: option.split)

lemma parse_fuel_step:
  "2 * length s + 1 \<le> n \<Longrightarrow> parse_value (Suc n) d s = parse_value n d s"
  "2 * length s + 2 \<le> n \<Longrightarrow> parse_elements (Suc n) d s = parse_elements n d s"
  "2 * length s + 2 \<le> n \<Longrightarrow> parse_members (Suc n) d s = parse_members n d s"
proof (induction n arbitrary: d s)
  case (Suc n)
  {
    case 1
    have "parse_members (Suc n) (d - 1) r = parse_members n (d - 1) r"
      "parse_elements (Suc n) (d - 1) r = parse_elements n (d - 1) r" if "skip_space s = c # r" for c r
      using Suc.IH(2,3) [of r "d - 1"] skip_space_Cons [OF that] 1 by simp_all
    then show ?case
      unfolding parse_value.simps(2) [of "Suc n" d s] parse_value.simps(2) [of n d s]
      by (auto split: list.split)
  next
    case 2
    have v: "parse_value (Suc n) d s = parse_value n d s"
      using Suc.IH(1) [of s d] 2 by simp
    have e: "parse_elements (Suc n) d r1 = parse_elements n d r1"
      if "parse_value n d s = Some (v, r)" "skip_space r = c # r1" for v r c r1
      using Suc.IH(2) [of r1 d] skip_space_Cons [OF that(2)] parse_rest(1) [OF that(1)] 2 by simp
    show ?case
      unfolding parse_elements.simps(2) [of "Suc n" d s] parse_elements.simps(2) [of n d s] v
      by (auto split: list.split option.split simp: e)
  next
    case 3
    have v: "parse_value (Suc n) d r2 = parse_value n d r2"
      if "skip_space s = c # r" "scan_string r = Some (raw, r1)" "skip_space r1 = c1 # r2" for c r raw r1 c1 r2
      using Suc.IH(1) [of r2 d] skip_space_Cons [OF that(1)] scan_string_rest [OF that(2)]
        skip_space_Cons [OF that(3)] 3 by simp
    have m: "parse_members (Suc n) d r4 = parse_members n d r4"
      if "skip_space s = c # r" "scan_string r = Some (raw, r1)" "skip_space r1 = c1 # r2"
        "parse_value n d r2 = Some (v, r3)" "skip_space r3 = c2 # r4" for c r raw r1 c1 r2 v r3 c2 r4
      using Suc.IH(3) [of r4 d] skip_space_Cons [OF that(1)] scan_string_rest [OF that(2)]
        skip_space_Cons [OF that(3)] parse_rest(1) [OF that(4)] skip_space_Cons [OF that(5)] 3 by simp
    show ?case
      unfolding parse_members.simps(2) [of "Suc n" d s] parse_members.simps(2) [of n d s]
      by (auto split: list.split option.split simp: v m)
  }
qed simp_all

text \<open>The result does not depend on the fuel once there is enough of it.\<close>

lemma parse_fuel:
  assumes "2 * length s + 1 \<le> n"
  shows "parse_value n d s = parse_value (2 * length s + 1) d s"
  using assms by (induction n rule: dec_induct) (simp_all add: parse_fuel_step(1))

subsection \<open>Numbers are read back\<close>

lemma is_digit_digit_char [simp]: "d < 10 \<Longrightarrow> is_digit (digit_char d)"
  by (simp add: is_digit_def)

lemma show_nat_digits: "list_all is_digit (show_nat n)"
  by (induction n rule: show_nat.induct) (subst show_nat.simps, simp)

lemma show_nat_nonempty [simp]: "show_nat n \<noteq> []"
  by (subst show_nat.simps) simp

lemma show_nat_head: "0 < n \<Longrightarrow> hd (show_nat n) \<noteq> CHR ''0''"
proof (induction n rule: show_nat.induct)
  case (1 n)
  show ?case
  proof (cases "n < 10")
    case True
    have "byte (digit_char n) \<noteq> byte (CHR ''0'')" using True 1 by simp
    then have "digit_char n \<noteq> CHR ''0''" by metis
    with True show ?thesis by (subst show_nat.simps) simp
  next
    case False
    with 1 have "hd (show_nat (n div 10)) \<noteq> CHR ''0''" by simp
    with False show ?thesis by (subst show_nat.simps) simp
  qed
qed

lemma decimal_value_append: "decimal_value (s @ [c]) = decimal_value s * 10 + (byte c - 48)"
  by (simp add: decimal_value_def)

lemma decimal_value_show_nat [simp]: "decimal_value (show_nat n) = n"
proof (induction n rule: show_nat.induct)
  case (1 n)
  then show ?case
    by (cases "n < 10"; subst show_nat.simps) (simp_all add: decimal_value_append decimal_value_def)
qed

definition after_number :: "string \<Rightarrow> bool" where
  "after_number s \<longleftrightarrow> (case s of [] \<Rightarrow> True | c # _ \<Rightarrow> \<not> is_digit c \<and> c \<notin> set ''.eE'')"

lemma digits_stop:
  assumes "list_all is_digit ds" "after_number t"
  shows "takeWhile is_digit (ds @ t) = ds" "dropWhile is_digit (ds @ t) = t"
proof -
  have "takeWhile is_digit t = []" "dropWhile is_digit t = t"
    using assms(2) by (auto simp: after_number_def split: list.splits)
  then show "takeWhile is_digit (ds @ t) = ds" "dropWhile is_digit (ds @ t) = t"
    using assms(1) by (simp_all add: list_all_iff takeWhile_append dropWhile_append)
qed

lemma scan_integer_show_nat:
  assumes "after_number t"
  shows "scan_integer (show_nat n @ t) = Some (show_nat n, t)"
proof (cases "n = 0")
  case True
  have "show_nat 0 = ''0''" by code_simp
  with True show ?thesis by (simp add: scan_integer_def)
next
  case False
  obtain c r where cr: "show_nat n = c # r" by (cases "show_nat n") auto
  with False have c: "c \<noteq> CHR ''0''" using show_nat_head [of n] by simp
  have "scan_digits (show_nat n @ t) = Some (show_nat n, t)"
    using digits_stop [OF show_nat_digits [of n] assms] by (simp add: scan_digits_def Let_def)
  with c cr show ?thesis by (simp add: scan_integer_def)
qed

lemma scan_sign_show_nat: "scan_sign ''-'' (show_nat n @ t) = ([], show_nat n @ t)"
proof -
  obtain c r where cr: "show_nat n = c # r" by (cases "show_nat n") auto
  with show_nat_digits [of n] have "is_digit c" by simp
  then have "c \<noteq> CHR ''-''" by (auto simp: is_digit_def)
  with cr show ?thesis by (simp add: scan_sign_def)
qed

lemma scan_number_show_int:
  assumes "after_number t"
  shows "scan_number (show_int i @ t) = Some (show_int i, t)"
proof -
  have f: "scan_fraction t = Some ([], t)" "scan_exponent t = Some ([], t)"
    using assms by (auto simp: after_number_def scan_fraction_def scan_exponent_def split: list.splits)
  have neg: "scan_sign ''-'' (CHR ''-'' # s) = (''-'', s)" for s by (simp add: scan_sign_def)
  show ?thesis
    using assms f
    by (auto simp: scan_number_def show_int_def neg scan_sign_show_nat scan_integer_show_nat)
qed

lemma ParseInt_show_int [simp]: "- (2 ^ 63) \<le> i \<Longrightarrow> i < 2 ^ 63 \<Longrightarrow> ParseInt (show_int i) = Some i"
  using scan_sign_show_nat [of "nat i" "[]"]
  by (auto simp: ParseInt_def show_int_def scan_sign_def show_nat_digits Let_def)

subsection \<open>Strings are read back\<close>

lemma hex_digit_facts [simp]: "d < 16 \<Longrightarrow> is_hex (hex_digit d)" "d < 16 \<Longrightarrow> hex_digit_value (hex_digit d) = d"
  by (auto simp: hex_digit_def is_hex_def hex_digit_value_def is_digit_def)

lemma split64: "b < (64 :: nat) \<Longrightarrow> (a * 64 + b) div 64 = a" "b < (64 :: nat) \<Longrightarrow> (a * 64 + b) mod 64 = b"
  by simp_all

lemma char_eqI: "byte a = byte c \<Longrightarrow> a = c"
  by simp

lemma EncodeRune_DecodeRune:
  assumes "valid_step (DecodeRune (a # s))"
  shows "EncodeRune (fst (DecodeRune (a # s))) = take (snd (DecodeRune (a # s))) (a # s)"
proof (cases "byte a < 0x80")
  case True
  then show ?thesis by (simp add: EncodeRune_def)
next
  case False
  from assms False show ?thesis
  proof (cases rule: valid_step_cases)
    case (two b u)
    define x y where xyz: "x = byte a - 192" "y = byte b - 128"
    have r: "y < 64" "2 \<le> x" "x < 32" "byte a = 192 + x" "byte b = 128 + y"
      using two by (auto simp: cont_in_def xyz)
    have dec: "DecodeRune (a # s) = (x * 64 + y, 2)"
      using two by (simp add: DecodeRune.simps Let_def xyz)
    have ch: "char_of (192 + x) = a" "char_of (128 + y) = b"
      using r by (metis char_of_char)+
    have d: "(x * 64 + y) div 64 = x" "(x * 64 + y) mod 64 = y" using r by simp_all
    have "\<not> x * 64 + y < 128" "x * 64 + y < 2048" using r by simp_all
    then show ?thesis
      using d ch two(1) unfolding dec fst_conv snd_conv by (simp add: EncodeRune_def)
  next
    case (three b c u)
    define x y z where xyz: "x = byte a - 224" "y = byte b - 128" "z = byte c - 128"
    have r: "byte a = 224 + x" "byte b = 128 + y" "byte c = 128 + z"
      and lim: "y < 64" "z < 64" "x < 16" "x = 0 \<longrightarrow> 32 \<le> y" "x = 13 \<longrightarrow> y < 32"
      using three by (auto simp: cont_in_def xyz split: if_splits)
    have dec: "DecodeRune (a # s) = (x * 4096 + y * 64 + z, 3)"
      using three by (simp add: DecodeRune.simps Let_def xyz)
    have ch: "char_of (224 + x) = a" "char_of (128 + y) = b" "char_of (128 + z) = c"
      using r by (metis char_of_char)+
    have ge: "0x800 \<le> x * 4096 + y * 64 + z"
      using lim by (cases "x = 0") auto
    have sur: "\<not> (0xD800 \<le> x * 4096 + y * 64 + z \<and> x * 4096 + y * 64 + z \<le> 0xDFFF)"
      using lim by (cases "x < 13"; cases "x = 13") auto
    have d: "(x * 4096 + y * 64 + z) div 4096 = x" "(x * 4096 + y * 64 + z) div 64 mod 64 = y"
      "(x * 4096 + y * 64 + z) mod 64 = z"
    proof -
      have n: "x * 4096 + y * 64 + z = (x * 64 + y) * 64 + z" by simp
      have "(x * 4096 + y * 64 + z) div 4096 = (x * 4096 + y * 64 + z) div 64 div 64"
        by (simp add: div_mult2_eq [symmetric])
      then show "(x * 4096 + y * 64 + z) div 4096 = x" "(x * 4096 + y * 64 + z) div 64 mod 64 = y"
        "(x * 4096 + y * 64 + z) mod 64 = z"
        unfolding n using lim by (simp_all only: split64)
    qed
    show ?thesis
      using ge sur lim d ch three(1) unfolding dec fst_conv snd_conv by (auto simp: EncodeRune_def)
  next
    case (four b c e u)
    define x y z w where xyz: "x = byte a - 240" "y = byte b - 128" "z = byte c - 128" "w = byte e - 128"
    have r: "y < 64" "z < 64" "w < 64" "x \<le> 4" "byte a = 240 + x" "byte b = 128 + y" "byte c = 128 + z"
      "byte e = 128 + w" "x = 0 \<longrightarrow> 16 \<le> y" "x = 4 \<longrightarrow> y < 16"
      using four by (auto simp: cont_in_def xyz split: if_splits)
    have dec: "DecodeRune (a # s) = (x * 262144 + y * 4096 + z * 64 + w, 4)"
      using four by (simp add: DecodeRune.simps Let_def xyz)
    have ch: "char_of (240 + x) = a" "char_of (128 + y) = b" "char_of (128 + z) = c" "char_of (128 + w) = e"
      using r by (metis char_of_char)+
    have ge: "0x10000 \<le> x * 262144 + y * 4096 + z * 64 + w" "x * 262144 + y * 4096 + z * 64 + w \<le> 0x10FFFF"
      using r by (cases "x = 0"; cases "x = 4"; auto)+
    have d: "(x * 262144 + y * 4096 + z * 64 + w) div 262144 = x"
      "(x * 262144 + y * 4096 + z * 64 + w) div 4096 mod 64 = y"
      "(x * 262144 + y * 4096 + z * 64 + w) div 64 mod 64 = z"
      "(x * 262144 + y * 4096 + z * 64 + w) mod 64 = w"
    proof -
      let ?n = "x * 262144 + y * 4096 + z * 64 + w"
      have n: "?n = ((x * 64 + y) * 64 + z) * 64 + w" by simp
      have "?n div 4096 = ?n div 64 div 64" "?n div 262144 = ?n div 64 div 64 div 64"
        by (simp_all add: div_mult2_eq [symmetric])
      then show "?n div 262144 = x" "?n div 4096 mod 64 = y" "?n div 64 mod 64 = z" "?n mod 64 = w"
        unfolding n using r by (simp_all only: split64)
    qed
    show ?thesis
      using ge d ch four(1) unfolding dec fst_conv snd_conv by (simp add: EncodeRune_def)
  qed
qed

lemma scan_plain: "c \<noteq> DQUOTE \<Longrightarrow> c \<noteq> BSLASH \<Longrightarrow> 0x20 \<le> byte c \<Longrightarrow>
   scan_string (c # t) = map_option (apfst ((#) c)) (scan_string t)"
  by simp

lemma apfst_compose: "map_option (apfst f) (map_option (apfst g) x) = map_option (apfst (f \<circ> g)) x"
  by (cases x) auto

lemma scan_high_bytes:
  assumes "\<forall>c \<in> set x. 0x80 \<le> byte c"
  shows "scan_string (x @ t) = map_option (apfst ((@) x)) (scan_string t)"
  using assms
proof (induction x)
  case Nil
  show ?case by (cases "scan_string t") auto
next
  case (Cons c x)
  then have "c \<noteq> DQUOTE" "c \<noteq> BSLASH" "0x20 \<le> byte c" by auto
  from scan_plain [OF this] Cons show ?case
    by (cases "scan_string t") auto
qed

lemma hex_pad_2: "hex_pad 2 n = [hex_digit (n div 16 mod 16), hex_digit (n mod 16)]"
  by (simp add: numeral_2_eq_2)

text \<open>One ASCII character, quoted.\<close>

lemma ascii_chunk:
  assumes "byte a < 0x80"
  obtains (plain) "json_chunk (byte a, [a]) = [a]" "a \<noteq> DQUOTE" "a \<noteq> BSLASH" "0x20 \<le> byte a"
  | (simple) e where "json_chunk (byte a, [a]) = [BSLASH, e]" "simple_escape e = a"
      "e \<in> set (''bfnrt/'' @ [BSLASH, DQUOTE])"
  | (hex) h1 h2 where "json_chunk (byte a, [a]) = BSLASH # ''u00'' @ [hex_digit h1, hex_digit h2]"
      "h1 < 16" "h2 < 16" "h1 * 16 + h2 = byte a"
proof -
  have a: "a = char_of (byte a)" by simp
  consider "byte a = 0x5C \<or> byte a = 0x22" | "byte a = 8" | "byte a = 12" | "byte a = 10" | "byte a = 13"
    | "byte a = 9" | "byte a < 0x20 \<or> byte a = 60 \<or> byte a = 62 \<or> byte a = 38" "byte a \<notin> {8, 9, 10, 12, 13}"
    | "0x20 \<le> byte a" "byte a \<notin> {60, 62, 38, 0x5C, 0x22}"
    by (cases "byte a < 0x20") auto
  then show thesis
  proof cases
    case 1
    then have "byte a = byte BSLASH \<or> byte a = byte DQUOTE" by simp
    then have "a = BSLASH \<or> a = DQUOTE" unfolding of_char_eq_iff .
    with 1 show thesis
      by (intro simple [of a]) (auto simp: json_chunk_def simple_escape_def)
  next
    case 7
    then show thesis
      by (intro hex [of "byte a div 16 mod 16" "byte a mod 16"])
        (auto simp: json_chunk_def hex_pad_2 assms)
  next
    case 8
    then show thesis by (intro plain) (use assms in \<open>auto simp: json_chunk_def\<close>)
  next
    case 2
    then have "a = CHR 0x08" by (intro char_eqI) simp
    then show thesis by (intro simple [of "CHR ''b''"]) (auto simp: json_chunk_def simple_escape_def)
  next
    case 3
    then have "a = CHR 0x0C" by (intro char_eqI) simp
    then show thesis by (intro simple [of "CHR ''f''"]) (auto simp: json_chunk_def simple_escape_def)
  next
    case 4
    then have "a = CHR 0x0A" by (intro char_eqI) simp
    then show thesis by (intro simple [of "CHR ''n''"]) (auto simp: json_chunk_def simple_escape_def)
  next
    case 5
    then have "a = CHR 0x0D" by (intro char_eqI) simp
    then show thesis by (intro simple [of "CHR ''r''"]) (auto simp: json_chunk_def simple_escape_def)
  next
    case 6
    then have "a = CHR 0x09" by (intro char_eqI) simp
    then show thesis by (intro simple [of "CHR ''t''"]) (auto simp: json_chunk_def simple_escape_def)
  qed
qed

lemma scan_escape:
  "e \<in> set (''bfnrt/'' @ [BSLASH, DQUOTE]) \<Longrightarrow>
     scan_string (BSLASH # e # t) = map_option (apfst (\<lambda>raw. BSLASH # e # raw)) (scan_string t)"
  "is_hex h1 \<Longrightarrow> is_hex h2 \<Longrightarrow> is_hex h3 \<Longrightarrow> is_hex h4 \<Longrightarrow>
     scan_string (BSLASH # CHR ''u'' # h1 # h2 # h3 # h4 # t) =
       map_option (apfst (\<lambda>raw. BSLASH # CHR ''u'' # h1 # h2 # h3 # h4 # raw)) (scan_string t)"
proof -
  have ne: "(BSLASH = DQUOTE) = False" by simp
  show "scan_string (BSLASH # e # t) = map_option (apfst (\<lambda>raw. BSLASH # e # raw)) (scan_string t)"
    if "e \<in> set (''bfnrt/'' @ [BSLASH, DQUOTE])"
    by (subst scan_string.simps, simp only: ne if_False if_True list.case that simp_thms)
  have nu: "(CHR ''u'' \<in> set (''bfnrt/'' @ [BSLASH, DQUOTE])) = False" by simp
  show "scan_string (BSLASH # CHR ''u'' # h1 # h2 # h3 # h4 # t) =
       map_option (apfst (\<lambda>raw. BSLASH # CHR ''u'' # h1 # h2 # h3 # h4 # raw)) (scan_string t)"
    if "is_hex h1" "is_hex h2" "is_hex h3" "is_hex h4"
    by (subst scan_string.simps, simp only: ne nu if_False if_True list.case that simp_thms)
qed

lemma unquote_escape: "e \<noteq> CHR ''u'' \<Longrightarrow> unquote (BSLASH # e # t) = simple_escape e # unquote t"
  by (simp add: unquote.simps(2))

lemma chunk_scan:
  assumes "valid_step (DecodeRune (a # s))"
  defines "k \<equiv> json_chunk (fst (DecodeRune (a # s)), take (snd (DecodeRune (a # s))) (a # s))"
  shows "scan_string (k @ t) = map_option (apfst ((@) k)) (scan_string t)"
    and "unquote (k @ t) = take (snd (DecodeRune (a # s))) (a # s) @ unquote t"
proof -
  have "scan_string (k @ t) = map_option (apfst ((@) k)) (scan_string t) \<and>
    unquote (k @ t) = take (snd (DecodeRune (a # s))) (a # s) @ unquote t"
  proof (cases "byte a < 0x80")
    case True
    then have k: "k = json_chunk (byte a, [a])" by (simp add: k_def)
    have one: "take (snd (DecodeRune (a # s))) (a # s) = [a]" using True by simp
    show ?thesis
    proof (rule ascii_chunk [OF True])
      assume "json_chunk (byte a, [a]) = [a]" "a \<noteq> DQUOTE" "a \<noteq> BSLASH" "0x20 \<le> byte a"
      with True one scan_plain [of a t] show ?thesis
        by (cases "scan_string t") (simp_all add: k unquote.simps(2))
    next
      fix e assume e: "json_chunk (byte a, [a]) = [BSLASH, e]" "simple_escape e = a"
        "e \<in> set (''bfnrt/'' @ [BSLASH, DQUOTE])"
      then have "e \<noteq> CHR ''u''" by auto
      with e one scan_escape(1) [OF e(3), of t] unquote_escape [of e t] show ?thesis
        by (cases "scan_string t") (simp_all add: k)
    next
      fix h1 h2 assume h: "json_chunk (byte a, [a]) = BSLASH # ''u00'' @ [hex_digit h1, hex_digit h2]"
        "h1 < 16" "h2 < 16" "h1 * 16 + h2 = byte a"
      have "is_hex (CHR ''0'')" "hex_digit_value (CHR ''0'') = 0" by code_simp+
      with h have g: "getu4 (k @ t) = Some (byte a)"
        by (simp add: k getu4_def)
      with True have "unicode_escape (k @ t) = (byte a, 6)"
        by (simp add: unicode_escape_def)
      moreover have "EncodeRune (byte a) = [a]" using True by (simp add: EncodeRune_def)
      ultimately have "unquote (k @ t) = a # unquote t"
        using h(1) by (simp add: k unquote.simps(2) [of BSLASH])
      with h one \<open>is_hex (CHR ''0'')\<close> scan_escape(2) [of "CHR ''0''" "CHR ''0''" "hex_digit h1" "hex_digit h2" t]
      show ?thesis by (cases "scan_string t") (simp_all add: k)
    qed
  next
    case False
    let ?n = "snd (DecodeRune (a # s))" and ?r = "fst (DecodeRune (a # s))"
    let ?x = "take ?n (a # s)"
    have high: "\<forall>c \<in> set ?x. 0x80 \<le> byte c"
      using DecodeRune_high_bytes [OF assms(1) False] by blast
    have enc: "EncodeRune ?r = ?x" by (rule EncodeRune_DecodeRune [OF assms(1)])
    have len: "length ?x = ?n"
      using DecodeRune_size_le [of "a # s"] by simp
    have valid: "\<not> (?r = RuneError \<and> length ?x = 1)"
      using assms(1) len by (simp add: valid_step_def)
    have r80: "0x80 \<le> ?r"
    proof (rule ccontr)
      assume "\<not> 0x80 \<le> ?r"
      then have "EncodeRune ?r = [char_of ?r]" "?r < 256" by (simp_all add: EncodeRune_def)
      then have "?x = [char_of ?r]" using enc by simp
      with high \<open>\<not> 0x80 \<le> ?r\<close> show False by simp
    qed
    show ?thesis
    proof (cases "?r = 0x2028 \<or> ?r = 0x2029")
      case True
      then have k: "k = BSLASH # ''u202'' @ [hex_digit (?r mod 16)]"
        by (auto simp: k_def json_chunk_def)
      have hv: "is_hex (CHR ''2'')" "hex_digit_value (CHR ''2'') = 2" "is_hex (CHR ''0'')" "hex_digit_value (CHR ''0'') = 0"
        by code_simp+
      with True have "getu4 (k @ t) = Some ?r" by (auto simp: k getu4_def)
      with True have "unicode_escape (k @ t) = (?r, 6)" by (auto simp: unicode_escape_def)
      then have "unquote (k @ t) = ?x @ unquote t"
        using enc by (simp add: k unquote.simps(2) [of BSLASH])
      with hv scan_escape(2) [of "CHR ''2''" "CHR ''0''" "CHR ''2''" "hex_digit (?r mod 16)" t]
      show ?thesis by (cases "scan_string t") (simp_all add: k)
    next
      case F: False
      then have k: "k = ?x"
        using valid r80 by (auto simp: k_def json_chunk_def)
      obtain x where x: "?x = a # x"
        using DecodeRune_size_pos [of "a # s"] by (cases ?n) auto
      have dec: "DecodeRune (?x @ t) = DecodeRune (a # s)"
        by (rule DecodeRune_local [OF assms(1)])
      have "a \<noteq> BSLASH" using False by auto
      then have "unquote (?x @ t) = EncodeRune ?r @ unquote (drop ?n (?x @ t))"
        using dec x False by (simp add: unquote.simps(2) Let_def split_def)
      moreover have "drop ?n (?x @ t) = t" using len by simp
      ultimately show ?thesis using scan_high_bytes [OF high] enc k by simp
    qed
  qed
  then show "scan_string (k @ t) = map_option (apfst ((@) k)) (scan_string t)"
    "unquote (k @ t) = take (snd (DecodeRune (a # s))) (a # s) @ unquote t" by blast+
qed

lemma json_body_read:
  assumes "ValidString s"
  defines "body \<equiv> concat (map json_chunk (rune_chunks s))"
  shows "scan_string (body @ DQUOTE # t) = Some (body, t)" and "unquote body = s"
proof -
  have "scan_string (concat (map json_chunk (rune_chunks s)) @ DQUOTE # t) =
      Some (concat (map json_chunk (rune_chunks s)), t) \<and>
    unquote (concat (map json_chunk (rune_chunks s))) = s"
    using assms(1)
  proof (induction s rule: rune_chunks.induct)
    case (2 a s)
    obtain r n where rn: "DecodeRune (a # s) = (r, n)" by fastforce
    with "2.prems" have v: "valid_step (DecodeRune (a # s))" "ValidString (drop n (a # s))"
      by (simp_all add: ValidString_Cons)
    let ?k = "json_chunk (r, take n (a # s))"
    let ?b = "concat (map json_chunk (rune_chunks (drop n (a # s))))"
    have IH: "scan_string (?b @ DQUOTE # t) = Some (?b, t)" "unquote ?b = drop n (a # s)"
      using "2.IH" [OF rn [symmetric] refl v(2)] by simp_all
    have body: "concat (map json_chunk (rune_chunks (a # s))) = ?k @ ?b"
      using rn by (simp add: rune_chunks.simps)
    have "unquote (?k @ ?b) = a # s"
      using chunk_scan(2) [OF v(1), of ?b] rn IH by simp
    moreover have "scan_string (?k @ ?b @ DQUOTE # t) = Some (?k @ ?b, t)"
      using chunk_scan(1) [OF v(1), of "?b @ DQUOTE # t"] rn IH by simp
    ultimately show ?case unfolding body by simp
  qed simp
  then show "scan_string (body @ DQUOTE # t) = Some (body, t)" "unquote body = s"
    by (simp_all add: body_def)
qed

lemma ascii_valid: "list_all (\<lambda>c. byte c < 0x80) s \<Longrightarrow> ValidString s"
  by (induction s) (auto simp: ValidString_ascii)

subsection \<open>Values are read back\<close>

text \<open>The values the program prints: integers, valid strings, nested at most \<open>d\<close> deep.\<close>

fun printable :: "nat \<Rightarrow> json \<Rightarrow> bool" where
  "printable d (JNumber s) \<longleftrightarrow> (\<exists>i. s = show_int i)"
| "printable d (JString s) \<longleftrightarrow> ValidString s"
| "printable d (JArray vs) \<longleftrightarrow> 0 < d \<and> (\<forall>v \<in> set vs. printable (d - 1) v)"
| "printable d (JObject ms) \<longleftrightarrow> 0 < d \<and> (\<forall>m \<in> set ms. ValidString (fst m) \<and> printable (d - 1) (snd m))"
| "printable d _ \<longleftrightarrow> True"

lemma json_quote_read:
  assumes "ValidString s"
  obtains body where "json_quote s = DQUOTE # body @ [DQUOTE]"
    "\<And>t. scan_string (body @ DQUOTE # t) = Some (body, t)" "unquote body = s"
  using json_body_read [OF assms] by (metis json_quote_def)

lemma skip_space_solid: "\<not> json_space c \<Longrightarrow> skip_space (c # t) = c # t"
  by (simp add: skip_space_def)

lemma show_int_Cons:
  obtains c r where "show_int i = c # r"
    "c \<notin> {DQUOTE, CHR ''{'', CHR ''['', CHR ''t'', CHR ''f'', CHR ''n'', CHR '']'', CHR ''}''}" "\<not> json_space c"
proof (cases "i < 0")
  case True
  have "\<not> json_space (CHR ''-'')" by (simp add: json_space_def)
  with True show thesis by (intro that [of "CHR ''-''"]) (auto simp: show_int_def)
next
  case False
  obtain c r where cr: "show_nat (nat i) = c # r" by (cases "show_nat (nat i)") auto
  with show_nat_digits [of "nat i"] have "is_digit c" by simp
  with cr False show thesis
    by (intro that [of c r]) (auto simp: show_int_def is_digit_def json_space_def)
qed

lemma json_print_head:
  assumes "printable d j"
  obtains c t where "json_print j = c # t" "\<not> json_space c" "c \<noteq> CHR '']'' " "c \<noteq> CHR ''}''"
proof (cases j)
  case (JNumber s)
  with assms obtain i where i: "s = show_int i" by auto
  show thesis
    by (rule show_int_Cons [of i]) (use that i JNumber in auto)
next
  case (JBool b)
  then show thesis using that by (cases b) (auto simp: json_space_def)
qed (use that in \<open>auto simp: json_quote_def json_space_def split: if_splits\<close>)

lemma after_number_simps [simp]:
  "after_number []" "after_number (CHR '','' # t)" "after_number (CHR '']'' # t)" "after_number (CHR ''}'' # t)"
  "after_number (LF # t)"
  by (simp_all add: after_number_def is_digit_def)

lemma scan_literal_read [simp]: "scan_literal w j (w @ t) = Some (j, t)"
  by (simp add: scan_literal_def)

lemma json_space_solid [simp]: "\<not> json_space DQUOTE" "\<not> json_space (CHR ''{'')" "\<not> json_space (CHR ''['')"
  "\<not> json_space (CHR ''t'')" "\<not> json_space (CHR ''f'')" "\<not> json_space (CHR ''n'')" "\<not> json_space (CHR '','')"
  "\<not> json_space (CHR '':'')" "\<not> json_space (CHR '']'')" "\<not> json_space (CHR ''}'')"
  by (simp_all add: json_space_def)

text \<open>The text between the brackets, as the reader meets it.\<close>

abbreviation print_member :: "string \<times> json \<Rightarrow> string" where
  "print_member m \<equiv> (case m of (k, v) \<Rightarrow> json_quote k @ '':'' @ json_print v)"

lemma comma_join_Cons: "comma_join (x # xs) = x @ (if xs = [] then [] else '','' @ comma_join xs)"
  by (cases xs) auto

lemma parse_print:
  "printable d j \<Longrightarrow> after_number t \<Longrightarrow> 2 * length (json_print j @ t) + 1 \<le> n \<Longrightarrow>
     parse_value n d (json_print j @ t) = Some (j, t)"
  "vs \<noteq> [] \<Longrightarrow> \<forall>v \<in> set vs. printable d v \<Longrightarrow>
     2 * length (comma_join (map json_print vs) @ CHR '']'' # t) + 2 \<le> n \<Longrightarrow>
     parse_elements n d (comma_join (map json_print vs) @ CHR '']'' # t) = Some (vs, t)"
  "ms \<noteq> [] \<Longrightarrow> \<forall>m \<in> set ms. ValidString (fst m) \<and> printable d (snd m) \<Longrightarrow>
     2 * length (comma_join (map print_member ms) @ CHR ''}'' # t) + 2 \<le> n \<Longrightarrow>
     parse_members n d (comma_join (map print_member ms) @ CHR ''}'' # t) = Some (ms, t)"
proof (induction n arbitrary: d j t vs ms)
  case (Suc n)
  {
    case 1
    show ?case
    proof (cases j)
      case (JString s)
      with 1 have "ValidString s" by simp
      then obtain body where "json_quote s = DQUOTE # body @ [DQUOTE]"
        "\<And>t. scan_string (body @ DQUOTE # t) = Some (body, t)" "unquote body = s"
        by (rule json_quote_read) blast
      with JString show ?thesis by (simp add: parse_value.simps skip_space_solid)
    next
      case (JNumber s)
      with 1 obtain i where i: "s = show_int i" by auto
      obtain c r where cr: "show_int i = c # r"
        "c \<notin> {DQUOTE, CHR ''{'', CHR ''['', CHR ''t'', CHR ''f'', CHR ''n'', CHR '']'', CHR ''}''}"
        "\<not> json_space c"
        by (rule show_int_Cons)
      with scan_number_show_int [OF 1(2), of i] i JNumber show ?thesis
        by (simp add: parse_value.simps skip_space_solid)
    next
      case (JArray vs)
      show ?thesis
      proof (cases vs)
        case (Cons v rest)
        with JArray 1 have "printable (d - 1) v" by simp
        then obtain c u where cu: "json_print v = c # u" "\<not> json_space c" "c \<noteq> CHR '']''"
          by (rule json_print_head)
        have "parse_elements n (d - 1) (comma_join (map json_print vs) @ CHR '']'' # t) = Some (vs, t)"
          using Suc.IH(2) [of vs "d - 1" t] Cons JArray 1 by simp
        with cu Cons JArray 1 show ?thesis
          by (simp add: parse_value.simps skip_space_solid comma_join_Cons)
      qed (use JArray 1 in \<open>simp add: parse_value.simps skip_space_solid\<close>)
    next
      case (JObject ms)
      show ?thesis
      proof (cases ms)
        case (Cons m rest)
        obtain k v where m: "m = (k, v)" by force
        have "parse_members n (d - 1) (comma_join (map print_member ms) @ CHR ''}'' # t) = Some (ms, t)"
          using Suc.IH(3) [of ms "d - 1" t] Cons JObject 1 by simp
        with m Cons JObject 1 show ?thesis
          by (simp add: parse_value.simps skip_space_solid comma_join_Cons json_quote_def)
      qed (use JObject 1 in \<open>simp add: parse_value.simps skip_space_solid\<close>)
    next
      case JNull
      with scan_literal_read [of "''null''"] show ?thesis
        by (simp add: parse_value.simps skip_space_solid)
    next
      case (JBool b)
      with scan_literal_read [of "''true''"] scan_literal_read [of "''false''"] show ?thesis
        by (simp add: parse_value.simps skip_space_solid)
    qed
  next
    case 2
    then obtain v rest where vs: "vs = v # rest" by (cases vs) auto
    let ?u = "(if rest = [] then [] else '','' @ comma_join (map json_print rest)) @ CHR '']'' # t"
    have "parse_value n d (json_print v @ ?u) = Some (v, ?u)"
      using Suc.IH(1) [of d v ?u] 2 vs by (cases rest) (simp_all add: comma_join_Cons)
    moreover have "parse_elements n d (comma_join (map json_print rest) @ CHR '']'' # t) = Some (rest, t)"
      if "rest \<noteq> []"
      using Suc.IH(2) [of rest d t] 2 vs that by (simp add: comma_join_Cons)
    ultimately show ?case
      by (cases rest) (simp_all add: vs parse_elements.simps comma_join_Cons skip_space_solid)
  next
    case 3
    then obtain k v rest where ms: "ms = (k, v) # rest" by (cases ms) auto
    let ?u = "(if rest = [] then [] else '','' @ comma_join (map print_member rest)) @ CHR ''}'' # t"
    from 3 ms have "ValidString k" by simp
    then obtain body where body: "json_quote k = DQUOTE # body @ [DQUOTE]"
      "\<And>t. scan_string (body @ DQUOTE # t) = Some (body, t)" "unquote body = k"
      by (rule json_quote_read) blast
    have "parse_value n d (json_print v @ ?u) = Some (v, ?u)"
      using Suc.IH(1) [of d v ?u] 3 ms by (cases rest) (simp_all add: comma_join_Cons)
    moreover have "parse_members n d (comma_join (map print_member rest) @ CHR ''}'' # t) = Some (rest, t)"
      if "rest \<noteq> []"
      using Suc.IH(3) [of rest d t] 3 ms that by (simp add: comma_join_Cons)
    ultimately show ?case
      using body by (cases rest) (simp_all add: ms parse_members.simps comma_join_Cons skip_space_solid)
  }
qed simp_all

text \<open>A printed value is the next value of the stream.\<close>

lemma next_value_print:
  assumes "printable max_depth j" "after_number t"
  shows "next_value (json_print j @ t) = Dec_Value j t"
proof -
  obtain c u where "json_print j = c # u" "\<not> json_space c"
    using json_print_head [OF assms(1)] by metis
  then have "skip_space (json_print j @ t) \<noteq> []" by (simp add: skip_space_solid)
  moreover have "parse_value (2 * length (json_print j @ t) + 2) max_depth (json_print j @ t) = Some (j, t)"
    by (rule parse_print(1) [OF assms]) simp
  ultimately show ?thesis by (simp add: next_value_def)
qed

lemma next_value_blank: "list_all json_space s \<Longrightarrow> next_value s = Dec_EOF"
  by (simp add: next_value_def skip_space_def list_all_iff)

end
