(* ===== verification/Alert_Target.thy ===== *)
theory Alert_Target
  imports Go_Errors
begin

text \<open>
  The package \<open>internal/alerttarget\<close>: names of alert targets.  A target is made only by
  \<open>alerttarget.Parse\<close>; its value is lower case, starts with a letter or a digit and holds letters,
  digits, hyphens and underscores only, so its file name has no path separator and never starts
  with a dot.
\<close>

definition MaxLength :: nat where
  "MaxLength = 63"

record target =
  target_value :: string

definition isLetterOrDigit :: "char \<Rightarrow> bool" where
  "isLetterOrDigit character \<longleftrightarrow> is_lower character \<or> is_digit character"

text \<open>The loop over the bytes, from index \<open>i\<close> on.\<close>

fun check_bytes :: "nat \<Rightarrow> string \<Rightarrow> bool" where
  "check_bytes i [] = True"
| "check_bytes i (character # rest) =
     (if isLetterOrDigit character then check_bytes (Suc i) rest
      else if 0 < i \<and> (character = CHR ''-'' \<or> character = CHR ''_'') then check_bytes (Suc i) rest
      else False)"

definition target_Parse :: "string \<Rightarrow> goerror + target" where
  "target_Parse value =
     (if value = [] \<or> MaxLength < length value then Inl (Sentinel alerttarget_ErrInvalid)
      else
        let lowered = ToLower value
        in if check_bytes 0 lowered then Inr \<lparr>target_value = lowered\<rparr>
           else Inl (Sentinel alerttarget_ErrInvalid))"

definition target_String :: "target \<Rightarrow> string" where
  "target_String t = target_value t"

definition Filename :: "target \<Rightarrow> string" where
  "Filename t = (if target_value t = [] then [] else target_value t @ ''.txt'')"

subsection \<open>What a parsed target is\<close>

definition target_char :: "char \<Rightarrow> bool" where
  "target_char c \<longleftrightarrow> isLetterOrDigit c \<or> c = CHR ''-'' \<or> c = CHR ''_''"

definition canonical_name :: "string \<Rightarrow> bool" where
  "canonical_name s \<longleftrightarrow>
     s \<noteq> [] \<and> length s \<le> MaxLength \<and> isLetterOrDigit (hd s) \<and> (\<forall>c \<in> set s. target_char c)"

lemma check_bytes_Suc: "check_bytes (Suc i) s \<longleftrightarrow> (\<forall>c \<in> set s. target_char c)"
  by (induction s arbitrary: i) (auto simp: target_char_def)

lemma check_bytes_0:
  "check_bytes 0 s \<longleftrightarrow> s = [] \<or> (isLetterOrDigit (hd s) \<and> (\<forall>c \<in> set s. target_char c))"
  by (cases s) (auto simp: check_bytes_Suc target_char_def)

lemma target_char_ascii: "target_char c \<Longrightarrow> byte c < 0x80"
  by (auto simp: target_char_def isLetterOrDigit_def is_lower_def is_digit_def)

lemma target_char_not_upper: "target_char c \<Longrightarrow> \<not> is_upper c"
  by (auto simp: target_char_def isLetterOrDigit_def is_lower_def is_digit_def is_upper_def)

lemma ToLower_target_chars:
  assumes "\<forall>c \<in> set s. target_char c"
  shows "ToLower s = s"
proof -
  have "map lower_byte s = s"
    using assms by (induction s) (auto simp: lower_byte_def target_char_not_upper)
  then show ?thesis
    using assms by (auto simp: ToLower_def target_char_ascii)
qed

text \<open>The code points a string is read as are at most as many as its bytes.\<close>

lemma length_rune_chunks: "length (rune_chunks s) \<le> length s"
proof (induction s rule: rune_chunks.induct)
  case (2 a s)
  obtain r n where rn: "DecodeRune (a # s) = (r, n)" by fastforce
  then have "0 < n"
    using DecodeRune_size_pos [of "a # s"] by simp
  with 2 [OF rn [symmetric] refl] rn show ?case
    by (simp add: rune_chunks.simps)
qed simp

lemma EncodeRune_nonempty: "EncodeRune r \<noteq> []"
  by (simp add: EncodeRune_def)

lemma EncodeRune_ascii: "(\<forall>c \<in> set (EncodeRune r). byte c < 0x80) \<Longrightarrow> length (EncodeRune r) = 1"
proof (rule ccontr)
  assume a: "\<forall>c \<in> set (EncodeRune r). byte c < 0x80" and "length (EncodeRune r) \<noteq> 1"
  then have r: "\<not> r < 0x80" by (auto simp: EncodeRune_def)
  then have "\<exists>c. last (EncodeRune r) = c \<and> 0x80 \<le> byte c"
    by (auto simp: EncodeRune_def)
  with a EncodeRune_nonempty [of r] show False
    by (metis last_in_set leD)
qed

text \<open>If lowering a string gives ASCII only, it cannot have made it longer.\<close>

lemma length_concat_EncodeRune:
  "\<forall>c \<in> set (concat (map (\<lambda>r. EncodeRune (f r)) rs)). byte c < 0x80 \<Longrightarrow>
   length (concat (map (\<lambda>r. EncodeRune (f r)) rs)) = length rs"
proof (induction rs)
  case (Cons r rs)
  then have "length (EncodeRune (f r)) = 1"
    by (intro EncodeRune_ascii) simp
  with Cons show ?case by simp
qed simp

lemma length_ToLower_ascii:
  assumes "\<forall>c \<in> set (ToLower s). byte c < 0x80"
  shows "length (ToLower s) \<le> length s"
proof (cases "\<forall>c \<in> set s. byte c < 0x80")
  case True
  then show ?thesis by (simp add: ToLower_def)
next
  case False
  then have eq: "ToLower s = concat (map (\<lambda>r. EncodeRune (unicode_ToLower r)) (runes s))"
    by (simp only: ToLower_def if_False)
  have "length (ToLower s) = length (runes s)"
    using length_concat_EncodeRune [of unicode_ToLower "runes s"] assms unfolding eq by blast
  then show ?thesis
    by (simp add: runes_def length_rune_chunks)
qed

lemma target_Parse_canonical:
  assumes "target_Parse s = Inr t"
  shows "canonical_name (target_value t)"
proof -
  from assms have s: "s \<noteq> []" "length s \<le> MaxLength" "t = \<lparr>target_value = ToLower s\<rparr>"
    "check_bytes 0 (ToLower s)"
    by (auto simp: target_Parse_def Let_def split: if_splits)
  have "rune_chunks s \<noteq> []"
    using s(1) by (cases s) (auto simp: rune_chunks.simps split: prod.splits)
  then have ne: "ToLower s \<noteq> []"
    using s(1) by (cases "rune_chunks s") (simp_all add: ToLower_def runes_def EncodeRune_nonempty)
  with s(4) have chars: "isLetterOrDigit (hd (ToLower s))" "\<forall>c \<in> set (ToLower s). target_char c"
    by (auto simp: check_bytes_0)
  then have "length (ToLower s) \<le> length s"
    by (blast intro: length_ToLower_ascii target_char_ascii)
  with s chars ne show ?thesis
    by (simp add: canonical_name_def)
qed

lemma target_Parse_canonical_name:
  "canonical_name s \<Longrightarrow> target_Parse s = Inr \<lparr>target_value = s\<rparr>"
  by (auto simp: canonical_name_def target_Parse_def Let_def ToLower_target_chars check_bytes_0)

lemma target_Parse_value: "target_Parse s = Inr t \<Longrightarrow> target_Parse (target_value t) = Inr t"
  using target_Parse_canonical_name [OF target_Parse_canonical] by simp

text \<open>A well-formed target is one that \<open>Parse\<close> can have made.\<close>

definition wf_target :: "target \<Rightarrow> bool" where
  "wf_target t \<longleftrightarrow> canonical_name (target_value t)"

lemma wf_target_Parse [intro]: "target_Parse s = Inr t \<Longrightarrow> wf_target t"
  by (simp add: wf_target_def target_Parse_canonical)

lemma wf_target_nonempty [simp]: "wf_target t \<Longrightarrow> target_value t \<noteq> []"
  by (simp add: wf_target_def canonical_name_def)

lemma wf_target_Filename: "wf_target t \<Longrightarrow> Filename t = target_value t @ ''.txt''"
  by (simp add: Filename_def)

lemma Filename_hd:
  assumes "wf_target t"
  shows "Filename t \<noteq> []" "hd (Filename t) \<noteq> CHR ''.''"
  using assms by (auto simp: wf_target_Filename wf_target_def canonical_name_def isLetterOrDigit_def
      is_lower_def is_digit_def)

lemma Filename_inject: "wf_target t \<Longrightarrow> wf_target u \<Longrightarrow> Filename t = Filename u \<longleftrightarrow> t = u"
  by (cases t; cases u) (auto simp: Filename_def wf_target_def canonical_name_def)

lemma TrimSuffix_Filename [simp]: "wf_target t \<Longrightarrow> TrimSuffix (Filename t) ''.txt'' = target_value t"
  using TrimSuffix_append by (simp add: wf_target_Filename del: TrimSuffix_append)

text \<open>
  C28: parsing a target yields a canonical name, and is stable: the result is not empty, has at
  most 63 bytes, starts with a lower-case letter or a digit, holds only lower-case letters,
  digits, hyphens and underscores (so neither a dot nor a path separator), and parses to itself.
\<close>

theorem target_parse_canonical:
  assumes "target_Parse s = Inr t"
  shows "canonical_name (target_String t) \<and> target_Parse (target_String t) = Inr t \<and>
         CHR ''/'' \<notin> set (target_String t) \<and> CHR ''.'' \<notin> set (target_String t) \<and>
         Filename t = target_String t @ ''.txt''"
proof -
  have c: "canonical_name (target_String t)"
    using target_Parse_canonical [OF assms] by (simp add: target_String_def)
  moreover have "target_Parse (target_String t) = Inr t"
    using target_Parse_value [OF assms] by (simp add: target_String_def)
  moreover have "CHR ''/'' \<notin> set (target_String t)" "CHR ''.'' \<notin> set (target_String t)"
    using c by (auto simp: canonical_name_def target_char_def isLetterOrDigit_def is_lower_def
        is_digit_def)
  ultimately show ?thesis
    using wf_target_Filename [OF wf_target_Parse [OF assms]] by (simp add: target_String_def)
qed

lemma target_parse_canonical_witness:
  "target_Parse ''Node-7_A'' = Inr \<lparr>target_value = ''node-7_a''\<rparr> \<and>
   canonical_name (target_String \<lparr>target_value = ''node-7_a''\<rparr>)"
proof -
  have p: "target_Parse ''Node-7_A'' = Inr \<lparr>target_value = ''node-7_a''\<rparr>"
    by code_simp
  show ?thesis using p target_parse_canonical [OF p] by simp
qed

text \<open>
  C29: on an ASCII string, \<open>Parse\<close> accepts exactly the documented names (a letter or a digit, then
  at most 62 letters, digits, hyphens and underscores, in any case) and lowers them; everything
  else is \<open>ErrInvalid\<close>.
\<close>

theorem target_parse_ascii_exact:
  assumes "\<forall>c \<in> set s. byte c < 0x80"
  shows "target_Parse s =
    (if s \<noteq> [] \<and> length s \<le> 63 \<and> (isLetterOrDigit (hd s) \<or> is_upper (hd s)) \<and>
        (\<forall>c \<in> set s. target_char c \<or> is_upper c)
     then Inr \<lparr>target_value = map lower_byte s\<rparr>
     else Inl (Sentinel alerttarget_ErrInvalid))"
proof -
  have low: "isLetterOrDigit (lower_byte c) \<longleftrightarrow> isLetterOrDigit c \<or> is_upper c" for c
  proof (cases "is_upper c")
    case True
    then have "byte (char_of (byte c + 32)) = byte c + 32"
      by (simp add: is_upper_def)
    with True show ?thesis
      by (simp add: lower_byte_def isLetterOrDigit_def is_lower_def is_upper_def)
  qed (simp add: lower_byte_def)
  moreover have "target_char (lower_byte c) \<longleftrightarrow> target_char c \<or> is_upper c" for c
  proof (cases "is_upper c")
    case True
    then show ?thesis using low [of c] by (simp add: target_char_def)
  qed (simp add: lower_byte_def)
  ultimately show ?thesis
    using assms
    by (auto simp: target_Parse_def Let_def ToLower_def check_bytes_0 MaxLength_def hd_map)
qed

lemma target_parse_ascii_exact_witness:
  "target_Parse ''-node'' = Inl (Sentinel alerttarget_ErrInvalid)"
proof -
  have h: "\<forall>c \<in> set ''-node''. byte c < (0x80 :: nat)" by simp
  show ?thesis
    using h target_parse_ascii_exact [OF h]
    by (simp add: isLetterOrDigit_def is_lower_def is_digit_def is_upper_def)
qed

text \<open>
  \<open>Parse\<close> lowers before it checks the bytes, so it also accepts two characters outside ASCII
  whose lower-case form is an ASCII letter: the Kelvin sign U+212A is accepted as \<open>k\<close> and the
  dotted capital I U+0130 as \<open>i\<close>, though neither is a letter the documentation of targets allows.
\<close>

theorem target_parse_accepts_kelvin_sign:
  "target_Parse [CHR 0xE2, CHR 0x84, CHR 0xAA] = Inr \<lparr>target_value = ''k''\<rparr> \<and>
   target_Parse [CHR 0xC4, CHR 0xB0] = Inr \<lparr>target_value = ''i''\<rparr>"
  by (simp add: target_Parse_def MaxLength_def ToLower_def runes_def rune_chunks.simps
      DecodeRune.simps cont_in_def unicode_ToLower_def lower_table_def EncodeRune_def
      isLetterOrDigit_def is_lower_def char_of_eq_iff Let_def)

end
