(* ===== verification/File_System.thy ===== *)
theory File_System
  imports Go_Errors
begin

text \<open>
  The operating system as the alert store uses it (\<open>os.Root\<close>, \<open>os.File\<close>, \<open>io.ReadAll\<close> on a
  \<open>LimitReader\<close>, \<open>math/rand\<close>, \<open>time.Now\<close>).  Directories hold entries, which name inodes; open
  files are inode numbers.  Other processes run at the same time, and any call can fail: before
  each system call the next event of the world's script is taken, which may change the file
  system (\<open>ev_env\<close>), may make the call fail (\<open>ev_fault\<close>) and bounds how many bytes a read returns or
  a failing write has written (\<open>ev_chunk\<close>).  An exhausted script means that nobody interferes and
  nothing fails.  A theorem about every script is a theorem about every interleaving with other
  processes and every failure, at every system call; a process that dies in the middle leaves the
  state that a script failing all later calls leaves.
\<close>

subsection \<open>Inodes and directories\<close>

datatype dirid = AlertDir | BackupDir | ConfigDir | HostsDir | LeaseDir

datatype file_kind = Regular | Symlink | Directory | Special

text \<open>\<open>i_synced\<close>: the contents and mode are on stable storage.  \<open>i_link\<close>: where a symbolic link leads
  inside its root when it is opened, \<open>None\<close> if nowhere or outside (which \<open>os.Root\<close> refuses).\<close>

record inode =
  i_kind :: file_kind
  i_mode :: nat
  i_data :: string
  i_mtime :: nat
  i_synced :: bool
  i_link :: "nat option"

record fs =
  dirs :: "dirid \<Rightarrow> (string \<times> nat) list"
  inodes :: "nat \<Rightarrow> inode option"
  next_ino :: nat

definition lookup :: "fs \<Rightarrow> dirid \<Rightarrow> string \<Rightarrow> (nat \<times> inode) option" where
  "lookup f d name =
     (case map_of (dirs f d) name of
        None \<Rightarrow> None
      | Some i \<Rightarrow> (case inodes f i of None \<Rightarrow> None | Some nd \<Rightarrow> Some (i, nd)))"

text \<open>\<open>os.FileInfo\<close>, and \<open>os.SameFile\<close>.\<close>

record file_info =
  fi_ino :: nat
  fi_kind :: file_kind
  fi_mode :: nat
  fi_size :: nat
  fi_mtime :: nat

definition info_of :: "nat \<Rightarrow> inode \<Rightarrow> file_info" where
  "info_of i nd = \<lparr>fi_ino = i, fi_kind = i_kind nd, fi_mode = i_mode nd,
     fi_size = length (i_data nd), fi_mtime = i_mtime nd\<rparr>"

definition SameFile :: "file_info \<Rightarrow> file_info \<Rightarrow> bool" where
  "SameFile a b \<longleftrightarrow> fi_ino a = fi_ino b"

text \<open>What \<open>os.Lstat\<close> reports of a path outside the directories that are open, with the owner from its \<open>syscall.Stat_t\<close> (\<open>None\<close> when the
  platform has none).\<close>

datatype path_kind = Path_Directory | Path_Symlink | Path_Socket | Path_Other

record path_info =
  pi_kind :: path_kind
  pi_perm :: nat
  pi_setuid :: bool
  pi_setgid :: bool
  pi_sticky :: bool
  pi_owner :: "(nat \<times> nat) option"
  pi_ino :: nat

subsection \<open>The world and its operations\<close>

record event =
  ev_env :: "fs \<Rightarrow> fs"
  ev_fault :: "string option"
  ev_chunk :: nat

text \<open>The calendar fields of \<open>time.Now().UTC()\<close>.\<close>

record utc_time =
  t_year :: nat
  t_month :: nat
  t_day :: nat
  t_hour :: nat
  t_minute :: nat
  t_second :: nat
  t_nanosecond :: nat

record world =
  w_fs :: fs
  w_script :: "event list"
  w_rand :: "nat \<Rightarrow> 64 word"
  w_rand_pos :: nat
  w_clock :: "nat \<Rightarrow> utc_time"
  w_clock_pos :: nat
  w_fds :: nat

type_synonym 'a io = "world \<Rightarrow> (goerror + 'a) \<times> world"

definition return_io :: "'a \<Rightarrow> 'a io" where
  "return_io x w = (Inr x, w)"

definition fail_io :: "goerror \<Rightarrow> 'a io" where
  "fail_io e w = (Inl e, w)"

text \<open>Sequencing with the early return on an error.\<close>

definition bind_io :: "'a io \<Rightarrow> ('a \<Rightarrow> 'b io) \<Rightarrow> 'b io" where
  "bind_io m f w = (case m w of (Inl e, w1) \<Rightarrow> (Inl e, w1) | (Inr x, w1) \<Rightarrow> f x w1)"

text \<open>\<open>map_error\<close>: the wrapping of a returned error.  \<open>try_io\<close>: the error as a value.  \<open>deferred\<close>: a
  deferred call whose result is ignored.  \<open>on_error\<close>: a deferred call made on failure only.\<close>

definition map_error :: "(goerror \<Rightarrow> goerror) \<Rightarrow> 'a io \<Rightarrow> 'a io" where
  "map_error g m w = (case m w of (Inl e, w1) \<Rightarrow> (Inl (g e), w1) | (Inr x, w1) \<Rightarrow> (Inr x, w1))"

definition try_io :: "'a io \<Rightarrow> (goerror + 'a) io" where
  "try_io m w = (case m w of (r, w1) \<Rightarrow> (Inr r, w1))"

definition deferred :: "'c io \<Rightarrow> 'a io \<Rightarrow> 'a io" where
  "deferred c m w = (case m w of (r, w1) \<Rightarrow> (r, snd (c w1)))"

definition on_error :: "'c io \<Rightarrow> 'a io \<Rightarrow> 'a io" where
  "on_error c m w = (case m w of (Inl e, w1) \<Rightarrow> (Inl e, snd (c w1)) | (Inr x, w1) \<Rightarrow> (Inr x, w1))"

subsection \<open>System calls\<close>

definition calm :: event where
  "calm = \<lparr>ev_env = (\<lambda>f. f), ev_fault = None, ev_chunk = 0\<rparr>"

definition tick :: "world \<Rightarrow> event \<times> world" where
  "tick w = (case w_script w of
       [] \<Rightarrow> (calm, w)
     | ev # evs \<Rightarrow> (ev, w\<lparr>w_fs := ev_env ev (w_fs w), w_script := evs\<rparr>))"

definition syscall :: "(fs \<Rightarrow> (goerror + 'a) \<times> fs) \<Rightarrow> 'a io" where
  "syscall f w =
     (case tick w of (ev, w1) \<Rightarrow>
        (case ev_fault ev of
           Some t \<Rightarrow> (Inl (OsError OtherKind t), w1)
         | None \<Rightarrow> (case f (w_fs w1) of (r, f1) \<Rightarrow> (r, w1\<lparr>w_fs := f1\<rparr>))))"

definition enoent :: goerror where
  "enoent = OsError NotExist ''no such file or directory''"

definition eexist :: goerror where
  "eexist = OsError Exist ''file exists''"

definition eother :: "string \<Rightarrow> goerror" where
  "eother t = OsError OtherKind t"

definition Lstat :: "dirid \<Rightarrow> string \<Rightarrow> file_info io" where
  "Lstat d name = syscall (\<lambda>f. case lookup f d name of
       None \<Rightarrow> (Inl enoent, f)
     | Some (i, nd) \<Rightarrow> (Inr (info_of i nd), f))"

text \<open>A successful open takes a descriptor; a close gives it back even when it reports an error.\<close>

definition with_fd :: "'a io \<Rightarrow> 'a io" where
  "with_fd m w = (case m w of
       (Inl e, w1) \<Rightarrow> (Inl e, w1)
     | (Inr x, w1) \<Rightarrow> (Inr x, w1\<lparr>w_fds := Suc (w_fds w1)\<rparr>))"

definition Open :: "dirid \<Rightarrow> string \<Rightarrow> nat io" where
  "Open d name = with_fd (syscall (\<lambda>f. case lookup f d name of
       None \<Rightarrow> (Inl enoent, f)
     | Some (i, nd) \<Rightarrow>
         if i_kind nd = Symlink
         then (case i_link nd of
                 Some j \<Rightarrow> if inodes f j = None then (Inl enoent, f) else (Inr j, f)
               | None \<Rightarrow> (Inl (eother ''path escapes from parent''), f))
         else (Inr i, f)))"

definition Close :: "nat \<Rightarrow> unit io" where
  "Close h w = (case syscall (\<lambda>f. (Inr (), f)) w of (r, w1) \<Rightarrow> (r, w1\<lparr>w_fds := w_fds w1 - 1\<rparr>))"

definition Stat :: "nat \<Rightarrow> file_info io" where
  "Stat h = syscall (\<lambda>f. case inodes f h of
       None \<Rightarrow> (Inl (eother ''stale file handle''), f)
     | Some nd \<Rightarrow> (Inr (info_of h nd), f))"

text \<open>One \<open>read\<close> of at most \<open>n\<close> bytes at an offset: some bytes, or none at the end of the file.\<close>

definition Read_at :: "nat \<Rightarrow> nat \<Rightarrow> nat \<Rightarrow> string io" where
  "Read_at h off n w =
     (case tick w of (ev, w1) \<Rightarrow>
        (case ev_fault ev of
           Some t \<Rightarrow> (Inl (OsError OtherKind t), w1)
         | None \<Rightarrow>
             (case inodes (w_fs w1) h of
                None \<Rightarrow> (Inl (eother ''stale file handle''), w1)
              | Some nd \<Rightarrow>
                  (Inr (take (if ev_chunk ev = 0 then n else min n (ev_chunk ev))
                          (drop off (i_data nd))), w1))))"

text \<open>\<open>io.ReadAll(io.LimitReader(file, limit))\<close> from an offset: reads until the limit or the end.\<close>

function read_limited :: "nat \<Rightarrow> nat \<Rightarrow> nat \<Rightarrow> string io" where
  "read_limited h off limit w =
     (if limit = 0 then (Inr [], w)
      else (case Read_at h off limit w of
              (Inl e, w1) \<Rightarrow> (Inl e, w1)
            | (Inr bs, w1) \<Rightarrow>
                if bs = [] then (Inr [], w1)
                else (case read_limited h (off + length bs) (limit - length bs) w1 of
                        (Inl e, w2) \<Rightarrow> (Inl e, w2)
                      | (Inr rest, w2) \<Rightarrow> (Inr (bs @ rest), w2))))"
  by pat_completeness auto
termination
  by (relation "measure (\<lambda>(h, off, limit, w). limit)") auto

declare read_limited.simps [simp del]

text \<open>\<open>file.Write\<close>: all the bytes, or an error after a part of them.\<close>

definition append_data :: "nat \<Rightarrow> string \<Rightarrow> fs \<Rightarrow> fs" where
  "append_data h bs f =
     (case inodes f h of
        None \<Rightarrow> f
      | Some nd \<Rightarrow> f\<lparr>inodes := (inodes f)(h \<mapsto> nd\<lparr>i_data := i_data nd @ bs,
                       i_mtime := Suc (i_mtime nd), i_synced := False\<rparr>)\<rparr>)"

definition Write_string :: "nat \<Rightarrow> string \<Rightarrow> nat io" where
  "Write_string h bs w =
     (case tick w of (ev, w1) \<Rightarrow>
        (case ev_fault ev of
           Some t \<Rightarrow> (Inl (OsError OtherKind t),
                       w1\<lparr>w_fs := append_data h (take (ev_chunk ev) bs) (w_fs w1)\<rparr>)
         | None \<Rightarrow> (Inr (length bs), w1\<lparr>w_fs := append_data h bs (w_fs w1)\<rparr>)))"

definition update_inode :: "nat \<Rightarrow> (inode \<Rightarrow> inode) \<Rightarrow> fs \<Rightarrow> fs" where
  "update_inode h g f =
     (case inodes f h of None \<Rightarrow> f | Some nd \<Rightarrow> f\<lparr>inodes := (inodes f)(h \<mapsto> g nd)\<rparr>)"

definition Sync :: "nat \<Rightarrow> unit io" where
  "Sync h = syscall (\<lambda>f. (Inr (), update_inode h (\<lambda>nd. nd\<lparr>i_synced := True\<rparr>) f))"

definition Chmod :: "nat \<Rightarrow> nat \<Rightarrow> unit io" where
  "Chmod h mode = syscall (\<lambda>f. (Inr (), update_inode h (\<lambda>nd. nd\<lparr>i_mode := mode, i_synced := False\<rparr>) f))"

text \<open>\<open>root.OpenFile(name, O_WRONLY|O_CREATE|O_EXCL, mode)\<close>: makes a new, empty file.\<close>

definition new_inode :: "nat \<Rightarrow> inode" where
  "new_inode mode = \<lparr>i_kind = Regular, i_mode = mode, i_data = [], i_mtime = 0, i_synced = False,
     i_link = None\<rparr>"

definition add_entry :: "dirid \<Rightarrow> string \<Rightarrow> nat \<Rightarrow> fs \<Rightarrow> fs" where
  "add_entry d name i f = f\<lparr>dirs := (dirs f)(d := dirs f d @ [(name, i)])\<rparr>"

definition remove_entry :: "dirid \<Rightarrow> string \<Rightarrow> fs \<Rightarrow> fs" where
  "remove_entry d name f = f\<lparr>dirs := (dirs f)(d := filter (\<lambda>p. fst p \<noteq> name) (dirs f d))\<rparr>"

definition OpenExcl :: "dirid \<Rightarrow> string \<Rightarrow> nat \<Rightarrow> nat io" where
  "OpenExcl d name mode = with_fd (syscall (\<lambda>f.
     if map_of (dirs f d) name \<noteq> None then (Inl eexist, f)
     else (Inr (next_ino f),
           add_entry d name (next_ino f)
             (f\<lparr>inodes := (inodes f)(next_ino f \<mapsto> new_inode mode), next_ino := Suc (next_ino f)\<rparr>))))"

definition Link :: "dirid \<Rightarrow> string \<Rightarrow> string \<Rightarrow> unit io" where
  "Link d old new = syscall (\<lambda>f.
     case map_of (dirs f d) old of
       None \<Rightarrow> (Inl enoent, f)
     | Some i \<Rightarrow>
         if map_of (dirs f d) new \<noteq> None then (Inl eexist, f)
         else (Inr (), add_entry d new i f))"

text \<open>\<open>root.Rename\<close> in one directory replaces the destination; it refuses a directory, and does
  nothing when both names are links to one file.\<close>

definition Rename :: "dirid \<Rightarrow> string \<Rightarrow> string \<Rightarrow> unit io" where
  "Rename d old new = syscall (\<lambda>f.
     case map_of (dirs f d) old of
       None \<Rightarrow> (Inl enoent, f)
     | Some i \<Rightarrow>
         if map_of (dirs f d) new = Some i then (Inr (), f)
         else if (case lookup f d new of Some (j, nd) \<Rightarrow> i_kind nd = Directory | None \<Rightarrow> False)
         then (Inl (eother ''is a directory''), f)
         else (Inr (), add_entry d new i (remove_entry d new (remove_entry d old f))))"

definition Remove :: "dirid \<Rightarrow> string \<Rightarrow> unit io" where
  "Remove d name = syscall (\<lambda>f.
     if map_of (dirs f d) name = None then (Inl enoent, f)
     else (Inr (), remove_entry d name f))"

text \<open>\<open>root.Open(".")\<close>, \<open>directory.ReadDir(-1)\<close>, \<open>directory.Sync()\<close>, \<open>directory.Close()\<close>.\<close>

definition OpenDir :: "dirid \<Rightarrow> unit io" where
  "OpenDir d = with_fd (syscall (\<lambda>f. (Inr (), f)))"

definition ReadDir :: "dirid \<Rightarrow> string list io" where
  "ReadDir d = syscall (\<lambda>f. (Inr (map fst (dirs f d)), f))"

definition SyncDir :: "dirid \<Rightarrow> unit io" where
  "SyncDir d = syscall (\<lambda>f. (Inr (), f))"

definition CloseDir :: "dirid \<Rightarrow> unit io" where
  "CloseDir d = Close 0"

subsection \<open>Random numbers and the clock\<close>

definition rand_Uint64 :: "(64 word) io" where
  "rand_Uint64 w = (Inr (w_rand w (w_rand_pos w)), w\<lparr>w_rand_pos := Suc (w_rand_pos w)\<rparr>)"

definition time_Now :: "utc_time io" where
  "time_Now w = (Inr (w_clock w (w_clock_pos w)), w\<lparr>w_clock_pos := Suc (w_clock_pos w)\<rparr>)"

end
