(* ===== verification/Alert_Store.thy ===== *)
theory Alert_Store
  imports Alert_Target Alert_Message File_System
begin

text \<open>
  The package \<open>internal/alertstore\<close>, file \<open>store.go\<close>: a store holds two open directories
  (\<open>None\<close> once closed) and reads, creates and rewrites alert files.  Each operation is one
  function, with every system call, check, early return and deferred clean-up of the code in the
  code's order.  The mutex of the store makes its own operations exclusive, so one operation runs
  at a time; everything else that happens to the directories is the interference of the world's
  script (File_System).
\<close>

definition MaxLegacyBytes :: nat where
  "MaxLegacyBytes = 64 * 1024"

text \<open>\<open>type Kind uint8\<close>; the last constructor stands for the values that have no name.\<close>

datatype Kind = KindManaged | KindLegacy | KindOversized | KindOther nat

record Entry =
  entry_Target :: target
  entry_Kind :: Kind
  entry_Message :: message
  entry_LegacyHTML :: string
  entry_Size :: nat

text \<open>The value \<open>Entry{Target: t, Kind: k, Size: n}\<close>, whose other fields are empty.\<close>

definition make_entry :: "target \<Rightarrow> Kind \<Rightarrow> nat \<Rightarrow> Entry" where
  "make_entry t k n = \<lparr>entry_Target = t, entry_Kind = k, entry_Message = \<lparr>message_value = []\<rparr>,
     entry_LegacyHTML = [], entry_Size = n\<rparr>"

record store =
  alertRoot :: "dirid option"
  backupRoot :: "dirid option"

subsection \<open>Temporary names\<close>

text \<open>\<open>fillRandom\<close>: the bytes of \<open>rand.Uint64\<close>, little-endian, eight at a time.\<close>

definition word_bytes :: "64 word \<Rightarrow> string" where
  "word_bytes x = map (\<lambda>k. char_of (unat (drop_bit (8 * k) x) mod 256)) [0..<8]"

fun fillRandom :: "nat \<Rightarrow> string io" where
  "fillRandom n =
     (if n = 0 then return_io []
      else bind_io rand_Uint64 (\<lambda>x.
           bind_io (fillRandom (n - 8)) (\<lambda>rest. return_io (take n (word_bytes x) @ rest))))"

declare fillRandom.simps [simp del]

definition hex_EncodeToString :: "string \<Rightarrow> string" where
  "hex_EncodeToString bs = concat (map (\<lambda>c. hex_pad 2 (byte c)) bs)"

text \<open>The loop \<open>for range 10\<close> of \<open>createTemporaryAlert\<close>, with the attempts left.\<close>

fun temporary_alert :: "nat \<Rightarrow> dirid \<Rightarrow> (nat \<times> string) io" where
  "temporary_alert 0 root =
     fail_io (new_error ''could not allocate a unique temporary alert file'')"
| "temporary_alert (Suc k) root =
     bind_io (fillRandom 16) (\<lambda>randomBytes.
     let name = ''.aamm-ng-'' @ hex_EncodeToString randomBytes @ ''.tmp'' in
     bind_io (try_io (OpenExcl root name 384)) (\<lambda>r.
     case r of
       Inr file \<Rightarrow> return_io (file, name)
     | Inl err \<Rightarrow> if errors_is err Os_ErrExist then temporary_alert k root else fail_io err))"

definition createTemporaryAlert :: "dirid \<Rightarrow> (nat \<times> string) io" where
  "createTemporaryAlert root = temporary_alert 10 root"

definition syncDirectory :: "dirid \<Rightarrow> unit io" where
  "syncDirectory root =
     bind_io (OpenDir root) (\<lambda>_.
     bind_io (try_io (SyncDir root)) (\<lambda>syncErr.
     bind_io (try_io (CloseDir root)) (\<lambda>closeErr.
     case errors_Join [case syncErr of Inl e \<Rightarrow> Some e | Inr _ \<Rightarrow> None,
                       case closeErr of Inl e \<Rightarrow> Some e | Inr _ \<Rightarrow> None] of
       None \<Rightarrow> return_io ()
     | Some e \<Rightarrow> fail_io e)))"

subsection \<open>Reading\<close>

abbreviation with_target :: "string \<Rightarrow> target \<Rightarrow> goerror \<Rightarrow> goerror" where
  "with_target what t e \<equiv> wrapf (what @ Quote (target_String t)) e"

text \<open>The part of \<open>readEntry\<close> after the descriptor is open.\<close>

definition read_open_entry :: "target \<Rightarrow> file_info \<Rightarrow> nat \<Rightarrow> Entry io" where
  "read_open_entry target info file =
     bind_io (map_error (with_target ''inspect open alert '' target) (Stat file)) (\<lambda>openedInfo.
     if fi_kind openedInfo \<noteq> Regular \<or> \<not> SameFile info openedInfo
     then fail_io (sentinelf alertstore_ErrUnsafeFile (Filename target))
     else if fi_size openedInfo > MaxLegacyBytes
     then return_io (make_entry target KindOversized (fi_size openedInfo))
     else
     bind_io (map_error (with_target ''read alert '' target)
       (read_limited file 0 (MaxLegacyBytes + 1))) (\<lambda>data.
     if length data > MaxLegacyBytes
     then bind_io (try_io (Stat file)) (\<lambda>current.
          return_io (make_entry target KindOversized
            (case current of
               Inr currentInfo \<Rightarrow>
                 if fi_size currentInfo > length data then fi_size currentInfo else length data
             | Inl _ \<Rightarrow> length data)))
     else
     case ParseManagedHTML data of
       Some message \<Rightarrow>
         return_io ((make_entry target KindManaged (length data))\<lparr>entry_Message := message\<rparr>)
     | None \<Rightarrow>
         return_io ((make_entry target KindLegacy (length data))\<lparr>entry_LegacyHTML := data\<rparr>)))"

definition readEntry :: "dirid \<Rightarrow> target \<Rightarrow> Entry io" where
  "readEntry root target =
     (let name = Filename target in
      bind_io (map_error (with_target ''inspect alert '' target) (Lstat root name)) (\<lambda>info.
      if fi_kind info = Symlink \<or> fi_kind info \<noteq> Regular
      then fail_io (sentinelf alertstore_ErrUnsafeFile name)
      else
      bind_io (map_error (with_target ''open alert '' target) (Open root name)) (\<lambda>file.
      deferred (Close file) (read_open_entry target info file))))"

definition Store_Read :: "store \<Rightarrow> target \<Rightarrow> Entry io" where
  "Store_Read s target =
     (if target_String target = [] \<or> Filename target = []
      then fail_io (Sentinel alertstore_ErrInvalidTarget)
      else case alertRoot s of
        None \<Rightarrow> fail_io (Sentinel alertstore_ErrClosed)
      | Some root \<Rightarrow> readEntry root target)"

definition ensureManagedWritable :: "dirid \<Rightarrow> target \<Rightarrow> unit io" where
  "ensureManagedWritable root target =
     bind_io (try_io (readEntry root target)) (\<lambda>r.
     case r of
       Inl err \<Rightarrow> if errors_is err Os_ErrNotExist then return_io () else fail_io err
     | Inr entry \<Rightarrow>
         (case entry_Kind entry of
            KindManaged \<Rightarrow> return_io ()
          | KindLegacy \<Rightarrow> fail_io (sentinelf alertstore_ErrLegacyConflict (target_String target))
          | KindOversized \<Rightarrow> fail_io (sentinelf alertstore_ErrOversizedConflict (target_String target))
          | KindOther _ \<Rightarrow>
              fail_io (new_error (''unsupported alert kind for '' @ Quote (target_String target)))))"

subsection \<open>Writing a temporary file\<close>

text \<open>
  The common part of \<open>createManagedExclusive\<close> and \<open>writeManagedChecked\<close>: write the rendered
  message, sync, set the mode, sync.  The flag \<open>closed\<close> is false up to here, so a failure closes
  the file and removes it.
\<close>

definition write_temporary :: "target \<Rightarrow> message \<Rightarrow> nat \<Rightarrow> unit io" where
  "write_temporary target message file =
     (let rendered = EscapedHTML message in
      bind_io (map_error (with_target ''write temporary alert '' target) (Write_string file rendered))
        (\<lambda>written.
      if written \<noteq> length rendered
      then fail_io (with_target ''write temporary alert '' target (new_error ''short write''))
      else
      bind_io (map_error (with_target ''sync temporary alert '' target) (Sync file)) (\<lambda>_.
      bind_io (map_error (with_target ''set alert permissions '' target) (Chmod file 420)) (\<lambda>_.
      map_error (with_target ''sync alert permissions '' target) (Sync file)))))"

definition discard_open :: "dirid \<Rightarrow> nat \<Rightarrow> string \<Rightarrow> unit io" where
  "discard_open root file temporaryName =
     bind_io (try_io (Close file)) (\<lambda>_. Remove root temporaryName)"

definition createManagedExclusive :: "dirid \<Rightarrow> target \<Rightarrow> message \<Rightarrow> unit io" where
  "createManagedExclusive root target message =
     bind_io (map_error (with_target ''create temporary alert '' target) (createTemporaryAlert root))
       (\<lambda>(file, temporaryName).
     bind_io (on_error (discard_open root file temporaryName) (write_temporary target message file))
       (\<lambda>_.
     bind_io (on_error (Remove root temporaryName)
       (bind_io (map_error (with_target ''close temporary alert '' target) (Close file)) (\<lambda>_.
        bind_io (map_error
            (\<lambda>err. if errors_is err Os_ErrExist
                    then sentinelf alertstore_ErrAlreadyExists (target_String target)
                    else with_target ''publish new alert '' target err)
            (Link root temporaryName (Filename target))) (\<lambda>_.
        map_error (with_target ''remove temporary alert after publishing '' target)
          (Remove root temporaryName))))) (\<lambda>_.
     map_error (with_target ''sync alert directory after creating '' target) (syncDirectory root))))"

definition Store_Create :: "store \<Rightarrow> target \<Rightarrow> message \<Rightarrow> unit io" where
  "Store_Create s target message =
     (if target_String target = [] \<or> Filename target = []
      then fail_io (Sentinel alertstore_ErrInvalidTarget)
      else if message_String message = [] then fail_io (Sentinel alertstore_ErrInvalidMessage)
      else case alertRoot s of
        None \<Rightarrow> fail_io (Sentinel alertstore_ErrClosed)
      | Some root \<Rightarrow> createManagedExclusive root target message)"

definition writeManagedChecked :: "dirid \<Rightarrow> target \<Rightarrow> message \<Rightarrow> unit io \<Rightarrow> unit io" where
  "writeManagedChecked root target message check =
     bind_io (map_error (with_target ''create temporary alert '' target) (createTemporaryAlert root))
       (\<lambda>(file, temporaryName).
     bind_io (on_error (discard_open root file temporaryName) (write_temporary target message file))
       (\<lambda>_.
     bind_io (on_error (Remove root temporaryName)
       (bind_io (map_error (with_target ''close temporary alert '' target) (Close file)) (\<lambda>_.
        bind_io check (\<lambda>_.
        map_error (with_target ''publish alert '' target)
          (Rename root temporaryName (Filename target)))))) (\<lambda>_.
     map_error (with_target ''sync alert directory after writing '' target) (syncDirectory root))))"

definition writeManaged :: "dirid \<Rightarrow> target \<Rightarrow> message \<Rightarrow> unit io" where
  "writeManaged root target message =
     writeManagedChecked root target message (ensureManagedWritable root target)"

definition Store_Write :: "store \<Rightarrow> target \<Rightarrow> message \<Rightarrow> unit io" where
  "Store_Write s target message =
     (if target_String target = [] \<or> Filename target = []
      then fail_io (Sentinel alertstore_ErrInvalidTarget)
      else if message_String message = [] then fail_io (Sentinel alertstore_ErrInvalidMessage)
      else case alertRoot s of
        None \<Rightarrow> fail_io (Sentinel alertstore_ErrClosed)
      | Some root \<Rightarrow>
          bind_io (ensureManagedWritable root target) (\<lambda>_. writeManaged root target message))"

end
