(* ===== verification/Store_Backup.thy ===== *)
theory Store_Backup
  imports Alert_Store
begin

text \<open>
  The package \<open>internal/alertstore\<close>, files \<open>conversion.go\<close> and \<open>delete.go\<close>: before an alert is
  converted or deleted, its exact bytes are copied to the backup directory under a new name, the
  copy is synced and published, old backups are pruned, and only then, if the alert is still the
  file that was copied, is it replaced or removed.
\<close>

definition maxBackupFiles :: nat where
  "maxBackupFiles = 16"

record sourceSnapshot =
  snapshot_info :: file_info
  snapshot_content :: string

text \<open>\<open>ConversionResult\<close> and \<open>DeleteResult\<close>.\<close>

record ConversionResult =
  conversion_BackupName :: string

record DeleteResult =
  delete_BackupName :: string

subsection \<open>The captured copy\<close>

record boundedCapture =
  capture_limit :: nat
  capture_data :: string

definition capture_Write :: "boundedCapture \<Rightarrow> string \<Rightarrow> boundedCapture" where
  "capture_Write capture value =
     (let remaining = capture_limit capture - length (capture_data capture)
      in if remaining > 0
         then capture\<lparr>capture_data := capture_data capture @ take (min remaining (length value)) value\<rparr>
         else capture)"

text \<open>
  \<open>io.Copy\<close> from the limited source to the backup file and the capture: \<open>io.Copy\<close> reads at most
  32 kB at a time, and the writer passes each piece to the file first and then to the capture.
  The result is the number of bytes copied and the capture.
\<close>

definition copy_buffer :: nat where
  "copy_buffer = 32768"

function copy_backup ::
  "nat \<Rightarrow> nat \<Rightarrow> nat \<Rightarrow> nat \<Rightarrow> boundedCapture \<Rightarrow> (nat \<times> boundedCapture) io"
where
  "copy_backup source backup off remaining capture w =
     (if remaining = 0 then (Inr (off, capture), w)
      else (case Read_at source off (min copy_buffer remaining) w of
              (Inl e, w1) \<Rightarrow> (Inl e, w1)
            | (Inr bs, w1) \<Rightarrow>
                if bs = [] then (Inr (off, capture), w1)
                else (case Write_string backup bs w1 of
                        (Inl e, w2) \<Rightarrow> (Inl e, w2)
                      | (Inr n, w2) \<Rightarrow>
                          copy_backup source backup (off + length bs) (remaining - length bs)
                            (capture_Write capture bs) w2)))"
  by pat_completeness auto
termination
  by (relation "measure (\<lambda>(source, backup, off, remaining, capture, w). remaining)") auto

declare copy_backup.simps [simp del]

subsection \<open>Names of backups\<close>

definition randomHex :: "nat \<Rightarrow> string io" where
  "randomHex n = bind_io (fillRandom n) (\<lambda>value. return_io (hex_EncodeToString value))"

text \<open>The layout \<open>20060102T150405.000000000Z\<close>.\<close>

definition backup_timestamp :: "utc_time \<Rightarrow> string" where
  "backup_timestamp t =
     pad_nat 4 (t_year t) @ pad_nat 2 (t_month t) @ pad_nat 2 (t_day t) @ ''T'' @
     pad_nat 2 (t_hour t) @ pad_nat 2 (t_minute t) @ pad_nat 2 (t_second t) @ ''.'' @
     pad_nat 9 (t_nanosecond t) @ ''Z''"

definition newBackupName :: "target \<Rightarrow> string io" where
  "newBackupName target =
     bind_io (randomHex 8) (\<lambda>token.
     bind_io time_Now (\<lambda>now.
     return_io (backup_timestamp now @ ''-'' @ target_String target @ ''-'' @ token @ ''.txt'')))"

text \<open>The loop \<open>for range 10\<close> of \<open>createTemporaryBackup\<close>, with the attempts left.\<close>

fun temporary_backup :: "nat \<Rightarrow> dirid \<Rightarrow> (nat \<times> string) io" where
  "temporary_backup 0 root =
     fail_io (new_error ''could not allocate a unique temporary backup file'')"
| "temporary_backup (Suc k) root =
     bind_io (randomHex 16) (\<lambda>token.
     let name = ''.aamm-ng-backup-'' @ token @ ''.tmp'' in
     bind_io (try_io (OpenExcl root name 384)) (\<lambda>r.
     case r of
       Inr file \<Rightarrow> return_io (file, name)
     | Inl err \<Rightarrow> if errors_is err Os_ErrExist then temporary_backup k root else fail_io err))"

definition createTemporaryBackup :: "dirid \<Rightarrow> (nat \<times> string) io" where
  "createTemporaryBackup root = temporary_backup 10 root"

subsection \<open>Retention\<close>

text \<open>The loop over the directory entries: the names of the backups, or the first problem.\<close>

fun backup_names :: "dirid \<Rightarrow> string list \<Rightarrow> string list io" where
  "backup_names root [] = return_io []"
| "backup_names root (name # rest) =
     (if \<not> HasSuffix name ''.txt'' then backup_names root rest
      else
      bind_io (map_error (wrapf (''inspect backup '' @ Quote name @ '' during retention''))
        (Lstat root name)) (\<lambda>info.
      if fi_kind info = Symlink \<or> fi_kind info \<noteq> Regular
      then fail_io (new_error (''unsafe backup entry during retention: '' @ name))
      else bind_io (backup_names root rest) (\<lambda>names. return_io (name # names))))"

text \<open>The loop over the sorted names; the result is the \<open>removeCount\<close> left.\<close>

fun remove_expired :: "dirid \<Rightarrow> string \<Rightarrow> nat \<Rightarrow> string list \<Rightarrow> nat io" where
  "remove_expired root protectedName removeCount [] = return_io removeCount"
| "remove_expired root protectedName removeCount (name # names) =
     (if removeCount = 0 then return_io 0
      else if name = protectedName then remove_expired root protectedName removeCount names
      else
      bind_io (map_error (wrapf (''remove expired backup '' @ Quote name)) (Remove root name)) (\<lambda>_.
      remove_expired root protectedName (removeCount - 1) names))"

definition joined_results :: "(goerror + 'a) list \<Rightarrow> goerror option" where
  "joined_results rs = errors_Join (map (\<lambda>r. case r of Inl e \<Rightarrow> Some e | Inr _ \<Rightarrow> None) rs)"

text \<open>\<open>Open(".")\<close>, \<open>ReadDir(-1)\<close>, \<open>Close()\<close>, with the joined error of the last two.\<close>

definition read_directory :: "string \<Rightarrow> dirid \<Rightarrow> string list io" where
  "read_directory what root =
     bind_io (map_error (wrapf (''open '' @ what @ '' directory'')) (OpenDir root)) (\<lambda>_.
     bind_io (try_io (ReadDir root)) (\<lambda>entries.
     bind_io (try_io (CloseDir root)) (\<lambda>closeErr.
     case joined_results [map_sum id (\<lambda>_. ()) entries, closeErr] of
       Some err \<Rightarrow> fail_io (wrapf (''read '' @ what @ '' directory'') err)
     | None \<Rightarrow> return_io (case entries of Inr names \<Rightarrow> names | Inl _ \<Rightarrow> []))))"

definition pruneBackups :: "dirid \<Rightarrow> string \<Rightarrow> unit io" where
  "pruneBackups root protectedName =
     bind_io (read_directory ''backup'' root) (\<lambda>entries.
     bind_io (backup_names root entries) (\<lambda>names.
     if length names \<le> maxBackupFiles then return_io ()
     else
     bind_io (remove_expired root protectedName (length names - maxBackupFiles) (sort names))
       (\<lambda>removeCount.
     if removeCount \<noteq> 0
     then fail_io (new_error
       ''backup retention cannot satisfy limit without removing protected backup'')
     else
     map_error (wrapf ''sync backup directory after retention'') (syncDirectory root))))"

subsection \<open>Backing up an alert\<close>

abbreviation with_backup :: "string \<Rightarrow> target \<Rightarrow> string \<Rightarrow> goerror \<Rightarrow> goerror" where
  "with_backup what t rest e \<equiv> wrapf (what @ Quote (target_String t) @ rest) e"

text \<open>The part of \<open>backupAlert\<close> in which the backup file is open: copy, check, set the mode, sync.\<close>

definition fill_backup ::
  "target \<Rightarrow> bool \<Rightarrow> nat \<Rightarrow> file_info \<Rightarrow> nat \<Rightarrow> (file_info \<times> string) io"
where
  "fill_backup target rejectManaged source openedInfo backup =
     bind_io (map_error (with_backup ''copy backup for alert '' target [])
       (copy_backup source backup 0 (MaxLegacyBytes + 1)
          \<lparr>capture_limit = MaxLegacyBytes + 1, capture_data = []\<rparr>)) (\<lambda>(copied, capture).
     if copied > MaxLegacyBytes
     then fail_io (sentinelf alertstore_ErrOversizedConflict (target_String target))
     else
     bind_io (map_error (with_backup ''reinspect alert '' target '' after backup'') (Stat source))
       (\<lambda>sourceAfter.
     if \<not> SameFile openedInfo sourceAfter \<or> fi_size openedInfo \<noteq> copied \<or>
        fi_size sourceAfter \<noteq> copied \<or> fi_mtime openedInfo \<noteq> fi_mtime sourceAfter
     then fail_io (sentinelf alertstore_ErrSourceChanged (Filename target))
     else if rejectManaged \<and> ParseManagedHTML (capture_data capture) \<noteq> None
     then fail_io (sentinelf alertstore_ErrManagedConflict (target_String target))
     else
     bind_io (map_error (with_backup ''set backup permissions for alert '' target []) (Chmod backup 384))
       (\<lambda>_.
     bind_io (map_error (with_backup ''sync backup for alert '' target []) (Sync backup)) (\<lambda>_.
     return_io (sourceAfter, capture_data capture)))))"

text \<open>The part in which it is closed but not published yet.\<close>

definition publish_backup :: "dirid \<Rightarrow> target \<Rightarrow> nat \<Rightarrow> string \<Rightarrow> string io" where
  "publish_backup backupDir target backup temporaryName =
     bind_io (map_error (with_backup ''close backup for alert '' target []) (Close backup)) (\<lambda>_.
     bind_io (map_error (with_backup ''name backup for alert '' target []) (newBackupName target))
       (\<lambda>backupName.
     bind_io (map_error (with_backup ''publish backup for alert '' target [])
       (Rename backupDir temporaryName backupName)) (\<lambda>_. return_io backupName)))"

text \<open>The part after the source has been opened.\<close>

definition backup_open ::
  "dirid \<Rightarrow> target \<Rightarrow> bool \<Rightarrow> file_info \<Rightarrow> nat \<Rightarrow> (sourceSnapshot \<times> string) io"
where
  "backup_open backupDir target rejectManaged info source =
     bind_io (map_error (with_backup ''inspect open alert '' target '' for conversion'') (Stat source))
       (\<lambda>openedInfo.
     if fi_kind openedInfo \<noteq> Regular \<or> \<not> SameFile info openedInfo
     then fail_io (sentinelf alertstore_ErrUnsafeFile (Filename target))
     else if fi_size openedInfo > MaxLegacyBytes
     then fail_io (sentinelf alertstore_ErrOversizedConflict (target_String target))
     else
     bind_io (map_error (with_backup ''create backup for alert '' target [])
       (createTemporaryBackup backupDir)) (\<lambda>(backup, temporaryName).
     bind_io (on_error (discard_open backupDir backup temporaryName)
       (fill_backup target rejectManaged source openedInfo backup)) (\<lambda>(sourceAfter, content).
     bind_io (on_error (Remove backupDir temporaryName)
       (publish_backup backupDir target backup temporaryName)) (\<lambda>backupName.
     bind_io (map_error (with_backup ''sync backup directory for alert '' target [])
       (syncDirectory backupDir)) (\<lambda>_.
     bind_io (map_error (wrapf (''prune backups after creating '' @ Quote backupName))
       (pruneBackups backupDir backupName)) (\<lambda>_.
     return_io (\<lparr>snapshot_info = sourceAfter, snapshot_content = content\<rparr>, backupName)))))))"

definition backupAlert ::
  "dirid \<Rightarrow> dirid \<Rightarrow> target \<Rightarrow> bool \<Rightarrow> (sourceSnapshot \<times> string) io"
where
  "backupAlert root backupDir target rejectManaged =
     (let name = Filename target in
      bind_io (map_error (with_backup ''inspect alert '' target '' for conversion'') (Lstat root name))
        (\<lambda>info.
      if fi_kind info = Symlink \<or> fi_kind info \<noteq> Regular
      then fail_io (sentinelf alertstore_ErrUnsafeFile name)
      else
      bind_io (map_error (with_backup ''open alert '' target '' for conversion'') (Open root name))
        (\<lambda>source.
      deferred (Close source) (backup_open backupDir target rejectManaged info source))))"

subsection \<open>Is the alert still the file that was copied?\<close>

text \<open>An error of the shape \<open>"%w: text: %v"\<close>: only \<open>ErrSourceChanged\<close> is wrapped.\<close>

definition source_changed :: "string \<Rightarrow> goerror \<Rightarrow> goerror" where
  "source_changed what err = sentinelf alertstore_ErrSourceChanged (what @ '': '' @ error_text err)"

text \<open>The part after the source has been opened; every path closes it.\<close>

definition verify_open :: "target \<Rightarrow> sourceSnapshot \<Rightarrow> nat \<Rightarrow> unit io" where
  "verify_open target snapshot source =
     (let name = Filename target;
          changed = sentinelf alertstore_ErrSourceChanged name;
          before = snapshot_info snapshot in
      bind_io (try_io (Stat source)) (\<lambda>opened.
      case opened of
        Inl err \<Rightarrow> bind_io (try_io (Close source)) (\<lambda>_.
                    fail_io (source_changed (''inspect open '' @ name) err))
      | Inr openedInfo \<Rightarrow>
          if fi_kind openedInfo \<noteq> Regular \<or> \<not> SameFile before openedInfo
          then bind_io (try_io (Close source)) (\<lambda>_. fail_io changed)
          else
          bind_io (try_io (read_limited source 0 (MaxLegacyBytes + 1))) (\<lambda>current.
          bind_io (try_io (Stat source)) (\<lambda>after.
          bind_io (try_io (Close source)) (\<lambda>closeErr.
          case joined_results [map_sum id (\<lambda>_. ()) current, map_sum id (\<lambda>_. ()) after, closeErr] of
            Some err \<Rightarrow> fail_io (source_changed (''verify '' @ name) err)
          | None \<Rightarrow>
              (case (current, after) of
                 (Inr data, Inr afterInfo) \<Rightarrow>
                   if \<not> SameFile before afterInfo \<or> length data \<noteq> fi_size before \<or>
                      fi_size afterInfo \<noteq> fi_size before \<or> fi_mtime afterInfo \<noteq> fi_mtime before
                   then fail_io changed
                   else if data \<noteq> snapshot_content snapshot then fail_io changed
                   else return_io ()
               | _ \<Rightarrow> return_io ()))))))"

definition verifySourceUnchanged :: "dirid \<Rightarrow> target \<Rightarrow> sourceSnapshot \<Rightarrow> unit io" where
  "verifySourceUnchanged root target snapshot =
     (let name = Filename target in
      bind_io (map_error (source_changed (''inspect '' @ name)) (Lstat root name)) (\<lambda>info.
      if fi_kind info = Symlink \<or> fi_kind info \<noteq> Regular \<or> \<not> SameFile (snapshot_info snapshot) info
      then fail_io (sentinelf alertstore_ErrSourceChanged name)
      else
      bind_io (map_error (source_changed (''open '' @ name)) (Open root name)) (\<lambda>source.
      verify_open target snapshot source)))"

subsection \<open>Conversion and deletion\<close>

definition Store_ConvertLegacy :: "store \<Rightarrow> target \<Rightarrow> message \<Rightarrow> ConversionResult io" where
  "Store_ConvertLegacy s target message =
     (if target_String target = [] \<or> Filename target = []
      then fail_io (Sentinel alertstore_ErrInvalidTarget)
      else if message_String message = [] then fail_io (Sentinel alertstore_ErrInvalidMessage)
      else case (alertRoot s, backupRoot s) of
        (Some root, Some backupDir) \<Rightarrow>
          bind_io (backupAlert root backupDir target True) (\<lambda>(snapshot, backupName).
          bind_io (map_error (with_backup ''convert alert '' target ('' after backup '' @ Quote backupName))
            (writeManagedChecked root target message (verifySourceUnchanged root target snapshot)))
            (\<lambda>_.
          return_io \<lparr>conversion_BackupName = backupName\<rparr>))
      | _ \<Rightarrow> fail_io (Sentinel alertstore_ErrClosed))"

definition Store_Delete :: "store \<Rightarrow> target \<Rightarrow> DeleteResult io" where
  "Store_Delete s target =
     (if target_String target = [] \<or> Filename target = []
      then fail_io (Sentinel alertstore_ErrInvalidTarget)
      else case (alertRoot s, backupRoot s) of
        (Some root, Some backupDir) \<Rightarrow>
          bind_io (backupAlert root backupDir target False) (\<lambda>(snapshot, backupName).
          let wrapped = with_backup ''delete alert '' target ('' after backup '' @ Quote backupName) in
          bind_io (map_error wrapped (verifySourceUnchanged root target snapshot)) (\<lambda>_.
          bind_io (map_error wrapped (Remove root (Filename target))) (\<lambda>_.
          bind_io (map_error (with_backup ''sync alert directory after deleting '' target
              (''; backup '' @ Quote backupName)) (syncDirectory root)) (\<lambda>_.
          return_io \<lparr>delete_BackupName = backupName\<rparr>))))
      | _ \<Rightarrow> fail_io (Sentinel alertstore_ErrClosed))"

end
