(* ===== verification/Store_List.thy ===== *)
theory Store_List
  imports Store_Backup "HOL-Library.Product_Lexorder"
begin

text \<open>
  The package \<open>internal/alertstore\<close>, file \<open>list.go\<close>: the listing of the alert directory.  Every
  name that ends in \<open>.txt\<close> is either an entry or an issue; both lists are sorted without regard to
  case.  \<open>slices.SortFunc\<close> with \<open>strings.Compare\<close> of keys is \<open>sort_key\<close> on byte-wise lexicographic
  keys: the names of a directory differ, and so do the keys of two entries.
\<close>

datatype IssueKind = IssueMalformedName | IssueUnsafeEntry | IssueInspectionFailed

record Issue =
  issue_Name :: string
  issue_Kind :: IssueKind
  issue_Err :: goerror

record Listing =
  listing_Entries :: "Entry list"
  listing_Issues :: "Issue list"

text \<open>The loop over the directory entries; it never fails.\<close>

fun list_entries :: "dirid \<Rightarrow> string list \<Rightarrow> Listing \<Rightarrow> Listing io" where
  "list_entries root [] listing = return_io listing"
| "list_entries root (name # rest) listing =
     (if \<not> HasSuffix name ''.txt'' then list_entries root rest listing
      else
        let targetName = TrimSuffix name ''.txt'';
            issue = (\<lambda>kind err. listing\<lparr>listing_Issues := listing_Issues listing @
               [\<lparr>issue_Name = name, issue_Kind = kind, issue_Err = err\<rparr>]\<rparr>)
        in case target_Parse targetName of
          Inl err \<Rightarrow> list_entries root rest
            (issue IssueMalformedName (wrapf (''invalid alert filename '' @ Quote name) err))
        | Inr target \<Rightarrow>
            if Filename target \<noteq> name
            then list_entries root rest (issue IssueMalformedName
              (new_error (''non-canonical alert filename '' @ Quote name @ ''; expected '' @
                 Quote (Filename target))))
            else bind_io (try_io (readEntry root target)) (\<lambda>r.
              case r of
                Inl err \<Rightarrow> list_entries root rest
                  (issue (if errors_is err alertstore_ErrUnsafeFile then IssueUnsafeEntry
                          else IssueInspectionFailed) err)
              | Inr entry \<Rightarrow> list_entries root rest
                  (listing\<lparr>listing_Entries := listing_Entries listing @ [entry]\<rparr>)))"

definition entry_key :: "Entry \<Rightarrow> string" where
  "entry_key e = ToLower (target_String (entry_Target e))"

definition issue_key :: "Issue \<Rightarrow> string \<times> string" where
  "issue_key i = (ToLower (issue_Name i), issue_Name i)"

definition Store_List :: "store \<Rightarrow> Listing io" where
  "Store_List s =
     (case alertRoot s of
        None \<Rightarrow> fail_io (Sentinel alertstore_ErrClosed)
      | Some root \<Rightarrow>
          bind_io (read_directory ''alert'' root) (\<lambda>directoryEntries.
          bind_io (list_entries root directoryEntries \<lparr>listing_Entries = [], listing_Issues = []\<rparr>)
            (\<lambda>listing.
          return_io \<lparr>listing_Entries = sort_key entry_key (listing_Entries listing),
                     listing_Issues = sort_key issue_key (listing_Issues listing)\<rparr>)))"

end
