(* ===== verification/Io_Logic.thy ===== *)
theory Io_Logic
  imports File_System
begin

text \<open>
  Reasoning about operations on the world.  \<open>triple P m Q R\<close> is a Hoare triple with a postcondition
  for a returned value and one for a returned error.  \<open>rg E S\<close> says that the file system satisfies
  \<open>S\<close> and that every interference still to come satisfies the rely condition \<open>E\<close>; a predicate that
  the rely keeps (\<open>stable E S\<close>) survives the other processes.  \<open>balanced\<close> operations give back every
  descriptor they take.  The equations in \<open>io_simps\<close> run an operation in a quiet world, where nobody
  interferes and nothing fails.
\<close>

subsection \<open>Hoare triples\<close>

definition triple ::
  "(world \<Rightarrow> bool) \<Rightarrow> 'a io \<Rightarrow> ('a \<Rightarrow> world \<Rightarrow> bool) \<Rightarrow> (goerror \<Rightarrow> world \<Rightarrow> bool) \<Rightarrow> bool"
where
  "triple P m Q R \<longleftrightarrow>
     (\<forall>w. P w \<longrightarrow> (case m w of (Inr x, w1) \<Rightarrow> Q x w1 | (Inl e, w1) \<Rightarrow> R e w1))"

lemma tripleI:
  assumes "\<And>w x w1. P w \<Longrightarrow> m w = (Inr x, w1) \<Longrightarrow> Q x w1"
    and "\<And>w e w1. P w \<Longrightarrow> m w = (Inl e, w1) \<Longrightarrow> R e w1"
  shows "triple P m Q R"
  using assms by (auto simp: triple_def split: prod.splits sum.splits)

lemma triple_Inr: "triple P m Q R \<Longrightarrow> P w \<Longrightarrow> m w = (Inr x, w1) \<Longrightarrow> Q x w1"
  by (auto simp: triple_def dest!: spec [of _ w])

lemma triple_Inl: "triple P m Q R \<Longrightarrow> P w \<Longrightarrow> m w = (Inl e, w1) \<Longrightarrow> R e w1"
  by (auto simp: triple_def dest!: spec [of _ w])

lemma triple_weaken:
  assumes "triple P m Q R" "\<And>w. P' w \<Longrightarrow> P w" "\<And>x w. Q x w \<Longrightarrow> Q' x w" "\<And>e w. R e w \<Longrightarrow> R' e w"
  shows "triple P' m Q' R'"
  using assms by (intro tripleI) (blast dest: triple_Inr triple_Inl)+

lemma triple_return [hoare]: "triple (Q x) (return_io x) Q R"
  by (simp add: triple_def return_io_def)

lemma triple_fail [hoare]: "triple (R e) (fail_io e) Q R"
  by (simp add: triple_def fail_io_def)

lemma triple_bind [hoare]:
  assumes "triple P m M R" "\<And>x. triple (M x) (f x) Q R"
  shows "triple P (bind_io m f) Q R"
  using assms by (fastforce simp: triple_def bind_io_def split: prod.splits sum.splits)

lemma triple_map_error [hoare]:
  assumes "triple P m Q (\<lambda>e. R (g e))"
  shows "triple P (map_error g m) Q R"
  using assms by (fastforce simp: triple_def map_error_def split: prod.splits sum.splits)

lemma triple_try [hoare]:
  assumes "triple P m (\<lambda>x. Q (Inr x)) (\<lambda>e. Q (Inl e))"
  shows "triple P (try_io m) Q R"
proof (rule tripleI)
  fix w r w1
  assume P: "P w" and run: "try_io m w = (Inr r, w1)"
  then have "m w = (r, w1)"
    by (auto simp: try_io_def split: prod.splits)
  with assms P show "Q r w1"
    by (cases r) (auto dest: triple_Inr triple_Inl)
qed (simp add: try_io_def split: prod.splits)

lemma triple_deferred [hoare]:
  assumes "triple P m Q' R'"
    and "\<And>x. triple (Q' x) c (\<lambda>_. Q x) (\<lambda>_. Q x)"
    and "\<And>e. triple (R' e) c (\<lambda>_. R e) (\<lambda>_. R e)"
  shows "triple P (deferred c m) Q R"
proof (rule tripleI)
  fix w x w1
  assume P: "P w" and run: "deferred c m w = (Inr x, w1)"
  then obtain w0 where m: "m w = (Inr x, w0)" and w1: "w1 = snd (c w0)"
    by (auto simp: deferred_def split: prod.splits)
  from assms(1) P m have "Q' x w0" by (rule triple_Inr)
  with assms(2) [of x] show "Q x w1"
    unfolding w1 by (cases "c w0"; cases "fst (c w0)") (auto dest: triple_Inr triple_Inl)
next
  fix w e w1
  assume P: "P w" and run: "deferred c m w = (Inl e, w1)"
  then obtain w0 where m: "m w = (Inl e, w0)" and w1: "w1 = snd (c w0)"
    by (auto simp: deferred_def split: prod.splits)
  from assms(1) P m have "R' e w0" by (rule triple_Inl)
  with assms(3) [of e] show "R e w1"
    unfolding w1 by (cases "c w0"; cases "fst (c w0)") (auto dest: triple_Inr triple_Inl)
qed

lemma triple_on_error [hoare]:
  assumes "triple P m Q R'" and "\<And>e. triple (R' e) c (\<lambda>_. R e) (\<lambda>_. R e)"
  shows "triple P (on_error c m) Q R"
proof (rule tripleI)
  fix w x w1
  assume P: "P w" and run: "on_error c m w = (Inr x, w1)"
  then have "m w = (Inr x, w1)"
    by (auto simp: on_error_def split: prod.splits sum.splits)
  with assms(1) P show "Q x w1" by (rule triple_Inr)
next
  fix w e w1
  assume P: "P w" and run: "on_error c m w = (Inl e, w1)"
  then obtain w0 where m: "m w = (Inl e, w0)" and w1: "w1 = snd (c w0)"
    by (auto simp: on_error_def split: prod.splits sum.splits)
  from assms(1) P m have "R' e w0" by (rule triple_Inl)
  with assms(2) [of e] show "R e w1"
    unfolding w1 by (cases "c w0"; cases "fst (c w0)") (auto dest: triple_Inr triple_Inl)
qed

lemma triple_if [hoare]:
  assumes "b \<Longrightarrow> triple P m Q R" "\<not> b \<Longrightarrow> triple P n Q R"
  shows "triple P (if b then m else n) Q R"
  using assms by simp

subsection \<open>Rely conditions\<close>

definition rg :: "((fs \<Rightarrow> fs) \<Rightarrow> bool) \<Rightarrow> (fs \<Rightarrow> bool) \<Rightarrow> world \<Rightarrow> bool" where
  "rg E S w \<longleftrightarrow> S (w_fs w) \<and> (\<forall>ev \<in> set (w_script w). E (ev_env ev))"

definition stable :: "((fs \<Rightarrow> fs) \<Rightarrow> bool) \<Rightarrow> (fs \<Rightarrow> bool) \<Rightarrow> bool" where
  "stable E S \<longleftrightarrow> (\<forall>g f. E g \<longrightarrow> S f \<longrightarrow> S (g f))"

lemma rg_tick: "stable E S \<Longrightarrow> rg E S w \<Longrightarrow> tick w = (ev, w1) \<Longrightarrow> rg E S w1"
  by (auto simp: rg_def stable_def tick_def split: list.splits)

lemma rg_mono: "rg E S w \<Longrightarrow> (\<And>f. S f \<Longrightarrow> T f) \<Longrightarrow> rg E T w"
  by (simp add: rg_def)

lemma rg_pure [simp]: "rg E (\<lambda>f. p \<and> S f) w \<longleftrightarrow> p \<and> rg E S w"
  by (auto simp: rg_def)

lemma stable_pure [simp]: "stable E S \<Longrightarrow> stable E (\<lambda>f. p \<and> S f)"
  by (simp add: stable_def)

lemma triple_pure:
  assumes "p \<Longrightarrow> triple (rg E S) m Q R"
  shows "triple (\<lambda>w. p \<and> rg E S w) m Q R"
  using assms by (auto simp: triple_def)

lemma rg_update:
  "rg E S (w\<lparr>w_fs := f\<rparr>) \<longleftrightarrow> S f \<and> (\<forall>ev \<in> set (w_script w). E (ev_env ev))"
  "rg E S (w\<lparr>w_fds := n\<rparr>) \<longleftrightarrow> rg E S w"
  "rg E S (w\<lparr>w_rand_pos := n\<rparr>) \<longleftrightarrow> rg E S w"
  "rg E S (w\<lparr>w_clock_pos := n\<rparr>) \<longleftrightarrow> rg E S w"
  by (simp_all add: rg_def)

lemma triple_syscall:
  assumes "stable E S"
    and "\<And>f x f'. S f \<Longrightarrow> g f = (Inr x, f') \<Longrightarrow> Q x f'"
    and "\<And>f e f'. S f \<Longrightarrow> g f = (Inl e, f') \<Longrightarrow> R e f'"
    and "\<And>f t. S f \<Longrightarrow> R (OsError OtherKind t) f"
  shows "triple (rg E S) (syscall g) (\<lambda>x. rg E (Q x)) (\<lambda>e. rg E (R e))"
proof (rule tripleI)
  fix w x w1
  assume P: "rg E S w" and run: "syscall g w = (Inr x, w1)"
  obtain ev w0 where t: "tick w = (ev, w0)" by fastforce
  then have "rg E S w0" using assms(1) P by (blast intro: rg_tick)
  with run t assms(2) show "rg E (Q x) w1"
    by (auto simp: syscall_def rg_def split: option.splits prod.splits)
next
  fix w e w1
  assume P: "rg E S w" and run: "syscall g w = (Inl e, w1)"
  obtain ev w0 where t: "tick w = (ev, w0)" by fastforce
  then have "rg E S w0" using assms(1) P by (blast intro: rg_tick)
  with run t assms(3,4) show "rg E (R e) w1"
    by (auto simp: syscall_def rg_def split: option.splits prod.splits)
qed

lemma triple_with_fd:
  assumes "triple (rg E S) m (\<lambda>x. rg E (Q x)) (\<lambda>e. rg E (R e))"
  shows "triple (rg E S) (with_fd m) (\<lambda>x. rg E (Q x)) (\<lambda>e. rg E (R e))"
  using assms by (auto simp: triple_def with_fd_def rg_update split: prod.splits sum.splits)

subsection \<open>Well-formed file systems and their entries\<close>

definition wf_fs :: "fs \<Rightarrow> bool" where
  "wf_fs f \<longleftrightarrow>
     (\<forall>d. distinct (map fst (dirs f d))) \<and>
     (\<forall>d n i. (n, i) \<in> set (dirs f d) \<longrightarrow> inodes f i \<noteq> None) \<and>
     (\<forall>i. inodes f i \<noteq> None \<longrightarrow> i < next_ino f)"

lemma wf_fs_lookup: "wf_fs f \<Longrightarrow> lookup f d n = None \<longleftrightarrow> map_of (dirs f d) n = None"
  by (fastforce simp: wf_fs_def lookup_def dest: map_of_SomeD split: option.splits)

lemma lookup_SomeD:
  "lookup f d n = Some (i, nd) \<Longrightarrow> map_of (dirs f d) n = Some i \<and> inodes f i = Some nd"
  by (auto simp: lookup_def split: option.splits)

lemma lookup_SomeI:
  "map_of (dirs f d) n = Some i \<Longrightarrow> inodes f i = Some nd \<Longrightarrow> lookup f d n = Some (i, nd)"
  by (simp add: lookup_def)

lemma wf_fs_fresh: "wf_fs f \<Longrightarrow> inodes f (next_ino f) = None"
  by (auto simp: wf_fs_def)

text \<open>An entry of a well-formed file system.\<close>

definition entry :: "dirid \<Rightarrow> string \<Rightarrow> nat \<Rightarrow> inode \<Rightarrow> fs \<Rightarrow> bool" where
  "entry d n i nd f \<longleftrightarrow> wf_fs f \<and> lookup f d n = Some (i, nd)"

lemma entry_wf [simp]: "entry d n i nd f \<Longrightarrow> wf_fs f"
  by (simp add: entry_def)

lemma wf_append_data [simp]: "wf_fs f \<Longrightarrow> wf_fs (append_data h bs f)"
  by (auto simp: wf_fs_def append_data_def split: option.splits)

lemma wf_update_inode [simp]: "wf_fs f \<Longrightarrow> wf_fs (update_inode h g f)"
  by (auto simp: wf_fs_def update_inode_def split: option.splits)

lemma wf_remove_entry [simp]: "wf_fs f \<Longrightarrow> wf_fs (remove_entry d n f)"
  by (auto simp: wf_fs_def remove_entry_def distinct_map_filter)

lemma wf_add_entry:
  "wf_fs f \<Longrightarrow> map_of (dirs f d) n = None \<Longrightarrow> inodes f i \<noteq> None \<Longrightarrow> wf_fs (add_entry d n i f)"
  by (auto simp: wf_fs_def add_entry_def map_of_eq_None_iff)

lemma wf_new_inode:
  "wf_fs f \<Longrightarrow> wf_fs (f\<lparr>inodes := (inodes f)(next_ino f \<mapsto> nd), next_ino := Suc (next_ino f)\<rparr>)"
  by (auto simp: wf_fs_def less_Suc_eq)

lemma map_of_filter_fst: "map_of (filter (\<lambda>p. fst p \<noteq> n) xs) m = (if m = n then None else map_of xs m)"
  by (induction xs) auto

lemma dirs_simps [simp]:
  "dirs (append_data h bs f) = dirs f"
  "dirs (update_inode h g f) = dirs f"
  "map_of (dirs (remove_entry d n f) d') m =
     (if d' = d \<and> m = n then None else map_of (dirs f d') m)"
  "map_of (dirs (add_entry d n i f) d') m =
     (case map_of (dirs f d') m of Some j \<Rightarrow> Some j | None \<Rightarrow> if d' = d \<and> m = n then Some i else None)"
  by (auto simp: append_data_def update_inode_def remove_entry_def add_entry_def map_of_filter_fst
      map_add_def split: option.splits)

lemma inodes_simps [simp]:
  "inodes (add_entry d n i f) = inodes f"
  "inodes (remove_entry d n f) = inodes f"
  "next_ino (add_entry d n i f) = next_ino f"
  "next_ino (remove_entry d n f) = next_ino f"
  by (simp_all add: add_entry_def remove_entry_def)

lemma inodes_update:
  "inodes (update_inode h g f) i = (if i = h then map_option g (inodes f h) else inodes f i)"
  "inodes (append_data h bs f) i =
     (if i = h then map_option (\<lambda>nd. nd\<lparr>i_data := i_data nd @ bs, i_mtime := Suc (i_mtime nd),
        i_synced := False\<rparr>) (inodes f h) else inodes f i)"
  by (auto simp: update_inode_def append_data_def split: option.splits)

text \<open>What the program's own updates leave alone.\<close>

lemma entry_append_data [simp]: "entry d n i nd f \<Longrightarrow> h \<noteq> i \<Longrightarrow> entry d n i nd (append_data h bs f)"
  by (auto simp: entry_def inodes_update dest!: lookup_SomeD intro: lookup_SomeI)

lemma entry_update_inode [simp]: "entry d n i nd f \<Longrightarrow> h \<noteq> i \<Longrightarrow> entry d n i nd (update_inode h g f)"
  by (auto simp: entry_def inodes_update dest!: lookup_SomeD intro: lookup_SomeI)

lemma entry_remove_entry [simp]:
  "entry d n i nd f \<Longrightarrow> d' \<noteq> d \<or> m \<noteq> n \<Longrightarrow> entry d n i nd (remove_entry d' m f)"
  by (auto simp: entry_def dest!: lookup_SomeD intro!: lookup_SomeI)

lemma entry_add_entry:
  "entry d n i nd f \<Longrightarrow> map_of (dirs f d') m = None \<Longrightarrow> inodes f j \<noteq> None \<Longrightarrow>
   entry d n i nd (add_entry d' m j f)"
  by (auto simp: entry_def wf_add_entry dest!: lookup_SomeD intro!: lookup_SomeI)

lemma entry_new:
  assumes "entry d n i nd f" "map_of (dirs f d') m = None"
  shows "entry d n i nd (add_entry d' m (next_ino f)
           (f\<lparr>inodes := (inodes f)(next_ino f \<mapsto> nd'), next_ino := Suc (next_ino f)\<rparr>))"
    and "next_ino f \<noteq> i"
proof -
  from assms(1) show "next_ino f \<noteq> i"
    using wf_fs_fresh [of f] by (auto simp: entry_def dest!: lookup_SomeD)
  with assms show "entry d n i nd (add_entry d' m (next_ino f)
           (f\<lparr>inodes := (inodes f)(next_ino f \<mapsto> nd'), next_ino := Suc (next_ino f)\<rparr>))"
    by (auto simp: entry_def wf_add_entry wf_new_inode dest!: lookup_SomeD intro!: lookup_SomeI)
qed

lemma entry_created:
  assumes "wf_fs f" "map_of (dirs f d) m = None"
  shows "entry d m (next_ino f) nd' (add_entry d m (next_ino f)
           (f\<lparr>inodes := (inodes f)(next_ino f \<mapsto> nd'), next_ino := Suc (next_ino f)\<rparr>))"
  using assms by (auto simp: entry_def wf_add_entry wf_new_inode intro!: lookup_SomeI)

end
