(* ===== verification/Frame_Rules.thy ===== *)
theory Frame_Rules
  imports Io_Logic
begin

text \<open>
  Rules for the system calls in the presence of other processes.  \<open>spares K g\<close> is the rely
  condition: the interference \<open>g\<close> keeps the file system well formed and leaves alone every existing
  entry whose name is protected by \<open>K\<close> (it may do whatever it likes to the rest, and may create new
  entries under any name).  \<open>holds K X\<close> says that the entries of \<open>X\<close> are present, protected, and
  exactly as listed, with every interference to come respecting \<open>K\<close>; each call has a rule that says
  which entries it changes, all the others being the frame \<open>X\<close>.
\<close>

type_synonym entries = "(dirid \<times> string \<times> nat \<times> inode) set"

definition has :: "entries \<Rightarrow> fs \<Rightarrow> bool" where
  "has X f \<longleftrightarrow> wf_fs f \<and> (\<forall>(d, n, i, nd) \<in> X. lookup f d n = Some (i, nd))"

definition spares :: "(dirid \<Rightarrow> string \<Rightarrow> bool) \<Rightarrow> (fs \<Rightarrow> fs) \<Rightarrow> bool" where
  "spares K g \<longleftrightarrow>
     (\<forall>f. wf_fs f \<longrightarrow> wf_fs (g f) \<and>
        (\<forall>d n i nd. K d n \<longrightarrow> lookup f d n = Some (i, nd) \<longrightarrow> lookup (g f) d n = Some (i, nd)))"

definition protected :: "(dirid \<Rightarrow> string \<Rightarrow> bool) \<Rightarrow> entries \<Rightarrow> bool" where
  "protected K X \<longleftrightarrow> (\<forall>(d, n, i, nd) \<in> X. K d n)"

definition holds :: "(dirid \<Rightarrow> string \<Rightarrow> bool) \<Rightarrow> entries \<Rightarrow> world \<Rightarrow> bool" where
  "holds K X w \<longleftrightarrow> protected K X \<and> rg (spares K) (has X) w"

text \<open>A name, and an inode, that no entry of the frame uses.\<close>

definition unnamed :: "dirid \<Rightarrow> string \<Rightarrow> entries \<Rightarrow> bool" where
  "unnamed d n X \<longleftrightarrow> (\<forall>i nd. (d, n, i, nd) \<notin> X)"

definition unlinked :: "nat \<Rightarrow> entries \<Rightarrow> bool" where
  "unlinked i X \<longleftrightarrow> (\<forall>d n nd. (d, n, i, nd) \<notin> X)"

lemma has_empty [simp]: "has {} f \<longleftrightarrow> wf_fs f"
  by (simp add: has_def)

lemma has_insert: "has (insert (d, n, i, nd) X) f \<longleftrightarrow> entry d n i nd f \<and> has X f"
  by (auto simp: has_def entry_def)

lemma hasD: "has X f \<Longrightarrow> (d, n, i, nd) \<in> X \<Longrightarrow> entry d n i nd f"
  by (auto simp: has_def entry_def)

lemma has_lookup: "has X f \<Longrightarrow> (d, n, i, nd) \<in> X \<Longrightarrow> lookup f d n = Some (i, nd)"
  by (auto simp: has_def)

lemma has_inode: "has X f \<Longrightarrow> (d, n, i, nd) \<in> X \<Longrightarrow> inodes f i = Some nd"
  by (auto dest!: has_lookup lookup_SomeD)

lemma has_wf [simp]: "has X f \<Longrightarrow> wf_fs f"
  by (simp add: has_def)

lemma has_mono: "has X f \<Longrightarrow> Y \<subseteq> X \<Longrightarrow> has Y f"
  by (auto simp: has_def)

lemma protected_insert [simp]: "protected K (insert (d, n, i, nd) X) \<longleftrightarrow> K d n \<and> protected K X"
  by (auto simp: protected_def)

lemma protected_empty [simp]: "protected K {}"
  by (simp add: protected_def)

lemma unnamed_empty [simp]: "unnamed d n {}"
  by (simp add: unnamed_def)

lemma unlinked_empty [simp]: "unlinked i {}"
  by (simp add: unlinked_def)

lemma unnamed_insert [simp]:
  "unnamed d n (insert (d', n', i, nd) X) \<longleftrightarrow> (d', n') \<noteq> (d, n) \<and> unnamed d n X"
  by (auto simp: unnamed_def)

lemma unlinked_insert [simp]: "unlinked j (insert (d, n, i, nd) X) \<longleftrightarrow> j \<noteq> i \<and> unlinked j X"
  by (auto simp: unlinked_def)

lemma stable_has: "protected K X \<Longrightarrow> stable (spares K) (has X)"
  by (fastforce simp: stable_def spares_def has_def protected_def)

lemma holds_mono: "holds K X w \<Longrightarrow> Y \<subseteq> X \<Longrightarrow> holds K Y w"
  by (auto simp: holds_def protected_def rg_def intro: has_mono)

lemma holds_remove [intro]: "holds K (insert x X) w \<Longrightarrow> holds K X w"
  by (erule holds_mono) blast

lemma holds_fs: "holds K X w \<Longrightarrow> has X (w_fs w)"
  by (simp add: holds_def rg_def)

lemma holds_updates [simp]:
  "holds K X (w\<lparr>w_fds := k\<rparr>) \<longleftrightarrow> holds K X w"
  "holds K X (w\<lparr>w_rand_pos := k\<rparr>) \<longleftrightarrow> holds K X w"
  "holds K X (w\<lparr>w_clock_pos := k\<rparr>) \<longleftrightarrow> holds K X w"
  by (simp_all add: holds_def rg_update)

lemma holds_tick: "holds K X w \<Longrightarrow> tick w = (ev, w1) \<Longrightarrow> holds K X w1"
  by (auto simp: holds_def intro: rg_tick stable_has)

lemma holds_set_fs:
  "holds K X w \<Longrightarrow> has Y f \<Longrightarrow> protected K Y \<Longrightarrow> holds K Y (w\<lparr>w_fs := f\<rparr>)"
  by (simp add: holds_def rg_def)

subsection \<open>More rules for triples\<close>

lemma triple_assume:
  assumes "p \<Longrightarrow> triple P m Q R"
  shows "triple (\<lambda>w. p \<and> P w) m Q R"
  using assms by (auto simp: triple_def)

lemma triple_ex:
  assumes "\<And>x. triple (P x) m Q R"
  shows "triple (\<lambda>w. \<exists>x. P x w) m Q R"
  using assms by (fastforce simp: triple_def)

lemma triple_consequence:
  assumes "triple P m Q R" "\<And>w. P' w \<Longrightarrow> P w" "\<And>x w. Q x w \<Longrightarrow> Q' x w" "\<And>e w. R e w \<Longrightarrow> R' e w"
  shows "triple P' m Q' R'"
  using assms by (rule triple_weaken)

lemma triple_use:
  "triple P m Q R \<Longrightarrow> P w \<Longrightarrow> case m w of (Inr x, w1) \<Rightarrow> Q x w1 | (Inl e, w1) \<Rightarrow> R e w1"
  by (simp add: triple_def)

lemma triple_drop: "triple P m Q R \<Longrightarrow> triple (\<lambda>w. p \<and> P w) m Q R"
  by (simp add: triple_def)

lemma triple_world_return: "(\<And>w. P w \<Longrightarrow> Q x w) \<Longrightarrow> triple P (return_io x) Q R"
  by (simp add: triple_def return_io_def)

lemma triple_world_fail: "(\<And>w. P w \<Longrightarrow> R e w) \<Longrightarrow> triple P (fail_io e) Q R"
  by (simp add: triple_def fail_io_def)

lemma triple_Let: "triple P (f x) Q R \<Longrightarrow> triple P (let y = x in f y) Q R"
  by simp

text \<open>The result satisfies \<open>V\<close>, and the entries are now \<open>Y\<close>; both may depend on the result.\<close>

definition post :: "('a \<Rightarrow> bool) \<Rightarrow> (dirid \<Rightarrow> string \<Rightarrow> bool) \<Rightarrow> ('a \<Rightarrow> entries) \<Rightarrow> 'a \<Rightarrow> world \<Rightarrow> bool" where
  "post V K Y x w \<longleftrightarrow> V x \<and> holds K (Y x) w"

lemma postI [intro!]: "V x \<Longrightarrow> holds K (Y x) w \<Longrightarrow> post V K Y x w"
  by (simp add: post_def)

lemma post_holds: "holds K X w \<Longrightarrow> post (\<lambda>_. True) K (\<lambda>_. X) e w"
  by (simp add: post_def)

lemma triple_post:
  "(V x \<Longrightarrow> triple (holds K (Y x)) m Q R) \<Longrightarrow> triple (post V K Y x) m Q R"
  by (auto simp: triple_def post_def)

lemma triple_seq:
  assumes "triple P m (post V K Y) R" "\<And>x. V x \<Longrightarrow> triple (holds K (Y x)) (f x) Q R"
  shows "triple P (bind_io m f) Q R"
  using assms(1) by (rule triple_bind) (rule triple_post, rule assms(2))

lemma triple_try_seq:
  assumes "triple P m (post V K Y) (post U K Z)"
    and "\<And>x. V x \<Longrightarrow> triple (holds K (Y x)) (f (Inr x)) Q R"
    and "\<And>e. U e \<Longrightarrow> triple (holds K (Z e)) (f (Inl e)) Q R"
  shows "triple P (bind_io (try_io m) f) Q R"
proof (rule triple_bind)
  show "triple P (try_io m)
      (\<lambda>r w. case r of Inr x \<Rightarrow> post V K Y x w | Inl e \<Rightarrow> post U K Z e w) R"
    using assms(1) by (intro triple_try) simp
next
  fix r
  show "triple (\<lambda>w. case r of Inr x \<Rightarrow> post V K Y x w | Inl e \<Rightarrow> post U K Z e w) (f r) Q R"
    by (cases r) (auto intro!: triple_post assms(2,3))
qed

subsection \<open>System calls that change nothing\<close>

text \<open>A call that leaves the frame alone and whose result is described by \<open>V\<close>.\<close>

lemma triple_observe:
  assumes "\<And>f. has X f \<Longrightarrow> snd (g f) = f"
    and "\<And>f x. has X f \<Longrightarrow> fst (g f) = Inr x \<Longrightarrow> V x"
    and "\<And>t w. holds K X w \<Longrightarrow> R (OsError OtherKind t) w"
    and "\<And>f e w. has X f \<Longrightarrow> fst (g f) = Inl e \<Longrightarrow> holds K X w \<Longrightarrow> R e w"
  shows "triple (holds K X) (syscall g) (post V K (\<lambda>_. X)) R"
  unfolding post_def
proof (rule tripleI)
  fix w x w1
  assume P: "holds K X w" and run: "syscall g w = (Inr x, w1)"
  obtain ev w0 where t: "tick w = (ev, w0)" by fastforce
  with P have h: "holds K X w0" by (rule holds_tick)
  note hf = holds_fs [OF h]
  from run t obtain "fst (g (w_fs w0)) = Inr x" "w1 = w0\<lparr>w_fs := snd (g (w_fs w0))\<rparr>"
    by (auto simp: syscall_def split: option.splits prod.splits)
  with assms(1,2) [OF hf] h show "V x \<and> holds K X w1" by simp
next
  fix w e w1
  assume P: "holds K X w" and run: "syscall g w = (Inl e, w1)"
  obtain ev w0 where t: "tick w = (ev, w0)" by fastforce
  with P have h: "holds K X w0" by (rule holds_tick)
  note hf = holds_fs [OF h]
  have "w0\<lparr>w_fs := snd (g (w_fs w0))\<rparr> = w0" using assms(1) [OF hf] by simp
  with run t have "w1 = w0 \<and> ((\<exists>t. e = OsError OtherKind t) \<or> fst (g (w_fs w0)) = Inl e)"
    by (auto simp: syscall_def split: option.splits prod.splits)
  with assms(3,4) h hf show "R e w1" by blast
qed

lemma has_absent: "has X f \<Longrightarrow> lookup f d n = None \<Longrightarrow> unnamed d n X"
  by (auto simp: unnamed_def dest: has_lookup)

lemma triple_with_fd_post:
  assumes "triple P m (post V K Y) R"
  shows "triple P (with_fd m) (post V K Y) R"
  using assms by (auto simp: triple_def with_fd_def post_def split: prod.splits sum.splits)

lemma triple_Lstat:
  assumes "\<And>e w. holds K X w \<Longrightarrow> (errors_is e Os_ErrNotExist \<longrightarrow> unnamed d n X) \<Longrightarrow> R e w"
  shows "triple (holds K X) (Lstat d n)
    (post (\<lambda>x. \<forall>i nd. (d, n, i, nd) \<in> X \<longrightarrow> x = info_of i nd) K (\<lambda>_. X)) R"
  unfolding Lstat_def
  by (intro triple_observe)
    (auto intro!: assms dest: has_lookup has_absent simp: enoent_def split: option.splits)

lemma triple_Open:
  assumes "\<And>e w. holds K X w \<Longrightarrow>
      (errors_is e Os_ErrNotExist \<longrightarrow> (\<forall>i nd. i_kind nd \<noteq> Symlink \<longrightarrow> (d, n, i, nd) \<notin> X)) \<Longrightarrow> R e w"
  shows "triple (holds K X) (Open d n)
    (post (\<lambda>x. \<forall>i nd. (d, n, i, nd) \<in> X \<longrightarrow> i_kind nd \<noteq> Symlink \<longrightarrow> x = i) K (\<lambda>_. X)) R"
  unfolding Open_def
  by (intro triple_with_fd_post triple_observe)
    (auto intro!: assms dest: has_lookup simp: enoent_def eother_def split: option.splits if_splits)

lemma triple_Stat:
  assumes "\<And>e w. holds K X w \<Longrightarrow> \<not> errors_is e Os_ErrNotExist \<Longrightarrow> R e w"
  shows "triple (holds K X) (Stat h)
    (post (\<lambda>x. \<forall>d n nd. (d, n, h, nd) \<in> X \<longrightarrow> x = info_of h nd) K (\<lambda>_. X)) R"
  unfolding Stat_def using assms
  by (intro triple_observe) (auto dest: has_inode simp: eother_def split: option.splits)

lemma triple_nothing:
  assumes "\<And>e w. holds K X w \<Longrightarrow> R e w"
  shows "triple (holds K X) (syscall (\<lambda>f. (Inr x, f))) (post (\<lambda>_. True) K (\<lambda>_. X)) R"
  using triple_observe [where V = "\<lambda>_. True", OF _ _ assms, of X "\<lambda>f. (Inr x, f)"] assms by simp

lemma triple_Close:
  assumes "\<And>e w. holds K X w \<Longrightarrow> R e w"
  shows "triple (holds K X) (Close h) (post (\<lambda>_. True) K (\<lambda>_. X)) R"
proof (rule tripleI)
  fix w x w1
  assume "holds K X w" "Close h w = (Inr x, w1)"
  then show "post (\<lambda>_. True) K (\<lambda>_. X) x w1"
    using triple_Inr [OF triple_nothing [of K X "\<lambda>_. holds K X"], of w "()"]
    by (auto simp: Close_def post_def split: prod.splits)
next
  fix w e w1
  assume "holds K X w" "Close h w = (Inl e, w1)"
  then show "R e w1"
    using triple_Inl [OF triple_nothing [of K X "\<lambda>_. holds K X"], of w "()"] assms
    by (auto simp: Close_def split: prod.splits)
qed

lemma triple_OpenDir:
  assumes "\<And>e w. holds K X w \<Longrightarrow> R e w"
  shows "triple (holds K X) (OpenDir d) (post (\<lambda>_. True) K (\<lambda>_. X)) R"
  unfolding OpenDir_def by (intro triple_with_fd_post triple_nothing assms)

lemma triple_SyncDir:
  "(\<And>e w. holds K X w \<Longrightarrow> R e w) \<Longrightarrow> triple (holds K X) (SyncDir d) (post (\<lambda>_. True) K (\<lambda>_. X)) R"
  unfolding SyncDir_def by (rule triple_nothing)

lemma triple_CloseDir:
  "(\<And>e w. holds K X w \<Longrightarrow> R e w) \<Longrightarrow> triple (holds K X) (CloseDir d) (post (\<lambda>_. True) K (\<lambda>_. X)) R"
  unfolding CloseDir_def by (rule triple_Close)

lemma has_entry_name: "has X f \<Longrightarrow> (d, n, i, nd) \<in> X \<Longrightarrow> n \<in> fst ` set (dirs f d)"
  by (force dest!: hasD lookup_SomeD dest: map_of_SomeD simp: entry_def)

lemma triple_ReadDir:
  assumes "\<And>e w. holds K X w \<Longrightarrow> R e w"
  shows "triple (holds K X) (ReadDir d)
    (post (\<lambda>x. distinct x \<and> (\<forall>n i nd. (d, n, i, nd) \<in> X \<longrightarrow> n \<in> set x)) K (\<lambda>_. X)) R"
proof -
  have "distinct (map fst (dirs f d))" if "has X f" for f
    using has_wf [OF that] by (simp add: wf_fs_def)
  then show ?thesis
    unfolding ReadDir_def using assms by (intro triple_observe) (auto dest: has_entry_name)
qed

lemma triple_rand:
  "triple (holds K X) rand_Uint64 (post (\<lambda>_. True) K (\<lambda>_. X)) R"
  by (simp add: triple_def rand_Uint64_def post_def)

lemma triple_now:
  "triple (holds K X) time_Now (post (\<lambda>_. True) K (\<lambda>_. X)) R"
  by (simp add: triple_def time_Now_def post_def)

subsection \<open>Reading a file\<close>

lemma triple_Read_at:
  assumes "(d, n, h, nd) \<in> X" "\<And>e w. holds K X w \<Longrightarrow> \<not> errors_is e Os_ErrNotExist \<Longrightarrow> R e w"
  shows "triple (holds K X) (Read_at h off k)
    (post (\<lambda>x. \<exists>m. x = take m (drop off (i_data nd)) \<and> m \<le> k \<and> (k \<noteq> 0 \<longrightarrow> m \<noteq> 0)) K (\<lambda>_. X)) R"
  unfolding post_def
proof (rule tripleI)
  fix w x w1
  assume P: "holds K X w" and run: "Read_at h off k w = (Inr x, w1)"
  obtain ev w0 where t: "tick w = (ev, w0)" by fastforce
  with P have h: "holds K X w0" by (rule holds_tick)
  have "inodes (w_fs w0) h = Some nd"
    using hasD [OF holds_fs [OF h] assms(1)] by (auto simp: entry_def dest: lookup_SomeD)
  with run t have "w1 = w0"
    "x = take (if ev_chunk ev = 0 then k else min k (ev_chunk ev)) (drop off (i_data nd))"
    by (auto simp: Read_at_def split: option.splits)
  with h show "(\<exists>m. x = take m (drop off (i_data nd)) \<and> m \<le> k \<and> (k \<noteq> 0 \<longrightarrow> m \<noteq> 0)) \<and> holds K X w1"
    by (auto intro!: exI [of _ "if ev_chunk ev = 0 then k else min k (ev_chunk ev)"])
next
  fix w e w1
  assume P: "holds K X w" and run: "Read_at h off k w = (Inl e, w1)"
  obtain ev w0 where t: "tick w = (ev, w0)" by fastforce
  with P have h: "holds K X w0" by (rule holds_tick)
  with run t assms(2) show "R e w1"
    by (auto simp: Read_at_def eother_def split: option.splits)
qed

lemma triple_Read_at_any:
  assumes "\<And>e w. holds K X w \<Longrightarrow> R e w"
  shows "triple (holds K X) (Read_at h off k)
    (post (\<lambda>x. length x \<le> k \<and> (\<forall>d n nd. (d, n, h, nd) \<in> X \<longrightarrow>
       x = take (length x) (drop off (i_data nd)) \<and>
       (x = [] \<longrightarrow> k \<noteq> 0 \<longrightarrow> length (i_data nd) \<le> off))) K (\<lambda>_. X)) R"
proof -
  have plain: "triple (holds K X) (Read_at h off k) (post (\<lambda>x. length x \<le> k) K (\<lambda>_. X)) R"
  proof (rule tripleI)
    fix w x w1
    assume "holds K X w" "Read_at h off k w = (Inr x, w1)"
    then show "post (\<lambda>x. length x \<le> k) K (\<lambda>_. X) x w1"
      by (auto simp: Read_at_def post_def split: prod.splits option.splits intro: holds_tick)
  next
    fix w e w1
    assume "holds K X w" "Read_at h off k w = (Inl e, w1)"
    then show "R e w1"
      by (auto simp: Read_at_def split: prod.splits option.splits intro: holds_tick assms)
  qed
  show ?thesis
  proof (cases "\<exists>d n nd. (d, n, h, nd) \<in> X")
    case True
    then obtain d n nd where X: "(d, n, h, nd) \<in> X" by blast
    have same: "nd' = nd" if "holds K X w" "(d', n', h, nd') \<in> X" for d' n' nd' w
      using has_inode [OF holds_fs [OF that(1)] that(2)] has_inode [OF holds_fs [OF that(1)] X] by simp
    have "triple (holds K X) (Read_at h off k)
        (post (\<lambda>x. \<exists>m. x = take m (drop off (i_data nd)) \<and> m \<le> k \<and> (k \<noteq> 0 \<longrightarrow> m \<noteq> 0)) K (\<lambda>_. X)) R"
      by (rule triple_Read_at [OF X]) (rule assms)
    then show ?thesis
    proof (rule triple_weaken)
      fix x w
      assume "post (\<lambda>x. \<exists>m. x = take m (drop off (i_data nd)) \<and> m \<le> k \<and> (k \<noteq> 0 \<longrightarrow> m \<noteq> 0))
        K (\<lambda>_. X) x w"
      then obtain m where m: "x = take m (drop off (i_data nd))" "m \<le> k" "k \<noteq> 0 \<longrightarrow> m \<noteq> 0"
        and w: "holds K X w" by (auto simp: post_def)
      from m(1) have "x = take (length x) (drop off (i_data nd))" by (simp add: min_def)
      moreover have "length (i_data nd) \<le> off" if "x = []" "k \<noteq> 0" using m that by simp
      ultimately show "post (\<lambda>x. length x \<le> k \<and> (\<forall>d n nd. (d, n, h, nd) \<in> X \<longrightarrow>
          x = take (length x) (drop off (i_data nd)) \<and>
          (x = [] \<longrightarrow> k \<noteq> 0 \<longrightarrow> length (i_data nd) \<le> off))) K (\<lambda>_. X) x w"
        using w m(1,2) same [OF w] by (fastforce simp: post_def)
    qed auto
  next
    case False
    with plain show ?thesis
      by (elim triple_weaken) (auto simp: post_def)
  qed
qed

lemma triple_read_limited_any:
  assumes "\<And>e w. holds K X w \<Longrightarrow> R e w"
  shows "triple (holds K X) (read_limited h off limit)
    (post (\<lambda>x. length x \<le> limit) K (\<lambda>_. X)) R"
proof -
  have "case read_limited h off limit w of
      (Inr x, w1) \<Rightarrow> length x \<le> limit \<and> holds K X w1
    | (Inl e, w1) \<Rightarrow> holds K X w1" if "holds K X w" for w
    using that
  proof (induction limit arbitrary: off w rule: less_induct)
    case (less limit)
    obtain r w1 where r: "Read_at h off limit w = (r, w1)" by fastforce
    have h1: "holds K X w1" and len: "\<And>bs. r = Inr bs \<Longrightarrow> length bs \<le> limit"
      using r holds_tick [OF less.prems] by (auto simp: Read_at_def split: prod.splits option.splits)
    show ?case
    proof (cases "limit = 0 \<or> isl r \<or> r = Inr []")
      case True
      with r h1 less.prems show ?thesis by (subst read_limited.simps) (auto simp: isl_iff)
    next
      case False
      then obtain bs where bs: "r = Inr bs" "bs \<noteq> []" "limit - length bs < limit"
        by (cases r) (auto simp: isl_iff)
      have "length bs \<le> limit" using len bs(1) .
      moreover note less.IH [OF bs(3) h1, of "off + length bs"]
      ultimately show ?thesis
        using r bs(1,2) False by (subst read_limited.simps) (auto split: prod.split sum.split simp: le_diff_conv2 add.commute)
    qed
  qed
  then have "triple (holds K X) (read_limited h off limit)
      (\<lambda>x w. length x \<le> limit \<and> holds K X w) (\<lambda>_. holds K X)"
    by (simp add: triple_def)
  then show ?thesis by (rule triple_weaken) (auto intro: assms simp: post_def)
qed

text \<open>A chunked read of a file that nobody changes returns its contents, up to the limit.\<close>

lemma read_limited_run:
  assumes X: "(d, n, h, nd) \<in> X"
    and R: "\<And>e w. holds K X w \<Longrightarrow> \<not> errors_is e Os_ErrNotExist \<Longrightarrow> R e w" and "holds K X w"
  shows "case read_limited h off limit w of
      (Inr x, w1) \<Rightarrow> x = take limit (drop off (i_data nd)) \<and> holds K X w1
    | (Inl e, w1) \<Rightarrow> R e w1"
  using \<open>holds K X w\<close>
proof (induction limit arbitrary: off w rule: less_induct)
  case (less limit)
  note step = triple_use [OF triple_Read_at [where k = limit and off = off and R = R, OF X R, unfolded post_def] less.prems]
  show ?case
  proof (cases "limit = 0 \<or> isl (fst (Read_at h off limit w))")
    case True
    with step less.prems show ?thesis
      by (subst read_limited.simps) (auto simp: isl_iff split: prod.splits)
  next
    case False
    then obtain bs w1 where r: "Read_at h off limit w = (Inr bs, w1)"
      by (cases "Read_at h off limit w") (auto simp: not_isl_iff)
    with step False obtain m where m: "bs = take m (drop off (i_data nd))" "m \<le> limit" "m \<noteq> 0"
      and h1: "holds K X w1" by auto
    show ?thesis
    proof (cases "bs = []")
      case True
      with m have "drop off (i_data nd) = []" by simp
      with r True False h1 show ?thesis by (subst read_limited.simps) simp
    next
      case ne: False
      with False have "limit - length bs < limit" by (cases bs) auto
      note IH = less.IH [OF this h1, of "off + length bs"]
      have len: "length bs \<le> limit" "take (length bs) (drop off (i_data nd)) = bs"
        using m by (auto simp: take_drop min_def)
      have "bs @ take (limit - length bs) (drop (off + length bs) (i_data nd)) =
            take limit (drop off (i_data nd))"
        by (metis add.commute append_take_drop_id drop_drop le_add_diff_inverse len take_add)
      with IH r False ne show ?thesis
        by (subst read_limited.simps) (auto split: prod.splits sum.splits)
    qed
  qed
qed

lemma triple_read_limited:
  assumes "(d, n, h, nd) \<in> X" "\<And>e w. holds K X w \<Longrightarrow> \<not> errors_is e Os_ErrNotExist \<Longrightarrow> R e w"
  shows "triple (holds K X) (read_limited h off limit)
    (post (\<lambda>x. x = take limit (drop off (i_data nd))) K (\<lambda>_. X)) R"
  unfolding triple_def post_def by (intro allI impI read_limited_run [where R = R]) (use assms in auto)

subsection \<open>System calls that change the file system\<close>

text \<open>A call that turns the frame \<open>X\<close> into \<open>Y x\<close> when it succeeds and into \<open>Z\<close> when it fails.\<close>

lemma triple_change:
  assumes "\<And>f x f'. has X f \<Longrightarrow> protected K X \<Longrightarrow> g f = (Inr x, f') \<Longrightarrow>
      has (Y x) f' \<and> protected K (Y x) \<and> V x"
    and "\<And>f e f'. has X f \<Longrightarrow> g f = (Inl e, f') \<Longrightarrow> f' = f"
    and "\<And>e w. holds K X w \<Longrightarrow> R e w"
  shows "triple (holds K X) (syscall g) (post V K Y) R"
  unfolding post_def
proof (rule tripleI)
  fix w x w1
  assume P: "holds K X w" and run: "syscall g w = (Inr x, w1)"
  obtain ev w0 where t: "tick w = (ev, w0)" by fastforce
  with P have h: "holds K X w0" by (rule holds_tick)
  from run t obtain f' where g: "g (w_fs w0) = (Inr x, f')" and w1: "w1 = w0\<lparr>w_fs := f'\<rparr>"
    by (auto simp: syscall_def split: option.splits prod.splits)
  from h have "protected K X" by (simp add: holds_def)
  from assms(1) [OF holds_fs [OF h] this g] h show "V x \<and> holds K (Y x) w1"
    by (auto simp: w1 intro: holds_set_fs)
next
  fix w e w1
  assume P: "holds K X w" and run: "syscall g w = (Inl e, w1)"
  obtain ev w0 where t: "tick w = (ev, w0)" by fastforce
  with P have h: "holds K X w0" by (rule holds_tick)
  from run t have "w1 = w0 \<or> (\<exists>f'. g (w_fs w0) = (Inl e, f') \<and> w1 = w0\<lparr>w_fs := f'\<rparr>)"
    by (auto simp: syscall_def split: option.splits prod.splits)
  with assms(2) [OF holds_fs [OF h]] h assms(3) show "R e w1" by auto
qed

lemma triple_change_frame:
  assumes "\<And>f x f'. has X f \<Longrightarrow> protected K X \<Longrightarrow> g f = (Inr x, f') \<Longrightarrow> has Y f' \<and> protected K Y"
    and "\<And>f e f'. has X f \<Longrightarrow> g f = (Inl e, f') \<Longrightarrow> f' = f"
    and "\<And>e w. holds K X w \<Longrightarrow> R e w"
  shows "triple (holds K X) (syscall g) (post (\<lambda>_. True) K (\<lambda>_. Y)) R"
  by (rule triple_change) (use assms in auto)

lemma has_unnamed: "has X f \<Longrightarrow> map_of (dirs f d) n = None \<Longrightarrow> unnamed d n X"
  by (auto simp: unnamed_def dest!: has_lookup lookup_SomeD)

lemma has_add_entry:
  assumes "has X f" "map_of (dirs f d) n = None" "inodes f i = Some nd"
  shows "has (insert (d, n, i, nd) X) (add_entry d n i f)"
proof -
  have "entry d n i nd (add_entry d n i f)"
    using assms by (auto simp: entry_def wf_add_entry intro!: lookup_SomeI)
  moreover have "has X (add_entry d n i f)"
    using assms by (auto simp: has_def wf_add_entry dest!: bspec intro!: lookup_SomeI
        dest!: lookup_SomeD)
  ultimately show ?thesis by (simp add: has_insert)
qed

lemma has_remove_entry:
  "has X f \<Longrightarrow> unnamed d n X \<Longrightarrow> has X (remove_entry d n f)"
  by (fastforce simp: has_def unnamed_def dest!: bspec lookup_SomeD intro!: lookup_SomeI)

lemma has_new_inode:
  assumes "has X f"
  shows "has X (f\<lparr>inodes := (inodes f)(next_ino f \<mapsto> nd), next_ino := Suc (next_ino f)\<rparr>)"
    and "unlinked (next_ino f) X"
proof -
  have fresh: "inodes f (next_ino f) = None"
    using assms by (simp add: wf_fs_fresh)
  then show "unlinked (next_ino f) X"
    using assms by (auto simp: unlinked_def dest!: has_inode)
  show "has X (f\<lparr>inodes := (inodes f)(next_ino f \<mapsto> nd), next_ino := Suc (next_ino f)\<rparr>)"
    using assms fresh
    by (auto simp: has_def wf_new_inode dest!: bspec lookup_SomeD intro!: lookup_SomeI)
qed

lemma has_update_inode:
  assumes "has (insert (d, n, h, nd) X) f" "unlinked h X"
  shows "has (insert (d, n, h, g nd) X) (update_inode h g f)"
proof -
  have "entry d n h (g nd) (update_inode h g f)"
    using assms(1) by (auto simp: has_insert entry_def inodes_update dest!: lookup_SomeD
        intro!: lookup_SomeI)
  moreover have "has X (update_inode h g f)"
    using assms by (auto simp: has_insert has_def inodes_update unlinked_def dest!: bspec
        lookup_SomeD intro!: lookup_SomeI)
  ultimately show ?thesis by (simp add: has_insert)
qed

lemma append_data_update:
  "append_data h bs = update_inode h (\<lambda>nd. nd\<lparr>i_data := i_data nd @ bs,
     i_mtime := Suc (i_mtime nd), i_synced := False\<rparr>)"
  by (simp add: append_data_def update_inode_def fun_eq_iff)

lemma triple_update_inode:
  assumes "unlinked h X" "\<And>e w. holds K (insert (d, n, h, nd) X) w \<Longrightarrow> R e w"
  shows "triple (holds K (insert (d, n, h, nd) X)) (syscall (\<lambda>f. (Inr (), update_inode h g f)))
    (post (\<lambda>_. True) K (\<lambda>_. insert (d, n, h, g nd) X)) R"
  by (rule triple_change_frame) (use assms in \<open>auto intro: has_update_inode\<close>)

lemma triple_Sync:
  "unlinked h X \<Longrightarrow> (\<And>e w. holds K (insert (d, n, h, nd) X) w \<Longrightarrow> R e w) \<Longrightarrow>
   triple (holds K (insert (d, n, h, nd) X)) (Sync h)
     (post (\<lambda>_. True) K (\<lambda>_. insert (d, n, h, nd\<lparr>i_synced := True\<rparr>) X)) R"
  unfolding Sync_def by (rule triple_update_inode)

lemma triple_Chmod:
  "unlinked h X \<Longrightarrow> (\<And>e w. holds K (insert (d, n, h, nd) X) w \<Longrightarrow> R e w) \<Longrightarrow>
   triple (holds K (insert (d, n, h, nd) X)) (Chmod h mode)
     (post (\<lambda>_. True) K (\<lambda>_. insert (d, n, h, nd\<lparr>i_mode := mode, i_synced := False\<rparr>) X)) R"
  unfolding Chmod_def by (rule triple_update_inode)

text \<open>A write: the bytes are appended, or, when it fails, some of them.\<close>

definition written :: "string \<Rightarrow> inode \<Rightarrow> inode" where
  "written bs nd = nd\<lparr>i_data := i_data nd @ bs, i_mtime := Suc (i_mtime nd), i_synced := False\<rparr>"

lemma triple_Write:
  assumes "unlinked h X" "\<And>e nd' w. holds K (insert (d, n, h, nd') X) w \<Longrightarrow> R e w"
  shows "triple (holds K (insert (d, n, h, nd) X)) (Write_string h bs)
    (post (\<lambda>k. k = length bs) K (\<lambda>_. insert (d, n, h, written bs nd) X)) R"
  unfolding post_def
proof (rule tripleI)
  fix w k w1
  assume P: "holds K (insert (d, n, h, nd) X) w" and run: "Write_string h bs w = (Inr k, w1)"
  obtain ev w0 where t: "tick w = (ev, w0)" by fastforce
  with P have h: "holds K (insert (d, n, h, nd) X) w0" by (rule holds_tick)
  with run t has_update_inode [OF holds_fs [OF h] assms(1)]
  show "k = length bs \<and> holds K (insert (d, n, h, written bs nd) X) w1"
    by (auto simp: Write_string_def append_data_update written_def holds_def intro!: holds_set_fs
        split: option.splits simp: rg_def)
next
  fix w e w1
  assume P: "holds K (insert (d, n, h, nd) X) w" and run: "Write_string h bs w = (Inl e, w1)"
  obtain ev w0 where t: "tick w = (ev, w0)" by fastforce
  with P have h: "holds K (insert (d, n, h, nd) X) w0" by (rule holds_tick)
  with run t has_update_inode [OF holds_fs [OF h] assms(1)]
  have "holds K (insert (d, n, h, written (take (ev_chunk ev) bs) nd) X) w1"
    by (auto simp: Write_string_def append_data_update written_def holds_def rg_def
        split: option.splits)
  with assms(2) show "R e w1" by blast
qed

lemma triple_OpenExcl:
  assumes "K d n" "\<And>e w. holds K X w \<Longrightarrow> R e w"
  shows "triple (holds K X) (OpenExcl d n mode)
    (post (\<lambda>h. unnamed d n X \<and> unlinked h X) K (\<lambda>h. insert (d, n, h, new_inode mode) X)) R"
  unfolding OpenExcl_def
proof (rule triple_with_fd_post, rule triple_change)
  fix f x f'
  assume f: "has X f" and "protected K X" and
    g: "(if map_of (dirs f d) n \<noteq> None then (Inl eexist, f)
      else (Inr (next_ino f), add_entry d n (next_ino f)
        (f\<lparr>inodes := (inodes f)(next_ino f \<mapsto> new_inode mode), next_ino := Suc (next_ino f)\<rparr>))) =
      (Inr x, f')"
  from g have none: "map_of (dirs f d) n = None" and x: "x = next_ino f" by (auto split: if_splits)
  then have "unnamed d n X" using f by (blast intro: has_unnamed)
  with f g none assms(1) \<open>protected K X\<close> has_new_inode [OF f]
  show "has (insert (d, n, x, new_inode mode) X) f' \<and>
        protected K (insert (d, n, x, new_inode mode) X) \<and> unnamed d n X \<and> unlinked x X"
    by (auto intro!: has_add_entry)
qed (use assms in \<open>auto split: if_splits\<close>)

lemma triple_Link:
  assumes "(d, old, i, nd) \<in> X" "K d new" "\<And>e w. holds K X w \<Longrightarrow> R e w"
  shows "triple (holds K X) (Link d old new)
    (post (\<lambda>_. unnamed d new X) K (\<lambda>_. insert (d, new, i, nd) X)) R"
  unfolding Link_def
proof (rule triple_change [where Y = "\<lambda>_. insert (d, new, i, nd) X" and V = "\<lambda>_. unnamed d new X"])
  fix f x f'
  assume f: "has X f" and "protected K X" and
    g: "(case map_of (dirs f d) old of None \<Rightarrow> (Inl enoent, f)
       | Some i \<Rightarrow> if map_of (dirs f d) new \<noteq> None then (Inl eexist, f)
           else (Inr (), add_entry d new i f)) = (Inr x, f')"
  from has_lookup [OF f assms(1)] have l: "map_of (dirs f d) old = Some i" "inodes f i = Some nd"
    by (auto dest: lookup_SomeD)
  with g have none: "map_of (dirs f d) new = None" by (auto split: if_splits)
  then have "unnamed d new X" using f by (blast intro: has_unnamed)
  with f g l none assms(2) \<open>protected K X\<close>
  show "has (insert (d, new, i, nd) X) f' \<and> protected K (insert (d, new, i, nd) X) \<and> unnamed d new X"
    by (auto intro!: has_add_entry)
qed (use assms in \<open>auto split: if_splits option.splits\<close>)

lemma triple_Link_first:
  "K d new \<Longrightarrow> (\<And>e w. holds K (insert (d, old, i, nd) X) w \<Longrightarrow> R e w) \<Longrightarrow>
   triple (holds K (insert (d, old, i, nd) X)) (Link d old new)
    (post (\<lambda>_. unnamed d new (insert (d, old, i, nd) X)) K
       (\<lambda>_. insert (d, new, i, nd) (insert (d, old, i, nd) X))) R"
  by (rule triple_Link) auto

lemma triple_Remove:
  assumes "unnamed d n X" "\<And>e w. holds K (insert (d, n, i, nd) X) w \<Longrightarrow> R e w"
  shows "triple (holds K (insert (d, n, i, nd) X)) (Remove d n)
    (post (\<lambda>_. True) K (\<lambda>_. X)) R"
  unfolding Remove_def
  by (rule triple_change_frame)
    (use assms in \<open>auto simp: has_insert intro: has_remove_entry split: if_splits\<close>)

lemma triple_Remove_other:
  assumes "unnamed d n X" "\<And>e w. holds K X w \<Longrightarrow> R e w"
  shows "triple (holds K X) (Remove d n) (post (\<lambda>_. True) K (\<lambda>_. X)) R"
  unfolding Remove_def
  by (rule triple_change_frame)
    (use assms in \<open>auto intro: has_remove_entry split: if_splits\<close>)

text \<open>\<open>Z\<close> is the part of the frame that survives the removal.\<close>

lemma triple_Remove_part:
  assumes "Z \<subseteq> X" "unnamed d n Z" "\<And>e w. holds K X w \<Longrightarrow> R e w"
  shows "triple (holds K X) (Remove d n) (post (\<lambda>_. True) K (\<lambda>_. Z)) R"
  unfolding Remove_def
proof (rule triple_change_frame)
  fix f x f'
  assume f: "has X f" "protected K X" and g: "(if map_of (dirs f d) n = None then (Inl enoent, f)
      else (Inr (), remove_entry d n f)) = (Inr x, f')"
  have "has Z f" using f assms(1) by (auto intro: has_mono)
  with g f assms(1,2) show "has Z f' \<and> protected K Z"
    by (auto simp: protected_def intro: has_remove_entry split: if_splits)
qed (use assms(3) in \<open>auto split: if_splits\<close>)

text \<open>A rename moves the entry and may replace another one; \<open>Z\<close> is the part of the frame that
  survives it.\<close>

lemma triple_Rename:
  assumes "Z \<subseteq> X" "unnamed d old Z" "unnamed d new Z" "old \<noteq> new" "K d new"
    "\<And>e w. holds K (insert (d, old, i, nd) X) w \<Longrightarrow> R e w"
  shows "triple (holds K (insert (d, old, i, nd) X)) (Rename d old new)
    (post (\<lambda>_. True) K (\<lambda>_. insert (d, new, i, nd) Z)) R"
  unfolding Rename_def
proof (rule triple_change_frame)
    fix f x f'
    assume f: "has (insert (d, old, i, nd) X) f" and p: "protected K (insert (d, old, i, nd) X)"
      and g: "(case map_of (dirs f d) old of None \<Rightarrow> (Inl enoent, f)
       | Some i \<Rightarrow> if map_of (dirs f d) new = Some i then (Inr (), f)
           else if (case lookup f d new of Some (j, nd) \<Rightarrow> i_kind nd = Directory | None \<Rightarrow> False)
           then (Inl (eother ''is a directory''), f)
           else (Inr (), add_entry d new i (remove_entry d new (remove_entry d old f)))) = (Inr x, f')"
    from has_lookup [OF f, of d old i nd]
    have l: "map_of (dirs f d) old = Some i" "inodes f i = Some nd"
      by (auto dest: lookup_SomeD)
    have f': "has Z f" using f assms(1) by (auto simp: has_insert intro: has_mono)
    have p': "protected K Z" using p assms(1) by (auto simp: protected_def)
    show "has (insert (d, new, i, nd) Z) f' \<and> protected K (insert (d, new, i, nd) Z)"
    proof (cases "map_of (dirs f d) new = Some i")
      case True
      with g l f f' p' assms(5) show ?thesis
        by (auto simp: has_insert entry_def intro!: lookup_SomeI)
    next
      case False
      have "has Z (remove_entry d new (remove_entry d old f))"
        using f' assms(2,3) by (intro has_remove_entry)
      with g l False p' assms(5) show ?thesis
        by (auto intro!: has_add_entry split: if_splits)
    qed
qed (use assms(6) in \<open>auto split: if_splits option.splits\<close>)

end
