(* ===== verification/Store_Rules.thy ===== *)
theory Store_Rules
  imports Store_List Frame_Rules
begin

text \<open>
  Rules for the operations of the alert store, over the rules of the system calls: which entries
  each operation leaves alone, what it makes, and what its result says, whatever the other
  processes do to the entries that are not protected and wherever a system call fails.
\<close>

subsection \<open>Names\<close>

definition private_name :: "string \<Rightarrow> bool" where
  "private_name n \<longleftrightarrow> HasPrefix n ''.aamm-ng-''"

lemma private_not_Filename: "wf_target t \<Longrightarrow> \<not> private_name (Filename t)"
  using Filename_hd [of t] by (auto simp: private_name_def HasPrefix_iff)

lemma private_Filename_neq [simp]: "wf_target t \<Longrightarrow> private_name n \<Longrightarrow> n \<noteq> Filename t"
  using private_not_Filename by blast

lemma private_temporary:
  "private_name (''.aamm-ng-'' @ s)" "private_name (''.aamm-ng-backup-'' @ s)"
  by (simp_all add: private_name_def HasPrefix_def)

lemmas private_temporary_Cons [simp] = private_temporary [unfolded append_Cons append_Nil]

abbreviation guards :: "(dirid \<Rightarrow> string \<Rightarrow> bool) \<Rightarrow> dirid \<Rightarrow> bool" where
  "guards K d \<equiv> (\<forall>n. private_name n \<longrightarrow> K d n)"

subsection \<open>Random names and directory syncing\<close>

lemma triple_fillRandom:
  "triple (holds K X) (fillRandom n) (post (\<lambda>x. length x = n) K (\<lambda>_. X)) R"
proof (induction n rule: less_induct)
  case (less n)
  show ?case
  proof (cases "n = 0")
    case True
    then show ?thesis by (auto simp: fillRandom.simps intro!: triple_world_return)
  next
    case False
    have "triple (holds K X) (fillRandom (n - 8)) (post (\<lambda>x. length x = n - 8) K (\<lambda>_. X)) R"
      using less.IH [of "n - 8"] False by simp
    with False show ?thesis
      by (subst fillRandom.simps)
        (auto intro!: triple_seq [OF triple_rand] triple_seq triple_world_return
          simp: word_bytes_def)
  qed
qed

lemma triple_randomHex:
  "triple (holds K X) (randomHex n) (post (\<lambda>_. True) K (\<lambda>_. X)) R"
  unfolding randomHex_def
  by (rule triple_seq [OF triple_fillRandom]) (auto intro!: triple_world_return)

lemma triple_syncDirectory:
  assumes "\<And>e w. holds K X w \<Longrightarrow> R e w"
  shows "triple (holds K X) (syncDirectory d) (post (\<lambda>_. True) K (\<lambda>_. X)) R"
  unfolding syncDirectory_def
  by (intro triple_seq [OF triple_OpenDir] triple_try_seq [OF triple_SyncDir]
        triple_try_seq [OF triple_CloseDir])
    (auto intro!: triple_world_return triple_world_fail assms post_holds split: option.split)

text \<open>A new, empty temporary file under a private name.\<close>

lemma triple_temporary_alert:
  assumes "guards K d" "\<And>e w. holds K X w \<Longrightarrow> R e w"
  shows "triple (holds K X) (temporary_alert k d)
    (post (\<lambda>(h, n). private_name n \<and> unnamed d n X \<and> unlinked h X) K
       (\<lambda>(h, n). insert (d, n, h, new_inode 384) X)) R"
proof (induction k)
  case (Suc k)
  with assms show ?case
    by (auto simp: Let_def intro!: triple_seq [OF triple_fillRandom] triple_try_seq [OF triple_OpenExcl]
        post_holds triple_world_return triple_world_fail simp: post_def)
qed (simp add: triple_world_fail assms(2))

lemma triple_temporary_backup:
  assumes "guards K d" "\<And>e w. holds K X w \<Longrightarrow> R e w"
  shows "triple (holds K X) (temporary_backup k d)
    (post (\<lambda>(h, n). private_name n \<and> unnamed d n X \<and> unlinked h X) K
       (\<lambda>(h, n). insert (d, n, h, new_inode 384) X)) R"
proof (induction k)
  case (Suc k)
  with assms show ?case
    by (auto simp: Let_def intro!: triple_seq [OF triple_randomHex] triple_try_seq [OF triple_OpenExcl]
        post_holds triple_world_return triple_world_fail simp: post_def)
qed (simp add: triple_world_fail assms(2))

subsection \<open>Reading an alert\<close>

text \<open>The entry that a file's contents make.\<close>

definition entry_of :: "target \<Rightarrow> string \<Rightarrow> Entry" where
  "entry_of t data =
     (if length data > MaxLegacyBytes then make_entry t KindOversized (length data)
      else case ParseManagedHTML data of
        Some m \<Rightarrow> (make_entry t KindManaged (length data))\<lparr>entry_Message := m\<rparr>
      | None \<Rightarrow> (make_entry t KindLegacy (length data))\<lparr>entry_LegacyHTML := data\<rparr>)"

lemma info_of_simps [simp]:
  "fi_kind (info_of i nd) = i_kind nd" "fi_size (info_of i nd) = length (i_data nd)"
  "fi_mode (info_of i nd) = i_mode nd" "fi_mtime (info_of i nd) = i_mtime nd"
  "fi_ino (info_of i nd) = i"
  by (simp_all add: info_of_def)

lemma SameFile_info_of [simp]: "SameFile (info_of i nd) (info_of j nd') \<longleftrightarrow> i = j"
  by (simp add: SameFile_def)

lemma triple_read_open_entry:
  assumes X: "(d, Filename t, i, nd) \<in> X"
  shows "triple (holds K X) (read_open_entry t (info_of i nd) i)
    (post (\<lambda>e. e = entry_of t (i_data nd)) K (\<lambda>_. X))
    (post (\<lambda>e. \<not> errors_is e Os_ErrNotExist) K (\<lambda>_. X))"
  unfolding read_open_entry_def
proof (rule triple_seq [OF triple_map_error [OF triple_Stat]], goal_cases)
  case (2 x)
  with X have x: "x = info_of i nd" by blast
  have known: "min (length (i_data nd)) (Suc MaxLegacyBytes) = length (i_data nd)"
    "take (Suc MaxLegacyBytes) (i_data nd) = i_data nd"
    if "length (i_data nd) \<le> MaxLegacyBytes" using that by simp_all
  show ?case
    unfolding x
    by (auto intro!: triple_world_fail triple_world_return triple_seq [OF triple_map_error [OF
          triple_read_limited [OF X]]] simp: entry_of_def known split: option.split)
qed auto

text \<open>Reading a file that nobody changes yields its contents, or an error; and reading any file
  leaves every entry alone.\<close>

lemma triple_readEntry:
  assumes X: "(d, Filename t, i, nd) \<in> X"
  shows "triple (holds K X) (readEntry d t)
    (post (\<lambda>e. i_kind nd = Regular \<and> e = entry_of t (i_data nd)) K (\<lambda>_. X))
    (post (\<lambda>e. \<not> errors_is e Os_ErrNotExist) K (\<lambda>_. X))"
  unfolding readEntry_def Let_def
proof (rule triple_seq [OF triple_map_error [OF triple_Lstat]], goal_cases)
  case (2 x)
  with X have x: "x = info_of i nd" by blast
  show ?case
    unfolding x info_of_simps
  proof (rule triple_if, goal_cases)
    case 2
    then have reg: "i_kind nd = Regular" by simp
    show ?case
    proof (rule triple_seq [OF triple_map_error [OF triple_Open]], goal_cases)
      case (2 h)
      with X reg have h: "h = i" by auto
      show ?case unfolding h
        by (rule triple_deferred [OF triple_read_open_entry [OF X]])
          (auto intro!: triple_post triple_weaken [OF triple_Close [OF post_holds]] simp: post_def reg)
    qed (use X reg in \<open>auto simp: post_def\<close>)
  qed (auto intro!: triple_world_fail)
qed (use X in \<open>auto simp: post_def unnamed_def\<close>)

lemma triple_read_open_entry_any:
  "triple (holds K X) (read_open_entry t info h) (post (\<lambda>e. entry_Target e = t) K (\<lambda>_. X)) (\<lambda>_. holds K X)"
  unfolding read_open_entry_def
  by (auto intro!: triple_seq [OF triple_map_error [OF triple_Stat]] triple_world_fail
      triple_world_return triple_seq [OF triple_map_error [OF triple_read_limited_any]]
      triple_try_seq [OF triple_Stat [OF post_holds]] simp: make_entry_def split: option.split)

lemma triple_readEntry_any:
  "triple (holds K X) (readEntry d t) (post (\<lambda>e. entry_Target e = t) K (\<lambda>_. X)) (\<lambda>_. holds K X)"
  unfolding readEntry_def Let_def
  by (auto intro!: triple_seq [OF triple_map_error [OF triple_Lstat]] triple_world_fail
      triple_seq [OF triple_map_error [OF triple_Open]] triple_deferred [OF triple_read_open_entry_any]
      triple_post triple_weaken [OF triple_Close [OF post_holds]] simp: post_def)

subsection \<open>Writing a temporary file\<close>

text \<open>The file that a managed alert is published as, and the frame together with a new file.\<close>

definition managed_inode :: "message \<Rightarrow> inode" where
  "managed_inode m = \<lparr>i_kind = Regular, i_mode = 420, i_data = EscapedHTML m, i_mtime = 1,
     i_synced = True, i_link = None\<rparr>"

definition made :: "(dirid \<Rightarrow> string \<Rightarrow> bool) \<Rightarrow> dirid \<Rightarrow> string \<Rightarrow> inode \<Rightarrow> entries \<Rightarrow> world \<Rightarrow> bool" where
  "made K d n nd X w \<longleftrightarrow> (\<exists>i. unlinked i X \<and> holds K (insert (d, n, i, nd) X) w)"

lemma made_holds: "made K d n nd X w \<Longrightarrow> holds K X w"
  by (auto simp: made_def)

lemma triple_write_temporary:
  assumes "unlinked h X" "\<And>e w nd. holds K (insert (d, n, h, nd) X) w \<Longrightarrow> R e w"
  shows "triple (holds K (insert (d, n, h, new_inode 384) X)) (write_temporary t m h)
    (post (\<lambda>_. True) K (\<lambda>_. insert (d, n, h, managed_inode m) X)) R"
proof -
  note steps = triple_Write [OF assms(1)] triple_Sync [OF assms(1)] triple_Chmod [OF assms(1)]
  have "written (EscapedHTML m) (new_inode 384)
      \<lparr>i_synced := True, i_mode := 420, i_synced := False, i_synced := True\<rparr> = managed_inode m"
    by (simp add: written_def new_inode_def managed_inode_def)
  then show ?thesis
    unfolding write_temporary_def Let_def
    by (auto intro!: triple_seq [OF triple_map_error [OF steps(1)]]
        triple_seq [OF triple_map_error [OF steps(2)]] triple_seq [OF triple_map_error [OF steps(3)]]
        triple_weaken [OF triple_map_error [OF steps(2)]] assms(2) simp: post_def)
qed

lemma triple_Remove_either:
  assumes "unnamed d n X"
  shows "triple (holds K (insert (d, n, i, nd) X)) (Remove d n) (\<lambda>_. holds K X) (\<lambda>_. holds K X)"
  by (rule triple_weaken [OF triple_Remove [OF assms, of K i nd "\<lambda>_. holds K X"]])
    (auto simp: post_def)

lemma triple_discard_open:
  assumes "unnamed d n X"
  shows "triple (holds K (insert (d, n, i, nd) X)) (discard_open d h n)
    (\<lambda>_. holds K X) (\<lambda>_. holds K X)"
  unfolding discard_open_def
  by (rule triple_try_seq [OF triple_Close [OF post_holds]])
    (auto intro: triple_Remove_either [OF assms])

text \<open>A failure while the temporary file is open removes it again.\<close>

lemma triple_write_or_discard:
  assumes "unlinked h X" "unnamed d n X" "\<And>e w. holds K X w \<Longrightarrow> R e w"
  shows "triple (holds K (insert (d, n, h, new_inode 384) X))
    (on_error (discard_open d h n) (write_temporary t m h))
    (post (\<lambda>_. True) K (\<lambda>_. insert (d, n, h, managed_inode m) X)) R"
proof (rule triple_on_error)
  show "triple (holds K (insert (d, n, h, new_inode 384) X)) (write_temporary t m h)
      (post (\<lambda>_. True) K (\<lambda>_. insert (d, n, h, managed_inode m) X))
      (\<lambda>e w. \<exists>nd. holds K (insert (d, n, h, nd) X) w)"
    by (rule triple_write_temporary [OF assms(1)]) blast
  show "triple (\<lambda>w. \<exists>nd. holds K (insert (d, n, h, nd) X) w) (discard_open d h n)
      (\<lambda>_. R e) (\<lambda>_. R e)" for e
    by (intro triple_ex triple_weaken [OF triple_discard_open [OF assms(2)]]) (auto intro: assms(3))
qed

subsection \<open>Creating an alert\<close>

lemma triple_createManagedExclusive:
  assumes K: "guards K d" "K d (Filename t)" and t: "wf_target t"
  shows "triple (holds K X) (createManagedExclusive d t m)
    (\<lambda>_ w. unnamed d (Filename t) X \<and> made K d (Filename t) (managed_inode m) X w)
    (\<lambda>_. holds K X)"
  unfolding createManagedExclusive_def createTemporaryAlert_def
proof (rule triple_seq [OF triple_map_error [OF triple_temporary_alert]], use K in simp, simp,
    goal_cases)
  case (1 p)
  then obtain h n where p: "p = (h, n)" and n: "private_name n" "unnamed d n X" "unlinked h X"
    by (cases p) auto
  have neq: "n \<noteq> Filename t" using t n by simp
  let ?Y = "insert (d, n, h, managed_inode m) X"
  let ?Z = "insert (d, Filename t, h, managed_inode m) X"
  have publish: "triple (holds K ?Y)
     (on_error (Remove d n)
       (bind_io (map_error (with_target ''close temporary alert '' t) (Close h)) (\<lambda>_.
        bind_io (map_error
            (\<lambda>err. if errors_is err Os_ErrExist
                    then sentinelf alertstore_ErrAlreadyExists (target_String t)
                    else with_target ''publish new alert '' t err) (Link d n (Filename t))) (\<lambda>_.
        map_error (with_target ''remove temporary alert after publishing '' t) (Remove d n)))))
     (post (\<lambda>_. unnamed d (Filename t) X) K (\<lambda>_. ?Z)) (\<lambda>_. holds K X)"
  proof (rule triple_on_error)
    show "triple (holds K ?Y)
       (bind_io (map_error (with_target ''close temporary alert '' t) (Close h)) (\<lambda>_.
        bind_io (map_error
            (\<lambda>err. if errors_is err Os_ErrExist
                    then sentinelf alertstore_ErrAlreadyExists (target_String t)
                    else with_target ''publish new alert '' t err) (Link d n (Filename t))) (\<lambda>_.
        map_error (with_target ''remove temporary alert after publishing '' t) (Remove d n))))
       (post (\<lambda>_. unnamed d (Filename t) X) K (\<lambda>_. ?Z)) (\<lambda>_ w. holds K ?Y w)"
    proof (rule triple_seq [OF triple_map_error [OF triple_Close]], assumption,
        rule triple_seq [OF triple_map_error [OF triple_Link_first [where K = K, OF K(2)]]], assumption)
      assume "unnamed d (Filename t) ?Y"
      then have un: "unnamed d (Filename t) X" by simp
      have "triple (holds K (insert (d, n, h, managed_inode m) ?Z)) (Remove d n)
          (post (\<lambda>_. True) K (\<lambda>_. ?Z)) (\<lambda>_. holds K ?Y)"
        using n neq by (intro triple_Remove) (auto intro: holds_mono)
      then show "triple (holds K (insert (d, Filename t, h, managed_inode m) ?Y))
         (map_error (with_target ''remove temporary alert after publishing '' t) (Remove d n))
         (post (\<lambda>_. unnamed d (Filename t) X) K (\<lambda>_. ?Z)) (\<lambda>_. holds K ?Y)"
        by (intro triple_map_error, simp add: insert_commute)
          (erule triple_weaken, auto simp: post_def un)
    qed
    show "triple (holds K ?Y) (Remove d n) (\<lambda>_. holds K X) (\<lambda>_. holds K X)"
      using n by (intro triple_Remove_either)
  qed
  show ?case
    unfolding p prod.case
    apply (rule triple_seq [OF triple_write_or_discard [OF n(3,2)]], assumption)
    apply (rule triple_seq [OF publish])
    apply (rule triple_map_error)
    apply (rule triple_weaken [OF triple_syncDirectory [of K ?Z "\<lambda>_. holds K ?Z"]])
    by (auto simp: post_def made_def intro!: exI [of _ h] n(3))
qed

subsection \<open>Rewriting an alert\<close>

definition managed_data :: "string \<Rightarrow> bool" where
  "managed_data data \<longleftrightarrow> length data \<le> MaxLegacyBytes \<and> ParseManagedHTML data \<noteq> None"

lemma entry_Kind_entry_of:
  "entry_Kind (entry_of t data) =
     (if length data > MaxLegacyBytes then KindOversized
      else if managed_data data then KindManaged else KindLegacy)"
  by (auto simp: entry_of_def managed_data_def make_entry_def split: option.split)

lemma triple_ensureManagedWritable:
  assumes "(d, Filename t, i, nd) \<in> X"
  shows "triple (holds K X) (ensureManagedWritable d t)
    (post (\<lambda>_. i_kind nd = Regular \<and> managed_data (i_data nd)) K (\<lambda>_. X)) (\<lambda>_. holds K X)"
  unfolding ensureManagedWritable_def
  by (rule triple_try_seq [OF triple_readEntry [OF assms]])
    (auto intro!: triple_world_fail triple_world_return simp: entry_Kind_entry_of)

lemma triple_ensureManagedWritable_any:
  "triple (holds K X) (ensureManagedWritable d t) (post (\<lambda>_. True) K (\<lambda>_. X)) (\<lambda>_. holds K X)"
proof -
  have "triple (holds K X) (readEntry d t) (post (\<lambda>e. entry_Target e = t) K (\<lambda>_. X))
      (post (\<lambda>_. True) K (\<lambda>_. X))"
    by (rule triple_weaken [OF triple_readEntry_any]) auto
  then show ?thesis
    unfolding ensureManagedWritable_def
    by (rule triple_try_seq) (auto intro!: triple_world_fail triple_world_return split: Kind.split)
qed

text \<open>
  \<open>check\<close> is run with the temporary file in place; it keeps the frame, and \<open>c\<close> is what it
  establishes.  \<open>Z\<close> is the part of the frame that the rename does not replace.
\<close>

lemma triple_writeManagedChecked:
  assumes K: "guards K d" "K d (Filename t)" and t: "wf_target t"
    and Z: "Z \<subseteq> X" "unnamed d (Filename t) Z"
    and check: "\<And>Y. X \<subseteq> Y \<Longrightarrow> triple (holds K Y) check (post (\<lambda>_. c) K (\<lambda>_. Y)) (\<lambda>_. holds K Y)"
  shows "triple (holds K X) (writeManagedChecked d t m check)
    (\<lambda>_ w. c \<and> made K d (Filename t) (managed_inode m) Z w)
    (\<lambda>_ w. holds K X w \<or> c \<and> made K d (Filename t) (managed_inode m) Z w)"
  unfolding writeManagedChecked_def createTemporaryAlert_def
proof (rule triple_seq [OF triple_map_error [OF triple_temporary_alert]], use K in simp, simp,
    goal_cases)
  case (1 p)
  then obtain h n where p: "p = (h, n)" and n: "private_name n" "unnamed d n X" "unlinked h X"
    by (cases p) auto
  have neq: "n \<noteq> Filename t" using t n by simp
  let ?Y = "insert (d, n, h, managed_inode m) X"
  let ?Z = "insert (d, Filename t, h, managed_inode m) Z"
  have unZ: "unlinked h Z" "unnamed d n Z"
    using n Z(1) by (auto simp: unlinked_def unnamed_def)
  have publish: "triple (holds K ?Y)
     (on_error (Remove d n)
       (bind_io (map_error (with_target ''close temporary alert '' t) (Close h)) (\<lambda>_.
        bind_io check (\<lambda>_.
        map_error (with_target ''publish alert '' t) (Rename d n (Filename t))))))
     (post (\<lambda>_. c) K (\<lambda>_. ?Z)) (\<lambda>_. holds K X)"
  proof (rule triple_on_error)
    show "triple (holds K ?Y)
       (bind_io (map_error (with_target ''close temporary alert '' t) (Close h)) (\<lambda>_.
        bind_io check (\<lambda>_.
        map_error (with_target ''publish alert '' t) (Rename d n (Filename t)))))
       (post (\<lambda>_. c) K (\<lambda>_. ?Z)) (\<lambda>_. holds K ?Y)"
    proof (rule triple_seq [OF triple_map_error [OF triple_Close]], assumption,
        rule triple_seq [OF check], blast, rule triple_map_error)
      assume c: c
      have "triple (holds K ?Y) (Rename d n (Filename t)) (post (\<lambda>_. True) K (\<lambda>_. ?Z)) (\<lambda>_. holds K ?Y)"
        using Z unZ K neq by (intro triple_Rename) auto
      then show "triple (holds K ?Y) (Rename d n (Filename t)) (post (\<lambda>_. c) K (\<lambda>_. ?Z)) (\<lambda>_. holds K ?Y)"
        by (rule triple_weaken) (auto simp: post_def c)
    qed
    show "triple (holds K ?Y) (Remove d n) (\<lambda>_. holds K X) (\<lambda>_. holds K X)"
      using n by (intro triple_Remove_either)
  qed
  show ?case
    unfolding p prod.case
    apply (rule triple_seq [OF triple_write_or_discard [OF n(3,2)]], simp)
    apply (rule triple_seq [OF triple_weaken [OF publish]], assumption, assumption, simp)
    apply (rule triple_map_error)
    apply (rule triple_weaken [OF triple_syncDirectory [of K ?Z "\<lambda>_. holds K ?Z"]])
    by (auto simp: post_def made_def intro!: exI [of _ h] unZ)
qed

end
