(* ===== verification/Backup_Rules.thy ===== *)
theory Backup_Rules
  imports Store_Rules
begin

text \<open>
  Rules for the backup of an alert: the copy, its publication, the pruning of old backups and the
  check that the alert has not changed.
\<close>

subsection \<open>The copy\<close>

lemma capture_Write_fits:
  assumes "capture_limit c = length (capture_data c) + remaining" "length bs \<le> remaining"
  shows "capture_Write c bs = c\<lparr>capture_data := capture_data c @ bs\<rparr>"
  using assms by (cases c) (auto simp: capture_Write_def Let_def)

definition copy_inv :: "entries \<Rightarrow> nat \<Rightarrow> string \<Rightarrow> bool" where
  "copy_inv X h bs \<longleftrightarrow> (\<forall>d n nd. (d, n, h, nd) \<in> X \<longrightarrow> bs = take (length bs) (i_data nd))"

definition copied_to ::
  "(dirid \<Rightarrow> string \<Rightarrow> bool) \<Rightarrow> dirid \<Rightarrow> string \<Rightarrow> nat \<Rightarrow> entries \<Rightarrow> string \<Rightarrow> world \<Rightarrow> bool"
where
  "copied_to K b tmp bh X bs w \<longleftrightarrow>
     (\<exists>bd. i_kind bd = Regular \<and> i_data bd = bs \<and> holds K (insert (b, tmp, bh, bd) X) w)"

lemma copy_step_data:
  assumes "bs = take (length bs) data" "x = take (length x) (drop (length bs) data)"
  shows "bs @ x = take (length (bs @ x)) data"
  using assms by (metis length_append take_add)

lemma copy_backup_run:
  assumes "unlinked bh X" "i_kind bd = Regular" "i_data bd = capture_data cap"
    and "capture_limit cap = length (capture_data cap) + remaining"
    and "copy_inv X h (capture_data cap)" "holds K (insert (b, tmp, bh, bd) X) w"
  shows "case copy_backup h bh (length (capture_data cap)) remaining cap w of
      (Inr (c, cap'), w1) \<Rightarrow> c = length (capture_data cap') \<and> c \<le> capture_limit cap \<and>
        (\<forall>d n nd. (d, n, h, nd) \<in> X \<longrightarrow> capture_data cap' = take (capture_limit cap) (i_data nd)) \<and>
        copied_to K b tmp bh X (capture_data cap') w1
    | (Inl e, w1) \<Rightarrow> \<exists>nd. holds K (insert (b, tmp, bh, nd) X) w1"
  using assms
proof (induction remaining arbitrary: cap bd w rule: less_induct)
  case (less remaining)
  let ?off = "length (capture_data cap)"
  have here: "copied_to K b tmp bh X (capture_data cap) w"
    using less.prems by (auto simp: copied_to_def)
  show ?case
  proof (cases "remaining = 0")
    case True
    with less.prems here show ?thesis
      by (subst copy_backup.simps) (auto simp: copy_inv_def)
  next
    case False
    obtain r w1 where r: "Read_at h ?off (min copy_buffer remaining) w = (r, w1)" by fastforce
    note read = triple_use [OF triple_Read_at_any [where k = "min copy_buffer remaining"
          and off = ?off and h = h and R = "\<lambda>_. holds K (insert (b, tmp, bh, bd) X)"], OF _ less.prems(6)]
    show ?thesis
    proof (cases r)
      case (Inl e)
      with read r less.prems(2) False show ?thesis
        by (subst copy_backup.simps) (auto simp: copied_to_def)
    next
      case (Inr x)
      with read r have w1: "holds K (insert (b, tmp, bh, bd) X) w1" and len: "length x \<le> remaining"
        and data: "\<And>d n nd. (d, n, h, nd) \<in> X \<Longrightarrow> x = take (length x) (drop ?off (i_data nd)) \<and>
          (x = [] \<longrightarrow> length (i_data nd) \<le> ?off)"
        using False by (auto simp: post_def copy_buffer_def)
      show ?thesis
      proof (cases "x = []")
        case True
        with data less.prems Inr r False w1 show ?thesis
          by (subst copy_backup.simps) (auto simp: copied_to_def copy_inv_def)
      next
        case ne: False
        have "triple (holds K (insert (b, tmp, bh, bd) X)) (Write_string bh x)
            (post (\<lambda>k. k = length x) K (\<lambda>_. insert (b, tmp, bh, written x bd) X))
            (\<lambda>_ w. \<exists>nd. holds K (insert (b, tmp, bh, nd) X) w)"
          by (rule triple_Write [OF less.prems(1)]) blast
        note wrote = triple_use [OF this w1]
        obtain r2 w2 where r2: "Write_string bh x w1 = (r2, w2)" by fastforce
        show ?thesis
        proof (cases r2)
          case (Inl e)
          with wrote r2 r Inr ne False show ?thesis
            by (subst copy_backup.simps) (auto simp: copied_to_def)
        next
          case w2: (Inr k)
          with wrote r2 have h2: "holds K (insert (b, tmp, bh, written x bd) X) w2"
            by (auto simp: post_def)
          have fits: "capture_Write cap x = cap\<lparr>capture_data := capture_data cap @ x\<rparr>"
            by (rule capture_Write_fits [OF less.prems(4) len])
          have inv: "copy_inv X h (capture_data cap @ x)"
            using less.prems(5) data unfolding copy_inv_def by (blast intro: copy_step_data)
          have "remaining - length x < remaining" using False ne by simp
          have lim: "capture_limit (capture_Write cap x) = capture_limit cap"
            by (simp add: fits)
          from less.IH [OF \<open>remaining - length x < remaining\<close> less.prems(1), of "written x bd" "capture_Write cap x" w2,
              unfolded lim]
          have IH: "case copy_backup h bh (?off + length x) (remaining - length x) (capture_Write cap x) w2 of
              (Inr (c, cap'), w1) \<Rightarrow> c = length (capture_data cap') \<and> c \<le> capture_limit cap \<and>
                (\<forall>d n nd. (d, n, h, nd) \<in> X \<longrightarrow>
                   capture_data cap' = take (capture_limit cap) (i_data nd)) \<and>
                copied_to K b tmp bh X (capture_data cap') w1
            | (Inl e, w1) \<Rightarrow> \<exists>nd. holds K (insert (b, tmp, bh, nd) X) w1"
            using less.prems(2-4) h2 inv len by (simp add: fits written_def)
          have "copy_backup h bh ?off remaining cap w =
              copy_backup h bh (?off + length x) (remaining - length x) (capture_Write cap x) w2"
            using r Inr r2 w2 ne False by (subst copy_backup.simps) simp
          with IH show ?thesis by simp
        qed
      qed
    qed
  qed
qed

lemma triple_copy_backup:
  assumes "unlinked bh X"
  shows "triple (holds K (insert (b, tmp, bh, new_inode 384) X))
    (copy_backup h bh 0 limit \<lparr>capture_limit = limit, capture_data = []\<rparr>)
    (\<lambda>(c, cap) w. (c = length (capture_data cap) \<and> c \<le> limit \<and>
       (\<forall>d n nd. (d, n, h, nd) \<in> X \<longrightarrow> capture_data cap = take limit (i_data nd))) \<and>
       copied_to K b tmp bh X (capture_data cap) w)
    (\<lambda>_ w. \<exists>nd. holds K (insert (b, tmp, bh, nd) X) w)"
  unfolding triple_def
proof (intro allI impI)
  fix w
  assume w: "holds K (insert (b, tmp, bh, new_inode 384) X) w"
  let ?cap = "\<lparr>capture_limit = limit, capture_data = []\<rparr>"
  from copy_backup_run [OF assms, of "new_inode 384" ?cap limit h K b tmp w] w
  have "case copy_backup h bh 0 limit ?cap w of
      (Inr (c, cap'), w1) \<Rightarrow> c = length (capture_data cap') \<and> c \<le> limit \<and>
        (\<forall>d n nd. (d, n, h, nd) \<in> X \<longrightarrow> capture_data cap' = take limit (i_data nd)) \<and>
        copied_to K b tmp bh X (capture_data cap') w1
    | (Inl e, w1) \<Rightarrow> \<exists>nd. holds K (insert (b, tmp, bh, nd) X) w1"
    by (cases "copy_backup h bh 0 limit ?cap w"; cases "fst (copy_backup h bh 0 limit ?cap w)")
      (simp_all add: new_inode_def copy_inv_def split: prod.splits)
  then show "case copy_backup h bh 0 limit ?cap w of
      (Inl e, w1) \<Rightarrow> \<exists>nd. holds K (insert (b, tmp, bh, nd) X) w1
    | (Inr x, w1) \<Rightarrow> (case x of (c, cap) \<Rightarrow> \<lambda>w. (c = length (capture_data cap) \<and> c \<le> limit \<and>
       (\<forall>d n nd. (d, n, h, nd) \<in> X \<longrightarrow> capture_data cap = take limit (i_data nd))) \<and>
       copied_to K b tmp bh X (capture_data cap) w) w1"
    by (cases "copy_backup h bh 0 limit ?cap w"; cases "fst (copy_backup h bh 0 limit ?cap w)")
      (simp_all split: prod.splits)
qed

subsection \<open>The checks and the publication\<close>

text \<open>The file that a backup is published as.\<close>

definition is_backup :: "string \<Rightarrow> inode \<Rightarrow> bool" where
  "is_backup data bd \<longleftrightarrow> i_kind bd = Regular \<and> i_mode bd = 384 \<and> i_synced bd \<and> i_data bd = data"

text \<open>
  Filling the backup: when it succeeds, the backup file holds what was captured, and, if the
  source is an entry of the frame, that is the source's contents.
\<close>

definition filled ::
  "(dirid \<Rightarrow> string \<Rightarrow> bool) \<Rightarrow> dirid \<Rightarrow> string \<Rightarrow> nat \<Rightarrow> entries \<Rightarrow> bool \<Rightarrow> nat \<Rightarrow> (file_info \<times> string) \<Rightarrow> world \<Rightarrow> bool"
where
  "filled K b tmp bh X rejectManaged h r w \<longleftrightarrow>
     (length (snd r) \<le> MaxLegacyBytes \<and>
      (rejectManaged \<longrightarrow> ParseManagedHTML (snd r) = None) \<and>
      (\<forall>d n nd. (d, n, h, nd) \<in> X \<longrightarrow> r = (info_of h nd, i_data nd))) \<and>
     (\<exists>bd. is_backup (snd r) bd \<and> holds K (insert (b, tmp, bh, bd) X) w)"

lemma filledI:
  assumes "is_backup (snd r) bd" "holds K (insert (b, tmp, bh, bd) X) w"
    and "length (snd r) \<le> MaxLegacyBytes" "rejectManaged \<Longrightarrow> ParseManagedHTML (snd r) = None"
    and "\<And>d n nd. (d, n, h, nd) \<in> X \<Longrightarrow> r = (info_of h nd, i_data nd)"
  shows "filled K b tmp bh X rejectManaged h r w"
  using assms by (auto simp: filled_def)

lemma triple_fill_backup:
  assumes un: "unlinked bh X"
  shows "triple (holds K (insert (b, tmp, bh, new_inode 384) X))
    (fill_backup t rejectManaged h info bh) (filled K b tmp bh X rejectManaged h)
    (\<lambda>_ w. \<exists>nd. holds K (insert (b, tmp, bh, nd) X) w)"
  unfolding fill_backup_def
proof (rule triple_bind [OF triple_map_error [OF triple_copy_backup [OF un]]], goal_cases)
  case (1 p)
  obtain c cap where p: "p = (c, cap)" by (cases p)
  show ?case
    unfolding p prod.case copied_to_def
  proof (intro triple_assume triple_ex, goal_cases)
    case (1 bd)
    note c = this
    have chmod: "i_mode (bd\<lparr>i_mode := 384, i_synced := False, i_synced := True\<rparr>) = 384" by simp
    show ?case
    proof (cases "c \<le> MaxLegacyBytes")
      case False
      then show ?thesis by (auto intro!: triple_world_fail)
    next
      case True
      have "take (MaxLegacyBytes + 1) (i_data nd) = i_data nd"
        if "(d, n, h, nd) \<in> X" for d n nd
      proof -
        have "length (take (MaxLegacyBytes + 1) (i_data nd)) \<le> MaxLegacyBytes"
          using c(1) that True by auto
        then show ?thesis by (simp add: min_def split: if_splits)
      qed
      with c True have whole: "capture_data cap = i_data nd" if "(d, n, h, nd) \<in> X" for d n nd
        using that by auto
      let ?Y = "insert (b, tmp, bh, bd) X"
      let ?bd = "bd\<lparr>i_mode := 384, i_synced := False, i_synced := True\<rparr>"
      have fail: "triple (holds K ?Y) (fail_io e) (filled K b tmp bh X rejectManaged h)
          (\<lambda>_ w. \<exists>nd. holds K (insert (b, tmp, bh, nd) X) w)" for e
        by (rule triple_world_fail) blast
      have err: "\<exists>nd. holds K (insert (b, tmp, bh, nd) X) w" if "holds K (insert (b, tmp, bh, nd) X) w" for nd w
        using that by blast
      show ?thesis
      proof (rule triple_if, rule fail, rule triple_seq [OF triple_map_error [OF triple_Stat]],
          erule err, rule triple_if, rule fail, rule triple_if, rule fail,
          rule triple_seq [OF triple_map_error [OF triple_Chmod [OF un]]], erule err,
          rule triple_seq [OF triple_map_error [OF triple_Sync [OF un]]], erule err,
          rule triple_world_return, rule filledI [where bd = ?bd], goal_cases)
        case (1 x u v w)
        show ?case using c by (simp add: is_backup_def)
      qed (use c True whole in auto)
    qed
  qed
qed

lemma pad_nat_digits: "c \<in> set (pad_nat k n) \<Longrightarrow> is_digit c"
proof (induction k arbitrary: n)
  case (Suc k)
  have "is_digit (digit_char (n mod 10))" by (simp add: is_digit_def)
  with Suc show ?case by auto
qed simp

lemma backup_timestamp_hd: "hd (backup_timestamp u) \<noteq> CHR ''.''" "backup_timestamp u \<noteq> []"
proof -
  have ne: "pad_nat 4 (t_year u) \<noteq> []"
    using length_pad_nat [of 4 "t_year u"] by (metis list.size(3) zero_neq_numeral)
  then have hd: "hd (backup_timestamp u) = hd (pad_nat 4 (t_year u))"
    by (simp add: backup_timestamp_def)
  have "is_digit (hd (pad_nat 4 (t_year u)))"
    by (rule pad_nat_digits [OF hd_in_set [OF ne]])
  then show "hd (backup_timestamp u) \<noteq> CHR ''.''"
    unfolding hd by (auto simp: is_digit_def)
  show "backup_timestamp u \<noteq> []" using ne by (simp add: backup_timestamp_def)
qed

definition backup_name :: "string \<Rightarrow> bool" where
  "backup_name n \<longleftrightarrow> HasSuffix n ''.txt'' \<and> \<not> private_name n"

lemma triple_newBackupName:
  "triple (holds K X) (newBackupName t) (post backup_name K (\<lambda>_. X)) R"
proof -
  have "backup_name (backup_timestamp u @ ''-'' @ target_String t @ ''-'' @ token @ ''.txt'')" for u token
    using backup_timestamp_hd [of u]
    by (cases "backup_timestamp u")
      (auto simp: backup_name_def private_name_def HasPrefix_def HasSuffix_iff)
  then show ?thesis
    unfolding newBackupName_def
    by (intro triple_seq [OF triple_randomHex] triple_seq [OF triple_now])
      (auto intro!: triple_world_return)
qed

lemma triple_publish_backup:
  assumes "private_name tmp" "\<And>n. K b n" "\<And>n. unnamed b n X"
    and "\<And>e w. holds K (insert (b, tmp, bh, bd) X) w \<Longrightarrow> R e w"
  shows "triple (holds K (insert (b, tmp, bh, bd) X)) (publish_backup b t bh tmp)
    (post backup_name K (\<lambda>name. insert (b, name, bh, bd) X)) R"
  unfolding publish_backup_def
proof (rule triple_seq [OF triple_map_error [OF triple_Close]], rule assms(4), assumption,
    rule triple_seq [OF triple_map_error [OF triple_newBackupName]], goal_cases)
  case (1 u name)
  then have "tmp \<noteq> name" using assms(1) by (auto simp: backup_name_def)
  then have "triple (holds K (insert (b, tmp, bh, bd) X)) (Rename b tmp name)
      (post (\<lambda>_. True) K (\<lambda>_. insert (b, name, bh, bd) X))
      (\<lambda>e. R (with_backup ''publish backup for alert '' t [] e))"
    using assms by (intro triple_Rename) auto
  then show ?case
    by (rule triple_seq [OF triple_map_error]) (auto intro!: triple_world_return 1)
qed

subsection \<open>Retention\<close>

lemma triple_backup_names:
  assumes "\<And>e w. holds K X w \<Longrightarrow> R e w"
  shows "triple (holds K X) (backup_names b ns)
    (post (\<lambda>names. names = filter (\<lambda>n. HasSuffix n ''.txt'') ns) K (\<lambda>_. X)) R"
proof (induction ns)
  case (Cons n ns)
  then show ?case
    by (auto intro!: triple_seq [OF triple_map_error [OF triple_Lstat]] triple_seq [OF Cons.IH]
        triple_world_return triple_world_fail assms)
qed (auto intro!: triple_world_return)

text \<open>Only names other than the protected one are removed.\<close>

lemma triple_remove_expired:
  assumes "\<And>n. n \<in> set ns \<Longrightarrow> n \<noteq> prot \<Longrightarrow> unnamed b n X" "\<And>e w. holds K X w \<Longrightarrow> R e w"
  shows "triple (holds K X) (remove_expired b prot k ns) (post (\<lambda>_. True) K (\<lambda>_. X)) R"
  using assms(1)
proof (induction ns arbitrary: k)
  case (Cons n ns)
  then show ?case
    by (auto intro!: triple_seq [OF triple_map_error [OF triple_Remove_other]] triple_world_return
        assms(2))
qed (auto intro!: triple_world_return)

lemma triple_read_directory:
  assumes "\<And>e w. holds K X w \<Longrightarrow> R e w"
  shows "triple (holds K X) (read_directory what d)
    (post (\<lambda>x. distinct x \<and> (\<forall>n i nd. (d, n, i, nd) \<in> X \<longrightarrow> n \<in> set x)) K (\<lambda>_. X)) R"
  unfolding read_directory_def joined_results_def
  by (intro triple_seq [OF triple_map_error [OF triple_OpenDir]] triple_try_seq [OF triple_ReadDir]
        triple_try_seq [OF triple_CloseDir])
    (auto intro!: triple_world_return triple_world_fail assms post_holds split: option.split)

lemma triple_pruneBackups:
  assumes "\<And>n. n \<noteq> prot \<Longrightarrow> unnamed b n X" "\<And>e w. holds K X w \<Longrightarrow> R e w"
  shows "triple (holds K X) (pruneBackups b prot) (post (\<lambda>_. True) K (\<lambda>_. X)) R"
  unfolding pruneBackups_def
proof (rule triple_seq [OF triple_read_directory], erule assms(2),
    rule triple_seq [OF triple_backup_names], erule assms(2), goal_cases)
  case (1 entries names)
  show ?case
    by (auto intro!: triple_world_return triple_world_fail triple_seq [OF triple_remove_expired]
        triple_map_error [OF triple_syncDirectory] assms)
qed

subsection \<open>The whole backup\<close>

text \<open>
  What a successful backup has established: the file that was published, and, if the alert was an
  entry that nobody touched, that the copy is its contents.
\<close>

definition backed_up ::
  "(dirid \<Rightarrow> string \<Rightarrow> bool) \<Rightarrow> dirid \<Rightarrow> dirid \<Rightarrow> target \<Rightarrow> bool \<Rightarrow> entries \<Rightarrow> (sourceSnapshot \<times> string) \<Rightarrow> world \<Rightarrow> bool"
where
  "backed_up K d b t rejectManaged X r w \<longleftrightarrow>
     ((rejectManaged \<longrightarrow> ParseManagedHTML (snapshot_content (fst r)) = None) \<and>
      (\<forall>i nd. (d, Filename t, i, nd) \<in> X \<longrightarrow> i_kind nd = Regular \<and>
         fst r = \<lparr>snapshot_info = info_of i nd, snapshot_content = i_data nd\<rparr>)) \<and>
     (\<exists>j bd. is_backup (snapshot_content (fst r)) bd \<and> backup_name (snd r) \<and>
        holds K (insert (b, snd r, j, bd) X) w)"

lemma backed_upI:
  assumes "is_backup (snapshot_content (fst r)) bd" "backup_name (snd r)"
    and "holds K (insert (b, snd r, j, bd) X) w"
    and "rejectManaged \<Longrightarrow> ParseManagedHTML (snapshot_content (fst r)) = None"
    and "\<And>i nd. (d, Filename t, i, nd) \<in> X \<Longrightarrow> i_kind nd = Regular \<and>
         fst r = \<lparr>snapshot_info = info_of i nd, snapshot_content = i_data nd\<rparr>"
  shows "backed_up K d b t rejectManaged X r w"
  using assms by (auto simp: backed_up_def)

lemma triple_backup_open:
  assumes K: "\<And>n. K b n" and un: "\<And>n. unnamed b n X"
    and src: "\<And>i nd. (d, Filename t, i, nd) \<in> X \<Longrightarrow> i_kind nd = Regular \<and> h = i"
  shows "triple (holds K X) (backup_open b t rejectManaged info h)
    (backed_up K d b t rejectManaged X) (\<lambda>_. holds K X)"
  unfolding backup_open_def createTemporaryBackup_def
proof (rule triple_seq [OF triple_map_error [OF triple_Stat]], assumption, rule triple_if,
    rule triple_world_fail, assumption, rule triple_if, rule triple_world_fail, assumption,
    rule triple_seq [OF triple_map_error [OF triple_temporary_backup]], use K in simp, assumption,
    goal_cases)
  case (1 openedInfo p)
  obtain bh tmp where p: "p = (bh, tmp)" by (cases p)
  with 1 have tmp: "private_name tmp" and unl: "unlinked bh X" by auto
  have drop: "holds K X w" if "holds K (insert x X) w" for x w
    using that by blast
  have fill: "triple (holds K (insert (b, tmp, bh, new_inode 384) X))
      (on_error (discard_open b bh tmp) (fill_backup t rejectManaged h openedInfo bh))
      (filled K b tmp bh X rejectManaged h) (\<lambda>_. holds K X)"
    by (rule triple_on_error [OF triple_fill_backup [OF unl]], rule triple_ex,
        rule triple_weaken [OF triple_discard_open [OF un]]) auto
  show ?case
    unfolding p prod.case
  proof (rule triple_bind [OF fill], goal_cases)
    case (1 r)
    obtain sourceAfter content where r: "r = (sourceAfter, content)" by (cases r)
    show ?case
      unfolding r prod.case filled_def
    proof (intro triple_assume triple_ex, goal_cases)
      case (1 bd)
      have pub: "triple (holds K (insert (b, tmp, bh, bd) X))
          (on_error (Remove b tmp) (publish_backup b t bh tmp))
          (post backup_name K (\<lambda>name. insert (b, name, bh, bd) X)) (\<lambda>_. holds K X)"
          by (rule triple_on_error [where R' = "\<lambda>_. holds K (insert (b, tmp, bh, bd) X)"],
              rule triple_publish_backup)
            (auto intro: triple_Remove_either tmp K un)
      show ?case
      proof (rule triple_seq [OF pub], rule triple_seq [OF triple_map_error [OF triple_syncDirectory]],
          erule drop, rule triple_seq [OF triple_map_error [OF triple_pruneBackups]], goal_cases)
        case (3 name)
        then show ?case
          by (intro triple_world_return backed_upI [where bd = bd and j = bh])
            (use 1 src in auto)
      qed (use un in auto)
    qed
  qed
qed

lemma triple_backupAlert:
  assumes K: "\<And>n. K b n" and un: "\<And>n. unnamed b n X"
  shows "triple (holds K X) (backupAlert d b t rejectManaged)
    (backed_up K d b t rejectManaged X) (\<lambda>_. holds K X)"
  unfolding backupAlert_def Let_def
proof (rule triple_seq [OF triple_map_error [OF triple_Lstat]], assumption, rule triple_if,
    rule triple_world_fail, assumption,
    rule triple_seq [OF triple_map_error [OF triple_Open]], assumption, goal_cases)
  case (1 info h)
  show ?case
  proof (rule triple_deferred [OF triple_backup_open [where K = K and X = X and d = d]],
      rule K, rule un)
    show "i_kind nd = Regular \<and> h = i" if "(d, Filename t, i, nd) \<in> X" for i nd
      using 1 that by auto
  next
    fix r
    show "triple (backed_up K d b t rejectManaged X r) (Close h)
        (\<lambda>_. backed_up K d b t rejectManaged X r) (\<lambda>_. backed_up K d b t rejectManaged X r)"
      unfolding backed_up_def
      by (intro triple_assume triple_ex, rule triple_weaken [OF triple_Close]) (auto simp: post_def)
  qed (rule triple_weaken [OF triple_Close], auto simp: post_def)
qed

subsection \<open>The check before the alert is replaced or removed\<close>

text \<open>It succeeds only when the alert is still the file of the snapshot, with the same contents.\<close>

definition unchanged :: "dirid \<Rightarrow> target \<Rightarrow> sourceSnapshot \<Rightarrow> entries \<Rightarrow> bool" where
  "unchanged d t snap X \<longleftrightarrow> (\<forall>i nd. (d, Filename t, i, nd) \<in> X \<longrightarrow>
     i_kind nd = Regular \<and> fi_ino (snapshot_info snap) = i \<and> i_data nd = snapshot_content snap)"

lemma triple_verify_open:
  assumes src: "\<And>i nd. (d, Filename t, i, nd) \<in> X \<Longrightarrow> h = i \<and> i_kind nd = Regular"
  shows "triple (holds K X) (verify_open t snap h) (post (\<lambda>_. unchanged d t snap X) K (\<lambda>_. X))
    (\<lambda>_. holds K X)"
proof -
  have fail: "triple (holds K X) (bind_io (try_io (Close h)) (\<lambda>_. fail_io e))
      (post (\<lambda>_. unchanged d t snap X) K (\<lambda>_. X)) (\<lambda>_. holds K X)" for e
    by (rule triple_try_seq [OF triple_Close [OF post_holds]]) (auto intro: triple_world_fail)
  have read: "triple (holds K X) (read_limited h 0 (MaxLegacyBytes + 1))
      (post (\<lambda>x. \<forall>i nd. (d, Filename t, i, nd) \<in> X \<longrightarrow> x = take (MaxLegacyBytes + 1) (i_data nd)) K (\<lambda>_. X))
      (post (\<lambda>_. True) K (\<lambda>_. X))"
  proof (cases "\<exists>i nd. (d, Filename t, i, nd) \<in> X")
    case True
    then obtain nd where X: "(d, Filename t, h, nd) \<in> X" using src by blast
    show ?thesis
    proof (rule triple_weaken [OF triple_read_limited [OF X, of _ "post (\<lambda>_. True) K (\<lambda>_. X)"]])
      fix x w
      assume "post (\<lambda>x. x = take (MaxLegacyBytes + 1) (drop 0 (i_data nd))) K (\<lambda>_. X) x w"
      then have x: "x = take (MaxLegacyBytes + 1) (i_data nd)" and w: "holds K X w"
        by (auto simp: post_def)
      have "nd' = nd" if "(d, Filename t, i, nd') \<in> X" for i nd'
        using has_inode [OF holds_fs [OF w] X] has_inode [OF holds_fs [OF w] that] src [OF that] by simp
      with x w show "post (\<lambda>x. \<forall>i nd. (d, Filename t, i, nd) \<in> X \<longrightarrow>
          x = take (MaxLegacyBytes + 1) (i_data nd)) K (\<lambda>_. X) x w"
        by (auto simp: post_def)
    qed auto
  next
    case False
    then show ?thesis
      by (intro triple_weaken [OF triple_read_limited_any [of _ _ "post (\<lambda>_. True) K (\<lambda>_. X)"]])
        (auto simp: post_def)
  qed
  show ?thesis
    unfolding verify_open_def Let_def
  proof (rule triple_try_seq [OF triple_Stat [OF post_holds]], assumption, simp_all only: sum.case,
      rule triple_if, rule fail, rule triple_try_seq [OF read], goal_cases)
    case (1 info data)
    show ?case
    proof (rule triple_try_seq [OF triple_Stat [OF post_holds]], assumption,
        rule triple_try_seq [OF triple_Close [OF post_holds]], assumption, goal_cases)
      case (1 after)
      have "unchanged d t snap X" if "SameFile (snapshot_info snap) after"
        "length data = fi_size (snapshot_info snap)" "fi_size after = fi_size (snapshot_info snap)"
        "data = snapshot_content snap"
      proof -
        have "i_kind nd = Regular \<and> fi_ino (snapshot_info snap) = i \<and> i_data nd = snapshot_content snap"
          if X: "(d, Filename t, i, nd) \<in> X" for i nd
        proof -
          have h: "h = i" "i_kind nd = Regular" using src [OF X] by auto
          have "after = info_of i nd" "data = take (MaxLegacyBytes + 1) (i_data nd)"
            using 1 X h \<open>\<forall>i nd. (d, Filename t, i, nd) \<in> X \<longrightarrow> data = take (MaxLegacyBytes + 1) (i_data nd)\<close>
            by auto
          moreover from this have "take (MaxLegacyBytes + 1) (i_data nd) = i_data nd"
            using \<open>length data = fi_size (snapshot_info snap)\<close>
              \<open>fi_size after = fi_size (snapshot_info snap)\<close> by (simp add: min_def split: if_splits)
          moreover note \<open>SameFile (snapshot_info snap) after\<close> \<open>length data = fi_size (snapshot_info snap)\<close>
            \<open>fi_size after = fi_size (snapshot_info snap)\<close> \<open>data = snapshot_content snap\<close> h
          ultimately show ?thesis by (simp add: SameFile_def)
        qed
        then show ?thesis by (simp add: unchanged_def)
      qed
      then show ?case
        by (auto simp: joined_results_def errors_Join_def intro!: triple_world_return triple_world_fail)
    qed (auto simp: joined_results_def errors_Join_def intro!: triple_world_fail
        triple_try_seq [OF triple_Close [OF post_holds]])
  next
    case (2 info e)
    show ?case
      by (rule triple_try_seq [OF triple_Stat [OF post_holds]], assumption;
          rule triple_try_seq [OF triple_Close [OF post_holds]])
        (auto simp: joined_results_def errors_Join_def intro!: triple_world_fail)
  qed (rule fail)
qed

lemma triple_verifySourceUnchanged:
  "triple (holds K X) (verifySourceUnchanged d t snap)
     (post (\<lambda>_. unchanged d t snap X) K (\<lambda>_. X)) (\<lambda>_. holds K X)"
  unfolding verifySourceUnchanged_def Let_def
proof (rule triple_seq [OF triple_map_error [OF triple_Lstat]], assumption, rule triple_if,
    rule triple_world_fail, assumption,
    rule triple_seq [OF triple_map_error [OF triple_Open]], assumption, rule triple_verify_open,
    goal_cases)
  case (1 info h i nd)
  then show ?case by auto
qed

end
