(* ===== verification/Read_Rules.thy ===== *)
theory Read_Rules
  imports File_System
begin

text \<open>
  Operations that change nothing: \<open>left_alone w w'\<close> says that between the two worlds the file system
  was changed by other processes only, by the events of the script that were used up, and
  \<open>reads_only m\<close> that this is so whenever \<open>m\<close> runs, however it ends.  The rules follow the control
  structure, as those of \<open>raises\<close> do.
\<close>

named_theorems reading \<open>rules for operations that change no file\<close>

definition others_did :: "event list \<Rightarrow> fs \<Rightarrow> fs" where
  "others_did evs f = fold ev_env evs f"

definition left_alone :: "world \<Rightarrow> world \<Rightarrow> bool" where
  "left_alone w w' \<longleftrightarrow>
     (\<exists>evs. w_script w = evs @ w_script w' \<and> w_fs w' = others_did evs (w_fs w))"

definition reads_only :: "'a io \<Rightarrow> bool" where
  "reads_only m \<longleftrightarrow> (\<forall>w. left_alone w (snd (m w)))"

lemma left_alone_refl [simp]: "left_alone w w"
  by (auto simp: left_alone_def others_did_def intro: exI [of _ "[]"])

lemma left_alone_trans: "left_alone w w1 \<Longrightarrow> left_alone w1 w2 \<Longrightarrow> left_alone w w2"
  unfolding left_alone_def others_did_def by (metis append_assoc comp_apply fold_append)

lemma left_alone_fields [simp]:
  "left_alone w (w1\<lparr>w_fds := n\<rparr>) = left_alone w w1" "left_alone w (w1\<lparr>w_rand_pos := n\<rparr>) = left_alone w w1"
  "left_alone w (w1\<lparr>w_clock_pos := n\<rparr>) = left_alone w w1"
  by (simp_all add: left_alone_def)

text \<open>Nobody else left to act: the file system is the same.\<close>

lemma left_alone_quiet: "left_alone w w' \<Longrightarrow> w_script w = [] \<Longrightarrow> w_fs w' = w_fs w"
  by (auto simp: left_alone_def others_did_def)

lemma left_alone_tick: "tick w = (ev, w1) \<Longrightarrow> left_alone w w1"
  by (auto simp: tick_def left_alone_def others_did_def split: list.splits intro: exI [of _ "[ev]"])

lemma reads_onlyI: "(\<And>w r w1. m w = (r, w1) \<Longrightarrow> left_alone w w1) \<Longrightarrow> reads_only m"
  unfolding reads_only_def by (metis prod.collapse)

lemma reads_onlyD: "reads_only m \<Longrightarrow> m w = (r, w1) \<Longrightarrow> left_alone w w1"
  unfolding reads_only_def by (metis snd_conv)

lemma reads_only_return [reading]: "reads_only (return_io x)"
  by (simp add: reads_only_def return_io_def)

lemma reads_only_fail [reading]: "reads_only (fail_io e)"
  by (simp add: reads_only_def fail_io_def)

lemma reads_only_bind [reading]:
  assumes "reads_only m" "\<And>x. reads_only (f x)"
  shows "reads_only (bind_io m f)"
proof (rule reads_onlyI)
  fix w r w1
  assume run: "bind_io m f w = (r, w1)"
  obtain r0 w0 where m: "m w = (r0, w0)" by fastforce
  note first = reads_onlyD [OF assms(1) m]
  show "left_alone w w1"
  proof (cases r0)
    case (Inr x)
    with run m have "f x w0 = (r, w1)" by (simp add: bind_io_def)
    from left_alone_trans [OF first reads_onlyD [OF assms(2) this]] show ?thesis .
  qed (use run m first in \<open>simp add: bind_io_def\<close>)
qed

lemma reads_only_map_error [reading]: "reads_only m \<Longrightarrow> reads_only (map_error g m)"
  unfolding reads_only_def map_error_def by (simp add: case_prod_beta split: sum.split)

lemma reads_only_try [reading]: "reads_only m \<Longrightarrow> reads_only (try_io m)"
  by (simp add: reads_only_def try_io_def case_prod_beta)

lemma reads_only_deferred [reading]: "reads_only m \<Longrightarrow> reads_only c \<Longrightarrow> reads_only (deferred c m)"
  unfolding reads_only_def deferred_def by (simp add: case_prod_beta) (blast intro: left_alone_trans)

lemma reads_only_with_fd: "reads_only m \<Longrightarrow> reads_only (with_fd m)"
  unfolding reads_only_def with_fd_def by (simp add: case_prod_beta split: sum.split)

lemma reads_only_syscall:
  assumes "\<And>f. snd (g f) = f"
  shows "reads_only (syscall g)"
proof (rule reads_onlyI)
  fix w r w1
  assume run: "syscall g w = (r, w1)"
  obtain ev w0 where t: "tick w = (ev, w0)" by fastforce
  have "g (w_fs w0) = (fst (g (w_fs w0)), w_fs w0)" using assms by (metis prod.collapse)
  with run t have "w1 = w0" by (auto simp: syscall_def split: option.splits prod.splits)
  with left_alone_tick [OF t] show "left_alone w w1" by simp
qed

lemma reads_only_calls [reading]:
  "reads_only (Lstat d n)" "reads_only (Open d n)" "reads_only (Stat h)"
  unfolding Lstat_def Open_def Stat_def
  by (intro reads_only_with_fd reads_only_syscall; simp split: option.split)+

lemma reads_only_Close [reading]: "reads_only (Close h)"
proof -
  have "reads_only (syscall (\<lambda>f. (Inr (), f)) :: unit io)" by (rule reads_only_syscall) simp
  then show ?thesis by (simp add: reads_only_def Close_def case_prod_beta)
qed

lemma left_alone_Read_at: "Read_at h off n w = (r, w1) \<Longrightarrow> left_alone w w1"
  by (auto simp: Read_at_def left_alone_tick split: prod.splits option.splits)

lemma reads_only_read_limited [reading]: "reads_only (read_limited h off limit)"
proof -
  have "left_alone w (snd (read_limited h off limit w))" for w
  proof (induction h off limit w rule: read_limited.induct)
    case (1 h off limit w)
    obtain r w1 where read: "Read_at h off limit w = (r, w1)" by fastforce
    note here = left_alone_Read_at [OF read]
    show ?case
    proof (cases "limit = 0 \<or> isl r \<or> r = Inr []")
      case True
      with here read show ?thesis by (cases r) (auto simp: read_limited.simps [of h off limit])
    next
      case False
      then obtain bs where bs: "r = Inr bs" "bs \<noteq> []" by (cases r) auto
      have "left_alone w1 (snd (read_limited h (off + length bs) (limit - length bs) w1))"
        using 1 [OF _ read [symmetric] bs] False by simp
      with left_alone_trans [OF here this] read bs False show ?thesis
        by (cases "read_limited h (off + length bs) (limit - length bs) w1")
          (auto simp: read_limited.simps [of h off limit] split: sum.split)
    qed
  qed
  then show ?thesis by (simp add: reads_only_def)
qed

end
