(* ===== verification/Store_Safety.thy ===== *)
theory Store_Safety
  imports Backup_Rules Read_Rules
begin

text \<open>
  What the alert store guarantees: no operation damages an alert it was not asked to change, create
  never overwrites, write never touches an alert that is not managed, and delete and convert leave
  a synced copy of what they remove.  The theorems hold for every script, that is for every
  interference by other processes that leaves the named entries alone and for every failure of
  every system call, including a process that dies at any point.
\<close>

subsection \<open>Runs among other processes\<close>

text \<open>
  \<open>among K d t w\<close>: the file system is well formed, and whatever else happens while the operation
  runs leaves alone the entries that \<open>K\<close> protects; these include the alert of the target \<open>t\<close> in the
  directory \<open>d\<close> and the store's private temporary names there.
\<close>

definition among :: "(dirid \<Rightarrow> string \<Rightarrow> bool) \<Rightarrow> dirid \<Rightarrow> target \<Rightarrow> world \<Rightarrow> bool" where
  "among K d t w \<longleftrightarrow> wf_fs (w_fs w) \<and> (\<forall>ev \<in> set (w_script w). spares K (ev_env ev)) \<and>
     guards K d \<and> K d (Filename t)"

definition present :: "world \<Rightarrow> dirid \<Rightarrow> string \<Rightarrow> nat \<Rightarrow> inode \<Rightarrow> bool" where
  "present w d n i nd \<longleftrightarrow> lookup (w_fs w) d n = Some (i, nd)"

lemma among_holds:
  assumes "among K e t w" "\<And>d n i nd. (d, n, i, nd) \<in> X \<Longrightarrow> K d n \<and> present w d n i nd"
  shows "holds K X w"
  using assms by (auto simp: among_def holds_def protected_def rg_def has_def present_def)

lemma holds_present: "holds K X w \<Longrightarrow> (d, n, i, nd) \<in> X \<Longrightarrow> present w d n i nd"
  by (auto simp: present_def dest: holds_fs intro: has_lookup)

lemma made_present:
  "made K d n nd X w \<Longrightarrow> (\<exists>i. present w d n i nd) \<and> (\<forall>(d, n, i, nd) \<in> X. present w d n i nd)"
  by (auto simp: made_def intro: holds_present)

text \<open>All the entries that are present and protected.\<close>

definition all_entries :: "(dirid \<Rightarrow> string \<Rightarrow> bool) \<Rightarrow> world \<Rightarrow> entries" where
  "all_entries K w = {(d, n, i, nd). K d n \<and> present w d n i nd}"

lemma among_all: "among K d t w \<Longrightarrow> holds K (all_entries K w) w"
  by (rule among_holds) (auto simp: all_entries_def)

lemma open_store_simps:
  assumes "wf_target t"
  shows "target_String t \<noteq> []" "Filename t \<noteq> []"
  using assms by (auto simp: target_String_def Filename_def)

lemma triple_seq_weaker:
  assumes "triple P m (post V K Y) R'" "\<And>e w. R' e w \<Longrightarrow> R e w"
    and "\<And>x. V x \<Longrightarrow> triple (holds K (Y x)) (f x) Q R"
  shows "triple P (bind_io m f) Q R"
proof (rule triple_seq)
  show "triple P m (post V K Y) R"
    using assms(1) by (rule triple_weaken) (use assms(2) in auto)
qed (rule assms(3))

subsection \<open>Create\<close>

lemma triple_Store_Create:
  assumes "guards K d" "K d (Filename t)" "wf_target t" "alertRoot s = Some d"
  shows "triple (holds K X) (Store_Create s t m)
    (\<lambda>_ w. unnamed d (Filename t) X \<and> made K d (Filename t) (managed_inode m) X w)
    (\<lambda>_. holds K X)"
  unfolding Store_Create_def
  using assms open_store_simps [OF assms(3)] triple_createManagedExclusive [of K d t X m]
  by (auto intro!: triple_world_fail)

lemma run_Create:
  assumes "Store_Create s t m w = (r, w')" "alertRoot s = Some d" "wf_target t" "among K d t w"
  shows "case r of Inr _ \<Rightarrow> unnamed d (Filename t) (all_entries K w) \<and>
      made K d (Filename t) (managed_inode m) (all_entries K w) w'
    | Inl _ \<Rightarrow> holds K (all_entries K w) w'"
proof -
  have "guards K d" "K d (Filename t)" using assms(4) by (simp_all add: among_def)
  from triple_use [OF triple_Store_Create [where K = K and d = d, OF this assms(3,2)]
      among_all [OF assms(4)], of m] show ?thesis
    by (simp add: assms(1))
qed

text \<open>
  C3: \<open>Create\<close> changes no existing file.  Whatever other processes do to the rest of the file
  system, and wherever a system call fails, every entry that they leave alone is exactly as
  before when \<open>Create\<close> returns, with or without an error; and if an entry with the target's file
  name was one of them, \<open>Create\<close> returned an error.
\<close>

theorem create_never_overwrites:
  assumes "Store_Create s t m w = (r, w')" "alertRoot s = Some d" "wf_target t" "among K d t w"
    and "K e n" "present w e n i nd"
  shows "present w' e n i nd \<and> ((e, n) = (d, Filename t) \<longrightarrow> (\<exists>err. r = Inl err))"
proof -
  have X: "(e, n, i, nd) \<in> all_entries K w"
    using assms(5,6) by (simp add: all_entries_def)
  note run = run_Create [OF assms(1-4)]
  show ?thesis
  proof (cases r)
    case (Inl err)
    then show ?thesis using run X by (auto intro: holds_present)
  next
    case (Inr u)
    then show ?thesis
      using run X by (auto simp: unnamed_def dest!: made_present)
  qed
qed

text \<open>
  C22: when \<open>Create\<close> reports success, the alert is in the directory under its file name, as a regular
  file with mode 0644 that holds exactly the rendered message and was synced before it got its
  name.
\<close>

theorem create_publishes:
  assumes "Store_Create s t m w = (Inr u, w')" "alertRoot s = Some d" "wf_target t" "among K d t w"
  shows "\<exists>i. present w' d (Filename t) i (managed_inode m)"
  using run_Create [OF assms] by (auto dest!: made_present)

subsection \<open>Write\<close>

lemma triple_writeManaged:
  assumes K: "guards K d" "K d (Filename t)" "wf_target t" and Z: "Z \<subseteq> X" "unnamed d (Filename t) Z"
  shows "triple (holds K X) (writeManaged d t m)
    (\<lambda>_ w. (\<forall>i nd. (d, Filename t, i, nd) \<in> X \<longrightarrow> i_kind nd = Regular \<and> managed_data (i_data nd)) \<and>
       made K d (Filename t) (managed_inode m) Z w)
    (\<lambda>_ w. holds K X w \<or>
       (\<forall>i nd. (d, Filename t, i, nd) \<in> X \<longrightarrow> i_kind nd = Regular \<and> managed_data (i_data nd)) \<and>
       made K d (Filename t) (managed_inode m) Z w)"
  unfolding writeManaged_def
proof (rule triple_writeManagedChecked [where K = K and d = d, OF K Z])
  fix Y assume "X \<subseteq> Y"
  show "triple (holds K Y) (ensureManagedWritable d t)
      (post (\<lambda>_. \<forall>i nd. (d, Filename t, i, nd) \<in> X \<longrightarrow> i_kind nd = Regular \<and> managed_data (i_data nd))
         K (\<lambda>_. Y)) (\<lambda>_. holds K Y)"
  proof (cases "\<exists>i nd. (d, Filename t, i, nd) \<in> X")
    case True
    then obtain i nd where X: "(d, Filename t, i, nd) \<in> X" by blast
    then have Y: "(d, Filename t, i, nd) \<in> Y" using \<open>X \<subseteq> Y\<close> by blast
    show ?thesis
    proof (rule triple_weaken [OF triple_ensureManagedWritable [OF Y]])
      fix x w
      assume "post (\<lambda>_. i_kind nd = Regular \<and> managed_data (i_data nd)) K (\<lambda>_. Y) x w"
      moreover have "nd' = nd" if "holds K Y w" "(d, Filename t, i', nd') \<in> X" for i' nd'
        using has_lookup [OF holds_fs [OF that(1)] Y]
          has_lookup [OF holds_fs [OF that(1)], of d "Filename t" i' nd'] that(2) \<open>X \<subseteq> Y\<close> by auto
      ultimately show "post (\<lambda>_. \<forall>i nd. (d, Filename t, i, nd) \<in> X \<longrightarrow>
          i_kind nd = Regular \<and> managed_data (i_data nd)) K (\<lambda>_. Y) x w"
        by (auto simp: post_def)
    qed auto
  next
    case False
    then show ?thesis
      by (intro triple_weaken [OF triple_ensureManagedWritable_any]) (auto simp: post_def)
  qed
qed

definition rewritable :: "dirid \<Rightarrow> target \<Rightarrow> entries \<Rightarrow> bool" where
  "rewritable d t X \<longleftrightarrow>
     (\<forall>i nd. (d, Filename t, i, nd) \<in> X \<longrightarrow> i_kind nd = Regular \<and> managed_data (i_data nd))"

text \<open>The frame without the alert of the target.\<close>

definition others :: "dirid \<Rightarrow> target \<Rightarrow> entries \<Rightarrow> entries" where
  "others d t X = {(e, n, i, nd) \<in> X. (e, n) \<noteq> (d, Filename t)}"

lemma others_simps [simp]:
  "others d t X \<subseteq> X" "unnamed d (Filename t) (others d t X)"
  "(e, n, i, nd) \<in> others d t X \<longleftrightarrow> (e, n, i, nd) \<in> X \<and> (e, n) \<noteq> (d, Filename t)"
  by (auto simp: others_def unnamed_def)

lemma triple_Store_Write:
  assumes K: "guards K d" "K d (Filename t)" "wf_target t" and s: "alertRoot s = Some d"
  shows "triple (holds K X) (Store_Write s t m)
    (\<lambda>_ w. rewritable d t X \<and> made K d (Filename t) (managed_inode m) (others d t X) w)
    (\<lambda>_ w. holds K X w \<or>
       rewritable d t X \<and> made K d (Filename t) (managed_inode m) (others d t X) w)"
  unfolding Store_Write_def rewritable_def s option.case
proof (intro triple_if triple_world_fail disjI1, assumption, assumption,
    rule triple_seq_weaker [OF triple_ensureManagedWritable_any])
  show "triple (holds K X) (writeManaged d t m)
    (\<lambda>_ w. (\<forall>i nd. (d, Filename t, i, nd) \<in> X \<longrightarrow> i_kind nd = Regular \<and> managed_data (i_data nd)) \<and>
       made K d (Filename t) (managed_inode m) (others d t X) w)
    (\<lambda>_ w. holds K X w \<or>
       (\<forall>i nd. (d, Filename t, i, nd) \<in> X \<longrightarrow> i_kind nd = Regular \<and> managed_data (i_data nd)) \<and>
       made K d (Filename t) (managed_inode m) (others d t X) w)"
    by (rule triple_writeManaged) (use K in auto)
qed blast

lemma run_Write:
  assumes "Store_Write s t m w = (r, w')" "alertRoot s = Some d" "wf_target t" "among K d t w"
  shows "(isl r \<and> holds K (all_entries K w) w') \<or>
    rewritable d t (all_entries K w) \<and>
    made K d (Filename t) (managed_inode m) (others d t (all_entries K w)) w'"
proof -
  have "guards K d" "K d (Filename t)" using assms(4) by (simp_all add: among_def)
  from triple_use [OF triple_Store_Write [where K = K and d = d, OF this assms(3,2)]
      among_all [OF assms(4)], of m] show ?thesis
    by (cases r) (auto simp: assms(1))
qed

subsection \<open>Operations that read\<close>

lemma reads_only_readEntry: "reads_only (readEntry d t)"
  unfolding readEntry_def read_open_entry_def Let_def
  by (auto intro!: reading split: option.split sum.split)

lemma reads_only_ensureManagedWritable: "reads_only (ensureManagedWritable d t)"
  unfolding ensureManagedWritable_def
  by (auto intro!: reading reads_only_readEntry split: sum.split Kind.split)

lemma Store_Write_refused:
  assumes "ensureManagedWritable d t w = (Inl err, w1)" "alertRoot s = Some d" "wf_target t"
  shows "\<exists>err. Store_Write s t m w = (Inl err, w1) \<or> Store_Write s t m w = (Inl err, w)"
  using assms open_store_simps [OF assms(3)] by (auto simp: Store_Write_def bind_io_def fail_io_def)

text \<open>
  C4: \<open>Write\<close> never touches an alert that is not managed: if the target's file is a symbolic link, a
  directory or another special file, is larger than 64 kB, or is not exactly the rendering of a
  valid message (a legacy alert), \<open>Write\<close> returns an error, the entry is exactly as before, and no
  file or directory at all has been changed but by other processes.
\<close>

theorem write_spares_unmanaged:
  assumes "Store_Write s t m w = (r, w')" "alertRoot s = Some d" "wf_target t" "among K d t w"
    and "present w d (Filename t) i nd" "\<not> (i_kind nd = Regular \<and> managed_data (i_data nd))"
  shows "(\<exists>err. r = Inl err) \<and> present w' d (Filename t) i nd \<and> left_alone w w'"
proof -
  have X: "(d, Filename t, i, nd) \<in> all_entries K w"
    using assms(4,5) by (simp add: all_entries_def among_def)
  with assms(6) have "\<not> rewritable d t (all_entries K w)" by (auto simp: rewritable_def)
  with run_Write [OF assms(1-4)] X have "(\<exists>err. r = Inl err) \<and> present w' d (Filename t) i nd"
    by (auto simp: isl_iff intro: holds_present)
  moreover have "left_alone w w'"
  proof -
    obtain e w1 where run: "ensureManagedWritable d t w = (e, w1)" by fastforce
    have "\<not> (\<exists>u. e = Inr u)"
      using triple_use [OF triple_ensureManagedWritable [OF X] among_all [OF assms(4)]] run assms(6)
      by (auto simp: post_def)
    then obtain err where "e = Inl err" by (cases e) auto
    with Store_Write_refused [of d t w err w1 s m] run assms(1-3) have "w' = w1 \<or> w' = w" by auto
    with reads_onlyD [OF reads_only_ensureManagedWritable run] show ?thesis by auto
  qed
  ultimately show ?thesis by blast
qed

text \<open>
  C13: \<open>Write\<close> replaces an alert in one step and nothing else.  Afterwards every protected entry is
  exactly as before, except that the target's file, if it was managed, may have become the new
  rendering as a whole (never a part of it); and when \<open>Write\<close> reports success, it has.
\<close>

theorem write_replaces_atomically:
  assumes "Store_Write s t m w = (r, w')" "alertRoot s = Some d" "wf_target t" "among K d t w"
    and "K e n" "present w e n i nd"
  shows "(present w' e n i nd \<or> (e, n) = (d, Filename t) \<and> managed_data (i_data nd) \<and>
            (\<exists>j. present w' e n j (managed_inode m))) \<and>
         (r = Inr () \<longrightarrow> (\<exists>j. present w' d (Filename t) j (managed_inode m)))"
proof -
  have X: "(e, n, i, nd) \<in> all_entries K w"
    using assms(5,6) by (simp add: all_entries_def)
  consider (kept) "isl r" "holds K (all_entries K w) w'"
    | (new) "rewritable d t (all_entries K w)"
      "made K d (Filename t) (managed_inode m) (others d t (all_entries K w)) w'"
    using run_Write [OF assms(1-4)] by blast
  then show ?thesis
  proof cases
    case kept
    then show ?thesis using X by (auto intro: holds_present)
  next
    case new
    from made_present [OF new(2)] obtain j where j: "present w' d (Filename t) j (managed_inode m)"
      and "\<forall>(e, n, i, nd) \<in> others d t (all_entries K w). present w' e n i nd"
      by blast
    then have rest: "present w' e n i nd" if "(e, n, i, nd) \<in> others d t (all_entries K w)" for e n i nd
      using that by blast
    show ?thesis
    proof (cases "(e, n) = (d, Filename t)")
      case True
      with j X new(1) show ?thesis by (auto simp: rewritable_def)
    next
      case False
      with j X rest show ?thesis by auto
    qed
  qed
qed

subsection \<open>Delete and convert\<close>

definition backup_kept ::
  "(dirid \<Rightarrow> string \<Rightarrow> bool) \<Rightarrow> dirid \<Rightarrow> string \<Rightarrow> string \<Rightarrow> entries \<Rightarrow> world \<Rightarrow> bool"
where
  "backup_kept K b name data Z w \<longleftrightarrow> (\<exists>j bd. is_backup data bd \<and> holds K (insert (b, name, j, bd) Z) w)"

definition contents :: "dirid \<Rightarrow> target \<Rightarrow> entries \<Rightarrow> string \<Rightarrow> bool" where
  "contents d t X data \<longleftrightarrow>
     (\<forall>i nd. (d, Filename t, i, nd) \<in> X \<longrightarrow> i_kind nd = Regular \<and> i_data nd = data)"

lemma backed_up_contents:
  "backed_up K d b t rej X r w \<Longrightarrow> contents d t X (snapshot_content (fst r))"
  by (auto simp: backed_up_def contents_def)

lemma triple_Store_Delete:
  assumes K: "\<And>n. K b n" and un: "\<And>n. unnamed b n X" and t: "wf_target t" and neq: "d \<noteq> b"
    and s: "alertRoot s = Some d" "backupRoot s = Some b"
  shows "triple (holds K X) (Store_Delete s t)
    (\<lambda>r w. \<exists>data. contents d t X data \<and> backup_kept K b (delete_BackupName r) data (others d t X) w)
    (\<lambda>_ w. holds K X w \<or>
       (\<exists>data name. contents d t X data \<and> backup_kept K b name data (others d t X) w))"
proof -
  have backup: "triple (holds K X) (backupAlert d b t rej) (backed_up K d b t rej X)
      (\<lambda>_ w. holds K X w \<or> Z w)" for rej Z
    by (rule triple_weaken [OF triple_backupAlert [where K = K and d = d and b = b and X = X]])
      (auto simp: K un)
  show ?thesis
    unfolding Store_Delete_def s option.case prod.case
  proof (rule triple_if, rule triple_world_fail, rule disjI1, assumption, rule triple_bind [OF backup],
      goal_cases)
    case (1 r)
    obtain snap name where r: "r = (snap, name)" by (cases r)
    show ?case
      unfolding r prod.case Let_def backed_up_def fst_conv snd_conv
    proof (intro triple_assume triple_ex, goal_cases)
      case (1 j bd)
      let ?Y = "insert (b, name, j, bd) X" and ?Z = "insert (b, name, j, bd) (others d t X)"
      have c: "contents d t X (snapshot_content snap)" using 1 by (auto simp: contents_def)
      have bk: "is_backup (snapshot_content snap) bd" using 1 by simp
      have early: "holds K X w \<or> (\<exists>data name. contents d t X data \<and> backup_kept K b name data (others d t X) w)"
        if "holds K ?Y w" for w
        using that by blast
      have late: "holds K X w \<or> (\<exists>data name. contents d t X data \<and> backup_kept K b name data (others d t X) w)"
        if "holds K ?Z w" for w
        using that c bk unfolding backup_kept_def by blast
      have part: "?Z \<subseteq> ?Y" "unnamed d (Filename t) ?Z" using neq by auto
      show ?case
        apply (rule triple_seq [OF triple_map_error [OF triple_weaken [OF triple_verifySourceUnchanged]]])
           apply assumption
          apply assumption
         apply (erule early)
        apply (rule triple_seq [OF triple_map_error [OF triple_Remove_part [OF part]]], erule early)
        apply (rule triple_seq [OF triple_map_error [OF triple_syncDirectory]], erule late)
        apply (rule triple_world_return)
        using c bk by (auto simp: backup_kept_def)
    qed
  qed
qed


text \<open>The entries outside the backup directory.\<close>

definition outside :: "dirid \<Rightarrow> entries \<Rightarrow> entries" where
  "outside b X = {(e, n, i, nd) \<in> X. e \<noteq> b}"

lemma outside_simps [simp]:
  "(e, n, i, nd) \<in> outside b X \<longleftrightarrow> (e, n, i, nd) \<in> X \<and> e \<noteq> b" "unnamed b n (outside b X)"
  by (auto simp: outside_def unnamed_def)

lemma among_outside: "among K d t w \<Longrightarrow> holds K (outside b (all_entries K w)) w"
  by (rule holds_mono [OF among_all]) (auto simp: outside_def)

lemma backup_kept_present:
  assumes "backup_kept K b name data Z w"
  shows "\<exists>j bd. present w b name j bd \<and> is_backup data bd" "(e, n, i, nd) \<in> Z \<Longrightarrow> present w e n i nd"
  using assms by (auto simp: backup_kept_def intro: holds_present)

lemma backup_kept_exists:
  "backup_kept K b name data Z w \<Longrightarrow> \<exists>name j bd. present w b name j bd \<and> is_backup data bd"
  by (blast dest: backup_kept_present(1))

lemma run_Delete:
  assumes "Store_Delete s t w = (r, w')" "alertRoot s = Some d" "backupRoot s = Some b" "d \<noteq> b"
    and "wf_target t" "among K d t w" "\<And>n. K b n"
  defines "X \<equiv> outside b (all_entries K w)"
  shows "case r of
      Inr res \<Rightarrow> \<exists>data. contents d t X data \<and>
        backup_kept K b (delete_BackupName res) data (others d t X) w'
    | Inl _ \<Rightarrow> holds K X w' \<or>
        (\<exists>data name. contents d t X data \<and> backup_kept K b name data (others d t X) w')"
proof -
  have un: "unnamed b n X" for n by (simp add: X_def)
  have X: "holds K X w" unfolding X_def by (rule among_outside [OF assms(6)])
  from triple_use [OF triple_Store_Delete [where K = K and X = X and d = d and b = b,
        OF assms(7) un assms(5,4,2,3)] X] assms(1)
  show ?thesis by simp
qed


text \<open>
  C1: \<open>Delete\<close> loses nothing.  If it reports success, the backup it names is in the backup directory:
  a regular file of mode 0600, synced, with exactly the bytes of the alert.  If it reports an
  error, either the alert is exactly as before, or such a backup exists.  An alert that is not a
  regular file is never deleted, and every other protected entry of the alert directory stays
  exactly as before.
\<close>

theorem delete_keeps_a_copy:
  assumes "Store_Delete s t w = (r, w')" "alertRoot s = Some d" "backupRoot s = Some b" "d \<noteq> b"
    and "wf_target t" "among K d t w" "\<And>n. K b n"
    and "present w d (Filename t) i nd"
  shows "(case r of
      Inr res \<Rightarrow> i_kind nd = Regular \<and>
        (\<exists>j bd. present w' b (delete_BackupName res) j bd \<and> is_backup (i_data nd) bd)
    | Inl _ \<Rightarrow> present w' d (Filename t) i nd \<or>
        i_kind nd = Regular \<and> (\<exists>name j bd. present w' b name j bd \<and> is_backup (i_data nd) bd)) \<and>
    (\<forall>n k md. n \<noteq> Filename t \<longrightarrow> K d n \<longrightarrow> present w d n k md \<longrightarrow> present w' d n k md)"
proof -
  let ?X = "outside b (all_entries K w)"
  have X: "(d, Filename t, i, nd) \<in> ?X"
    using assms(4,6,8) by (simp add: all_entries_def among_def)
  have rest: "(d, n, k, md) \<in> others d t ?X \<and> (d, n, k, md) \<in> ?X"
    if "n \<noteq> Filename t" "K d n" "present w d n k md" for n k md
    using that assms(4) by (simp add: all_entries_def)
  have same: "contents d t ?X data \<Longrightarrow> i_kind nd = Regular \<and> data = i_data nd" for data
    using X by (auto simp: contents_def)
  note run = run_Delete [OF assms(1-7)]
  show ?thesis
    using run
    by (auto split: sum.splits dest!: same dest: backup_kept_present(1) holds_present [OF _ X]
        intro: backup_kept_exists backup_kept_present(2) [OF _ rest [THEN conjunct1]] holds_present [OF _ rest [THEN conjunct2]])
qed


text \<open>
  The check before an alert is replaced or removed cannot be fooled by a change of contents: it
  succeeds only if the alert's file is the very file that was backed up and still holds exactly the
  bytes of the backup, whatever was done to it between the backup and the check.
\<close>

theorem verify_detects_a_change:
  assumes "verifySourceUnchanged d t snap w = (Inr u, w')" "among K d t w"
    and "present w d (Filename t) i nd"
  shows "i_kind nd = Regular \<and> fi_ino (snapshot_info snap) = i \<and> i_data nd = snapshot_content snap \<and>
    present w' d (Filename t) i nd"
proof -
  have X: "(d, Filename t, i, nd) \<in> all_entries K w"
    using assms(2,3) by (simp add: all_entries_def among_def)
  from triple_use [OF triple_verifySourceUnchanged among_all [OF assms(2)], of d t snap] assms(1)
  have "unchanged d t snap (all_entries K w)" "holds K (all_entries K w) w'"
    by (simp_all add: post_def)
  with X show ?thesis by (auto simp: unchanged_def intro: holds_present)
qed

lemma reads_only_Store_Read: "reads_only (Store_Read s t)"
  unfolding Store_Read_def by (auto intro!: reading reads_only_readEntry split: option.split)

text \<open>
  C23: reading an alert that nobody changes is exact: a successful \<open>Read\<close> returns the entry for the
  file's bytes (managed with the decoded message, legacy with the raw text, or oversized with the
  size only), only ever for a regular file, and it changes nothing: the whole file system is as
  before but for what other processes did.
\<close>

theorem read_is_exact:
  assumes "Store_Read s t w = (r, w')" "alertRoot s = Some d" "wf_target t" "among K d t w"
    and "present w d (Filename t) i nd"
  shows "present w' d (Filename t) i nd \<and> left_alone w w' \<and>
    (case r of Inr e \<Rightarrow> i_kind nd = Regular \<and> e = entry_of t (i_data nd)
             | Inl err \<Rightarrow> \<not> errors_is err Os_ErrNotExist)"
proof -
  have X: "(d, Filename t, i, nd) \<in> all_entries K w"
    using assms(4,5) by (simp add: all_entries_def among_def)
  have "Store_Read s t = readEntry d t"
    using open_store_simps [OF assms(3)] assms(2) by (simp add: Store_Read_def)
  with triple_use [OF triple_readEntry [OF X] among_all [OF assms(4)]] assms(1) X
    reads_onlyD [OF reads_only_Store_Read assms(1)] show ?thesis
    by (auto simp: post_def split: sum.splits intro: holds_present)
qed

end
