(* ===== verification/Store_Descriptors.thy ===== *)
theory Store_Descriptors
  imports Store_Safety
begin

text \<open>
  No operation of the alert store leaks a file descriptor.  \<open>fds a m b c\<close> says that \<open>m\<close>, started
  with \<open>a\<close> descriptors open (beyond any number of others), ends with \<open>b\<close> open when it returns a value
  and \<open>c\<close> when it returns an error.
\<close>

definition fds :: "nat \<Rightarrow> 'a io \<Rightarrow> nat \<Rightarrow> nat \<Rightarrow> bool" where
  "fds a m b c \<longleftrightarrow>
     (\<forall>k. triple (\<lambda>w. w_fds w = k + a) m (\<lambda>_ w. w_fds w = k + b) (\<lambda>_ w. w_fds w = k + c))"

named_theorems fd_rules

lemma fdsI:
  assumes "\<And>k. triple (\<lambda>w. w_fds w = k + a) m (\<lambda>_ w. w_fds w = k + b) (\<lambda>_ w. w_fds w = k + c)"
  shows "fds a m b c"
  using assms by (simp add: fds_def)

lemma fdsD:
  "fds a m b c \<Longrightarrow> triple (\<lambda>w. w_fds w = k + a) m (\<lambda>_ w. w_fds w = k + b) (\<lambda>_ w. w_fds w = k + c)"
  by (simp add: fds_def)

lemma fds_plain:
  assumes "\<And>w r w1. m w = (r, w1) \<Longrightarrow> w_fds w1 = w_fds w"
  shows "fds a m a a"
  by (intro fdsI tripleI) (auto dest: assms)

lemma fds_return [fd_rules]: "fds a (return_io x) a c"
  by (intro fdsI triple_return)

lemma fds_fail [fd_rules]: "fds a (fail_io e) b a"
  by (intro fdsI triple_fail)

lemmas fds_end = fds_return fds_fail

lemma fds_bind:
  assumes "fds a m b c" "\<And>x. fds b (f x) d c"
  shows "fds a (bind_io m f) d c"
  by (rule fdsI, rule triple_bind [OF fdsD [OF assms(1)] fdsD [OF assms(2)]])

lemma fds_map_error [fd_rules]: "fds a m b c \<Longrightarrow> fds a (map_error g m) b c"
  by (rule fdsI, rule triple_map_error, rule fdsD)

lemma fds_try_bind:
  assumes "fds a m b c" "\<And>x. fds b (f (Inr x)) d e" "\<And>x. fds c (f (Inl x)) d e"
  shows "fds a (bind_io (try_io m) f) d e"
proof (rule fdsI, rule triple_bind)
  fix k
  show "triple (\<lambda>w. w_fds w = k + a) (try_io m)
      (\<lambda>r w. w_fds w = k + (if isl r then c else b)) (\<lambda>_ w. w_fds w = k + e)"
    by (rule triple_try) (simp add: fdsD [OF assms(1)])
next
  fix k r
  show "triple (\<lambda>w. w_fds w = k + (if isl r then c else b)) (f r)
      (\<lambda>_ w. w_fds w = k + d) (\<lambda>_ w. w_fds w = k + e)"
    by (cases r) (simp_all add: fdsD [OF assms(2)] fdsD [OF assms(3)])
qed

lemma fds_deferred:
  assumes "fds a m b c" "fds b f d d" "fds c f e e"
  shows "fds a (deferred f m) d e"
  by (rule fdsI, rule triple_deferred [OF fdsD [OF assms(1)] fdsD [OF assms(2)] fdsD [OF assms(3)]])

lemma fds_on_error:
  assumes "fds a m b c" "fds c f e e"
  shows "fds a (on_error f m) b e"
  by (rule fdsI, rule triple_on_error [OF fdsD [OF assms(1)] fdsD [OF assms(2)]])

lemma fds_tick: "tick w = (ev, w1) \<Longrightarrow> w_fds w1 = w_fds w"
  by (auto simp: tick_def split: list.splits)

lemma fds_syscall [fd_rules]: "fds a (syscall g) a a"
  by (rule fds_plain) (auto simp: syscall_def split: prod.splits option.splits dest!: fds_tick)

lemma fds_with_fd:
  assumes "fds a m a a"
  shows "fds a (with_fd m) (Suc a) a"
proof (intro fdsI tripleI)
  fix k w x w1
  assume w: "w_fds w = k + a" and run: "with_fd m w = (Inr x, w1)"
  then obtain w0 where "m w = (Inr x, w0)" "w1 = w0\<lparr>w_fds := Suc (w_fds w0)\<rparr>"
    by (auto simp: with_fd_def split: prod.splits sum.splits)
  with triple_Inr [OF fdsD [OF assms] w] show "w_fds w1 = k + Suc a" by simp
next
  fix k w x w1
  assume w: "w_fds w = k + a" and run: "with_fd m w = (Inl x, w1)"
  then have "m w = (Inl x, w1)"
    by (auto simp: with_fd_def split: prod.splits sum.splits)
  with triple_Inl [OF fdsD [OF assms] w] show "w_fds w1 = k + a" by simp
qed

lemma fds_open [fd_rules]:
  "fds a (Open d n) (Suc a) a" "fds a (OpenExcl d n mode) (Suc a) a" "fds a (OpenDir d) (Suc a) a"
  unfolding Open_def OpenExcl_def OpenDir_def by (intro fds_with_fd fds_syscall)+

lemma fds_Close [fd_rules]: "fds (Suc a) (Close h) a a"
proof -
  have "w_fds w1 = w_fds w" if "syscall (\<lambda>f. (Inr (), f)) w = (r, w1)" for w r w1
    using that by (auto simp: syscall_def split: prod.splits option.splits dest!: fds_tick)
  then show ?thesis
    by (intro fdsI tripleI) (auto simp: Close_def split: prod.splits)
qed

lemma fds_CloseDir [fd_rules]: "fds (Suc a) (CloseDir d) a a"
  by (simp add: CloseDir_def fds_Close)

lemma fds_calls [fd_rules]:
  "fds a (Lstat d n) a a" "fds a (Stat h) a a" "fds a (Sync h) a a" "fds a (Chmod h mode) a a"
  "fds a (Link d n n') a a" "fds a (Rename d n n') a a" "fds a (Remove d n) a a"
  "fds a (ReadDir d) a a" "fds a (SyncDir d) a a"
  by (simp_all add: Lstat_def Stat_def Sync_def Chmod_def Link_def Rename_def Remove_def ReadDir_def
      SyncDir_def fds_syscall)

lemma Read_at_fds: "Read_at h off n w = (r, w1) \<Longrightarrow> w_fds w1 = w_fds w"
  by (auto simp: Read_at_def split: prod.splits option.splits dest!: fds_tick)

lemma Write_string_fds: "Write_string h bs w = (r, w1) \<Longrightarrow> w_fds w1 = w_fds w"
  by (auto simp: Write_string_def split: prod.splits option.splits dest!: fds_tick)

lemma fds_Write [fd_rules]: "fds a (Write_string h bs) a a"
  by (rule fds_plain) (rule Write_string_fds)

lemma fds_rand [fd_rules]: "fds a rand_Uint64 a a" "fds a time_Now a a"
  by (rule fds_plain, auto simp: rand_Uint64_def time_Now_def)+

lemma fds_read_limited [fd_rules]: "fds a (read_limited h off limit) a a"
proof (rule fds_plain)
  show "read_limited h off limit w = (r, w1) \<Longrightarrow> w_fds w1 = w_fds w" for w r w1
  proof (induction h off limit w arbitrary: r w1 rule: read_limited.induct)
    case (1 h off limit w)
    obtain r0 w0 where r0: "Read_at h off limit w = (r0, w0)" by fastforce
    note w0 = Read_at_fds [OF r0]
    show ?case
    proof (cases "limit = 0 \<or> isl r0 \<or> r0 = Inr []")
      case True
      with "1.prems" r0 w0 show ?thesis
        by (subst (asm) read_limited.simps) (auto simp: isl_iff split: if_splits)
    next
      case False
      then obtain bs where bs: "r0 = Inr bs" "bs \<noteq> []" by (cases r0) auto
      obtain r2 w2 where r2: "read_limited h (off + length bs) (limit - length bs) w0 = (r2, w2)"
        by fastforce
      from "1.IH" [OF _ r0 [symmetric] bs(1,2) r2] False have "w_fds w2 = w_fds w0" by auto
      with "1.prems" r0 w0 bs r2 False show ?thesis
        by (subst (asm) read_limited.simps) (auto split: sum.splits)
    qed
  qed
qed

lemma fds_copy_backup [fd_rules]: "fds a (copy_backup source backup off remaining capture) a a"
proof (rule fds_plain)
  show "copy_backup source backup off remaining capture w = (r, w1) \<Longrightarrow> w_fds w1 = w_fds w" for w r w1
  proof (induction source backup off remaining capture w arbitrary: r w1 rule: copy_backup.induct)
    case (1 source backup off remaining capture w)
    obtain r0 w0 where r0: "Read_at source off (min copy_buffer remaining) w = (r0, w0)" by fastforce
    note w0 = Read_at_fds [OF r0]
    show ?case
    proof (cases "remaining = 0 \<or> isl r0 \<or> r0 = Inr []")
      case True
      with "1.prems" r0 w0 show ?thesis
        by (subst (asm) copy_backup.simps) (auto simp: isl_iff split: if_splits)
    next
      case False
      then obtain bs where bs: "r0 = Inr bs" "bs \<noteq> []" by (cases r0) auto
      obtain r2 w2 where r2: "Write_string backup bs w0 = (r2, w2)" by fastforce
      note w2 = Write_string_fds [OF r2]
      show ?thesis
      proof (cases r2)
        case (Inl e)
        with "1.prems" r0 w0 bs r2 w2 False show ?thesis
          by (subst (asm) copy_backup.simps) auto
      next
        case (Inr n)
        have "copy_backup source backup (off + length bs) (remaining - length bs)
            (capture_Write capture bs) w2 = (r, w1)"
          using "1.prems" r0 bs r2 False Inr by (subst (asm) copy_backup.simps) auto
        from "1.IH" [OF _ r0 [symmetric] bs r2 [symmetric] Inr this] False w2 w0
        show ?thesis by auto
      qed
    qed
  qed
qed

subsection \<open>The operations\<close>

lemma fds_fillRandom [fd_rules]: "fds a (fillRandom n) a a"
proof (induction n rule: less_induct)
  case (less n)
  show ?case
  proof (cases "n = 0")
    case True
    then show ?thesis by (simp add: fillRandom.simps fds_return)
  next
    case False
    then have "fds a (fillRandom (n - 8)) a a" by (intro less) simp
    with False show ?thesis
      by (subst fillRandom.simps) (auto intro!: fds_bind [OF fds_rand(1)] fds_bind fd_rules)
  qed
qed

lemma fds_randomHex [fd_rules]: "fds a (randomHex n) a a"
  unfolding randomHex_def by (rule fds_bind [OF fds_fillRandom]) (rule fd_rules)

lemma fds_syncDirectory [fd_rules]: "fds a (syncDirectory d) a a"
  unfolding syncDirectory_def
  by (rule fds_bind [OF fds_open(3)], rule fds_try_bind [OF fds_calls(9)];
      rule fds_try_bind [OF fds_CloseDir]) (auto intro: fds_end split: option.split)

lemma fds_temporary_alert [fd_rules]: "fds a (temporary_alert k d) (Suc a) a"
  by (induction k)
    (auto simp: Let_def intro!: fds_end fds_bind [OF fds_fillRandom] fds_try_bind [OF fds_open(2)])

lemma fds_temporary_backup [fd_rules]: "fds a (temporary_backup k d) (Suc a) a"
  by (induction k)
    (auto simp: Let_def intro!: fds_end fds_bind [OF fds_randomHex] fds_try_bind [OF fds_open(2)])

lemma fds_read_open_entry [fd_rules]: "fds a (read_open_entry t info h) a a"
  unfolding read_open_entry_def
  by (auto intro!: fds_bind [OF fds_map_error [OF fds_calls(2)]] fds_try_bind [OF fds_calls(2)]
      fds_bind [OF fds_map_error [OF fds_read_limited]] intro!: fds_end split: option.split)

lemma fds_readEntry [fd_rules]: "fds a (readEntry d t) a a"
  unfolding readEntry_def Let_def
  by (auto intro!: fds_bind [OF fds_map_error [OF fds_calls(1)]] fds_bind [OF fds_map_error [OF fds_open(1)]]
      fds_deferred [OF fds_read_open_entry fds_Close fds_Close] fds_end)

lemma fds_ensureManagedWritable [fd_rules]: "fds a (ensureManagedWritable d t) a a"
  unfolding ensureManagedWritable_def
  by (rule fds_try_bind [OF fds_readEntry]) (auto intro!: fds_end split: Kind.split)

lemma fds_write_temporary: "fds a (write_temporary t m h) a a"
  unfolding write_temporary_def Let_def
  by (auto intro!: fds_bind [OF fds_map_error [OF fds_Write]] fds_bind [OF fds_map_error [OF fds_calls(3)]]
      fds_bind [OF fds_map_error [OF fds_calls(4)]] fds_map_error fds_calls fds_end)

lemma fds_discard_open: "fds (Suc a) (discard_open d h n) a a"
  unfolding discard_open_def by (rule fds_try_bind [OF fds_Close]) (rule fds_calls)+

lemmas fds_write_or_discard = fds_on_error [OF fds_write_temporary fds_discard_open]

lemma fds_createManagedExclusive: "fds a (createManagedExclusive d t m) a a"
  unfolding createManagedExclusive_def createTemporaryAlert_def
  by (auto intro!: fds_bind [OF fds_map_error [OF fds_temporary_alert]] fds_bind [OF fds_write_or_discard]
      fds_bind [OF fds_on_error [OF _ fds_calls(7)]] fds_bind [OF fds_map_error [OF fds_Close]]
      fds_bind [OF fds_map_error [OF fds_calls(5)]] fds_map_error fds_calls fds_syncDirectory)

lemma fds_writeManagedChecked:
  assumes "\<And>a. fds a check a a"
  shows "fds a (writeManagedChecked d t m check) a a"
  unfolding writeManagedChecked_def createTemporaryAlert_def
  by (auto intro!: fds_bind [OF fds_map_error [OF fds_temporary_alert]] fds_bind [OF fds_write_or_discard]
      fds_bind [OF fds_on_error [OF _ fds_calls(7)]] fds_bind [OF fds_map_error [OF fds_Close]]
      fds_bind [OF assms] fds_map_error fds_calls fds_syncDirectory)

lemma fds_newBackupName: "fds a (newBackupName t) a a"
  unfolding newBackupName_def
  by (rule fds_bind [OF fds_randomHex], rule fds_bind [OF fds_rand(2)], rule fds_return)

lemma fds_fill_backup: "fds a (fill_backup t rej h info bh) a a"
  unfolding fill_backup_def
  by (auto intro!: fds_bind [OF fds_map_error [OF fds_copy_backup]] fds_bind [OF fds_map_error [OF fds_calls(2)]]
      fds_bind [OF fds_map_error [OF fds_calls(4)]] fds_bind [OF fds_map_error [OF fds_calls(3)]] fds_end)

lemma fds_publish_backup: "fds (Suc a) (publish_backup b t bh tmp) a a"
  unfolding publish_backup_def
  by (auto intro!: fds_bind [OF fds_map_error [OF fds_Close]] fds_bind [OF fds_map_error [OF fds_newBackupName]]
      fds_bind [OF fds_map_error [OF fds_calls(6)]] fds_end)

lemma fds_backup_names: "fds a (backup_names b ns) a a"
  by (induction ns) (auto intro!: fds_bind [OF fds_map_error [OF fds_calls(1)]] fds_bind [where b = a] fds_end)

lemma fds_remove_expired: "fds a (remove_expired b prot k ns) a a"
  by (induction ns arbitrary: k) (auto intro!: fds_bind [OF fds_map_error [OF fds_calls(7)]] fds_end)

lemma fds_read_directory: "fds a (read_directory what d) a a"
  unfolding read_directory_def
  by (rule fds_bind [OF fds_map_error [OF fds_open(3)]], rule fds_try_bind [OF fds_calls(8)];
      rule fds_try_bind [OF fds_CloseDir]) (auto intro: fds_end split: option.split)

lemma fds_pruneBackups: "fds a (pruneBackups b prot) a a"
  unfolding pruneBackups_def
  by (auto intro!: fds_bind [OF fds_read_directory] fds_bind [OF fds_backup_names]
      fds_bind [OF fds_remove_expired] fds_map_error fds_syncDirectory fds_end)

lemma fds_backup_open: "fds a (backup_open b t rej info h) a a"
  unfolding backup_open_def createTemporaryBackup_def
  by (auto intro!: fds_bind [OF fds_map_error [OF fds_calls(2)]] fds_bind [OF fds_map_error [OF fds_temporary_backup]]
      fds_bind [OF fds_on_error [OF fds_fill_backup fds_discard_open]]
      fds_bind [OF fds_on_error [OF fds_publish_backup fds_calls(7)]]
      fds_bind [OF fds_map_error [OF fds_syncDirectory]] fds_bind [OF fds_map_error [OF fds_pruneBackups]] fds_end)

lemma fds_backupAlert: "fds a (backupAlert d b t rej) a a"
  unfolding backupAlert_def Let_def
  by (auto intro!: fds_bind [OF fds_map_error [OF fds_calls(1)]] fds_bind [OF fds_map_error [OF fds_open(1)]]
      fds_deferred [OF fds_backup_open fds_Close fds_Close] fds_end)

lemma fds_try: "fds a m b b \<Longrightarrow> fds a (try_io m) b c"
  by (rule fdsI, rule triple_try, rule fdsD)

lemma fds_verify_open: "fds (Suc a) (verify_open t snap h) a a"
proof -
  have fail: "fds (Suc a) (bind_io (try_io (Close h)) (\<lambda>_. fail_io e)) a a" for e
    by (rule fds_try_bind [OF fds_Close]; rule fds_fail)
  show ?thesis
    unfolding verify_open_def Let_def
  proof (rule fds_try_bind [OF fds_calls(2)], goal_cases)
    case (1 info)
    show ?case
    proof (cases "fi_kind info \<noteq> Regular \<or> \<not> SameFile (snapshot_info snap) info")
      case True
      then show ?thesis by (simp add: fail)
    next
      case False
      show ?thesis
        using False
        by (auto intro!: fds_bind [OF fds_try [OF fds_read_limited]] fds_bind [OF fds_try [OF fds_calls(2)]]
            fds_bind [OF fds_try [OF fds_Close]] fds_end split: option.split sum.split)
    qed
  qed (simp add: fail)
qed

lemma fds_verifySourceUnchanged: "fds a (verifySourceUnchanged d t snap) a a"
  unfolding verifySourceUnchanged_def Let_def
  by (auto intro!: fds_bind [OF fds_map_error [OF fds_calls(1)]] fds_bind [OF fds_map_error [OF fds_open(1)]]
      fds_verify_open fds_end)

lemma fds_list_entries: "fds a (list_entries d ns l) a a"
  by (induction ns arbitrary: l)
    (auto simp: Let_def intro!: fds_end fds_try_bind [OF fds_readEntry] split: sum.split)

text \<open>
  C24: no operation of the alert store leaks a file descriptor: after any of them, on any path,
  whatever failed and whatever other processes did, exactly as many descriptors are open as before.
\<close>

theorem no_descriptor_leaks:
  "w_fds (snd (Store_Read s t w)) = w_fds w \<and> w_fds (snd (Store_Create s t m w)) = w_fds w \<and>
   w_fds (snd (Store_Write s t m w)) = w_fds w \<and> w_fds (snd (Store_ConvertLegacy s t m w)) = w_fds w \<and>
   w_fds (snd (Store_Delete s t w)) = w_fds w \<and> w_fds (snd (Store_List s w)) = w_fds w"
proof -
  have snd: "w_fds (snd (op w)) = w_fds w" if "fds 0 op 0 0" for op :: "'a io"
    using triple_use [OF fdsD [OF that, of "w_fds w"], of w] by (auto split: prod.splits sum.splits)
  have "fds 0 (Store_Read s t) 0 0" "fds 0 (Store_Create s t m) 0 0"
    unfolding Store_Read_def Store_Create_def
    by (auto intro!: fds_end fds_readEntry fds_createManagedExclusive split: option.split)
  moreover have "fds 0 (Store_Write s t m) 0 0"
    unfolding Store_Write_def writeManaged_def
    by (auto intro!: fds_end fds_bind [OF fds_ensureManagedWritable]
        fds_writeManagedChecked fds_ensureManagedWritable split: option.split)
  moreover have "fds 0 (Store_ConvertLegacy s t m) 0 0"
    unfolding Store_ConvertLegacy_def
    by (auto intro!: fds_end fds_bind [OF fds_backupAlert] fds_bind [OF fds_map_error [OF
          fds_writeManagedChecked [OF fds_verifySourceUnchanged]]] split: option.split)
  moreover have "fds 0 (Store_Delete s t) 0 0"
    unfolding Store_Delete_def Let_def
    by (auto intro!: fds_end fds_bind [OF fds_backupAlert] fds_bind [OF fds_map_error [OF
          fds_verifySourceUnchanged]] fds_bind [OF fds_map_error [OF fds_calls(7)]]
        fds_bind [OF fds_map_error [OF fds_syncDirectory]] split: option.split)
  moreover have "fds 0 (Store_List s) 0 0"
    unfolding Store_List_def
    by (auto intro!: fds_end fds_bind [OF fds_read_directory] fds_bind [OF fds_list_entries]
        split: option.split)
  ultimately show ?thesis by (simp add: snd)
qed

end
