(* ===== verification/Store_Listing.thy ===== *)
theory Store_Listing
  imports Store_Descriptors
begin

text \<open>
  The functional behaviour of the listing and of the retention of backups, while no other process
  adds or removes names in the directory concerned, and the round trip of a message through the
  store.
\<close>

subsection \<open>The names of a directory\<close>

definition names_of :: "dirid \<Rightarrow> fs \<Rightarrow> string list" where
  "names_of d f = map fst (dirs f d)"

definition same_names :: "dirid \<Rightarrow> (fs \<Rightarrow> fs) \<Rightarrow> bool" where
  "same_names d g \<longleftrightarrow> (\<forall>f. names_of d (g f) = names_of d f)"

definition names_are :: "dirid \<Rightarrow> string list \<Rightarrow> world \<Rightarrow> bool" where
  "names_are d L = rg (same_names d) (\<lambda>f. names_of d f = L)"

lemma stable_names: "stable (same_names d) (\<lambda>f. names_of d f = L)"
  by (simp add: stable_def same_names_def)

lemma triple_names:
  assumes "\<And>f x f'. names_of d f = L \<Longrightarrow> g f = (Inr x, f') \<Longrightarrow> V x \<and> names_of d f' = M"
    and "\<And>f e f'. names_of d f = L \<Longrightarrow> g f = (Inl e, f') \<Longrightarrow> names_of d f' = L"
  shows "triple (names_are d L) (syscall g) (\<lambda>x w. V x \<and> names_are d M w) (\<lambda>_. names_are d L)"
proof -
  have "triple (rg (same_names d) (\<lambda>f. names_of d f = L)) (syscall g)
      (\<lambda>x. rg (same_names d) (\<lambda>f. V x \<and> names_of d f = M)) (\<lambda>_. rg (same_names d) (\<lambda>f. names_of d f = L))"
    by (rule triple_syscall [OF stable_names], erule (1) assms, erule (1) assms, assumption)
  then show ?thesis unfolding names_are_def by (rule triple_weaken) auto
qed

lemma triple_names_same:
  assumes "\<And>f. snd (g f) = f"
  shows "triple (names_are d L) (syscall g) (\<lambda>_. names_are d L) (\<lambda>_. names_are d L)"
proof -
  have "f' = f" if "g f = (r, f')" for f r f' using assms [of f] that by simp
  then have "triple (names_are d L) (syscall g) (\<lambda>x w. True \<and> names_are d L w) (\<lambda>_. names_are d L)"
    by (intro triple_names) blast+
  then show ?thesis by simp
qed

lemma names_are_fds [simp]: "names_are d L (w\<lparr>w_fds := k\<rparr>) \<longleftrightarrow> names_are d L w"
  by (simp add: names_are_def rg_update)

lemma triple_names_Lstat: "triple (names_are d L) (Lstat e n) (\<lambda>_. names_are d L) (\<lambda>_. names_are d L)"
  unfolding Lstat_def by (rule triple_names_same) (auto split: option.split)

lemma triple_names_fd:
  assumes "triple P m (\<lambda>_. names_are d L) (\<lambda>_. names_are d L)"
  shows "triple P (with_fd m) (\<lambda>_. names_are d L) (\<lambda>_. names_are d L)"
  using assms by (auto simp: triple_def with_fd_def split: prod.splits sum.splits)

lemma triple_names_dir:
  "triple (names_are d L) (OpenDir e) (\<lambda>_. names_are d L) (\<lambda>_. names_are d L)"
  "triple (names_are d L) (SyncDir e) (\<lambda>_. names_are d L) (\<lambda>_. names_are d L)"
  unfolding OpenDir_def SyncDir_def by (intro triple_names_fd triple_names_same; simp)+

lemma triple_names_Close:
  "triple (names_are d L) (CloseDir e) (\<lambda>_. names_are d L) (\<lambda>_. names_are d L)"
proof -
  have run: "names_are d L w1" if "names_are d L w" "syscall (\<lambda>f. (Inr (), f)) w = (r, w1)" for w r w1
    using triple_use [OF triple_names_same [of "\<lambda>f. (Inr (), f)"] that(1)] that(2)
    by (cases r) simp_all
  show ?thesis
    unfolding CloseDir_def by (rule tripleI) (auto simp: Close_def split: prod.splits dest: run)
qed

lemma triple_names_ReadDir:
  "triple (names_are d L) (ReadDir d) (\<lambda>x w. x = L \<and> names_are d L w) (\<lambda>_. names_are d L)"
  unfolding ReadDir_def by (rule triple_names) (auto simp: names_of_def)

lemma triple_names_Remove:
  "triple (names_are d L) (Remove d n) (\<lambda>_. names_are d (filter (\<lambda>k. k \<noteq> n) L)) (\<lambda>_. names_are d L)"
proof -
  have "triple (names_are d L) (Remove d n)
      (\<lambda>_ w. True \<and> names_are d (filter (\<lambda>k. k \<noteq> n) L) w) (\<lambda>_. names_are d L)"
    unfolding Remove_def
    by (rule triple_names)
      (auto simp: names_of_def remove_entry_def filter_map o_def split: if_splits)
  then show ?thesis by simp
qed

lemma triple_names_syncDirectory:
  "triple (names_are d L) (syncDirectory e) (\<lambda>_. names_are d L) (\<lambda>_. names_are d L)"
  unfolding syncDirectory_def
  by (intro triple_bind [OF triple_names_dir(1)]
        triple_bind [where M = "\<lambda>_. names_are d L"] triple_try triple_names_dir(2) triple_names_Close)
    (auto intro: triple_world_return triple_world_fail split: option.split)

lemma triple_names_read:
  "triple (names_are d L) (read_directory what d) (\<lambda>x w. x = L \<and> names_are d L w) (\<lambda>_. names_are d L)"
  unfolding read_directory_def
proof (rule triple_bind [OF triple_map_error [OF triple_names_dir(1)]],
    rule triple_bind [where M = "\<lambda>r w. (\<forall>x. r = Inr x \<longrightarrow> x = L) \<and> names_are d L w"], goal_cases)
  case 1
  show ?case by (intro triple_try triple_weaken [OF triple_names_ReadDir]) auto
next
  case (2 u r)
  show ?case
  proof (rule triple_assume)
    assume r: "\<forall>x. r = Inr x \<longrightarrow> x = L"
    show "triple (names_are d L) (bind_io (try_io (CloseDir d)) (\<lambda>closeErr.
        case joined_results [map_sum id (\<lambda>_. ()) r, closeErr] of
          Some err \<Rightarrow> fail_io (wrapf (''read '' @ what @ '' directory'') err)
        | None \<Rightarrow> return_io (case r of Inr names \<Rightarrow> names | Inl _ \<Rightarrow> [])))
      (\<lambda>x w. x = L \<and> names_are d L w) (\<lambda>_. names_are d L)"
      by (intro triple_bind [where M = "\<lambda>_. names_are d L"] triple_try triple_names_Close)
        (use r in \<open>auto simp: joined_results_def errors_Join_def intro!: triple_world_return
           triple_world_fail split: option.split sum.split\<close>)
  qed
qed

subsection \<open>Retention\<close>

lemma triple_names_backup_names:
  "triple (names_are d L) (backup_names d ns)
     (\<lambda>x w. x = filter (\<lambda>n. HasSuffix n ''.txt'') ns \<and> names_are d L w) (\<lambda>_. names_are d L)"
proof (induction ns)
  case (Cons n ns)
  show ?case
  proof (cases "HasSuffix n ''.txt''")
    case True
    have "triple (names_are d L) (bind_io (backup_names d ns) (\<lambda>names. return_io (n # names)))
        (\<lambda>x w. x = filter (\<lambda>n. HasSuffix n ''.txt'') (n # ns) \<and> names_are d L w) (\<lambda>_. names_are d L)"
      by (rule triple_bind [OF Cons.IH]) (use True in \<open>auto intro: triple_world_return\<close>)
    with True show ?thesis
      by (auto intro!: triple_bind [OF triple_map_error [OF triple_names_Lstat]] triple_world_fail)
  qed (use Cons.IH in simp)
qed (auto intro: triple_world_return)

lemma triple_names_remove_expired:
  assumes "distinct ns"
  shows "triple (names_are d L) (remove_expired d prot k ns)
     (\<lambda>c w. \<exists>gone. gone = take k (filter (\<lambda>n. n \<noteq> prot) ns) \<and> c = k - length gone \<and>
        names_are d (filter (\<lambda>n. n \<notin> set gone) L) w) (\<lambda>_ _. True)"
  using assms
proof (induction ns arbitrary: k L)
  case (Cons n ns)
  show ?case
  proof (cases "k = 0 \<or> n = prot")
    case True
    with Cons show ?thesis by (auto intro: triple_world_return)
  next
    case False
    then obtain j where k: "k = Suc j" by (cases k) auto
    have "triple (names_are d (filter (\<lambda>k. k \<noteq> n) L)) (remove_expired d prot j ns)
       (\<lambda>c w. \<exists>gone. gone = take k (filter (\<lambda>n. n \<noteq> prot) (n # ns)) \<and> c = k - length gone \<and>
          names_are d (filter (\<lambda>n. n \<notin> set gone) L) w) (\<lambda>_ _. True)"
      by (rule triple_weaken [OF Cons.IH])
        (use Cons.prems False in \<open>auto simp: k conj_commute\<close>)
    moreover have "triple (names_are d L) (Remove d n)
        (\<lambda>_. names_are d (filter (\<lambda>k. k \<noteq> n) L)) (\<lambda>_ _. True)"
      by (rule triple_weaken [OF triple_names_Remove]) auto
    ultimately have "triple (names_are d L)
       (bind_io (map_error (wrapf (''remove expired backup '' @ Quote n)) (Remove d n))
         (\<lambda>_. remove_expired d prot j ns))
       (\<lambda>c w. \<exists>gone. gone = take k (filter (\<lambda>n. n \<noteq> prot) (n # ns)) \<and> c = k - length gone \<and>
          names_are d (filter (\<lambda>n. n \<notin> set gone) L) w) (\<lambda>_ _. True)"
      by (intro triple_bind [OF triple_map_error])
    with False k show ?thesis by simp
  qed
qed (auto intro: triple_world_return)

text \<open>The backups of a directory: the names that retention looks at.\<close>

definition backups :: "dirid \<Rightarrow> world \<Rightarrow> string list" where
  "backups d w = filter (\<lambda>n. HasSuffix n ''.txt'') (names_of d (w_fs w))"

lemma run_pruneBackups:
  assumes "pruneBackups d prot w = (Inr u, w')" "distinct (names_of d (w_fs w))"
    and "\<forall>ev \<in> set (w_script w). same_names d (ev_env ev)"
  shows "\<exists>gone. gone = take (length (backups d w) - maxBackupFiles)
        (filter (\<lambda>n. n \<noteq> prot) (sort (backups d w))) \<and>
      length gone = length (backups d w) - maxBackupFiles \<and>
      names_of d (w_fs w') = filter (\<lambda>n. n \<notin> set gone) (names_of d (w_fs w))"
proof -
  define L where "L = names_of d (w_fs w)"
  let ?txt = "filter (\<lambda>n. HasSuffix n ''.txt'') L"
  let ?k = "length ?txt - maxBackupFiles"
  let ?gone = "take ?k (filter (\<lambda>n. n \<noteq> prot) (sort ?txt))"
  have "triple (names_are d L) (pruneBackups d prot)
      (\<lambda>_ w. length ?gone = ?k \<and> names_are d (filter (\<lambda>n. n \<notin> set ?gone) L) w) (\<lambda>_ _. True)"
    unfolding pruneBackups_def
  proof (rule triple_bind [OF triple_weaken [OF triple_names_read]], assumption, assumption, simp,
      rule triple_assume, rule triple_bind [OF triple_weaken [OF triple_names_backup_names]],
      assumption, assumption, simp, rule triple_assume, rule triple_if, goal_cases)
    case (1 entries names)
    then show ?case by (intro triple_world_return) simp
  next
    case (2 entries names)
    have dist: "distinct (sort names)"
      using 2 assms(2) by (simp add: L_def)
    show ?case
    proof (rule triple_bind [OF triple_names_remove_expired [OF dist]], rule triple_ex,
        unfold conj_assoc [symmetric], rule triple_assume, goal_cases)
      case (1 c gone)
      with 2 have gone: "gone = ?gone" "c = ?k - length ?gone" "length ?gone \<le> ?k" by auto
      show ?case
        unfolding gone(1)
        by (intro triple_if triple_world_fail TrueI triple_map_error
            triple_weaken [OF triple_names_syncDirectory])
          (use gone in auto)
    qed
  qed
  from triple_use [OF this, of w] assms(3) show ?thesis
    unfolding assms(1) by (simp add: names_are_def rg_def L_def backups_def)
qed

lemma sorted_take_drop_less:
  assumes "sorted xs" "distinct xs" "a \<in> set (take k xs)" "b \<in> set (drop k xs)"
  shows "a < (b :: string)"
proof -
  have "sorted (take k xs @ drop k xs)" "distinct (take k xs @ drop k xs)" using assms by simp_all
  then have "a \<le> b" "a \<noteq> b"
    using assms(3,4) by (auto simp only: sorted_append distinct_append)
  then show ?thesis by simp
qed

lemma length_filter_gone:
  assumes "distinct xs" "distinct gone" "set gone \<subseteq> set xs"
  shows "length (filter (\<lambda>n. n \<notin> set gone) xs) = length xs - length gone"
proof -
  have "set (filter (\<lambda>n. n \<notin> set gone) xs) = set xs - set gone" by auto
  then have "length (filter (\<lambda>n. n \<notin> set gone) xs) = card (set xs - set gone)"
    using assms(1) by (metis distinct_card distinct_filter)
  also have "\<dots> = card (set xs) - card (set gone)"
    using assms(3) by (simp add: card_Diff_subset)
  finally show ?thesis using assms(1,2) by (simp add: distinct_card)
qed

text \<open>
  C20: retention.  When pruning succeeds (and no other process changes the names meanwhile), at most
  16 backups are left, none was added, the backup just made is still there, the removed ones are
  the first in the order of names (so the oldest: names start with the time), a directory with at
  most 16 backups is left alone, and so is every name that does not end in .txt.
\<close>

theorem retention_keeps_the_newest:
  assumes "pruneBackups d prot w = (Inr u, w')" "distinct (names_of d (w_fs w))"
    and "\<forall>ev \<in> set (w_script w). same_names d (ev_env ev)"
  shows "length (backups d w') \<le> 16 \<and> set (backups d w') \<subseteq> set (backups d w) \<and>
    (prot \<in> set (backups d w) \<longrightarrow> prot \<in> set (backups d w')) \<and>
    (\<forall>n \<in> set (backups d w) - set (backups d w'). \<forall>k \<in> set (backups d w') - {prot}. n < k) \<and>
    (length (backups d w) \<le> 16 \<longrightarrow> names_of d (w_fs w') = names_of d (w_fs w)) \<and>
    filter (\<lambda>n. \<not> HasSuffix n ''.txt'') (names_of d (w_fs w')) =
      filter (\<lambda>n. \<not> HasSuffix n ''.txt'') (names_of d (w_fs w))"
proof -
  let ?xs = "filter (\<lambda>n. n \<noteq> prot) (sort (backups d w))" and ?k = "length (backups d w) - maxBackupFiles"
  from run_pruneBackups [OF assms] obtain gone where gone: "gone = take ?k ?xs" "length gone = ?k"
    and names: "names_of d (w_fs w') = filter (\<lambda>n. n \<notin> set gone) (names_of d (w_fs w))"
    by blast
  have after: "backups d w' = filter (\<lambda>n. n \<notin> set gone) (backups d w)"
    by (simp add: backups_def names conj_commute)
  have dist: "distinct (backups d w)" using assms(2) by (simp add: backups_def)
  have sub: "set gone \<subseteq> set (backups d w) - {prot}"
    unfolding gone(1) by (auto dest: in_set_takeD)
  have dgone: "distinct gone" using dist by (simp add: gone(1))
  have "length (backups d w') \<le> 16"
    using length_filter_gone [OF dist dgone subset_trans [OF sub Diff_subset]] gone(2)
    by (simp add: after maxBackupFiles_def)
  moreover have "n < k" if n: "n \<in> set (backups d w) - set (backups d w')"
    and k: "k \<in> set (backups d w') - {prot}" for n k
  proof (rule sorted_take_drop_less)
    show "sorted ?xs" by (rule sorted_filter [where f = id, simplified]) simp
    show "distinct ?xs" using dist by simp
    show "n \<in> set (take ?k ?xs)" using n by (auto simp: after gone(1) [symmetric])
    have "k \<in> set ?xs" "k \<notin> set (take ?k ?xs)"
      using k by (auto simp: after gone(1) [symmetric])
    then show "k \<in> set (drop ?k ?xs)"
      by (metis Un_iff append_take_drop_id set_append)
  qed
  moreover have "names_of d (w_fs w') = names_of d (w_fs w)" if "length (backups d w) \<le> 16"
    using that gone(2) by (simp add: names maxBackupFiles_def)
  moreover have "filter (\<lambda>n. \<not> HasSuffix n ''.txt'') (names_of d (w_fs w')) =
      filter (\<lambda>n. \<not> HasSuffix n ''.txt'') (names_of d (w_fs w))"
    using sub by (auto simp: names backups_def intro!: filter_cong)
  ultimately show ?thesis using sub by (auto simp: after)
qed

subsection \<open>Listing\<close>

lemma readEntry_Target:
  assumes "readEntry d t w = (Inr e, w')"
  shows "entry_Target e = t"
proof -
  have "triple (\<lambda>_. True) (read_open_entry t info h) (\<lambda>e _. entry_Target e = t) (\<lambda>_ _. True)" for info h
    unfolding read_open_entry_def
    by (auto intro!: triple_bind [where M = "\<lambda>_ _. True"] triple_world_return triple_world_fail
        simp: make_entry_def split: option.split)
       (auto simp: triple_def split: prod.splits sum.splits)
  note opened = this
  have any: "triple P m (\<lambda>_ _. True) (\<lambda>_ _. True)" for P and m :: "'b io"
    by (auto simp: triple_def split: prod.splits sum.splits)
  have fin: "triple (\<lambda>_. p) m (\<lambda>_ _. p) (\<lambda>_ _. p)" for p and m :: "'b io"
    by (cases p) (auto simp: triple_def split: prod.splits sum.splits)
  have "triple (\<lambda>_. True) (readEntry d t) (\<lambda>e _. entry_Target e = t) (\<lambda>_ _. True)"
    unfolding readEntry_def Let_def
    by (rule triple_bind [OF any], rule triple_if, rule triple_world_fail, rule TrueI,
        rule triple_bind [OF any], rule triple_deferred [OF opened]; rule fin)
  from triple_Inr [OF this _ assms] show ?thesis by simp
qed

text \<open>What the loop adds to a listing, name by name.\<close>

definition listed :: "string list \<Rightarrow> Entry list \<Rightarrow> Issue list \<Rightarrow> bool" where
  "listed ns es is \<longleftrightarrow>
     mset (map (\<lambda>e. Filename (entry_Target e)) es) + mset (map issue_Name is) =
       mset (filter (\<lambda>n. HasSuffix n ''.txt'') ns) \<and>
     (\<forall>e \<in> set es. wf_target (entry_Target e)) \<and>
     (\<forall>i \<in> set is. issue_Kind i = IssueMalformedName \<longleftrightarrow> (\<forall>t. wf_target t \<longrightarrow> Filename t \<noteq> issue_Name i))"

lemma canonical_file_name:
  assumes "HasSuffix n ''.txt''"
  shows "(\<exists>t. wf_target t \<and> Filename t = n) \<longleftrightarrow>
     (\<exists>t. target_Parse (TrimSuffix n ''.txt'') = Inr t \<and> Filename t = n)"
proof
  assume "\<exists>t. wf_target t \<and> Filename t = n"
  then obtain t where t: "wf_target t" "Filename t = n" by blast
  then have "target_Parse (TrimSuffix n ''.txt'') = Inr t"
    using target_Parse_canonical_name [of "target_value t"] TrimSuffix_Filename [OF t(1)]
    by (simp add: wf_target_def)
  with t show "\<exists>t. target_Parse (TrimSuffix n ''.txt'') = Inr t \<and> Filename t = n" by blast
qed blast

lemma list_entries_run:
  "\<exists>es is w'. list_entries d ns l w =
      (Inr \<lparr>listing_Entries = listing_Entries l @ es, listing_Issues = listing_Issues l @ is\<rparr>, w') \<and>
    listed ns es is"
proof (induction ns arbitrary: l w)
  case Nil
  show ?case by (auto simp: return_io_def listed_def)
next
  case (Cons n ns)
  have step: ?case
    if "list_entries d (n # ns) l w = list_entries d ns (l\<lparr>listing_Issues := listing_Issues l @ [i]\<rparr>) w1"
      "issue_Name i = n" "HasSuffix n ''.txt''"
      "issue_Kind i = IssueMalformedName \<longleftrightarrow> (\<forall>t. wf_target t \<longrightarrow> Filename t \<noteq> n)" for i w1
  proof -
    from Cons.IH [of "l\<lparr>listing_Issues := listing_Issues l @ [i]\<rparr>" w1] obtain es "is" w' where
      "list_entries d ns (l\<lparr>listing_Issues := listing_Issues l @ [i]\<rparr>) w1 =
         (Inr \<lparr>listing_Entries = listing_Entries l @ es, listing_Issues = (listing_Issues l @ [i]) @ is\<rparr>, w')"
      "listed ns es is" by auto
    with that show ?case
      by (intro exI [of _ es] exI [of _ "i # is"] exI [of _ w']) (auto simp: listed_def)
  qed
  show ?case
  proof (cases "HasSuffix n ''.txt''")
    case False
    with Cons.IH [of l w] show ?thesis by (auto simp: listed_def)
  next
    case suffix: True
    show ?thesis
    proof (cases "target_Parse (TrimSuffix n ''.txt'')")
      case (Inl err)
      then have "\<forall>t. wf_target t \<longrightarrow> Filename t \<noteq> n"
        using canonical_file_name [OF suffix] by auto
      with Inl suffix show ?thesis by (intro step) (auto simp: Let_def)
    next
      case (Inr t)
      show ?thesis
      proof (cases "Filename t = n")
        case False
        then have "\<forall>t. wf_target t \<longrightarrow> Filename t \<noteq> n"
          using canonical_file_name [OF suffix] Inr by auto
        with Inr suffix False show ?thesis by (intro step) (auto simp: Let_def)
      next
        case name: True
        with Inr have wf: "wf_target t" by blast
        obtain r w1 where r: "readEntry d t w = (r, w1)" by fastforce
        show ?thesis
        proof (cases r)
          case (Inl err)
          with Inr suffix name r wf show ?thesis
            by (intro step [of "\<lparr>issue_Name = n, issue_Kind = if errors_is err alertstore_ErrUnsafeFile
                then IssueUnsafeEntry else IssueInspectionFailed, issue_Err = err\<rparr>" w1])
              (auto simp: Let_def bind_io_def try_io_def)
        next
          case entry: (Inr e)
          have e: "entry_Target e = t" using r entry by (auto intro: readEntry_Target)
          from Cons.IH [of "l\<lparr>listing_Entries := listing_Entries l @ [e]\<rparr>" w1] obtain es "is" w' where
            "list_entries d ns (l\<lparr>listing_Entries := listing_Entries l @ [e]\<rparr>) w1 =
               (Inr \<lparr>listing_Entries = (listing_Entries l @ [e]) @ es, listing_Issues = listing_Issues l @ is\<rparr>, w')"
            "listed ns es is" by auto
          with Inr suffix name r wf entry e show ?thesis
            by (intro exI [of _ "e # es"] exI [of _ "is"] exI [of _ w'])
              (auto simp: Let_def bind_io_def try_io_def listed_def)
        qed
      qed
    qed
  qed
qed

lemma entry_key_wf: "wf_target (entry_Target e) \<Longrightarrow> entry_key e = target_value (entry_Target e)"
  by (simp add: entry_key_def target_String_def ToLower_target_chars wf_target_def canonical_name_def)

lemma sorted_distinct_strict:
  "sorted (map f xs) \<Longrightarrow> distinct (map f xs) \<Longrightarrow> sorted_wrt (\<lambda>a b. f a < (f b :: 'b :: linorder)) xs"
  by (induction xs) (auto simp: less_le image_iff)

text \<open>
  C21: the listing is complete, exclusive and sorted.  When \<open>List\<close> succeeds (and no other process
  changes the names of the directory meanwhile), every name that ends in .txt is the file of
  exactly one entry or the name of exactly one issue, nothing else is listed, a name is reported
  as malformed exactly when it is not the file name of a target, and both lists are in strictly
  increasing order, the entries by target.
\<close>

theorem list_is_complete_and_sorted:
  assumes "Store_List s w = (Inr l, w')" "alertRoot s = Some d" "distinct (names_of d (w_fs w))"
    and "\<forall>ev \<in> set (w_script w). same_names d (ev_env ev)"
  shows "mset (map (\<lambda>e. Filename (entry_Target e)) (listing_Entries l)) + mset (map issue_Name (listing_Issues l)) =
      mset (filter (\<lambda>n. HasSuffix n ''.txt'') (names_of d (w_fs w))) \<and>
    (\<forall>e \<in> set (listing_Entries l). wf_target (entry_Target e)) \<and>
    (\<forall>i \<in> set (listing_Issues l). issue_Kind i = IssueMalformedName \<longleftrightarrow>
       (\<forall>t. wf_target t \<longrightarrow> Filename t \<noteq> issue_Name i)) \<and>
    sorted_wrt (\<lambda>a b. target_String (entry_Target a) < target_String (entry_Target b)) (listing_Entries l) \<and>
    sorted_wrt (\<lambda>i j. issue_key i < issue_key j) (listing_Issues l)"
proof -
  let ?L = "names_of d (w_fs w)"
  have "names_are d ?L w" using assms(4) by (simp add: names_are_def rg_def)
  from assms(1,2) obtain ns w1 where ns: "read_directory ''alert'' d w = (Inr ns, w1)"
    by (cases "read_directory ''alert'' d w"; cases "fst (read_directory ''alert'' d w)")
      (auto simp: Store_List_def bind_io_def)
  with triple_Inr [OF triple_names_read \<open>names_are d ?L w\<close> ns] have "ns = ?L" by simp
  from list_entries_run [of d ns "\<lparr>listing_Entries = [], listing_Issues = []\<rparr>" w1]
  obtain es "is" w2 where run: "list_entries d ns \<lparr>listing_Entries = [], listing_Issues = []\<rparr> w1 =
      (Inr \<lparr>listing_Entries = es, listing_Issues = is\<rparr>, w2)" and listed: "listed ns es is" by auto
  from assms(1,2) ns run have l: "l = \<lparr>listing_Entries = sort_key entry_key es,
      listing_Issues = sort_key issue_key is\<rparr>"
    by (auto simp: Store_List_def bind_io_def return_io_def)
  have mset: "mset (map (\<lambda>e. Filename (entry_Target e)) es) + mset (map issue_Name is) =
      mset (filter (\<lambda>n. HasSuffix n ''.txt'') ?L)"
    and wf: "\<forall>e \<in> set es. wf_target (entry_Target e)"
    and kind: "\<forall>i \<in> set is. issue_Kind i = IssueMalformedName \<longleftrightarrow> (\<forall>t. wf_target t \<longrightarrow> Filename t \<noteq> issue_Name i)"
    using listed by (simp_all add: listed_def \<open>ns = ?L\<close>)
  have "distinct (map (\<lambda>e. Filename (entry_Target e)) es @ map issue_Name is)"
    using mset assms(3) by (metis distinct_filter mset_append mset_eq_imp_distinct_iff)
  then have d: "distinct (map (\<lambda>e. Filename (entry_Target e)) es)" "distinct (map issue_Name is)"
    by simp_all
  have keys: "map entry_key es = map (\<lambda>e. target_String (entry_Target e)) es"
    using wf by (simp add: entry_key_wf target_String_def)
  have "distinct (map (\<lambda>e. target_String (entry_Target e)) es)"
    using d(1) by (auto simp: distinct_map inj_on_def target_String_def Filename_def split: if_splits)
  then have "distinct (map entry_key (sort_key entry_key es))"
    by (metis keys distinct_sort mset_map mset_sort mset_eq_imp_distinct_iff)
  moreover have "distinct (map issue_key (sort_key issue_key is))"
  proof -
    have "distinct (map issue_key is)"
      using d(2) by (auto simp: distinct_map inj_on_def issue_key_def)
    then show ?thesis by (metis mset_map mset_sort mset_eq_imp_distinct_iff)
  qed
  ultimately have "sorted_wrt (\<lambda>a b. entry_key a < entry_key b) (sort_key entry_key es)"
    "sorted_wrt (\<lambda>i j. issue_key i < issue_key j) (sort_key issue_key is)"
    by (simp_all add: sorted_distinct_strict)
  moreover have "sorted_wrt (\<lambda>a b. target_String (entry_Target a) < target_String (entry_Target b))
      (sort_key entry_key es)"
    using calculation(1) wf by (elim sorted_wrt_mono_rel [rotated])
      (simp add: entry_key_wf target_String_def)
  ultimately show ?thesis
    using mset wf kind by (simp add: l)
qed

subsection \<open>Round trip through the store\<close>

text \<open>
  C14: what was published reads back.  After a successful \<open>Create\<close> or \<open>Write\<close> of a valid message, a
  \<open>Read\<close> that succeeds returns a managed entry for the target with exactly that message.
\<close>

theorem published_message_reads_back:
  assumes "Store_Create s t m w = (Inr u, w1) \<or> Store_Write s t m w = (Inr u, w1)"
    and "Store_Read s t w1 = (Inr e, w2)" "alertRoot s = Some d" "wf_target t" "wf_message m"
    and "among K d t w"
  shows "entry_Kind e = KindManaged \<and> entry_Message e = m \<and> entry_Target e = t"
proof -
  have "\<exists>i X. holds K (insert (d, Filename t, i, managed_inode m) X) w1"
    using assms(1)
  proof
    assume "Store_Create s t m w = (Inr u, w1)"
    from run_Create [OF this assms(3,4,6)] show ?thesis by (auto simp: made_def)
  next
    assume "Store_Write s t m w = (Inr u, w1)"
    from run_Write [OF this assms(3,4,6)] show ?thesis by (auto simp: made_def)
  qed
  then obtain i X where h: "holds K (insert (d, Filename t, i, managed_inode m) X) w1" by blast
  have "Store_Read s t = readEntry d t"
    using open_store_simps [OF assms(4)] assms(3) by (simp add: Store_Read_def)
  with triple_Inr [OF triple_readEntry [OF insertI1] h] assms(2)
  have "e = entry_of t (EscapedHTML m)" by (simp add: post_def managed_inode_def)
  then show ?thesis
    using length_EscapedHTML_wf [OF assms(5)] ParseManagedHTML_EscapedHTML [OF assms(5)]
    by (auto simp: entry_of_def make_entry_def MaxLegacyBytes_def)
qed

subsection \<open>Names of backups and time\<close>

lemma less_append_same_length:
  "xs < ys \<Longrightarrow> length xs = length ys \<Longrightarrow> xs @ u < ys @ (v :: string)"
proof (induction xs ys rule: list_induct2')
  case (4 x xs y ys)
  then show ?case by (auto simp: Cons_less_Cons)
qed auto

lemma append_less_cancel: "(xs @ u < xs @ (v :: string)) \<longleftrightarrow> u < v"
  by (induction xs) (auto simp: Cons_less_Cons)

lemma digit_char_less: "a < b \<Longrightarrow> b < 10 \<Longrightarrow> digit_char a < digit_char b"
  by (simp add: digit_char_def less_char_def)

lemma pad_nat_less: "a < b \<Longrightarrow> b < 10 ^ k \<Longrightarrow> pad_nat k a < pad_nat k b"
proof (induction k arbitrary: a b)
  case (Suc k)
  show ?case
  proof (cases "a div 10 = b div 10")
    case True
    then have "a mod 10 < b mod 10" using Suc.prems(1) by (metis div_mult_mod_eq nat_add_left_cancel_less)
    then have "digit_char (a mod 10) < digit_char (b mod 10)" by (intro digit_char_less) auto
    with True show ?thesis by (simp add: append_less_cancel Cons_less_Cons)
  next
    case False
    with Suc.prems(1) have "a div 10 < b div 10" by (meson div_le_mono le_neq_implies_less less_imp_le)
    moreover have "b div 10 < 10 ^ k" using Suc.prems(2) by (simp add: less_mult_imp_div_less mult.commute)
    ultimately show ?thesis using Suc.IH by (auto intro: less_append_same_length)
  qed
qed simp

text \<open>The fields of a time of the years 0 to 9999, and the order of time.\<close>

definition utc_fields :: "utc_time \<Rightarrow> nat list" where
  "utc_fields u = [t_year u, t_month u, t_day u, t_hour u, t_minute u, t_second u, t_nanosecond u]"

definition utc_ok :: "utc_time \<Rightarrow> bool" where
  "utc_ok u \<longleftrightarrow> t_year u < 10 ^ 4 \<and> t_month u < 10 ^ 2 \<and> t_day u < 10 ^ 2 \<and> t_hour u < 10 ^ 2 \<and>
     t_minute u < 10 ^ 2 \<and> t_second u < 10 ^ 2 \<and> t_nanosecond u < 10 ^ 9"

lemma pad_nat_append_less:
  assumes "b < 10 ^ k" "a < b \<or> a = b \<and> u < v"
  shows "pad_nat k a @ u < pad_nat k b @ (v :: string)"
  using assms by (auto simp: append_less_cancel intro: less_append_same_length pad_nat_less)

lemma backup_timestamp_less:
  assumes "utc_ok u" "utc_ok v" "utc_fields u < utc_fields v"
  shows "backup_timestamp u @ x < backup_timestamp v @ y"
  using assms unfolding backup_timestamp_def append_assoc utc_ok_def utc_fields_def Cons_less_Cons
  by (elim conjE disjE) (auto intro!: pad_nat_append_less simp: append_less_cancel Cons_less_Cons)

text \<open>The time that the next reading of the clock gives; random bytes take none.\<close>

definition clock_now :: "world \<Rightarrow> utc_time" where
  "clock_now w = w_clock w (w_clock_pos w)"

lemma fillRandom_now: "\<exists>bs w'. fillRandom n w = (Inr bs, w') \<and> clock_now w' = clock_now w"
proof (induction n arbitrary: w rule: less_induct)
  case (less n)
  show ?case
  proof (cases "n = 0")
    case True
    then show ?thesis by (simp add: fillRandom.simps return_io_def)
  next
    case False
    let ?w = "w\<lparr>w_rand_pos := Suc (w_rand_pos w)\<rparr>"
    obtain bs w' where "fillRandom (n - 8) ?w = (Inr bs, w')" "clock_now w' = clock_now ?w"
      using less [of "n - 8" ?w] False by auto
    with False show ?thesis
      by (simp add: fillRandom.simps [of n] bind_io_def rand_Uint64_def return_io_def clock_now_def)
  qed
qed

lemma newBackupName_now:
  "\<exists>token w'. newBackupName t w =
     (Inr (backup_timestamp (clock_now w) @ ''-'' @ target_String t @ ''-'' @ token @ ''.txt''), w')"
proof -
  obtain bs w1 where "fillRandom 8 w = (Inr bs, w1)" "clock_now w1 = clock_now w" using fillRandom_now by blast
  then show ?thesis
    by (auto simp: newBackupName_def randomHex_def bind_io_def return_io_def time_Now_def clock_now_def [symmetric])
qed

text \<open>
  C25: names of backups are ordered by time: of two names that \<open>newBackupName\<close> makes, for whatever
  targets and with whatever random tokens, the one made at the earlier reading of the clock comes
  first in the byte-wise order that retention sorts by.  The clock's times are calendar times of the
  years 0 to 9999, which is what the four digits of the layout can show.
\<close>

theorem backup_names_are_chronological:
  assumes "newBackupName t w = (Inr earlier, w1)" "newBackupName u v = (Inr later, v1)"
    and "utc_ok (clock_now w)" "utc_ok (clock_now v)" "utc_fields (clock_now w) < utc_fields (clock_now v)"
  shows "earlier < later"
  using newBackupName_now [of t w] newBackupName_now [of u v] assms(1,2) backup_timestamp_less [OF assms(3-5)]
  by auto

end
