(* ===== verification/Quiet_World.thy ===== *)
theory Quiet_World
  imports Store_Listing
begin

text \<open>
  Running the operations in a quiet world: no script is left, so nobody interferes and nothing
  fails.  The equations in \<open>io_simps\<close> evaluate an operation on a concrete world by rewriting.
\<close>

lemma tick_quiet: "w_script w = [] \<Longrightarrow> tick w = (calm, w)"
  by (simp add: tick_def)

lemma syscall_quiet: "w_script w = [] \<Longrightarrow>
    syscall g w = (fst (g (w_fs w)), w\<lparr>w_fs := snd (g (w_fs w))\<rparr>)"
  by (simp add: syscall_def tick_quiet calm_def split: prod.split)

lemmas io_control [io_simps] = return_io_def fail_io_def bind_io_def map_error_def try_io_def
  deferred_def on_error_def

lemma Lstat_quiet [io_simps]: "w_script w = [] \<Longrightarrow> Lstat d n w =
    (case lookup (w_fs w) d n of None \<Rightarrow> (Inl enoent, w) | Some (i, nd) \<Rightarrow> (Inr (info_of i nd), w))"
  by (simp add: Lstat_def syscall_quiet split: option.split)

lemma Open_quiet [io_simps]: "w_script w = [] \<Longrightarrow> lookup (w_fs w) d n = Some (i, nd) \<Longrightarrow>
    i_kind nd \<noteq> Symlink \<Longrightarrow> Open d n w = (Inr i, w\<lparr>w_fds := Suc (w_fds w)\<rparr>)"
  by (simp add: Open_def with_fd_def syscall_quiet)

lemma Close_quiet [io_simps]: "w_script w = [] \<Longrightarrow> Close h w = (Inr (), w\<lparr>w_fds := w_fds w - 1\<rparr>)"
  by (simp add: Close_def syscall_quiet)

lemma Stat_quiet [io_simps]: "w_script w = [] \<Longrightarrow> inodes (w_fs w) h = Some nd \<Longrightarrow>
    Stat h w = (Inr (info_of h nd), w)"
  by (simp add: Stat_def syscall_quiet)

lemma read_limited_quiet [io_simps]:
  assumes "w_script w = []" "inodes (w_fs w) h = Some nd"
  shows "read_limited h off limit w = (Inr (take limit (drop off (i_data nd))), w)"
proof (cases "limit = 0 \<or> drop off (i_data nd) = []")
  case True
  with assms show ?thesis
    by (subst read_limited.simps) (auto simp: Read_at_def tick_quiet calm_def)
next
  case False
  let ?bs = "take limit (drop off (i_data nd))"
  have "read_limited h (off + length ?bs) (limit - length ?bs) w = (Inr [], w)"
    using assms by (subst read_limited.simps) (auto simp: Read_at_def tick_quiet calm_def min_def)
  with assms False show ?thesis
    by (subst read_limited.simps) (auto simp: Read_at_def tick_quiet calm_def)
qed

lemma copy_backup_quiet [io_simps]:
  assumes "w_script w = []" "inodes (w_fs w) h = Some nd" "h \<noteq> bh"
    and "i_data nd \<noteq> []" "length (i_data nd) \<le> copy_buffer" "length (i_data nd) < limit"
  shows "copy_backup h bh 0 limit cap w = (Inr (length (i_data nd), capture_Write cap (i_data nd)),
     w\<lparr>w_fs := append_data bh (i_data nd) (w_fs w)\<rparr>)"
proof -
  let ?w = "w\<lparr>w_fs := append_data bh (i_data nd) (w_fs w)\<rparr>"
  have "copy_backup h bh (length (i_data nd)) (limit - length (i_data nd))
      (capture_Write cap (i_data nd)) ?w = (Inr (length (i_data nd), capture_Write cap (i_data nd)), ?w)"
    using assms by (subst copy_backup.simps)
      (simp add: Read_at_def tick_quiet calm_def inodes_update)
  with assms show ?thesis
    by (subst copy_backup.simps) (simp add: Read_at_def Write_string_def tick_quiet calm_def)
qed

lemma Write_quiet [io_simps]: "w_script w = [] \<Longrightarrow>
    Write_string h bs w = (Inr (length bs), w\<lparr>w_fs := append_data h bs (w_fs w)\<rparr>)"
  by (simp add: Write_string_def tick_quiet calm_def)

lemma Sync_quiet [io_simps]: "w_script w = [] \<Longrightarrow>
    Sync h w = (Inr (), w\<lparr>w_fs := update_inode h (\<lambda>nd. nd\<lparr>i_synced := True\<rparr>) (w_fs w)\<rparr>)"
  by (simp add: Sync_def syscall_quiet)

lemma Chmod_quiet [io_simps]: "w_script w = [] \<Longrightarrow> Chmod h mode w =
    (Inr (), w\<lparr>w_fs := update_inode h (\<lambda>nd. nd\<lparr>i_mode := mode, i_synced := False\<rparr>) (w_fs w)\<rparr>)"
  by (simp add: Chmod_def syscall_quiet)

lemma OpenExcl_quiet [io_simps]:
  "w_script w = [] \<Longrightarrow> map_of (dirs (w_fs w) d) n = None \<Longrightarrow> OpenExcl d n mode w =
    (Inr (next_ino (w_fs w)), w\<lparr>w_fs := add_entry d n (next_ino (w_fs w))
       ((w_fs w)\<lparr>inodes := (inodes (w_fs w))(next_ino (w_fs w) \<mapsto> new_inode mode),
          next_ino := Suc (next_ino (w_fs w))\<rparr>), w_fds := Suc (w_fds w)\<rparr>)"
  by (simp add: OpenExcl_def with_fd_def syscall_quiet)

lemma Link_quiet [io_simps]:
  "w_script w = [] \<Longrightarrow> map_of (dirs (w_fs w) d) old = Some i \<Longrightarrow>
   Link d old new w = (if map_of (dirs (w_fs w) d) new \<noteq> None then (Inl eexist, w)
     else (Inr (), w\<lparr>w_fs := add_entry d new i (w_fs w)\<rparr>))"
  by (simp add: Link_def syscall_quiet)

lemma Rename_quiet [io_simps]:
  "w_script w = [] \<Longrightarrow> map_of (dirs (w_fs w) d) old = Some i \<Longrightarrow> map_of (dirs (w_fs w) d) new \<noteq> Some i \<Longrightarrow>
   (\<forall>j nd. lookup (w_fs w) d new = Some (j, nd) \<longrightarrow> i_kind nd \<noteq> Directory) \<Longrightarrow>
   Rename d old new w =
     (Inr (), w\<lparr>w_fs := add_entry d new i (remove_entry d new (remove_entry d old (w_fs w)))\<rparr>)"
  by (auto simp: Rename_def syscall_quiet split: option.split)

lemma Remove_quiet [io_simps]: "w_script w = [] \<Longrightarrow> Remove d n w =
    (if map_of (dirs (w_fs w) d) n = None then (Inl enoent, w)
     else (Inr (), w\<lparr>w_fs := remove_entry d n (w_fs w)\<rparr>))"
  by (simp add: Remove_def syscall_quiet)

lemma directory_quiet [io_simps]:
  "w_script w = [] \<Longrightarrow> OpenDir d w = (Inr (), w\<lparr>w_fds := Suc (w_fds w)\<rparr>)"
  "w_script w = [] \<Longrightarrow> ReadDir d w = (Inr (map fst (dirs (w_fs w) d)), w)"
  "w_script w = [] \<Longrightarrow> SyncDir d w = (Inr (), w)"
  "w_script w = [] \<Longrightarrow> CloseDir d w = (Inr (), w\<lparr>w_fds := w_fds w - 1\<rparr>)"
  by (simp_all add: OpenDir_def ReadDir_def SyncDir_def CloseDir_def Close_def with_fd_def syscall_quiet)

lemma syncDirectory_quiet [io_simps]: "w_script w = [] \<Longrightarrow> syncDirectory d w = (Inr (), w)"
  by (simp add: syncDirectory_def io_simps errors_Join_def)

lemma read_directory_quiet [io_simps]:
  "w_script w = [] \<Longrightarrow> read_directory what d w = (Inr (names_of d (w_fs w)), w)"
  by (simp add: read_directory_def io_simps joined_results_def errors_Join_def names_of_def)

subsection \<open>A concrete world\<close>

text \<open>
  Two alerts, one managed (node) and one legacy (old), an empty backup directory, random numbers
  that are all zero, and a clock that stands still.
\<close>

definition demo_alert :: inode where
  "demo_alert = managed_inode \<lparr>message_value = ''Hi''\<rparr>"

definition demo_legacy :: inode where
  "demo_legacy = \<lparr>i_kind = Regular, i_mode = 420, i_data = ''<b>x'', i_mtime = 7, i_synced = True, i_link = None\<rparr>"

definition demo_time :: utc_time where
  "demo_time = \<lparr>t_year = 2026, t_month = 1, t_day = 2, t_hour = 3, t_minute = 4, t_second = 5,
     t_nanosecond = 6\<rparr>"

definition demo_fs :: fs where
  "demo_fs = \<lparr>dirs = (\<lambda>d. case d of AlertDir \<Rightarrow> [(''node.txt'', 1), (''old.txt'', 2)] | _ \<Rightarrow> []),
     inodes = [1 \<mapsto> demo_alert, 2 \<mapsto> demo_legacy], next_ino = 3\<rparr>"

definition demo_world :: "event list \<Rightarrow> world" where
  "demo_world script = \<lparr>w_fs = demo_fs, w_script = script, w_rand = (\<lambda>_. 0), w_rand_pos = 0,
     w_clock = (\<lambda>_. demo_time), w_clock_pos = 0, w_fds = 0\<rparr>"

definition demo_store :: store where
  "demo_store = \<lparr>alertRoot = Some AlertDir, backupRoot = Some BackupDir\<rparr>"

definition demo_target :: "string \<Rightarrow> target" where
  "demo_target n = \<lparr>target_value = n\<rparr>"

definition demo_message :: message where
  "demo_message = \<lparr>message_value = ''Hi''\<rparr>"

text \<open>Another process adds a file, and then every later system call fails.\<close>

definition intrude :: "fs \<Rightarrow> fs" where
  "intrude f = (if map_of (dirs f AlertDir) ''intruder.txt'' \<noteq> None \<or> inodes f 1 = None then f
     else add_entry AlertDir ''intruder.txt'' 1 f)"

definition demo_script :: "event list" where
  "demo_script = [calm, calm\<lparr>ev_env := intrude\<rparr>, calm\<lparr>ev_fault := Some ''I/O error''\<rparr>]"

lemma demo_EscapedHTML [simp]: "EscapedHTML demo_message = ''Hi''"
  by code_simp

lemma demo_alert_data [simp]: "i_data demo_alert = ''Hi''" "i_kind demo_alert = Regular"
  using demo_EscapedHTML by (simp_all add: demo_alert_def managed_inode_def demo_message_def)

lemma demo_timestamp: "backup_timestamp demo_time = ''20260102T030405.000000006Z''"
  by code_simp

lemma demo_bytes: "word_bytes 0 = replicate 8 (CHR 0x00)"
  by code_simp

lemma demo_wf: "wf_fs demo_fs"
  by (auto simp: wf_fs_def demo_fs_def split: dirid.split)

lemma demo_spares: "spares K intrude" "spares K (\<lambda>f. f)"
proof -
  show "spares K intrude"
    unfolding spares_def
  proof (intro allI impI conjI)
    fix f assume f: "wf_fs f"
    then show "wf_fs (intrude f)" by (auto simp: intrude_def intro: wf_add_entry)
    fix d n i nd assume "lookup f d n = Some (i, nd)"
    then show "lookup (intrude f) d n = Some (i, nd)"
      by (auto simp: intrude_def dest!: lookup_SomeD intro!: lookup_SomeI)
  qed
qed (simp add: spares_def)

lemma demo_among: "among (\<lambda>_ _. True) d t (demo_world demo_script)" "among (\<lambda>_ _. True) d t (demo_world [])"
  by (simp_all add: among_def demo_world_def demo_wf demo_script_def calm_def demo_spares)

lemma demo_targets [simp]: "wf_target (demo_target ''node'')" "wf_target (demo_target ''old'')"
  "wf_target (demo_target ''new'')"
  by code_simp+

lemma demo_present [simp]:
  "present (demo_world s) AlertDir (Filename (demo_target ''node'')) 1 demo_alert"
  "present (demo_world s) AlertDir (Filename (demo_target ''old'')) 2 demo_legacy"
  by (simp_all add: present_def demo_world_def demo_fs_def lookup_def Filename_def demo_target_def)

lemma demo_roots [simp]: "alertRoot demo_store = Some AlertDir" "backupRoot demo_store = Some BackupDir"
  by (simp_all add: demo_store_def)

end
