(* ===== verification/App_Config.thy ===== *)
theory App_Config
  imports Json_Facts Quiet_World
begin

text \<open>
  The package \<open>internal/appconfig\<close>: the application settings, their file and the manager that holds
  the current ones.  The file is the entry \<open>filepath.Base(path)\<close> of the directory
  \<open>filepath.Dir(path)\<close>, which is \<open>ConfigDir\<close>.  The mutex of the manager makes its operations
  exclusive, so they are functions of its state.  The results: a save either reports that nothing
  was committed or has renamed a complete file into place; the manager's current settings are
  always valid and change exactly when a save has committed; and what is saved loads.
\<close>

definition CurrentVersion :: int where
  "CurrentVersion = 1"

definition MaxConfigBytes :: nat where
  "MaxConfigBytes = 64 * 1024"

record Config =
  config_Version :: int

definition Defaults :: Config where
  "Defaults = \<lparr>config_Version = CurrentVersion\<rparr>"

definition zero_config :: Config where
  "zero_config = \<lparr>config_Version = 0\<rparr>"

text \<open>\<open>None\<close> stands for the nil error.\<close>

definition config_Validate :: "Config \<Rightarrow> goerror option" where
  "config_Validate config =
     (if config_Version config \<noteq> CurrentVersion
      then Some (sentinelf appconfig_ErrUnsupportedVersion (show_int (config_Version config)))
      else None)"

definition into_config :: "bool \<Rightarrow> Config into" where
  "into_config strict = into_struct strict [field_of ''version'' config_Version config_Version_update into_int]"

definition config_json :: "Config \<Rightarrow> json" where
  "config_json config = JObject [(''version'', JInt (config_Version config))]"

subsection \<open>Loading\<close>

text \<open>What \<open>filepath.Base\<close> makes of a path.\<close>

definition filepath_Base :: "string \<Rightarrow> string" where
  "filepath_Base path =
     (if path = [] then ''.''
      else
        let trimmed = rev (dropWhile (\<lambda>c. c = CHR ''/'') (rev path))
        in if trimmed = [] then ''/'' else rev (takeWhile (\<lambda>c. c \<noteq> CHR ''/'') (rev trimmed)))"

text \<open>\<open>os.Stat(directory)\<close>: whether the path still leads to a directory is a parameter.\<close>

definition Stat_parent :: "(fs \<Rightarrow> bool) \<Rightarrow> bool io" where
  "Stat_parent parent = syscall (\<lambda>f. (Inr (parent f), f))"

definition decode_config :: "json_texts \<Rightarrow> string \<Rightarrow> goerror + Config" where
  "decode_config texts data =
     (case decode_single texts (into_config True) zero_config data of
        (config, Some text) \<Rightarrow> Inl (sentinelf appconfig_ErrInvalidConfig text)
      | (config, None) \<Rightarrow> (case config_Validate config of Some err \<Rightarrow> Inl err | None \<Rightarrow> Inr config))"

definition load_open :: "json_texts \<Rightarrow> nat \<Rightarrow> Config io" where
  "load_open texts file =
     bind_io (map_error (wrapf ''read application configuration'')
       (read_limited file 0 (MaxConfigBytes + 1))) (\<lambda>data.
     if length data > MaxConfigBytes then fail_io (Sentinel appconfig_ErrTooLarge)
     else case decode_config texts data of Inl err \<Rightarrow> fail_io err | Inr config \<Rightarrow> return_io config)"

definition Load :: "json_texts \<Rightarrow> (fs \<Rightarrow> bool) \<Rightarrow> string \<Rightarrow> Config io" where
  "Load texts parent path =
     bind_io (try_io (Open ConfigDir (filepath_Base path))) (\<lambda>r.
     case r of
       Inl err \<Rightarrow>
         if errors_is err Os_ErrNotExist
         then bind_io (map_error (wrapf ''open application configuration directory'') (Stat_parent parent))
             (\<lambda>isDir.
              if \<not> isDir
              then fail_io (sentinelf appconfig_ErrInvalidConfig ''configuration parent is not a directory'')
              else return_io Defaults)
         else fail_io (wrapf ''open application configuration'' err)
     | Inr file \<Rightarrow> deferred (Close file) (load_open texts file))"

subsection \<open>Saving\<close>

text \<open>\<open>os.CreateTemp\<close>: at most 10000 random names; the random part is a 32-bit number.\<close>

fun create_temp :: "nat \<Rightarrow> dirid \<Rightarrow> string \<Rightarrow> (nat \<times> string) io" where
  "create_temp 0 d prefix = fail_io (OsError Exist (''createtemp '' @ prefix @ ''*: file already exists''))"
| "create_temp (Suc tries) d prefix =
     bind_io rand_Uint64 (\<lambda>x.
     let name = prefix @ show_nat (unat x mod 2 ^ 32) in
     bind_io (try_io (OpenExcl d name 384)) (\<lambda>r.
     case r of
       Inr file \<Rightarrow> return_io (file, name)
     | Inl err \<Rightarrow> if errors_is err Os_ErrExist then create_temp tries d prefix else fail_io err))"

text \<open>From the temporary file to the rename.  A failure closes the file, unless it is closed already,
  and removes it.\<close>

definition fill_config :: "nat \<Rightarrow> string \<Rightarrow> unit io" where
  "fill_config temp data =
     bind_io (map_error (wrapf ''set application configuration permissions'') (Chmod temp 384)) (\<lambda>_.
     bind_io (map_error (wrapf ''write application configuration'') (Write_string temp data)) (\<lambda>_.
     map_error (wrapf ''sync application configuration'') (Sync temp)))"

definition publish_config :: "string \<Rightarrow> string \<Rightarrow> unit io" where
  "publish_config base data =
     bind_io (map_error (wrapf ''create temporary application configuration'')
       (create_temp 10000 ConfigDir (''.'' @ base @ ''.tmp-''))) (\<lambda>(temp, tempPath).
     bind_io (on_error (discard_open ConfigDir temp tempPath) (fill_config temp data)) (\<lambda>_.
     on_error (Remove ConfigDir tempPath)
       (bind_io (map_error (wrapf ''close application configuration'') (Close temp)) (\<lambda>_.
        map_error (wrapf ''replace application configuration'') (Rename ConfigDir tempPath base)))))"

definition durability_uncertain :: "string \<Rightarrow> goerror \<Rightarrow> goerror" where
  "durability_uncertain what err =
     Errorf (sentinel_text appconfig_ErrDurabilityUncertain @ '': '' @ what @ '': '' @ error_text err)
       [Sentinel appconfig_ErrDurabilityUncertain, err]"

text \<open>The pair \<open>(committed, err)\<close>.\<close>

definition saveWithDirectorySync :: "string \<Rightarrow> Config \<Rightarrow> unit io \<Rightarrow> (bool \<times> goerror option) io" where
  "saveWithDirectorySync path config sync_directory =
     (case config_Validate config of
        Some err \<Rightarrow> return_io (False, Some err)
      | None \<Rightarrow>
          let data = json_print (config_json config) @ [LF] in
          if length data > MaxConfigBytes
          then return_io (False, Some (Sentinel appconfig_ErrTooLarge))
          else
          bind_io (try_io (publish_config (filepath_Base path) data)) (\<lambda>r.
          case r of
            Inl err \<Rightarrow> return_io (False, Some err)
          | Inr _ \<Rightarrow>
              bind_io (try_io (OpenDir ConfigDir)) (\<lambda>r.
              case r of
                Inl err \<Rightarrow>
                  return_io (True, Some (durability_uncertain ''open application configuration directory'' err))
              | Inr _ \<Rightarrow> deferred (CloseDir ConfigDir)
                  (bind_io (try_io sync_directory) (\<lambda>r.
                   case r of
                     Inl err \<Rightarrow>
                       return_io (True, Some (durability_uncertain ''sync application configuration directory'' err))
                   | Inr _ \<Rightarrow> return_io (True, None))))))"

definition save :: "string \<Rightarrow> Config \<Rightarrow> (bool \<times> goerror option) io" where
  "save path config = saveWithDirectorySync path config (SyncDir ConfigDir)"

definition config_Save :: "string \<Rightarrow> Config \<Rightarrow> unit io" where
  "config_Save path config =
     bind_io (save path config) (\<lambda>(_, err). case err of None \<Rightarrow> return_io () | Some e \<Rightarrow> fail_io e)"

subsection \<open>The manager\<close>

record Manager =
  manager_path :: string
  manager_current :: Config

definition OpenManager :: "json_texts \<Rightarrow> (fs \<Rightarrow> bool) \<Rightarrow> string \<Rightarrow> Manager io" where
  "OpenManager texts parent path =
     bind_io (Load texts parent path) (\<lambda>config.
     return_io \<lparr>manager_path = path, manager_current = config\<rparr>)"

definition Manager_Current :: "Manager \<Rightarrow> Config" where
  "Manager_Current manager = manager_current manager"

text \<open>The new state of the manager and the returned error.\<close>

definition replaceWithSave ::
  "Manager \<Rightarrow> Config \<Rightarrow> (string \<Rightarrow> Config \<Rightarrow> (bool \<times> goerror option) io) \<Rightarrow> (Manager \<times> goerror option) io"
where
  "replaceWithSave manager config persist =
     bind_io (persist (manager_path manager) config) (\<lambda>(committed, err).
     return_io (if committed then manager\<lparr>manager_current := config\<rparr> else manager, err))"

definition Manager_Replace :: "Manager \<Rightarrow> Config \<Rightarrow> (Manager \<times> goerror option) io" where
  "Manager_Replace manager config = replaceWithSave manager config save"

end
