(* ===== verification/Error_Rules.thy ===== *)
theory Error_Rules
  imports File_System
begin

text \<open>
  Which sentinels the errors of an operation can wrap: \<open>raises S m\<close> says that whatever error \<open>m\<close>
  returns, in any world, \<open>errors.Is\<close> finds in it only sentinels of \<open>S\<close>.  The system calls raise at
  most \<open>os.ErrNotExist\<close> and \<open>os.ErrExist\<close>.  The rules follow the program's own control structure, so
  a bound is proved by applying them; \<open>raises_bind\<close> is for the sequencings that handle no error.
\<close>

named_theorems raising \<open>rules that bound the sentinels of an operation's errors\<close>

definition only :: "sentinel set \<Rightarrow> goerror \<Rightarrow> bool" where
  "only S e \<longleftrightarrow> (\<forall>s. errors_is e s \<longrightarrow> s \<in> S)"

definition raises :: "sentinel set \<Rightarrow> 'a io \<Rightarrow> bool" where
  "raises S m \<longleftrightarrow> (\<forall>w e w'. m w = (Inl e, w') \<longrightarrow> only S e)"

abbreviation os_sentinels :: "sentinel set" where
  "os_sentinels \<equiv> {Os_ErrNotExist, Os_ErrExist}"

lemma raisesD: "raises S m \<Longrightarrow> m w = (Inl e, w') \<Longrightarrow> errors_is e s \<Longrightarrow> s \<in> S"
  by (auto simp: raises_def only_def)

lemma only_simps [simp]:
  "only S (Sentinel s) \<longleftrightarrow> s \<in> S"
  "only S (wrapf p e) \<longleftrightarrow> only S e"
  "only S (sentinelf s x) \<longleftrightarrow> s \<in> S"
  "only S (new_error x)"
  "only S (OsError OtherKind t)"
  "only S (Errorf x es) \<longleftrightarrow> (\<forall>e \<in> set es. only S e)"
  "only S (Joined es) \<longleftrightarrow> (\<forall>e \<in> set es. only S e)"
  "only S (RemoteError c t)"
  by (auto simp: only_def list_ex_iff)

lemma only_os [simp]: "os_sentinels \<subseteq> S \<Longrightarrow> only S (OsError k t)"
  by (auto simp: only_def)

lemma only_os_calls [simp]: "os_sentinels \<subseteq> S \<Longrightarrow> only S enoent" "os_sentinels \<subseteq> S \<Longrightarrow> only S eexist"
  "only S (eother t)"
  by (simp_all add: enoent_def eexist_def eother_def)

lemma raises_return [raising]: "raises S (return_io x)"
  by (simp add: raises_def return_io_def)

lemma raises_fail [raising]: "only S e \<Longrightarrow> raises S (fail_io e)"
  by (simp add: raises_def fail_io_def)

lemma raises_bind: "raises S m \<Longrightarrow> (\<And>x. raises S (f x)) \<Longrightarrow> raises S (bind_io m f)"
  by (fastforce simp: raises_def bind_io_def split: prod.splits sum.splits)

text \<open>A handled error is known to be one the operation can raise.\<close>

lemma raises_bind_try [raising]:
  assumes "raises S m" "\<And>x. raises S (f (Inr x))" "\<And>e. only S e \<Longrightarrow> raises S (f (Inl e))"
  shows "raises S (bind_io (try_io m) f)"
  unfolding raises_def
proof (intro allI impI)
  fix w e w' assume run: "bind_io (try_io m) f w = (Inl e, w')"
  obtain r w1 where m: "m w = (r, w1)" by fastforce
  with run have "f r w1 = (Inl e, w')" by (simp add: bind_io_def try_io_def)
  moreover have "raises S (f r)"
  proof (cases r)
    case (Inl a)
    with assms(1) m have "only S a" by (auto simp: raises_def)
    with Inl assms(3) show ?thesis by simp
  qed (use assms(2) in simp)
  ultimately show "only S e" by (auto simp: raises_def)
qed

lemma raises_map_error [raising]:
  "raises S m \<Longrightarrow> (\<And>e. only S e \<Longrightarrow> only S (g e)) \<Longrightarrow> raises S (map_error g m)"
  by (fastforce simp: raises_def map_error_def split: prod.splits sum.splits)

lemma raises_deferred [raising]: "raises S m \<Longrightarrow> raises S (deferred c m)"
  by (fastforce simp: raises_def deferred_def split: prod.splits)

lemma raises_on_error [raising]: "raises S m \<Longrightarrow> raises S (on_error c m)"
  by (fastforce simp: raises_def on_error_def split: prod.splits sum.splits)

lemma raises_syscall:
  assumes "\<And>f e. fst (g f) = Inl e \<Longrightarrow> only S e"
  shows "raises S (syscall g)"
  unfolding raises_def
proof (intro allI impI)
  fix w e w' assume run: "syscall g w = (Inl e, w')"
  obtain ev w1 where t: "tick w = (ev, w1)" by fastforce
  show "only S e"
  proof (cases "ev_fault ev")
    case None
    with run t have "fst (g (w_fs w1)) = Inl e" by (auto simp: syscall_def split: prod.splits)
    then show ?thesis by (rule assms)
  qed (use run t in \<open>auto simp: syscall_def\<close>)
qed

lemma raises_with_fd: "raises S m \<Longrightarrow> raises S (with_fd m)"
  by (fastforce simp: raises_def with_fd_def split: prod.splits sum.splits)

lemma raises_calls [raising]:
  assumes "os_sentinels \<subseteq> S"
  shows "raises S (Lstat d n)" "raises S (Open d n)" "raises S (Close h)" "raises S (Stat h)"
    "raises S (Write_string h bs)" "raises S (Sync h)" "raises S (Chmod h mode)"
    "raises S (OpenExcl d n mode)" "raises S (Link d old new)" "raises S (Rename d old new)"
    "raises S (Remove d n)" "raises S (OpenDir d)" "raises S (ReadDir d)" "raises S (SyncDir d)"
    "raises S (CloseDir d)" "raises S (Read_at h off k)"
proof -
  note calls = Lstat_def Open_def Stat_def Sync_def Chmod_def OpenExcl_def Link_def
    Rename_def Remove_def OpenDir_def ReadDir_def SyncDir_def
  show "raises S (Lstat d n)" "raises S (Open d n)" "raises S (Stat h)"
    "raises S (Sync h)" "raises S (Chmod h mode)" "raises S (OpenExcl d n mode)" "raises S (Link d old new)"
    "raises S (Rename d old new)" "raises S (Remove d n)" "raises S (OpenDir d)" "raises S (ReadDir d)"
    "raises S (SyncDir d)"
    unfolding calls using assms
    by (auto intro!: raises_with_fd raises_syscall split: option.splits if_splits)
  show close: "raises S (Close h)" for h
    by (auto simp: raises_def Close_def syscall_def split: prod.splits option.splits)
  show "raises S (CloseDir d)" by (simp add: CloseDir_def close)
  show "raises S (Write_string h bs)" "raises S (Read_at h off k)"
    by (auto simp: raises_def Write_string_def Read_at_def split: prod.splits option.splits)
qed

lemma raises_read_limited [raising]:
  "os_sentinels \<subseteq> S \<Longrightarrow> raises S (read_limited h off limit)"
proof -
  assume S: "os_sentinels \<subseteq> S"
  have "read_limited h off limit w = (Inl e, w') \<Longrightarrow> only S e" for h off limit w e w'
  proof (induction h off limit w arbitrary: w' rule: read_limited.induct)
    case (1 h off limit w)
    show ?case
    proof (cases "limit = 0")
      case False
      obtain r w1 where r: "Read_at h off limit w = (r, w1)" by fastforce
      show ?thesis
      proof (cases r)
        case (Inl x)
        with r raises_calls(16) [OF S, of h off limit] have "only S x" by (auto simp: raises_def)
        with 1(2) r Inl False show ?thesis by (simp add: read_limited.simps [of h off limit w])
      next
        case (Inr bs)
        with 1 r False show ?thesis
          by (auto simp: read_limited.simps [of h off limit w] split: if_splits prod.splits sum.splits)
      qed
    qed (use 1(2) in \<open>simp add: read_limited.simps\<close>)
  qed
  then show ?thesis by (auto simp: raises_def)
qed

lemma raises_rand [raising]: "raises S rand_Uint64"
  by (simp add: raises_def rand_Uint64_def)

lemma raises_now [raising]: "raises S time_Now"
  by (simp add: raises_def time_Now_def)

lemma raises_case [raising]:
  "(\<And>x. y = Inl x \<Longrightarrow> raises S (f x)) \<Longrightarrow> (\<And>z. y = Inr z \<Longrightarrow> raises S (g z)) \<Longrightarrow>
     raises S (case y of Inl x \<Rightarrow> f x | Inr z \<Rightarrow> g z)"
  "(c \<Longrightarrow> raises S m) \<Longrightarrow> (\<not> c \<Longrightarrow> raises S m') \<Longrightarrow> raises S (if c then m else m')"
  "(y' = None \<Longrightarrow> raises S m) \<Longrightarrow> (\<And>z. y' = Some z \<Longrightarrow> raises S (h z)) \<Longrightarrow>
     raises S (case y' of None \<Rightarrow> m | Some z \<Rightarrow> h z)"
  "(\<And>a b. p = (a, b) \<Longrightarrow> raises S (k a b)) \<Longrightarrow> raises S (case p of (a, b) \<Rightarrow> k a b)"
  by (auto split: sum.splits option.splits prod.splits)

lemma raises_mono: "raises S m \<Longrightarrow> S \<subseteq> T \<Longrightarrow> raises T m"
  by (auto simp: raises_def only_def)

end
