(* ===== verification/Config_Rules.thy ===== *)
theory Config_Rules
  imports App_Config Error_Rules Read_Rules
begin

text \<open>
  What the settings file and the manager promise: a save is all or nothing for every interference
  with the rest of the file system and every failure; the manager holds the last settings that were
  committed; and a saved file loads.
\<close>

subsection \<open>Saving is all or nothing\<close>

definition config_data :: "Config \<Rightarrow> string" where
  "config_data config = json_print (config_json config) @ [LF]"

definition config_inode :: "Config \<Rightarrow> inode" where
  "config_inode config = \<lparr>i_kind = Regular, i_mode = 384, i_data = config_data config, i_mtime = 1,
     i_synced = True, i_link = None\<rparr>"

text \<open>The names of the temporary files for a base name; nobody else uses them or the file itself.\<close>

definition config_temporary :: "string \<Rightarrow> string \<Rightarrow> bool" where
  "config_temporary base n \<longleftrightarrow> HasPrefix n (''.'' @ base @ ''.tmp-'')"

lemma config_temporary_neq: "config_temporary base n \<Longrightarrow> n \<noteq> base"
proof
  assume "config_temporary base n" "n = base"
  then obtain t where "base = ''.'' @ base @ ''.tmp-'' @ t"
    by (auto simp: config_temporary_def HasPrefix_iff)
  then have "length base = length (''.'' @ base @ ''.tmp-'' @ t)" by (rule arg_cong)
  then show False by simp
qed

definition config_owned :: "(dirid \<Rightarrow> string \<Rightarrow> bool) \<Rightarrow> string \<Rightarrow> bool" where
  "config_owned K base \<longleftrightarrow> K ConfigDir base \<and> (\<forall>n. config_temporary base n \<longrightarrow> K ConfigDir n)"

lemma triple_create_temp:
  assumes "config_owned K base" "\<And>e w. holds K X w \<Longrightarrow> R e w"
  shows "triple (holds K X) (create_temp k ConfigDir (''.'' @ base @ ''.tmp-''))
    (post (\<lambda>(h, n). config_temporary base n \<and> unnamed ConfigDir n X \<and> unlinked h X) K
       (\<lambda>(h, n). insert (ConfigDir, n, h, new_inode 384) X)) R"
proof (induction k)
  case (Suc k)
  have own: "K ConfigDir (''.'' @ base @ ''.tmp-'' @ s)" "config_temporary base (''.'' @ base @ ''.tmp-'' @ s)" for s
    using assms(1) HasPrefix_append [of "''.'' @ base @ ''.tmp-''" s]
    by (auto simp: config_owned_def config_temporary_def)
  from Suc own assms(2) show ?case
    by (auto simp: Let_def intro!: triple_seq [OF triple_rand] triple_try_seq [OF triple_OpenExcl]
        post_holds triple_world_return triple_world_fail simp: post_def)
qed (simp add: triple_world_fail assms(2))

lemma triple_fill_config:
  assumes "unlinked h X" "\<And>e w nd. holds K (insert (d, n, h, nd) X) w \<Longrightarrow> R e w"
  shows "triple (holds K (insert (d, n, h, new_inode 384) X)) (fill_config h (config_data c))
    (post (\<lambda>_. True) K (\<lambda>_. insert (d, n, h, config_inode c) X)) R"
proof -
  note steps = triple_Chmod [OF assms(1)] triple_Write [OF assms(1)] triple_Sync [OF assms(1)]
  have "(written (config_data c) (new_inode 384\<lparr>i_mode := 384, i_synced := False\<rparr>))\<lparr>i_synced := True\<rparr> =
      config_inode c"
    by (simp add: written_def new_inode_def config_inode_def)
  then show ?thesis
    unfolding fill_config_def
    by - (rule triple_seq [OF triple_map_error [OF steps(1)]], erule assms(2),
      rule triple_seq [OF triple_map_error [OF steps(2)]], erule assms(2),
      rule triple_map_error, rule triple_weaken [OF steps(3) [OF assms(2)]], auto simp: post_def)
qed

lemma triple_publish_config:
  assumes own: "config_owned K base" and Z: "Z \<subseteq> X" "unnamed ConfigDir base Z"
  shows "triple (holds K X) (publish_config base (config_data c))
    (\<lambda>_ w. made K ConfigDir base (config_inode c) Z w) (\<lambda>_ w. holds K X w)"
  unfolding publish_config_def
proof (rule triple_seq [OF triple_map_error [OF triple_create_temp [OF own]]], simp, goal_cases)
  case (1 p)
  then obtain h n where p: "p = (h, n)"
    and n: "config_temporary base n" "unnamed ConfigDir n X" "unlinked h X"
    by (cases p) auto
  note neq = config_temporary_neq [OF n(1)]
  let ?Y = "insert (ConfigDir, n, h, config_inode c) X"
  let ?Z = "insert (ConfigDir, base, h, config_inode c) Z"
  have unZ: "unlinked h Z" "unnamed ConfigDir n Z"
    using n Z(1) by (auto simp: unlinked_def unnamed_def)
  have fill: "triple (holds K (insert (ConfigDir, n, h, new_inode 384) X))
      (on_error (discard_open ConfigDir h n) (fill_config h (config_data c)))
      (post (\<lambda>_. True) K (\<lambda>_. ?Y)) (\<lambda>_. holds K X)"
  proof (rule triple_on_error)
    show "triple (holds K (insert (ConfigDir, n, h, new_inode 384) X)) (fill_config h (config_data c))
        (post (\<lambda>_. True) K (\<lambda>_. ?Y)) (\<lambda>e w. \<exists>nd. holds K (insert (ConfigDir, n, h, nd) X) w)"
      by (rule triple_fill_config [OF n(3)]) blast
    show "triple (\<lambda>w. \<exists>nd. holds K (insert (ConfigDir, n, h, nd) X) w) (discard_open ConfigDir h n)
        (\<lambda>_. holds K X) (\<lambda>_. holds K X)" for e
      by (intro triple_ex triple_discard_open [OF n(2)])
  qed
  have finish: "triple (holds K ?Y)
     (on_error (Remove ConfigDir n)
       (bind_io (map_error (wrapf ''close application configuration'') (Close h)) (\<lambda>_.
        map_error (wrapf ''replace application configuration'') (Rename ConfigDir n base))))
     (post (\<lambda>_. True) K (\<lambda>_. ?Z)) (\<lambda>_. holds K X)"
  proof (rule triple_on_error)
    show "triple (holds K ?Y)
       (bind_io (map_error (wrapf ''close application configuration'') (Close h)) (\<lambda>_.
        map_error (wrapf ''replace application configuration'') (Rename ConfigDir n base)))
       (post (\<lambda>_. True) K (\<lambda>_. ?Z)) (\<lambda>_. holds K ?Y)"
      using Z unZ neq own
      by (intro triple_seq [OF triple_map_error [OF triple_Close]] triple_map_error triple_Rename)
        (auto simp: config_owned_def)
    show "triple (holds K ?Y) (Remove ConfigDir n) (\<lambda>_. holds K X) (\<lambda>_. holds K X)"
      using n by (intro triple_Remove_either)
  qed
  show ?case
    unfolding p prod.case
    by (rule triple_seq [OF fill], rule triple_weaken [OF finish])
      (auto simp: post_def made_def intro!: exI [of _ h] unZ)
qed

definition save_post ::
  "(dirid \<Rightarrow> string \<Rightarrow> bool) \<Rightarrow> string \<Rightarrow> Config \<Rightarrow> entries \<Rightarrow> entries \<Rightarrow> bool \<times> goerror option \<Rightarrow> world \<Rightarrow> bool"
where
  "save_post K base c X Z p w \<longleftrightarrow> (snd p = None \<longrightarrow> fst p) \<and>
     (if fst p then made K ConfigDir base (config_inode c) Z w else holds K X w)"

lemma triple_made:
  assumes "\<And>X. triple (holds K X) m (post (\<lambda>_. True) K (\<lambda>_. X)) (\<lambda>_. holds K X)"
  shows "triple (made K d n nd Z) m (\<lambda>_. made K d n nd Z) (\<lambda>_. made K d n nd Z)"
  unfolding made_def
  by (rule triple_ex, rule triple_assume, rule triple_weaken [OF assms])
    (auto simp: post_def intro: exI)

lemma triple_save:
  assumes own: "config_owned K (filepath_Base path)"
    and Z: "Z \<subseteq> X" "unnamed ConfigDir (filepath_Base path) Z"
  shows "triple (holds K X) (save path c) (save_post K (filepath_Base path) c X Z) (\<lambda>_ _. False)"
proof -
  let ?b = "filepath_Base path" and ?made = "made K ConfigDir (filepath_Base path) (config_inode c) Z"
  let ?done = "\<lambda>p w. fst p \<and> ?made w"
  have calls: "triple ?made (OpenDir ConfigDir) (\<lambda>_. ?made) (\<lambda>_. ?made)"
    "triple ?made (SyncDir ConfigDir) (\<lambda>_. ?made) (\<lambda>_. ?made)"
    "triple ?made (CloseDir ConfigDir) (\<lambda>_. ?made) (\<lambda>_. ?made)"
    by (rule triple_made, rule triple_OpenDir triple_SyncDir triple_CloseDir, assumption)+
  have ret: "triple ?made (return_io (True, e)) ?done (\<lambda>_ _. False)" for e
    by (rule triple_world_return) simp
  have no: "triple (holds K X) (return_io (False, Some e)) (save_post K ?b c X Z) (\<lambda>_ _. False)" for e
    by (rule triple_world_return) (simp add: save_post_def)
  have sync: "triple ?made
      (bind_io (try_io (SyncDir ConfigDir)) (\<lambda>r. case r of
          Inl err \<Rightarrow> return_io (True, Some (durability_uncertain ''sync application configuration directory'' err))
        | Inr _ \<Rightarrow> return_io (True, None))) ?done (\<lambda>_ _. False)"
    by (rule triple_bind [OF triple_try [where Q = "\<lambda>_. ?made"]]) (auto intro: calls ret split: sum.split)
  have directory: "triple ?made
      (bind_io (try_io (OpenDir ConfigDir)) (\<lambda>r. case r of
          Inl err \<Rightarrow> return_io (True, Some (durability_uncertain ''open application configuration directory'' err))
        | Inr _ \<Rightarrow> deferred (CloseDir ConfigDir)
            (bind_io (try_io (SyncDir ConfigDir)) (\<lambda>r. case r of
                Inl err \<Rightarrow> return_io (True, Some (durability_uncertain ''sync application configuration directory'' err))
              | Inr _ \<Rightarrow> return_io (True, None))))) (save_post K ?b c X Z) (\<lambda>_ _. False)"
  proof (rule triple_bind [OF triple_try [where Q = "\<lambda>_. ?made"]], rule calls)
    fix r :: "goerror + unit"
    have close: "triple (?done p) (CloseDir ConfigDir) (\<lambda>_. save_post K ?b c X Z p) (\<lambda>_. save_post K ?b c X Z p)" for p
      by (rule triple_assume, rule triple_weaken [OF calls(3)]) (auto simp: save_post_def)
    have closed: "triple ?made (deferred (CloseDir ConfigDir)
        (bind_io (try_io (SyncDir ConfigDir)) (\<lambda>r. case r of
            Inl err \<Rightarrow> return_io (True, Some (durability_uncertain ''sync application configuration directory'' err))
          | Inr _ \<Rightarrow> return_io (True, None)))) (save_post K ?b c X Z) (\<lambda>_ _. False)"
      by (rule triple_deferred [OF sync close]) (simp add: triple_def)
    have "triple ?made (return_io (True, Some e)) (save_post K ?b c X Z) (\<lambda>_ _. False)" for e
      by (rule triple_world_return) (simp add: save_post_def)
    then show "triple ?made (case r of
          Inl err \<Rightarrow> return_io (True, Some (durability_uncertain ''open application configuration directory'' err))
        | Inr _ \<Rightarrow> deferred (CloseDir ConfigDir)
            (bind_io (try_io (SyncDir ConfigDir)) (\<lambda>r. case r of
                Inl err \<Rightarrow> return_io (True, Some (durability_uncertain ''sync application configuration directory'' err))
              | Inr _ \<Rightarrow> return_io (True, None)))) (save_post K ?b c X Z) (\<lambda>_ _. False)"
      using closed by (cases r) simp_all
  qed
  have publish: "triple (holds K X) (try_io (publish_config ?b (config_data c)))
      (\<lambda>r w. case r of Inr _ \<Rightarrow> ?made w | Inl _ \<Rightarrow> holds K X w) (\<lambda>_ _. False)"
    by (rule triple_try) (use triple_publish_config [OF own Z] in simp)
  show ?thesis
    unfolding save_def saveWithDirectorySync_def config_data_def [symmetric] Let_def
    by (auto intro!: no triple_bind [OF publish] split: option.split sum.split)
      (auto intro: no directory)
qed

definition config_among :: "(dirid \<Rightarrow> string \<Rightarrow> bool) \<Rightarrow> string \<Rightarrow> world \<Rightarrow> bool" where
  "config_among K path w \<longleftrightarrow> wf_fs (w_fs w) \<and> (\<forall>ev \<in> set (w_script w). spares K (ev_env ev)) \<and>
     config_owned K (filepath_Base path)"

text \<open>
  C33: Saving the settings is all or nothing, whatever happens to the rest of the file system at the
  same time and wherever a system call fails.  If the save reports that nothing was committed, every
  protected file, the settings file included, is what it was; if it reports that the settings are
  committed, the settings file holds exactly the new settings, synced and with mode 0600, and no
  other protected file has changed.  Without an error, the settings are committed.
\<close>

theorem config_save_is_all_or_nothing:
  assumes "save path c w = (r, w')" "config_among K path w" "K e n" "present w e n i nd"
  shows "(\<exists>err. r = Inr (False, Some err)) \<and> present w' e n i nd \<or>
    (\<exists>err. r = Inr (True, err)) \<and> (\<exists>j. present w' ConfigDir (filepath_Base path) j (config_inode c)) \<and>
      ((e, n) = (ConfigDir, filepath_Base path) \<or> present w' e n i nd)"
proof -
  let ?X = "{(e, n, i, nd)}" and ?b = "filepath_Base path"
  let ?Z = "if (e, n) = (ConfigDir, ?b) then {} else ?X"
  have X: "holds K ?X w"
    using assms by (auto simp: config_among_def holds_def protected_def rg_def has_def present_def)
  have "triple (holds K ?X) (save path c) (save_post K ?b c ?X ?Z) (\<lambda>_ _. False)"
    by (rule triple_save) (use assms(2) in \<open>auto simp: config_among_def unnamed_def\<close>)
  from triple_use [OF this X] assms(1)
  obtain p where p: "r = Inr p" "save_post K ?b c ?X ?Z p w'"
    by (cases r) auto
  then show ?thesis
    using made_present [of K ConfigDir ?b "config_inode c" ?Z w'] holds_present [of K ?X w']
    by (cases p) (auto simp: save_post_def split: if_splits)
qed

subsection \<open>The manager\<close>

lemma raises_create_temp: "raises os_sentinels (create_temp k d prefix)"
  by (induction k) (auto intro!: raising intro: raises_bind simp: Let_def)

lemma raises_publish_config: "raises os_sentinels (publish_config base data)"
  unfolding publish_config_def fill_config_def
  by (intro raises_bind raising raises_create_temp) simp_all

text \<open>The shapes of the result of a save.\<close>

lemma save_result:
  obtains (refused) e w' where "save path c w = (Inr (False, Some e), w')"
      "\<not> errors_is e appconfig_ErrDurabilityUncertain"
  | (uncertain) e w' where "save path c w = (Inr (True, Some e), w')" "config_Validate c = None"
      "errors_is e appconfig_ErrDurabilityUncertain"
  | (saved) w' where "save path c w = (Inr (True, None), w')" "config_Validate c = None"
proof (cases "config_Validate c")
  case (Some e)
  then have "\<not> errors_is e appconfig_ErrDurabilityUncertain"
    by (auto simp: config_Validate_def split: if_splits)
  with Some show thesis
    by (intro refused) (auto simp: save_def saveWithDirectorySync_def return_io_def)
next
  case None
  show thesis
  proof (cases "length (config_data c) > MaxConfigBytes")
    case True
    with None show thesis
      by (intro refused [of "Sentinel appconfig_ErrTooLarge" w])
        (auto simp: save_def saveWithDirectorySync_def return_io_def config_data_def)
  next
    case False
    obtain r w1 where p: "publish_config (filepath_Base path) (config_data c) w = (r, w1)" by fastforce
    obtain rd w2 where d: "OpenDir ConfigDir w1 = (rd, w2)" by fastforce
    obtain rs w3 where s: "SyncDir ConfigDir w2 = (rs, w3)" by fastforce
    have run: "save path c w =
      (case r of Inl err \<Rightarrow> (Inr (False, Some err), w1)
       | Inr _ \<Rightarrow> (case rd of
           Inl err \<Rightarrow> (Inr (True, Some (durability_uncertain ''open application configuration directory'' err)), w2)
         | Inr _ \<Rightarrow> (case rs of
             Inl err \<Rightarrow> (Inr (True, Some (durability_uncertain ''sync application configuration directory'' err)),
               snd (CloseDir ConfigDir w3))
           | Inr _ \<Rightarrow> (Inr (True, None), snd (CloseDir ConfigDir w3)))))"
      using None False p d s
      by (simp add: save_def saveWithDirectorySync_def config_data_def Let_def bind_io_def try_io_def
          return_io_def deferred_def split: sum.split)
    show thesis
    proof (cases r)
      case (Inl e)
      with raises_publish_config [THEN raisesD, of "filepath_Base path" "config_data c" w e w1] p
      have "\<not> errors_is e appconfig_ErrDurabilityUncertain" by blast
      with Inl run show thesis by (intro refused) simp_all
    next
      case (Inr u)
      with run None show thesis
        by (cases rd; cases rs) (auto intro: uncertain saved simp: durability_uncertain_def)
    qed
  qed
qed

text \<open>
  What a client may expect of a store of settings: replacing them reports success exactly when the new
  settings are current and durable; with the durability error they are current; with any other
  error nothing has changed.
\<close>

locale settings_store =
  fixes current :: "'s \<Rightarrow> Config"
    and replace :: "'s \<Rightarrow> Config \<Rightarrow> ('s \<times> goerror option) io"
  assumes returns: "\<exists>s' err w'. replace s c w = (Inr (s', err), w')"
    and replaced: "replace s c w = (Inr (s', None), w') \<Longrightarrow> current s' = c \<and> config_Validate c = None"
    and uncertain: "replace s c w = (Inr (s', Some e), w') \<Longrightarrow> errors_is e appconfig_ErrDurabilityUncertain \<Longrightarrow>
      current s' = c \<and> config_Validate c = None"
    and refused: "replace s c w = (Inr (s', Some e), w') \<Longrightarrow>
      \<not> errors_is e appconfig_ErrDurabilityUncertain \<Longrightarrow> s' = s"
begin

lemma stays_valid:
  assumes "config_Validate (current s) = None" "replace s c w = (Inr (s', err), w')"
  shows "config_Validate (current s') = None"
  using assms replaced refused uncertain by (cases err) metis+

lemma changes_only_to_requested:
  assumes "replace s c w = (Inr (s', err), w')"
  shows "s' = s \<or> current s' = c \<and> config_Validate c = None"
  using assms replaced refused uncertain by (cases err) metis+

end

interpretation manager: settings_store Manager_Current Manager_Replace
proof
  fix s c w s' w' e
  note defs = Manager_Replace_def replaceWithSave_def bind_io_def return_io_def Manager_Current_def
  show "\<exists>s' err w'. Manager_Replace s c w = (Inr (s', err), w')"
    by (rule save_result [of "manager_path s" c w]) (auto simp: defs)
  show "Manager_Current s' = c \<and> config_Validate c = None"
    if "Manager_Replace s c w = (Inr (s', None), w')"
    by (rule save_result [of "manager_path s" c w]) (use that in \<open>auto simp: defs\<close>)
  show "Manager_Current s' = c \<and> config_Validate c = None"
    if "Manager_Replace s c w = (Inr (s', Some e), w')" "errors_is e appconfig_ErrDurabilityUncertain"
    by (rule save_result [of "manager_path s" c w]) (use that in \<open>auto simp: defs\<close>)
  show "s' = s"
    if "Manager_Replace s c w = (Inr (s', Some e), w')" "\<not> errors_is e appconfig_ErrDurabilityUncertain"
    by (rule save_result [of "manager_path s" c w]) (use that in \<open>auto simp: defs\<close>)
qed

subsection \<open>What is saved loads\<close>

lemma find_field_hit [simp]: "find_field ((name, f) # more_fields) name = Some f"
  by (simp add: find_field_def)

lemma store_JInt [simp]: "- (2 ^ 63) \<le> i \<Longrightarrow> i < 2 ^ 63 \<Longrightarrow> into_int x (JInt i) = (i, False)"
  by (simp add: into_int_def JInt_def)

lemma decode_config_data:
  assumes "config_Validate c = None"
  shows "decode_config texts (config_data c) = Inr c"
proof -
  have v: "config_Version c = 1"
    using assms by (simp add: config_Validate_def CurrentVersion_def split: if_splits)
  have "ValidString ''version''" by (rule ascii_valid) simp
  then have "printable max_depth (config_json c)"
    by (auto simp: config_json_def JInt_def max_depth_def)
  then have "next_value (config_data c) = Dec_Value (config_json c) [LF]"
    unfolding config_data_def by (rule next_value_print) simp
  moreover have "next_value [LF] = Dec_EOF"
    by (rule next_value_blank) (simp add: json_space_def)
  moreover have "into_config True zero_config (config_json c) = (c, False)"
    using v by (simp add: into_config_def into_struct_def config_json_def field_of_def zero_config_def)
  ultimately show ?thesis
    using assms by (simp add: decode_config_def decode_single_def)
qed

lemma triple_load_open:
  assumes X: "(d, n, i, nd) \<in> X"
  shows "triple (holds K X) (load_open texts i)
    (post (\<lambda>c. length (i_data nd) \<le> MaxConfigBytes \<and> decode_config texts (i_data nd) = Inr c) K (\<lambda>_. X))
    (\<lambda>_. holds K X)"
  unfolding load_open_def
proof (rule triple_seq [OF triple_map_error [OF triple_read_limited [OF X]]], assumption, goal_cases)
  case (1 x)
  then show ?case
    by (auto intro!: triple_world_fail triple_world_return split: sum.split)
qed

lemma triple_Load:
  assumes X: "(ConfigDir, filepath_Base path, i, nd) \<in> X" and nd: "i_kind nd \<noteq> Symlink"
  shows "triple (holds K X) (Load texts parent path)
    (post (\<lambda>c. length (i_data nd) \<le> MaxConfigBytes \<and> decode_config texts (i_data nd) = Inr c) K (\<lambda>_. X))
    (\<lambda>_. holds K X)"
  unfolding Load_def
proof (rule triple_try_seq [where U = "\<lambda>e. \<not> errors_is e Os_ErrNotExist" and Z = "\<lambda>_. X", OF triple_Open], goal_cases)
  case (1 e w)
  with X nd show ?case by (auto simp: post_def)
next
  case (2 h)
  with X nd have h: "h = i" by blast
  let ?V = "\<lambda>c. length (i_data nd) \<le> MaxConfigBytes \<and> decode_config texts (i_data nd) = Inr c"
  have closed: "triple (holds K X) (Close i) (\<lambda>_. holds K X) (\<lambda>_. holds K X)"
    by (rule triple_weaken [OF triple_Close [where R = "\<lambda>_. holds K X"]]) (auto simp: post_def)
  have "triple (post ?V K (\<lambda>_. X) c) (Close i) (\<lambda>_. post ?V K (\<lambda>_. X) c) (\<lambda>_. post ?V K (\<lambda>_. X) c)" for c
    by (rule triple_post, rule triple_weaken [OF closed]) (auto simp: post_def)
  with closed show ?case
    unfolding h sum.case by (intro triple_deferred [OF triple_load_open [OF X]])
next
  case (3 e)
  then show ?case by (simp add: triple_world_fail)
qed

lemma reads_only_Load: "reads_only (Load texts parent path)"
proof -
  have parent: "reads_only (Stat_parent parent)" unfolding Stat_parent_def by (rule reads_only_syscall) simp
  show ?thesis
    unfolding Load_def load_open_def by (auto intro!: reading parent split: sum.split)
qed

lemma Load_quiet:
  assumes "w_script w = []" "present w ConfigDir (filepath_Base path) i nd" "i_kind nd \<noteq> Symlink"
  shows "fst (Load texts parent path w) =
    (if length (i_data nd) > MaxConfigBytes then Inl (Sentinel appconfig_ErrTooLarge) else decode_config texts (i_data nd))"
proof -
  have l: "lookup (w_fs w) ConfigDir (filepath_Base path) = Some (i, nd)" using assms(2) by (simp add: present_def)
  then have nd: "inodes (w_fs w) i = Some nd" by (auto dest: lookup_SomeD)
  let ?w = "w\<lparr>w_fds := Suc (w_fds w)\<rparr>"
  have "fst (load_open texts i ?w) =
      (if length (i_data nd) > MaxConfigBytes then Inl (Sentinel appconfig_ErrTooLarge) else decode_config texts (i_data nd))"
    using assms(1) nd by (auto simp: load_open_def io_simps split: sum.split)
  moreover have "fst (Load texts parent path w) = fst (load_open texts i ?w)"
    using assms(1,3) l by (simp add: Load_def io_simps split: prod.split)
  ultimately show ?thesis by simp
qed

text \<open>
  C34: Loading the settings takes exactly what the file holds.  While nobody changes the settings file,
  and whatever other processes do to other files and whatever fails, settings are returned only if
  the file has at most the allowed size and they are what its whole contents decode to, and loading
  changes no file; when nothing fails or interferes, the result is the decoding itself, its error
  included, and a file over the size is refused; so what a save has left there loads as what was
  saved.
\<close>

theorem settings_load_exactly_the_file:
  assumes "Load texts parent path w = (r, w')" "config_among K path w"
    and "present w ConfigDir (filepath_Base path) i nd" "i_kind nd \<noteq> Symlink"
  shows "(\<forall>c. r = Inr c \<longrightarrow> length (i_data nd) \<le> MaxConfigBytes \<and> decode_config texts (i_data nd) = Inr c) \<and>
    left_alone w w' \<and>
    (w_script w = [] \<longrightarrow> r =
      (if length (i_data nd) > MaxConfigBytes then Inl (Sentinel appconfig_ErrTooLarge) else decode_config texts (i_data nd))) \<and>
    (\<forall>c. w_script w = [] \<and> nd = config_inode c \<and> config_Validate c = None \<and> length (config_data c) \<le> MaxConfigBytes \<longrightarrow>
      r = Inr c)"
proof -
  let ?X = "{(ConfigDir, filepath_Base path, i, nd)}"
  have "holds K ?X w"
    using assms(2,3) by (auto simp: config_among_def config_owned_def holds_def protected_def rg_def has_def present_def)
  from triple_use [OF triple_Load [OF _ assms(4), of path i ?X K texts parent] this] assms(1)
  have "\<forall>c. r = Inr c \<longrightarrow> length (i_data nd) \<le> MaxConfigBytes \<and> decode_config texts (i_data nd) = Inr c"
    by (auto simp: post_def)
  moreover have "w_script w = [] \<Longrightarrow> r =
      (if length (i_data nd) > MaxConfigBytes then Inl (Sentinel appconfig_ErrTooLarge) else decode_config texts (i_data nd))"
    using Load_quiet [OF _ assms(3,4), of texts parent] assms(1) by simp
  ultimately show ?thesis
    using reads_onlyD [OF reads_only_Load assms(1)] by (simp add: config_inode_def decode_config_data)
qed

end
