(* ===== verification/Netip.thy ===== *)
theory Netip
  imports Json
begin

text \<open>
  The addresses of the package \<open>net/netip\<close>, as far as the program uses them: \<open>ParseAddr\<close>, \<open>Unmap\<close>,
  \<open>String\<close> and the tests on addresses.  An IPv4 address is its four bytes, an IPv6 address its eight
  groups and its zone (empty when it has none).  The program never shows the error of \<open>ParseAddr\<close>,
  so \<open>None\<close> stands for it.
\<close>

datatype addr = Addr4 "nat list" | Addr6 "nat list" string

subsection \<open>Parsing\<close>

definition parse_octet :: "string \<Rightarrow> nat option" where
  "parse_octet s =
     (if s = [] \<or> \<not> list_all is_digit s \<or> (length s > 1 \<and> hd s = CHR ''0'') \<or> decimal_value s > 255
      then None else Some (decimal_value s))"

definition parse_ipv4_fields :: "string \<Rightarrow> nat list option" where
  "parse_ipv4_fields s =
     (let fields = map parse_octet (Split s (CHR ''.''))
      in if length fields = 4 \<and> None \<notin> set fields then Some (map the fields) else None)"

definition hex_number :: "string \<Rightarrow> nat" where
  "hex_number ds = foldl (\<lambda>n c. n * 16 + hex_digit_value c) 0 ds"

text \<open>
  The loop of \<open>parseIPv6\<close>: the groups that are left, the groups read, where the ellipsis was, and the
  text.  A dot after a hexadecimal number means an embedded IPv4 address at the end.
\<close>

fun parse_groups :: "nat \<Rightarrow> nat list \<Rightarrow> nat option \<Rightarrow> string \<Rightarrow> (nat list \<times> nat option \<times> string) option" where
  "parse_groups 0 gs ellipsis s = Some (gs, ellipsis, s)"
| "parse_groups (Suc k) gs ellipsis s =
     (let ds = takeWhile is_hex s; gs1 = gs @ [hex_number ds] in
      if ds = [] \<or> length ds > 4 then None
      else case dropWhile is_hex s of
        [] \<Rightarrow> Some (gs1, ellipsis, [])
      | c # r \<Rightarrow>
          if c = CHR ''.'' then
            (if (ellipsis = None \<and> length gs \<noteq> 6) \<or> length gs > 6 then None
             else case parse_ipv4_fields s of
               None \<Rightarrow> None
             | Some bs \<Rightarrow> Some (gs @ [bs ! 0 * 256 + bs ! 1, bs ! 2 * 256 + bs ! 3], ellipsis, []))
          else if c \<noteq> CHR '':'' then None
          else (case r of
                  [] \<Rightarrow> None
                | c1 # r1 \<Rightarrow>
                    if c1 = CHR '':'' then
                      (if ellipsis \<noteq> None then None
                       else if r1 = [] then Some (gs1, Some (length gs1), [])
                       else parse_groups k gs1 (Some (length gs1)) r1)
                    else parse_groups k gs1 ellipsis r))"

definition parse_ipv6 :: "string \<Rightarrow> addr option" where
  "parse_ipv6 text =
     (case Cut text (CHR ''%'') of (s, zone, has_zone) \<Rightarrow>
      if has_zone \<and> zone = [] then None
      else
        let leading = HasPrefix s ''::''; s1 = (if leading then drop 2 s else s) in
        if leading \<and> s1 = [] then Some (Addr6 (replicate 8 0) zone)
        else case parse_groups 8 [] (if leading then Some 0 else None) s1 of
          None \<Rightarrow> None
        | Some (gs, ellipsis, rest) \<Rightarrow>
            if rest \<noteq> [] then None
            else if length gs < 8 then
              (case ellipsis of
                 None \<Rightarrow> None
               | Some e \<Rightarrow> Some (Addr6 (take e gs @ replicate (8 - length gs) 0 @ drop e gs) zone))
            else if ellipsis \<noteq> None then None
            else Some (Addr6 gs zone))"

definition ParseAddr :: "string \<Rightarrow> addr option" where
  "ParseAddr s =
     (case dropWhile (\<lambda>c. c \<notin> set ''.:%'') s of
        [] \<Rightarrow> None
      | c # _ \<Rightarrow>
          if c = CHR ''.'' then map_option Addr4 (parse_ipv4_fields s)
          else if c = CHR '':'' then parse_ipv6 s
          else None)"

subsection \<open>Tests and printing\<close>

definition Is4In6 :: "addr \<Rightarrow> bool" where
  "Is4In6 a = (case a of Addr6 gs zone \<Rightarrow> take 6 gs = [0, 0, 0, 0, 0, 0xFFFF] | Addr4 _ \<Rightarrow> False)"

definition low_bytes :: "nat list \<Rightarrow> nat list" where
  "low_bytes gs = [gs ! 6 div 256, gs ! 6 mod 256, gs ! 7 div 256, gs ! 7 mod 256]"

definition Unmap :: "addr \<Rightarrow> addr" where
  "Unmap a = (case a of Addr6 gs zone \<Rightarrow> if Is4In6 a then Addr4 (low_bytes gs) else a | Addr4 _ \<Rightarrow> a)"

definition Is4 :: "addr \<Rightarrow> bool" where
  "Is4 a = (case a of Addr4 _ \<Rightarrow> True | Addr6 _ _ \<Rightarrow> False)"

definition addr_IsUnspecified :: "addr \<Rightarrow> bool" where
  "addr_IsUnspecified a \<longleftrightarrow> a = Addr4 [0, 0, 0, 0] \<or> a = Addr6 (replicate 8 0) []"

definition addr_IsLoopback :: "addr \<Rightarrow> bool" where
  "addr_IsLoopback a =
     (case Unmap a of
        Addr4 bs \<Rightarrow> bs ! 0 = 127
      | Addr6 gs zone \<Rightarrow> gs = [0, 0, 0, 0, 0, 0, 0, 1])"

definition addr_IsMulticast :: "addr \<Rightarrow> bool" where
  "addr_IsMulticast a =
     (case Unmap a of
        Addr4 bs \<Rightarrow> bs ! 0 div 16 = 14
      | Addr6 gs zone \<Rightarrow> gs ! 0 div 256 = 255)"

definition join_with :: "string \<Rightarrow> string list \<Rightarrow> string" where
  "join_with sep xs = (case xs of [] \<Rightarrow> [] | y # ys \<Rightarrow> y @ concat (map (\<lambda>z. sep @ z) ys))"

definition string4 :: "nat list \<Rightarrow> string" where
  "string4 bs = join_with ''.'' (map show_nat bs)"

fun show_hex :: "nat \<Rightarrow> string" where
  "show_hex n = (if n < 16 then [hex_digit n] else show_hex (n div 16) @ [hex_digit (n mod 16)])"

declare show_hex.simps [simp del]

text \<open>The first longest run of at least two zero groups: its start and end.\<close>

definition zero_run :: "nat list \<Rightarrow> nat \<Rightarrow> nat" where
  "zero_run gs i = length (takeWhile (\<lambda>g. g = 0) (drop i gs))"

fun longest_zeros :: "nat list \<Rightarrow> nat list \<Rightarrow> (nat \<times> nat) option \<Rightarrow> (nat \<times> nat) option" where
  "longest_zeros gs [] best = best"
| "longest_zeros gs (i # rest) best =
     (let l = zero_run gs i in
      longest_zeros gs rest
        (if l \<ge> 2 \<and> l > (case best of None \<Rightarrow> 0 | Some (a, b) \<Rightarrow> b - a) then Some (i, i + l) else best))"

definition string6 :: "nat list \<Rightarrow> string \<Rightarrow> string" where
  "string6 gs zone =
     (let hex = map show_hex gs in
      (case longest_zeros gs [0..<8] None of
         None \<Rightarrow> join_with '':'' hex
       | Some (a, b) \<Rightarrow> join_with '':'' (take a hex) @ ''::'' @ join_with '':'' (drop b hex)) @
      (if zone = [] then [] else ''%'' @ zone))"

definition addr_String :: "addr \<Rightarrow> string" where
  "addr_String a =
     (case a of
        Addr4 bs \<Rightarrow> string4 bs
      | Addr6 gs zone \<Rightarrow>
          if Is4In6 a
          then ''::ffff:'' @ string4 (low_bytes gs) @ (if zone = [] then [] else ''%'' @ zone)
          else string6 gs zone)"

end
