(* ===== verification/Protocol.thy ===== *)
theory Protocol
  imports Config_Rules Netip Store_List
begin

text \<open>
  The package \<open>internal/localcontrol\<close>, files \<open>protocol.go\<close> and \<open>results.go\<close>: requests, responses and
  results of the control protocol, and their validation.  A request is decoded from one JSON value
  with no unknown fields; the decoder fills it field by field, so even a rejected request carries
  the fields that could be read.
\<close>

definition ProtocolVersion :: int where "ProtocolVersion = 2"
definition MaxRequestBytes :: nat where "MaxRequestBytes = 16 * 1024"
definition MaxAuthNodeBytes :: nat where "MaxAuthNodeBytes = 128"
definition MaxSourceNodeBytes :: nat where "MaxSourceNodeBytes = 255"
definition MaxSourceHostBytes :: nat where "MaxSourceHostBytes = 255"

subsection \<open>Operations\<close>

abbreviation OperationList :: string where "OperationList \<equiv> ''list''"
abbreviation OperationRead :: string where "OperationRead \<equiv> ''read''"
abbreviation OperationCreate :: string where "OperationCreate \<equiv> ''create''"
abbreviation OperationWrite :: string where "OperationWrite \<equiv> ''write''"
abbreviation OperationConvert :: string where "OperationConvert \<equiv> ''convert''"
abbreviation OperationDelete :: string where "OperationDelete \<equiv> ''delete''"
abbreviation OperationSettingsRead :: string where "OperationSettingsRead \<equiv> ''settings_read''"
abbreviation OperationSettingsReplace :: string where "OperationSettingsReplace \<equiv> ''settings_replace''"

subsection \<open>Requests\<close>

record MutationAudit =
  AuthNode :: string
  AuthRole :: string
  SourceIP :: string
  SourceNode :: string
  SourceHost :: string

record Request =
  req_Version :: int
  req_Operation :: string
  req_Target :: string
  req_Message :: string
  req_Settings :: "Config option"
  req_Audit :: "MutationAudit option"

definition zero_audit :: MutationAudit where
  "zero_audit = \<lparr>AuthNode = [], AuthRole = [], SourceIP = [], SourceNode = [], SourceHost = []\<rparr>"

definition zero_request :: Request where
  "zero_request = \<lparr>req_Version = 0, req_Operation = [], req_Target = [], req_Message = [],
     req_Settings = None, req_Audit = None\<rparr>"

definition into_audit :: "bool \<Rightarrow> MutationAudit into" where
  "into_audit strict = into_struct strict
     [field_of ''auth_node'' AuthNode AuthNode_update into_string,
      field_of ''auth_role'' AuthRole AuthRole_update into_string,
      field_of ''source_ip'' SourceIP SourceIP_update into_string,
      field_of ''source_node'' SourceNode SourceNode_update into_string,
      field_of ''source_host'' SourceHost SourceHost_update into_string]"

definition into_request :: "Request into" where
  "into_request = into_struct True
     [field_of ''version'' req_Version req_Version_update into_int,
      field_of ''operation'' req_Operation req_Operation_update into_string,
      field_of ''target'' req_Target req_Target_update into_string,
      field_of ''message'' req_Message req_Message_update into_string,
      field_of ''settings'' req_Settings req_Settings_update (into_pointer zero_config (into_config True)),
      field_of ''audit'' req_Audit req_Audit_update (into_pointer zero_audit (into_audit True))]"

text \<open>The struct tags, as \<open>json.Marshal\<close> uses them.\<close>

definition audit_json :: "MutationAudit \<Rightarrow> json" where
  "audit_json audit = JObject
     (omit_empty ''auth_node'' (AuthNode audit) @ omit_empty ''auth_role'' (AuthRole audit) @
      omit_empty ''source_ip'' (SourceIP audit) @ omit_empty ''source_node'' (SourceNode audit) @
      omit_empty ''source_host'' (SourceHost audit))"

definition request_json :: "Request \<Rightarrow> json" where
  "request_json request = JObject
     ([(''version'', JInt (req_Version request)), (''operation'', JString (req_Operation request))] @
      omit_empty ''target'' (req_Target request) @ omit_empty ''message'' (req_Message request) @
      omit_nil ''settings'' config_json (req_Settings request) @
      omit_nil ''audit'' audit_json (req_Audit request))"

subsection \<open>Validation\<close>

definition invalid_request :: "string \<Rightarrow> goerror option" where
  "invalid_request text = Some (sentinelf localcontrol_ErrInvalidRequest text)"

definition validateAuditText :: "string \<Rightarrow> string \<Rightarrow> nat \<Rightarrow> bool \<Rightarrow> goerror option" where
  "validateAuditText field value maxBytes required =
     (if value = [] then (if required then invalid_request (field @ '' required'') else None)
      else if length value > maxBytes
      then invalid_request (field @ '' exceeds '' @ show_nat maxBytes @ '' bytes'')
      else if TrimSpace value \<noteq> value
      then invalid_request (field @ '' contains surrounding whitespace'')
      else if list_ex (\<lambda>c. IsControl c \<or> is_Cf c) (runes value)
      then invalid_request (field @ '' contains unsafe characters'')
      else None)"

definition validateMutationAudit :: "MutationAudit \<Rightarrow> goerror option" where
  "validateMutationAudit audit =
     (case validateAuditText ''auth node'' (AuthNode audit) MaxAuthNodeBytes True of
        Some err \<Rightarrow> Some err
      | None \<Rightarrow>
          if AuthRole audit \<noteq> ''admin'' then invalid_request ''invalid authenticated role''
          else case ParseAddr (SourceIP audit) of
            None \<Rightarrow> invalid_request ''invalid source address''
          | Some address \<Rightarrow>
              if addr_String (Unmap address) \<noteq> SourceIP audit
              then invalid_request ''source address is not canonical''
              else case validateAuditText ''source node'' (SourceNode audit) MaxSourceNodeBytes False of
                Some err \<Rightarrow> Some err
              | None \<Rightarrow>
                  (case validateAuditText ''source host'' (SourceHost audit) MaxSourceHostBytes False of
                     Some err \<Rightarrow> Some err
                   | None \<Rightarrow>
                       if SourceHost audit \<noteq> [] \<and> SourceNode audit = []
                       then invalid_request ''source host requires source node''
                       else None))"

definition validateRequestAudit :: "MutationAudit option \<Rightarrow> goerror option" where
  "validateRequestAudit audit =
     (case audit of
        None \<Rightarrow> invalid_request ''mutating operation requires audit attribution''
      | Some a \<Rightarrow> validateMutationAudit a)"

definition validateRequest :: "Request \<Rightarrow> goerror option" where
  "validateRequest request =
     (let operation = req_Operation request;
          has_target = req_Target request \<noteq> [];
          has_message = req_Message request \<noteq> [];
          has_settings = req_Settings request \<noteq> None;
          has_audit = req_Audit request \<noteq> None
      in
      if req_Version request \<noteq> ProtocolVersion
      then Some (sentinelf localcontrol_ErrUnsupportedVersion (show_int (req_Version request)))
      else if operation = OperationList then
        (if has_target \<or> has_message \<or> has_settings \<or> has_audit
         then invalid_request ''list accepts no target, message, settings, or audit attribution''
         else None)
      else if operation = OperationRead then
        (if \<not> has_target then invalid_request ''read requires target''
         else if has_message \<or> has_settings \<or> has_audit
         then invalid_request ''read accepts no message, settings, or audit attribution''
         else None)
      else if operation = OperationDelete then
        (if \<not> has_target then invalid_request ''delete requires target''
         else if has_message \<or> has_settings
         then invalid_request ''delete accepts no message or settings''
         else validateRequestAudit (req_Audit request))
      else if operation = OperationCreate \<or> operation = OperationWrite \<or> operation = OperationConvert then
        (if \<not> has_target then invalid_request (operation @ '' requires target'')
         else if \<not> has_message then invalid_request (operation @ '' requires message'')
         else if has_settings then invalid_request (operation @ '' accepts no settings'')
         else validateRequestAudit (req_Audit request))
      else if operation = OperationSettingsRead then
        (if has_target \<or> has_message \<or> has_settings \<or> has_audit
         then invalid_request ''settings_read accepts no target, message, settings, or audit attribution''
         else None)
      else if operation = OperationSettingsReplace then
        (if has_target \<or> has_message
         then invalid_request ''settings_replace accepts no target or message''
         else if \<not> has_settings then invalid_request ''settings_replace requires settings''
         else validateRequestAudit (req_Audit request))
      else Some (sentinelf localcontrol_ErrUnknownOperation (Quote operation)))"

text \<open>The request as far as it was decoded, and the error.\<close>

definition DecodeRequest :: "json_texts \<Rightarrow> string \<Rightarrow> Request \<times> goerror option" where
  "DecodeRequest texts data =
     (if length data > MaxRequestBytes
      then (zero_request, Some (Sentinel localcontrol_ErrRequestTooLarge))
      else case decode_single texts into_request zero_request data of
        (request, Some text) \<Rightarrow> (request, invalid_request text)
      | (request, None) \<Rightarrow> (request, validateRequest request))"

subsection \<open>Results and responses\<close>

record EntryResult =
  er_Target :: string
  er_Kind :: string
  er_Message :: string
  er_LegacySource :: string
  er_Size :: int

record IssueResult =
  ir_Name :: string
  ir_Kind :: string
  ir_Message :: string

record ListResult =
  lr_Entries :: "EntryResult list"
  lr_Issues :: "IssueResult list"

record CreateResult =
  cr_Target :: string
  cr_Kind :: string

record WriteResult =
  wr_Target :: string
  wr_Kind :: string

record ConvertResult =
  vr_Target :: string
  vr_Kind :: string
  vr_BackupName :: string

record RemoveResult =
  dr_Target :: string
  dr_BackupName :: string

text \<open>The values the field \<open>Result any\<close> takes; \<open>ResultAny\<close> is a value the client decoded.\<close>

datatype result =
    ResultList ListResult
  | ResultEntry EntryResult
  | ResultCreate CreateResult
  | ResultWrite WriteResult
  | ResultConvert ConvertResult
  | ResultDelete RemoveResult
  | ResultConfig Config
  | ResultAny json

record ErrorBody =
  error_Code :: string
  error_Message :: string

record Response =
  resp_Version :: int
  resp_OK :: bool
  resp_Result :: "result option"
  resp_Error :: "ErrorBody option"

definition Success :: "result \<Rightarrow> Response" where
  "Success result = \<lparr>resp_Version = ProtocolVersion, resp_OK = True, resp_Result = Some result,
     resp_Error = None\<rparr>"

definition Failure :: "string \<Rightarrow> string \<Rightarrow> Response" where
  "Failure code message = \<lparr>resp_Version = ProtocolVersion, resp_OK = False, resp_Result = None,
     resp_Error = Some \<lparr>error_Code = code, error_Message = message\<rparr>\<rparr>"

subsection \<open>Error codes\<close>

abbreviation ErrorInvalidRequest :: string where "ErrorInvalidRequest \<equiv> ''invalid_request''"
abbreviation ErrorUnsupportedVersion :: string where "ErrorUnsupportedVersion \<equiv> ''unsupported_version''"
abbreviation ErrorUnknownOperation :: string where "ErrorUnknownOperation \<equiv> ''unknown_operation''"
abbreviation ErrorInvalidTarget :: string where "ErrorInvalidTarget \<equiv> ''invalid_target''"
abbreviation ErrorInvalidMessage :: string where "ErrorInvalidMessage \<equiv> ''invalid_message''"
abbreviation ErrorInvalidSettings :: string where "ErrorInvalidSettings \<equiv> ''invalid_settings''"
abbreviation ErrorSettingsDurabilityUncertain :: string where
  "ErrorSettingsDurabilityUncertain \<equiv> ''settings_durability_uncertain''"
abbreviation ErrorNotFound :: string where "ErrorNotFound \<equiv> ''not_found''"
abbreviation ErrorAlreadyExists :: string where "ErrorAlreadyExists \<equiv> ''already_exists''"
abbreviation ErrorLegacyConflict :: string where "ErrorLegacyConflict \<equiv> ''legacy_conflict''"
abbreviation ErrorOversizedConflict :: string where "ErrorOversizedConflict \<equiv> ''oversized_conflict''"
abbreviation ErrorManagedConflict :: string where "ErrorManagedConflict \<equiv> ''managed_conflict''"
abbreviation ErrorSourceChanged :: string where "ErrorSourceChanged \<equiv> ''source_changed''"
abbreviation ErrorUnsafeFile :: string where "ErrorUnsafeFile \<equiv> ''unsafe_file''"
abbreviation ErrorStoreClosed :: string where "ErrorStoreClosed \<equiv> ''store_closed''"
abbreviation ErrorInternal :: string where "ErrorInternal \<equiv> ''internal_error''"

text \<open>The switch of \<open>responseForError\<close>: the first case whose sentinel the error wraps.\<close>

fun first_code :: "(sentinel \<times> string) list \<Rightarrow> goerror \<Rightarrow> string \<Rightarrow> string" where
  "first_code [] err fallback = fallback"
| "first_code ((s, code) # cases) err fallback =
     (if errors_is err s then code else first_code cases err fallback)"

definition error_codes :: "(sentinel \<times> string) list" where
  "error_codes =
     [(localcontrol_ErrUnsupportedVersion, ErrorUnsupportedVersion),
      (localcontrol_ErrUnknownOperation, ErrorUnknownOperation),
      (localcontrol_ErrInvalidRequest, ErrorInvalidRequest),
      (localcontrol_ErrRequestTooLarge, ErrorInvalidRequest),
      (alertstore_ErrInvalidTarget, ErrorInvalidTarget),
      (alertstore_ErrInvalidMessage, ErrorInvalidMessage),
      (Os_ErrNotExist, ErrorNotFound),
      (alertstore_ErrAlreadyExists, ErrorAlreadyExists),
      (alertstore_ErrLegacyConflict, ErrorLegacyConflict),
      (alertstore_ErrOversizedConflict, ErrorOversizedConflict),
      (alertstore_ErrManagedConflict, ErrorManagedConflict),
      (alertstore_ErrSourceChanged, ErrorSourceChanged),
      (alertstore_ErrUnsafeFile, ErrorUnsafeFile),
      (alertstore_ErrClosed, ErrorStoreClosed)]"

definition responseForError :: "goerror \<Rightarrow> Response" where
  "responseForError err = Failure (first_code error_codes err ErrorInternal) (error_text err)"

subsection \<open>Results of the store\<close>

definition kindName :: "Kind \<Rightarrow> string" where
  "kindName kind =
     (case kind of
        KindManaged \<Rightarrow> ''managed''
      | KindLegacy \<Rightarrow> ''legacy''
      | KindOversized \<Rightarrow> ''oversized''
      | KindOther _ \<Rightarrow> ''unknown'')"

definition issueKindName :: "IssueKind \<Rightarrow> string" where
  "issueKindName kind =
     (case kind of
        IssueMalformedName \<Rightarrow> ''malformed_name''
      | IssueUnsafeEntry \<Rightarrow> ''unsafe_entry''
      | IssueInspectionFailed \<Rightarrow> ''inspection_failed'')"

definition entryResult :: "Entry \<Rightarrow> EntryResult" where
  "entryResult e =
     (let result = \<lparr>er_Target = target_String (entry_Target e), er_Kind = kindName (entry_Kind e),
            er_Message = [], er_LegacySource = [], er_Size = int (entry_Size e)\<rparr>
      in case entry_Kind e of
        KindManaged \<Rightarrow> result\<lparr>er_Message := message_String (entry_Message e)\<rparr>
      | KindLegacy \<Rightarrow> result\<lparr>er_LegacySource := entry_LegacyHTML e\<rparr>
      | _ \<Rightarrow> result)"

definition issueResult :: "Issue \<Rightarrow> IssueResult" where
  "issueResult issue = \<lparr>ir_Name = issue_Name issue, ir_Kind = issueKindName (issue_Kind issue),
     ir_Message = error_text (issue_Err issue)\<rparr>"

definition listingResult :: "Listing \<Rightarrow> ListResult" where
  "listingResult listing =
     \<lparr>lr_Entries = map (\<lambda>e. (entryResult e)\<lparr>er_LegacySource := []\<rparr>) (listing_Entries listing),
      lr_Issues = map issueResult (listing_Issues listing)\<rparr>"

subsection \<open>Printing responses\<close>

definition entry_json :: "EntryResult \<Rightarrow> json" where
  "entry_json r = JObject
     ([(''target'', JString (er_Target r)), (''kind'', JString (er_Kind r))] @
      omit_empty ''message'' (er_Message r) @ omit_empty ''legacy_source'' (er_LegacySource r) @
      [(''size'', JInt (er_Size r))])"

definition issue_json :: "IssueResult \<Rightarrow> json" where
  "issue_json r = JObject [(''name'', JString (ir_Name r)), (''kind'', JString (ir_Kind r)),
     (''message'', JString (ir_Message r))]"

definition result_json :: "result \<Rightarrow> json" where
  "result_json r =
     (case r of
        ResultList l \<Rightarrow> JObject [(''entries'', JArray (map entry_json (lr_Entries l))),
                                (''issues'', JArray (map issue_json (lr_Issues l)))]
      | ResultEntry e \<Rightarrow> entry_json e
      | ResultCreate c \<Rightarrow> JObject [(''target'', JString (cr_Target c)), (''kind'', JString (cr_Kind c))]
      | ResultWrite c \<Rightarrow> JObject [(''target'', JString (wr_Target c)), (''kind'', JString (wr_Kind c))]
      | ResultConvert c \<Rightarrow> JObject [(''target'', JString (vr_Target c)), (''kind'', JString (vr_Kind c)),
                                   (''backup_name'', JString (vr_BackupName c))]
      | ResultDelete c \<Rightarrow> JObject [(''target'', JString (dr_Target c)),
                                  (''backup_name'', JString (dr_BackupName c))]
      | ResultConfig c \<Rightarrow> config_json c
      | ResultAny j \<Rightarrow> j)"

definition error_json :: "ErrorBody \<Rightarrow> json" where
  "error_json e = JObject [(''code'', JString (error_Code e)), (''message'', JString (error_Message e))]"

definition response_json :: "Response \<Rightarrow> json" where
  "response_json r = JObject
     ([(''version'', JInt (resp_Version r)), (''ok'', JBool (resp_OK r))] @
      omit_nil ''result'' result_json (resp_Result r) @ omit_nil ''error'' error_json (resp_Error r))"

end
