(* ===== verification/Dispatch.thy ===== *)
theory Dispatch
  imports Protocol
begin

text \<open>
  The package \<open>internal/localcontrol\<close>, files \<open>dispatch.go\<close>, \<open>settings_dispatch.go\<close> and
  \<open>audit.go\<close>.  The interfaces \<open>Store\<close> and \<open>SettingsStore\<close> are records of operations, as a Go
  interface value is; each operation also yields the new state of the store behind it, here the
  settings' (the alert store keeps no state of its own besides its directories).
\<close>

record store_operations =
  op_List :: "Listing io"
  op_Read :: "target \<Rightarrow> Entry io"
  op_Create :: "target \<Rightarrow> message \<Rightarrow> unit io"
  op_Write :: "target \<Rightarrow> message \<Rightarrow> unit io"
  op_ConvertLegacy :: "target \<Rightarrow> message \<Rightarrow> ConversionResult io"
  op_Delete :: "target \<Rightarrow> DeleteResult io"

record 's settings_operations =
  op_Current :: "'s \<Rightarrow> Config"
  op_Replace :: "'s \<Rightarrow> Config \<Rightarrow> ('s \<times> goerror option) io"

text \<open>The two implementations: an alert store, and the settings manager.\<close>

definition alert_store_operations :: "store \<Rightarrow> store_operations" where
  "alert_store_operations s = \<lparr>op_List = Store_List s, op_Read = Store_Read s, op_Create = Store_Create s,
     op_Write = Store_Write s, op_ConvertLegacy = Store_ConvertLegacy s, op_Delete = Store_Delete s\<rparr>"

definition manager_operations :: "Manager settings_operations" where
  "manager_operations = \<lparr>op_Current = Manager_Current, op_Replace = Manager_Replace\<rparr>"

subsection \<open>Dispatching on a store\<close>

text \<open>\<open>parseTarget\<close> and \<open>parseMessage\<close>: \<open>Inl\<close> the response of a failure.\<close>

definition parseTarget :: "string \<Rightarrow> Response + target" where
  "parseTarget value =
     (case target_Parse value of
        Inl err \<Rightarrow> Inl (Failure ErrorInvalidTarget (error_text err))
      | Inr target \<Rightarrow> Inr target)"

definition parseMessage :: "string \<Rightarrow> Response + message" where
  "parseMessage value =
     (case message_Parse value of
        Inl err \<Rightarrow> Inl (Failure ErrorInvalidMessage (error_text err))
      | Inr message \<Rightarrow> Inr message)"

text \<open>The response to a call of the store: its result, or its error.\<close>

definition respond :: "'a io \<Rightarrow> ('a \<Rightarrow> result) \<Rightarrow> Response io" where
  "respond call f =
     bind_io (try_io call) (\<lambda>r. case r of
       Inl err \<Rightarrow> return_io (responseForError err)
     | Inr x \<Rightarrow> return_io (Success (f x)))"

definition dispatchList :: "store_operations \<Rightarrow> Response io" where
  "dispatchList store = respond (op_List store) (\<lambda>listing. ResultList (listingResult listing))"

definition dispatchRead :: "store_operations \<Rightarrow> Request \<Rightarrow> Response io" where
  "dispatchRead store request =
     (case parseTarget (req_Target request) of
        Inl response \<Rightarrow> return_io response
      | Inr target \<Rightarrow> respond (op_Read store target) (\<lambda>e. ResultEntry (entryResult e)))"

definition dispatchCreate :: "store_operations \<Rightarrow> Request \<Rightarrow> Response io" where
  "dispatchCreate store request =
     (case parseTarget (req_Target request) of
        Inl response \<Rightarrow> return_io response
      | Inr target \<Rightarrow>
          (case parseMessage (req_Message request) of
             Inl response \<Rightarrow> return_io response
           | Inr message \<Rightarrow> respond (op_Create store target message)
               (\<lambda>_. ResultCreate \<lparr>cr_Target = target_String target, cr_Kind = ''managed''\<rparr>)))"

definition dispatchWrite :: "store_operations \<Rightarrow> Request \<Rightarrow> Response io" where
  "dispatchWrite store request =
     (case parseTarget (req_Target request) of
        Inl response \<Rightarrow> return_io response
      | Inr target \<Rightarrow>
          (case parseMessage (req_Message request) of
             Inl response \<Rightarrow> return_io response
           | Inr message \<Rightarrow> respond (op_Write store target message)
               (\<lambda>_. ResultWrite \<lparr>wr_Target = target_String target, wr_Kind = ''managed''\<rparr>)))"

definition dispatchConvert :: "store_operations \<Rightarrow> Request \<Rightarrow> Response io" where
  "dispatchConvert store request =
     (case parseTarget (req_Target request) of
        Inl response \<Rightarrow> return_io response
      | Inr target \<Rightarrow>
          (case parseMessage (req_Message request) of
             Inl response \<Rightarrow> return_io response
           | Inr message \<Rightarrow> respond (op_ConvertLegacy store target message)
               (\<lambda>result. ResultConvert \<lparr>vr_Target = target_String target, vr_Kind = ''managed'',
                  vr_BackupName = conversion_BackupName result\<rparr>)))"

definition dispatchDelete :: "store_operations \<Rightarrow> Request \<Rightarrow> Response io" where
  "dispatchDelete store request =
     (case parseTarget (req_Target request) of
        Inl response \<Rightarrow> return_io response
      | Inr target \<Rightarrow> respond (op_Delete store target)
          (\<lambda>result. ResultDelete \<lparr>dr_Target = target_String target, dr_BackupName = delete_BackupName result\<rparr>))"

definition Dispatch :: "store_operations \<Rightarrow> Request \<Rightarrow> Response io" where
  "Dispatch store request =
     (let operation = req_Operation request in
      if operation = OperationList then dispatchList store
      else if operation = OperationRead then dispatchRead store request
      else if operation = OperationCreate then dispatchCreate store request
      else if operation = OperationWrite then dispatchWrite store request
      else if operation = OperationConvert then dispatchConvert store request
      else if operation = OperationDelete then dispatchDelete store request
      else return_io (Failure ErrorUnknownOperation (''unknown control operation '' @ Quote operation)))"

subsection \<open>Dispatching on the settings\<close>

definition responseForSettingsError :: "goerror \<Rightarrow> Response" where
  "responseForSettingsError err =
     (if errors_is err appconfig_ErrDurabilityUncertain
      then Failure ErrorSettingsDurabilityUncertain ''application settings applied; durability is uncertain''
      else if errors_is err appconfig_ErrInvalidConfig \<or> errors_is err appconfig_ErrUnsupportedVersion \<or>
        errors_is err appconfig_ErrTooLarge
      then Failure ErrorInvalidSettings ''invalid application settings''
      else Failure ErrorInternal ''could not save application settings'')"

definition dispatchSettingsRead :: "'s settings_operations \<Rightarrow> 's \<Rightarrow> (Response \<times> 's) io" where
  "dispatchSettingsRead settings s = return_io (Success (ResultConfig (op_Current settings s)), s)"

definition dispatchSettingsReplace ::
  "'s settings_operations \<Rightarrow> 's \<Rightarrow> Request \<Rightarrow> (Response \<times> 's) io"
where
  "dispatchSettingsReplace settings s request =
     (case req_Settings request of
        None \<Rightarrow> return_io (responseForError (Sentinel localcontrol_ErrInvalidRequest), s)
      | Some config \<Rightarrow>
          bind_io (op_Replace settings s config) (\<lambda>(s1, err).
          case err of
            Some e \<Rightarrow> return_io (responseForSettingsError e, s1)
          | None \<Rightarrow> return_io (Success (ResultConfig (op_Current settings s1)), s1)))"

definition DispatchWithSettings ::
  "store_operations \<Rightarrow> 's settings_operations \<Rightarrow> 's \<Rightarrow> Request \<Rightarrow> (Response \<times> 's) io"
where
  "DispatchWithSettings store settings s request =
     (if req_Operation request = OperationSettingsRead then dispatchSettingsRead settings s
      else if req_Operation request = OperationSettingsReplace
      then dispatchSettingsReplace settings s request
      else bind_io (Dispatch store request) (\<lambda>response. return_io (response, s)))"

subsection \<open>The audit record of a mutation\<close>

definition isMutation :: "string \<Rightarrow> bool" where
  "isMutation operation \<longleftrightarrow> operation = OperationCreate \<or> operation = OperationWrite \<or>
     operation = OperationConvert \<or> operation = OperationDelete \<or> operation = OperationSettingsReplace"

text \<open>\<open>time.RFC3339Nano\<close> in UTC: the fraction without its trailing zeros.\<close>

definition nano_fraction :: "nat \<Rightarrow> string" where
  "nano_fraction n =
     (let ds = rev (dropWhile (\<lambda>c. c = CHR ''0'') (rev (pad_nat 9 n)))
      in if ds = [] then [] else ''.'' @ ds)"

definition format_RFC3339Nano :: "utc_time \<Rightarrow> string" where
  "format_RFC3339Nano t = pad_nat 4 (t_year t) @ ''-'' @ pad_nat 2 (t_month t) @ ''-'' @ pad_nat 2 (t_day t) @
     ''T'' @ pad_nat 2 (t_hour t) @ '':'' @ pad_nat 2 (t_minute t) @ '':'' @ pad_nat 2 (t_second t) @
     nano_fraction (t_nanosecond t) @ ''Z''"

text \<open>\<open>writeMutationAudit\<close>: the text it prints.\<close>

definition audit_fields :: "MutationAudit \<Rightarrow> string" where
  "audit_fields audit =
     '' auth_node='' @ Quote (AuthNode audit) @ '' auth_role='' @ Quote (AuthRole audit) @
     '' source_ip='' @ Quote (SourceIP audit) @
     (if SourceNode audit \<noteq> [] then '' source_node='' @ Quote (SourceNode audit) else []) @
     (if SourceHost audit \<noteq> [] then '' source_host='' @ Quote (SourceHost audit) else [])"

text \<open>\<open>outcome\<close>, \<open>errorCode\<close> and \<open>warningCode\<close>.\<close>

definition audit_outcome :: "Request \<Rightarrow> Response \<Rightarrow> string \<times> string \<times> string" where
  "audit_outcome request response =
     (if resp_OK response then (''success'', [], [])
      else case resp_Error response of
        None \<Rightarrow> (''failure'', [], [])
      | Some e \<Rightarrow>
          if req_Operation request = OperationSettingsReplace \<and>
            error_Code e = ErrorSettingsDurabilityUncertain
          then (''applied_with_warning'', [], error_Code e)
          else (''failure'', error_Code e, []))"

definition writeMutationAudit :: "utc_time \<Rightarrow> Request \<Rightarrow> Response \<Rightarrow> string" where
  "writeMutationAudit timestamp request response =
     (if \<not> isMutation (req_Operation request) then []
      else case audit_outcome request response of (outcome, errorCode, warningCode) \<Rightarrow>
        ''aamm-ng audit timestamp='' @ format_RFC3339Nano timestamp @
        (case req_Audit request of None \<Rightarrow> [] | Some audit \<Rightarrow> audit_fields audit) @
        '' operation='' @ Quote (req_Operation request) @ '' target='' @ Quote (req_Target request) @
        '' outcome='' @ Quote outcome @
        (if errorCode \<noteq> [] then '' error_code='' @ Quote errorCode else []) @
        (if warningCode \<noteq> [] then '' warning_code='' @ Quote warningCode else []) @ [LF])"

text \<open>A rejected request is recorded with only those of its fields that are known to be well formed.\<close>

definition safe_request :: "Request \<Rightarrow> Request" where
  "safe_request request = zero_request\<lparr>
     req_Operation := req_Operation request,
     req_Target := (case target_Parse (req_Target request) of Inr target \<Rightarrow> target_String target | Inl _ \<Rightarrow> []),
     req_Audit := (case req_Audit request of
        Some audit \<Rightarrow> if validateMutationAudit audit = None then Some audit else None
      | None \<Rightarrow> None)\<rparr>"

definition writeRejectedMutationAudit :: "utc_time \<Rightarrow> Request \<Rightarrow> Response \<Rightarrow> string" where
  "writeRejectedMutationAudit timestamp request response =
     (if \<not> isMutation (req_Operation request) then []
      else writeMutationAudit timestamp (safe_request request) response)"

end
