(* ===== verification/Control_Server.thy ===== *)
theory Control_Server
  imports Dispatch
begin

text \<open>
  The package \<open>internal/localcontrol\<close>, file \<open>server.go\<close>: reading a request from a connection,
  handling it, and the start of the daemon on its socket.  A connection is the bytes that arrive on
  it, how they end (\<open>None\<close>: the end of the stream, \<open>Some t\<close>: a failing read, such as the deadline,
  with its text) and whether its deadlines can be set.  The daemon handles one connection at a time.
  The audit writer is present, as in the program, which passes \<open>os.Stdout\<close>.
\<close>

record connection =
  conn_bytes :: string
  conn_end :: "string option"
  conn_read_deadline :: bool
  conn_write_deadline :: bool

text \<open>\<open>bufio.Reader.ReadBytes('\n')\<close> on a \<open>LimitReader\<close>: the bytes, and the error if no newline came;
  once the limit is used up, that error is the end of the stream.\<close>

datatype read_end = Read_Line | Read_EOF | Read_Failed string

definition read_line_limited :: "nat \<Rightarrow> string \<Rightarrow> string option \<Rightarrow> string \<times> read_end" where
  "read_line_limited limit bytes ending =
     (let available = take limit bytes in
      if LF \<in> set available then (takeWhile (\<lambda>c. c \<noteq> LF) available @ [LF], Read_Line)
      else if limit \<le> length bytes then (available, Read_EOF)
      else (available, case ending of None \<Rightarrow> Read_EOF | Some t \<Rightarrow> Read_Failed t))"

definition readRequest :: "connection \<Rightarrow> goerror + string" where
  "readRequest reader =
     (case read_line_limited (MaxRequestBytes + 2) (conn_bytes reader) (conn_end reader) of (line, ending) \<Rightarrow>
      if length line > MaxRequestBytes + 1 then Inl (Sentinel localcontrol_ErrRequestTooLarge)
      else case ending of
        Read_EOF \<Rightarrow>
          if length line > MaxRequestBytes then Inl (Sentinel localcontrol_ErrRequestTooLarge)
          else Inl (sentinelf localcontrol_ErrInvalidRequest ''newline terminator required'')
      | Read_Failed t \<Rightarrow> Inl (sentinelf localcontrol_ErrInvalidRequest (''read request: '' @ t))
      | Read_Line \<Rightarrow>
          let line = butlast line in
          if length line > MaxRequestBytes then Inl (Sentinel localcontrol_ErrRequestTooLarge)
          else Inr line)"

subsection \<open>Handling a connection\<close>

text \<open>The response, the audit text and the new state of the settings.\<close>

definition handle_request ::
  "json_texts \<Rightarrow> store_operations \<Rightarrow> 's settings_operations option \<Rightarrow> 's \<Rightarrow> string \<Rightarrow>
     (Response \<times> string \<times> 's) io"
where
  "handle_request texts store settings s data =
     (case DecodeRequest texts data of
        (request, Some err) \<Rightarrow>
          let response = responseForError err in
          bind_io time_Now (\<lambda>now.
          return_io (response, writeRejectedMutationAudit now request response, s))
      | (request, None) \<Rightarrow>
          bind_io (case settings of
                     Some operations \<Rightarrow> DispatchWithSettings store operations s request
                   | None \<Rightarrow> bind_io (Dispatch store request) (\<lambda>response. return_io (response, s)))
            (\<lambda>(response, s1).
          bind_io time_Now (\<lambda>now.
          return_io (response, writeMutationAudit now request response, s1))))"

definition encode_response :: "Response \<Rightarrow> string" where
  "encode_response response = json_print (response_json response) @ [LF]"

text \<open>What is written to the connection, what is written to the audit log, the settings.\<close>

definition handleConnectionWithSettings ::
  "json_texts \<Rightarrow> store_operations \<Rightarrow> 's settings_operations option \<Rightarrow> 's \<Rightarrow> connection \<Rightarrow>
     (string \<times> string \<times> 's) io"
where
  "handleConnectionWithSettings texts store settings s connection =
     (if \<not> conn_read_deadline connection then return_io ([], [], s)
      else
      bind_io (case readRequest connection of
                 Inl err \<Rightarrow> return_io (responseForError err, [], s)
               | Inr requestData \<Rightarrow> handle_request texts store settings s requestData)
        (\<lambda>(response, audit, s1).
      return_io (if conn_write_deadline connection then encode_response response else [], audit, s1)))"

text \<open>The accept loop, over the connections that arrive before the listener is closed: the outputs of
  all connections, the audit log, the settings.\<close>

fun serve_connections ::
  "json_texts \<Rightarrow> store_operations \<Rightarrow> 's settings_operations option \<Rightarrow> 's \<Rightarrow> connection list \<Rightarrow>
     (string list \<times> string \<times> 's) io"
where
  "serve_connections texts store settings s [] = return_io ([], [], s)"
| "serve_connections texts store settings s (c # cs) =
     bind_io (handleConnectionWithSettings texts store settings s c) (\<lambda>(out, audit, s1).
     bind_io (serve_connections texts store settings s1 cs) (\<lambda>(outs, log, s2).
     return_io (out # outs, audit @ log, s2)))"

subsection \<open>The runtime directory and the socket\<close>

text \<open>The outcome of \<open>net.DialTimeout\<close> on the socket path.\<close>

datatype probe = Probe_Connected | Probe_ENOENT | Probe_ECONNREFUSED | Probe_Failed string

text \<open>The answers of the operating system to the calls that prepare the socket, in their order.\<close>

record socket_os =
  os_Lstat_dir :: "goerror + path_info"
  os_Geteuid :: nat
  os_Lstat_socket :: "goerror + path_info"
  os_Dial :: probe
  os_Lstat_again :: "goerror + path_info"
  os_Remove :: "goerror option"
  os_Listen :: "goerror option"
  os_Chmod :: "goerror option"
  os_Lstat_bound :: "goerror + path_info"

definition socketMode :: nat where "socketMode = 432"
definition runtimeDirMode :: nat where "runtimeDirMode = 488"

definition validateRuntimeDir :: "socket_os \<Rightarrow> string \<Rightarrow> goerror + nat" where
  "validateRuntimeDir os dirPath =
     (case os_Lstat_dir os of
        Inl err \<Rightarrow> Inl (sentinelf localcontrol_ErrUnsafeRuntimeDir
                     (''inspect '' @ dirPath @ '': '' @ error_text err))
      | Inr info \<Rightarrow>
          if pi_kind info = Path_Symlink \<or> pi_kind info \<noteq> Path_Directory
          then Inl (sentinelf localcontrol_ErrUnsafeRuntimeDir (dirPath @ '' is not a real directory''))
          else if pi_perm info \<noteq> runtimeDirMode \<or> \<not> pi_setgid info \<or> pi_setuid info \<or> pi_sticky info
          then Inl (sentinelf localcontrol_ErrUnsafeRuntimeDir (dirPath @ '' must have mode 2750''))
          else case pi_owner info of
            None \<Rightarrow> Inl (sentinelf localcontrol_ErrUnsafeRuntimeDir (''cannot inspect ownership of '' @ dirPath))
          | Some (uid, gid) \<Rightarrow>
              if uid \<noteq> os_Geteuid os
              then Inl (sentinelf localcontrol_ErrUnsafeRuntimeDir
                     (dirPath @ '' must be owned by the daemon user''))
              else Inr gid)"

text \<open>\<open>Inr True\<close>: the path was a stale socket, which has been removed.\<close>

definition prepareSocketPath :: "socket_os \<Rightarrow> goerror + bool" where
  "prepareSocketPath os =
     (case os_Lstat_socket os of
        Inl err \<Rightarrow> if errors_is err Os_ErrNotExist then Inr False
                   else Inl (wrapf ''inspect control socket path'' err)
      | Inr info \<Rightarrow>
          if pi_kind info \<noteq> Path_Socket then Inl (Sentinel localcontrol_ErrSocketPathExists)
          else case os_Dial os of
            Probe_Connected \<Rightarrow> Inl (Sentinel localcontrol_ErrSocketPathExists)
          | Probe_ENOENT \<Rightarrow> Inr False
          | Probe_Failed t \<Rightarrow> Inl (sentinelf localcontrol_ErrSocketPathExists
                                 (''probe existing control socket: '' @ t))
          | Probe_ECONNREFUSED \<Rightarrow>
              (case os_Lstat_again os of
                 Inl err \<Rightarrow> if errors_is err Os_ErrNotExist then Inr False
                            else Inl (wrapf ''reinspect stale control socket'' err)
               | Inr currentInfo \<Rightarrow>
                   if pi_kind currentInfo \<noteq> Path_Socket \<or> pi_ino info \<noteq> pi_ino currentInfo
                   then Inl (Sentinel localcontrol_ErrSocketPathExists)
                   else case os_Remove os of
                     Some err \<Rightarrow> Inl (wrapf ''remove stale control socket'' err)
                   | None \<Rightarrow> Inr True))"

definition validateSocket :: "socket_os \<Rightarrow> nat \<Rightarrow> goerror option" where
  "validateSocket os runtimeGID =
     (case os_Lstat_bound os of
        Inl err \<Rightarrow> Some (sentinelf localcontrol_ErrSocketOwnership (''inspect socket: '' @ error_text err))
      | Inr info \<Rightarrow>
          if pi_kind info \<noteq> Path_Socket
          then Some (sentinelf localcontrol_ErrSocketOwnership ''path is not a Unix socket'')
          else if pi_perm info \<noteq> socketMode
          then Some (sentinelf localcontrol_ErrSocketOwnership ''socket must have mode 0660'')
          else case pi_owner info of
            None \<Rightarrow> Some (sentinelf localcontrol_ErrSocketOwnership ''cannot inspect socket ownership'')
          | Some (uid, gid) \<Rightarrow>
              if uid \<noteq> os_Geteuid os \<or> gid \<noteq> runtimeGID
              then Some (sentinelf localcontrol_ErrSocketOwnership
                     ''socket did not inherit runtime directory ownership'')
              else None)"

text \<open>Up to the accept loop; then the loop, which ends without an error when the context was cancelled
  and with the error of \<open>Accept\<close> otherwise.\<close>

definition start_listener :: "socket_os \<Rightarrow> string \<Rightarrow> goerror option" where
  "start_listener os dirPath =
     (case validateRuntimeDir os dirPath of
        Inl err \<Rightarrow> Some err
      | Inr runtimeGID \<Rightarrow>
          (case prepareSocketPath os of
             Inl err \<Rightarrow> Some err
           | Inr _ \<Rightarrow>
               (case os_Listen os of
                  Some err \<Rightarrow> Some (wrapf ''listen on control socket'' err)
                | None \<Rightarrow>
                    (case os_Chmod os of
                       Some err \<Rightarrow> Some (wrapf ''set control socket mode'' err)
                     | None \<Rightarrow> validateSocket os runtimeGID))))"

definition serveWithSettingsAuditWriter ::
  "json_texts \<Rightarrow> socket_os \<Rightarrow> string \<Rightarrow> store_operations \<Rightarrow> 's settings_operations option \<Rightarrow> 's \<Rightarrow>
     connection list \<Rightarrow> bool \<Rightarrow> goerror \<Rightarrow> (goerror option \<times> string list \<times> string \<times> 's) io"
where
  "serveWithSettingsAuditWriter texts os dirPath store settings s connections cancelled acceptErr =
     (case start_listener os dirPath of
        Some err \<Rightarrow> return_io (Some err, [], [], s)
      | None \<Rightarrow>
          bind_io (serve_connections texts store settings s connections) (\<lambda>(outs, log, s1).
          return_io (if cancelled then None else Some (wrapf ''accept control connection'' acceptErr),
            outs, log, s1)))"

text \<open>The entry points; without settings, a request about them is an unknown operation.\<close>

definition serveWithAuditWriter ::
  "json_texts \<Rightarrow> socket_os \<Rightarrow> string \<Rightarrow> store_operations \<Rightarrow> connection list \<Rightarrow> bool \<Rightarrow> goerror \<Rightarrow>
     (goerror option \<times> string list \<times> string \<times> unit) io"
where
  "serveWithAuditWriter texts os dirPath store connections cancelled acceptErr =
     serveWithSettingsAuditWriter texts os dirPath store (None :: unit settings_operations option) ()
       connections cancelled acceptErr"

definition control_Serve ::
  "json_texts \<Rightarrow> socket_os \<Rightarrow> string \<Rightarrow> store_operations \<Rightarrow> connection list \<Rightarrow> bool \<Rightarrow> goerror \<Rightarrow>
     (goerror option \<times> string list \<times> string \<times> unit) io"
where
  "control_Serve texts os dirPath store connections cancelled acceptErr =
     serveWithAuditWriter texts os dirPath store connections cancelled acceptErr"

definition ServeWithSettings ::
  "json_texts \<Rightarrow> socket_os \<Rightarrow> string \<Rightarrow> store_operations \<Rightarrow> 's settings_operations \<Rightarrow> 's \<Rightarrow>
     connection list \<Rightarrow> bool \<Rightarrow> goerror \<Rightarrow> (goerror option \<times> string list \<times> string \<times> 's) io"
where
  "ServeWithSettings texts os dirPath store settings s connections cancelled acceptErr =
     serveWithSettingsAuditWriter texts os dirPath store (Some settings) s connections cancelled acceptErr"

definition handleConnection ::
  "json_texts \<Rightarrow> store_operations \<Rightarrow> connection \<Rightarrow> (string \<times> string \<times> unit) io"
where
  "handleConnection texts store connection =
     handleConnectionWithSettings texts store (None :: unit settings_operations option) () connection"

end
