(* ===== verification/Control_Safety.thy ===== *)
theory Control_Safety
  imports Control_Facts
begin

text \<open>
  The promises of the control server, connection by connection and over the whole run of the accept
  loop: the audit log, refused requests, the size limit, the settings, and the decoding of what a
  client encodes.
\<close>

subsection \<open>Every connection is handled\<close>

lemma handle_returns:
  assumes "settings_return settings"
  shows "\<exists>out audit s' w'. handleConnectionWithSettings texts store settings s c w = (Inr (out, audit, s'), w')"
proof (cases "conn_read_deadline c \<and> (\<exists>data. readRequest c = Inr data)")
  case False
  then show ?thesis
    by (cases "readRequest c")
      (auto simp: handleConnectionWithSettings_def return_io_def bind_io_def)
next
  case True
  then obtain data where d: "conn_read_deadline c" "readRequest c = Inr data" by blast
  obtain request err where dec: "DecodeRequest texts data = (request, err)" by force
  show ?thesis
  proof (cases err)
    case (Some e)
    with dec d show ?thesis
      by (auto simp: handleConnectionWithSettings_def bind_io_def return_io_def
          handle_request_bad [of texts data request e])
  next
    case None
    obtain r w1 where r: "Dispatch store request w = (Inr r, w1)" using Dispatch_returns by blast
    show ?thesis
    proof (cases settings)
      case (Some operations)
      with assms obtain r s' w1 where "DispatchWithSettings store operations s request w = (Inr (r, s'), w1)"
        using DispatchWithSettings_returns [of operations store s request w] by auto
      with dec d None Some show ?thesis
        by (auto simp: handleConnectionWithSettings_def handle_request_def bind_io_def return_io_def
            time_Now_def)
    qed (use r dec d None in \<open>auto simp: handleConnectionWithSettings_def handle_request_def bind_io_def
          return_io_def time_Now_def\<close>)
  qed
qed

lemma serve_returns:
  assumes "settings_return settings"
  shows "\<exists>outs log s' w'. serve_connections texts store settings s cs w = (Inr (outs, log, s'), w') \<and>
    length outs = length cs"
proof (induction cs arbitrary: s w)
  case (Cons c cs)
  obtain out audit s1 w1 where h: "handleConnectionWithSettings texts store settings s c w = (Inr (out, audit, s1), w1)"
    using handle_returns [OF assms] by blast
  obtain outs log s2 w2 where "serve_connections texts store settings s1 cs w1 = (Inr (outs, log, s2), w2)"
    "length outs = length cs"
    using Cons.IH by blast
  with h show ?case by (simp add: bind_io_def return_io_def)
qed (simp add: return_io_def)

lemma manager_returns: "settings_return (Some manager_operations)"
  using manager.returns by (auto simp: settings_return_def manager_operations_def)

subsection \<open>Reading a request\<close>

lemma take_Suc_line:
  "LF \<in> set (take k bytes) \<longleftrightarrow> LF \<in> set bytes \<and> length (takeWhile (\<lambda>c. c \<noteq> LF) bytes) < k"
proof (induction bytes arbitrary: k)
  case (Cons c bytes)
  then show ?case by (cases k) auto
qed simp

lemma takeWhile_take:
  "LF \<in> set (take k bytes) \<Longrightarrow> takeWhile (\<lambda>c. c \<noteq> LF) (take k bytes) = takeWhile (\<lambda>c. c \<noteq> LF) bytes"
proof (induction bytes arbitrary: k)
  case (Cons c bytes)
  then show ?case by (cases k) auto
qed simp

lemma readRequest_iff:
  "readRequest c = Inr data \<longleftrightarrow>
     (\<exists>rest. conn_bytes c = data @ LF # rest \<and> LF \<notin> set data \<and> length data \<le> MaxRequestBytes)"
proof -
  let ?b = "conn_bytes c" and ?l = "takeWhile (\<lambda>x. x \<noteq> LF) (conn_bytes c)"
  have main: "readRequest c = Inr data \<longleftrightarrow> LF \<in> set ?b \<and> length ?l \<le> MaxRequestBytes \<and> data = ?l"
  proof (cases "LF \<in> set (take (MaxRequestBytes + 2) ?b)")
    case True
    then have "LF \<in> set ?b" by (meson in_set_takeD)
    with True show ?thesis
      by (auto simp: readRequest_def read_line_limited_def takeWhile_take Let_def)
  next
    case False
    then have "\<not> (LF \<in> set ?b \<and> length ?l \<le> MaxRequestBytes)"
      by (auto simp: take_Suc_line)
    with False show ?thesis
      by (auto simp: readRequest_def read_line_limited_def Let_def split: option.splits if_splits)
  qed
  also have "\<dots> \<longleftrightarrow> (\<exists>rest. ?b = data @ LF # rest \<and> LF \<notin> set data \<and> length data \<le> MaxRequestBytes)"
  proof
    assume a: "LF \<in> set ?b \<and> length ?l \<le> MaxRequestBytes \<and> data = ?l"
    then obtain ys zs where "?b = ys @ LF # zs" "LF \<notin> set ys" by (meson split_list_first)
    moreover from this have "?l = ys" by (simp add: takeWhile_append)
    ultimately show "\<exists>rest. ?b = data @ LF # rest \<and> LF \<notin> set data \<and> length data \<le> MaxRequestBytes"
      using a by auto
  next
    assume "\<exists>rest. ?b = data @ LF # rest \<and> LF \<notin> set data \<and> length data \<le> MaxRequestBytes"
    then obtain rest where r: "?b = data @ LF # rest" "LF \<notin> set data" "length data \<le> MaxRequestBytes"
      by blast
    then have "?l = data" by (simp add: takeWhile_append)
    with r show "LF \<in> set ?b \<and> length ?l \<le> MaxRequestBytes \<and> data = ?l" by simp
  qed
  finally show ?thesis .
qed

text \<open>
  The size limit is exact.  \<open>readRequest\<close> accepts a connection's input if and only if a newline
  ends a first line of at most \<open>MaxRequestBytes\<close> bytes, and what it returns is that line without the
  newline; everything else on the connection is ignored, and however much is sent, at most two bytes
  more than the limit are read.
\<close>

theorem request_limit_is_exact:
  "readRequest c = Inr data \<longleftrightarrow>
     (\<exists>rest. conn_bytes c = data @ LF # rest \<and> LF \<notin> set data \<and> length data \<le> MaxRequestBytes)"
  by (rule readRequest_iff)

subsection \<open>The audit log\<close>

definition mutation_request :: "json_texts \<Rightarrow> connection \<Rightarrow> bool" where
  "mutation_request texts c \<longleftrightarrow>
     (case decoded_request texts c of Some request \<Rightarrow> isMutation (req_Operation request) | None \<Rightarrow> False)"

definition lines_in :: "string \<Rightarrow> nat" where
  "lines_in s = length (filter (\<lambda>c. c = LF) s)"

lemma lines_in_append [simp]: "lines_in (s @ t) = lines_in s + lines_in t"
  by (simp add: lines_in_def)

lemma line_safe_lines: "line_safe t \<Longrightarrow> lines_in t = 0"
  by (auto simp: lines_in_def line_safe_def filter_empty_conv)

lemma lines_in_literal: "lines_in ''aamm-ng audit timestamp='' = 0"
  by (simp add: lines_in_def)

lemma one_line_lines: "one_line s \<Longrightarrow> lines_in s = 1"
proof -
  assume "one_line s"
  then obtain t where "s = ''aamm-ng audit timestamp='' @ t @ [LF]" "line_safe t"
    unfolding one_line_def by blast
  then show ?thesis
    using lines_in_literal line_safe_lines [of t] by (simp only: lines_in_append) (simp add: lines_in_def)
qed

definition log_safe :: "string \<Rightarrow> bool" where
  "log_safe s \<longleftrightarrow> list_all (\<lambda>c. c = LF \<or> 0x20 \<le> byte c \<and> byte c \<noteq> 0x7F) s"

lemma one_line_safe: "one_line s \<Longrightarrow> log_safe s"
  by (auto simp: one_line_def log_safe_def line_safe_def list_all_iff)

lemma serve_log:
  "serve_connections texts store settings s cs w = (Inr (outs, log, s'), w') \<Longrightarrow>
     lines_in log = length (filter (mutation_request texts) cs) \<and> log_safe log"
proof (induction cs arbitrary: s w outs log)
  case Nil
  then show ?case by (simp add: return_io_def lines_in_def log_safe_def)
next
  case (Cons c cs)
  obtain r w1 where h: "handleConnectionWithSettings texts store settings s c w = (r, w1)" by fastforce
  with Cons.prems obtain out audit s1 where r: "r = Inr (out, audit, s1)"
    by (cases r) (auto simp: bind_io_def)
  obtain r2 w2 where t: "serve_connections texts store settings s1 cs w1 = (r2, w2)" by fastforce
  with Cons.prems h r obtain outs1 log1 where r2: "r2 = Inr (outs1, log1, s')" "log = audit @ log1" "w2 = w'"
    by (cases r2) (auto simp: bind_io_def return_io_def)
  have "if mutation_request texts c then one_line audit else audit = []"
    using handle_audit [of texts store settings s c w out audit s1 w1] h r
    by (auto simp: mutation_request_def split: if_splits option.splits)
  with Cons.IH [of s1 w1 outs1 log1] t r2 show ?case
    using one_line_lines [of audit] one_line_safe [of audit]
    by (cases "mutation_request texts c") (simp_all add: log_safe_def lines_in_def)
qed

text \<open>
  C30: However the connections behave and whatever they send, the audit log of a run of the daemon
  has exactly one line for every connection that asked for a mutation - whether it was carried out,
  failed or was refused - and none for any other; and it consists of printable text and newlines
  only, so no request can forge a record or split one.
\<close>

theorem audit_log_has_one_line_per_mutation:
  assumes "serve_connections texts store settings s cs w = (Inr (outs, log, s'), w')"
  shows "lines_in log = length (filter (mutation_request texts) cs) \<and> log_safe log"
  using assms by (rule serve_log)

subsection \<open>Refused requests\<close>

lemma handle_refused:
  assumes "accepted_request texts c = None"
    and "handleConnectionWithSettings texts store settings s c w = (Inr (out, audit, s'), w')"
  shows "s' = s \<and> w_fs w' = w_fs w \<and> w_script w' = w_script w \<and>
    (out = [] \<or> (\<exists>err. out = encode_response (responseForError err)))"
proof (cases "conn_read_deadline c \<and> (\<exists>data. readRequest c = Inr data)")
  case False
  with assms(2) show ?thesis
    by (auto simp: handleConnectionWithSettings_def return_io_def bind_io_def split: if_splits sum.splits)
next
  case True
  then obtain data where d: "conn_read_deadline c" "readRequest c = Inr data" by blast
  obtain request err where "DecodeRequest texts data = (request, err)" by force
  with d assms(1) obtain e where e: "DecodeRequest texts data = (request, Some e)"
    by (cases err) (auto simp: accepted_request_def)
  with d assms(2) have "s' = s" "w' = w\<lparr>w_clock_pos := Suc (w_clock_pos w)\<rparr>"
    "out = (if conn_write_deadline c then encode_response (responseForError e) else [])"
    by (simp_all add: handleConnectionWithSettings_def bind_io_def return_io_def handle_request_bad [OF e])
  then show ?thesis by simp blast
qed

text \<open>
  C31: A request that is not accepted - too long, without a newline, not one JSON value, with an
  unknown field, of another version, with an unknown operation, with a field its operation does not
  take, or a mutation without a valid audit attribution - causes no system call at all on the alert
  and backup directories or the settings file, leaves the settings as they are, and is answered by
  an error if it is answered.
\<close>

theorem refused_requests_change_nothing:
  assumes "accepted_request texts c = None"
    and "handleConnectionWithSettings texts store settings s c w = (Inr (out, audit, s'), w')"
  shows "s' = s \<and> w_fs w' = w_fs w \<and> w_script w' = w_script w \<and>
    (out = [] \<or> (\<exists>err. out = encode_response (responseForError err)))"
  using assms by (rule handle_refused)

subsection \<open>The settings\<close>

context settings_store
begin

lemma dispatch_settings:
  assumes "DispatchWithSettings store \<lparr>op_Current = current, op_Replace = replace\<rparr> s request w =
      (Inr (response, s'), w')"
  shows "s' = s \<or> (\<exists>c. req_Operation request = OperationSettingsReplace \<and> req_Settings request = Some c \<and>
      current s' = c \<and> config_Validate c = None)"
proof (cases "req_Operation request = OperationSettingsReplace")
  case True
  show ?thesis
  proof (cases "req_Settings request")
    case (Some c)
    obtain s1 err w1 where r: "replace s c w = (Inr (s1, err), w1)" using returns by blast
    with assms True Some have "s' = s1"
      by (auto simp: DispatchWithSettings_def dispatchSettingsReplace_def bind_io_def return_io_def
          split: option.splits)
    with changes_only_to_requested [OF r] True Some show ?thesis by blast
  qed (use assms True in \<open>auto simp: DispatchWithSettings_def dispatchSettingsReplace_def return_io_def\<close>)
next
  case False
  with assms show ?thesis
    by (auto simp: DispatchWithSettings_def dispatchSettingsRead_def bind_io_def return_io_def
        split: if_splits prod.splits sum.splits)
qed

lemma handle_settings:
  assumes "handleConnectionWithSettings texts store (Some \<lparr>op_Current = current, op_Replace = replace\<rparr>) s c w =
      (Inr (out, audit, s'), w')"
  shows "s' = s \<or> (\<exists>request config. accepted_request texts c = Some request \<and>
      req_Operation request = OperationSettingsReplace \<and> req_Settings request = Some config \<and>
      current s' = config \<and> config_Validate config = None)"
proof (cases "accepted_request texts c")
  case None
  from handle_refused [OF this assms] show ?thesis by blast
next
  case (Some request)
  then obtain data where d: "conn_read_deadline c" "readRequest c = Inr data"
      "DecodeRequest texts data = (request, None)"
    by (auto simp: accepted_request_def split: if_splits sum.splits prod.splits option.splits)
  let ?ops = "\<lparr>op_Current = current, op_Replace = replace\<rparr>"
  obtain x w1 where x: "DispatchWithSettings store ?ops s request w = (x, w1)" by fastforce
  with assms d obtain response where "x = Inr (response, s')"
    by (cases x) (auto simp: handleConnectionWithSettings_def handle_request_def bind_io_def
        return_io_def time_Now_def)
  with dispatch_settings [of store s request w response s' w1] x Some show ?thesis by blast
qed

lemma serve_settings_valid:
  "serve_connections texts store (Some \<lparr>op_Current = current, op_Replace = replace\<rparr>) s cs w =
      (Inr (outs, log, s'), w') \<Longrightarrow> config_Validate (current s) = None \<Longrightarrow> config_Validate (current s') = None"
proof (induction cs arbitrary: s w outs log)
  case (Cons c cs)
  let ?ops = "Some \<lparr>op_Current = current, op_Replace = replace\<rparr>"
  obtain r w1 where h: "handleConnectionWithSettings texts store ?ops s c w = (r, w1)" by fastforce
  with Cons.prems(1) obtain out audit s1 where r: "r = Inr (out, audit, s1)"
    by (cases r) (auto simp: bind_io_def)
  obtain r2 w2 where t: "serve_connections texts store ?ops s1 cs w1 = (r2, w2)" by fastforce
  with Cons.prems(1) h r obtain outs1 log1 where "r2 = Inr (outs1, log1, s')" "w2 = w'"
    by (cases r2) (auto simp: bind_io_def return_io_def)
  moreover have "config_Validate (current s1) = None"
    using handle_settings [of texts store s c w out audit s1 w1] h r Cons.prems(2) by auto
  ultimately show ?case using Cons.IH [of s1 w1 outs1 log1] t by simp
qed (simp add: return_io_def)

end

text \<open>
  C35: The settings the daemon holds are valid at all times: if they are when it starts, they are
  after any run of the accept loop over any connections, and each connection leaves them alone or
  sets them to exactly the settings of an accepted request to replace them.
\<close>

theorem daemon_settings_stay_valid:
  assumes "serve_connections texts store (Some manager_operations) m cs w = (Inr (outs, log, m'), w')"
    and "config_Validate (Manager_Current m) = None"
  shows "config_Validate (Manager_Current m') = None"
  using assms manager.serve_settings_valid [folded manager_operations_def] by blast

end
