(* ===== verification/Request_Roundtrip.thy ===== *)
theory Request_Roundtrip
  imports Control_Safety
begin

text \<open>
  What \<open>json.Marshal\<close> makes of a request, \<open>DecodeRequest\<close> reads back as the same request: the client
  and the server agree on every field, for every text in them.
\<close>

lemma store_members_append:
  "store_members strict fs r (a @ b) =
     (case store_members strict fs r a of (r1, e1) \<Rightarrow>
      case store_members strict fs r1 b of (r2, e2) \<Rightarrow> (r2, e1 \<or> e2))"
  by (induction a arbitrary: r) (auto split: option.splits prod.splits)

lemma into_audit_json: "into_audit strict zero_audit (audit_json a) = (a, False)"
  by (simp add: into_audit_def into_struct_def audit_json_def store_members_append omit_empty_def
      find_field_def field_of_def into_string_def zero_audit_def)

lemma into_config_json:
  assumes "- (2 ^ 63) \<le> config_Version c" "config_Version c < 2 ^ 63"
  shows "into_config strict zero_config (config_json c) = (c, False)"
  using assms by (simp add: into_config_def into_struct_def config_json_def field_of_def zero_config_def)

definition int64 :: "int \<Rightarrow> bool" where
  "int64 i \<longleftrightarrow> - (2 ^ 63) \<le> i \<and> i < 2 ^ 63"

lemma into_request_json:
  assumes "int64 (req_Version r)" "\<And>c. req_Settings r = Some c \<Longrightarrow> int64 (config_Version c)"
  shows "into_request zero_request (request_json r) = (r, False)"
proof -
  let ?fs = "[field_of ''version'' req_Version req_Version_update into_int,
      field_of ''operation'' req_Operation req_Operation_update into_string,
      field_of ''target'' req_Target req_Target_update into_string,
      field_of ''message'' req_Message req_Message_update into_string,
      field_of ''settings'' req_Settings req_Settings_update (into_pointer zero_config (into_config True)),
      field_of ''audit'' req_Audit req_Audit_update (into_pointer zero_audit (into_audit True))]"
  have p: "into_pointer zero_audit (into_audit True) None (audit_json a) = (Some a, False)" for a
    using into_audit_json [of True a] by (simp add: into_pointer_def audit_json_def)
  have q: "into_pointer zero_config (into_config True) None (config_json c) = (Some c, False)"
    if "req_Settings r = Some c" for c
    using into_config_json [of c True] assms(2) [OF that] by (simp add: into_pointer_def config_json_def int64_def)
  have "store_members True ?fs zero_request
      ([(''version'', JInt (req_Version r)), (''operation'', JString (req_Operation r))] @
       omit_empty ''target'' (req_Target r) @ omit_empty ''message'' (req_Message r) @
       omit_nil ''settings'' config_json (req_Settings r) @
       omit_nil ''audit'' audit_json (req_Audit r)) = (r, False)"
    unfolding store_members_append using assms(1) p q
    by (cases "req_Settings r"; cases "req_Audit r")
      (simp_all add: find_field_def omit_empty_def omit_nil_def field_of_def into_string_def zero_request_def int64_def)
  then show ?thesis by (simp add: into_request_def into_struct_def request_json_def)
qed

text \<open>The texts of a request are valid UTF-8, and its integers fit (as every \<open>int\<close> does).\<close>

definition audit_utf8 :: "MutationAudit \<Rightarrow> bool" where
  "audit_utf8 a \<longleftrightarrow> ValidString (AuthNode a) \<and> ValidString (AuthRole a) \<and> ValidString (SourceIP a) \<and>
     ValidString (SourceNode a) \<and> ValidString (SourceHost a)"

definition wire_request :: "Request \<Rightarrow> bool" where
  "wire_request r \<longleftrightarrow> int64 (req_Version r) \<and>
     (case req_Settings r of None \<Rightarrow> True | Some c \<Rightarrow> int64 (config_Version c)) \<and> ValidString (req_Operation r) \<and> ValidString (req_Target r) \<and>
     ValidString (req_Message r) \<and> (case req_Audit r of None \<Rightarrow> True | Some a \<Rightarrow> audit_utf8 a)"

lemma names_valid:
  "ValidString ''version''" "ValidString ''operation''" "ValidString ''target''" "ValidString ''message''"
  "ValidString ''settings''" "ValidString ''audit''" "ValidString ''auth_node''" "ValidString ''auth_role''"
  "ValidString ''source_ip''" "ValidString ''source_node''" "ValidString ''source_host''"
  by (rule ascii_valid, simp)+

definition members_ok :: "nat \<Rightarrow> (string \<times> json) list \<Rightarrow> bool" where
  "members_ok d ms \<longleftrightarrow> (\<forall>m \<in> set ms. ValidString (fst m) \<and> printable d (snd m))"

lemma members_ok_append [simp]: "members_ok d (a @ b) \<longleftrightarrow> members_ok d a \<and> members_ok d b"
  by (auto simp: members_ok_def)

lemma members_ok_Cons [simp]: "members_ok d (m # b) \<longleftrightarrow> ValidString (fst m) \<and> printable d (snd m) \<and> members_ok d b"
  by (auto simp: members_ok_def)

lemma members_ok_Nil [simp]: "members_ok d []"
  by (simp add: members_ok_def)

lemma members_ok_omit_empty: "ValidString name \<Longrightarrow> ValidString s \<Longrightarrow> members_ok d (omit_empty name s)"
  by (simp add: omit_empty_def)

lemma members_ok_omit_nil:
  "ValidString name \<Longrightarrow> (\<And>x. p = Some x \<Longrightarrow> printable d (f x)) \<Longrightarrow> members_ok d (omit_nil name f p)"
  by (simp add: omit_nil_def split: option.split)

lemma printable_members: "0 < d \<Longrightarrow> members_ok (d - 1) ms \<Longrightarrow> printable d (JObject ms)"
  by (auto simp: members_ok_def)

lemma printable_JInt: "printable d (JInt i)"
  by (auto simp: JInt_def)

lemma printable_audit: "audit_utf8 a \<Longrightarrow> 0 < d \<Longrightarrow> printable d (audit_json a)"
  unfolding audit_json_def audit_utf8_def
  by (intro printable_members) (simp_all add: members_ok_omit_empty names_valid)

lemma printable_config: "0 < d \<Longrightarrow> printable d (config_json c)"
  unfolding config_json_def
  by (intro printable_members) (simp_all add: names_valid printable_JInt)

lemma printable_request:
  assumes "wire_request r" "2 \<le> d"
  shows "printable d (request_json r)"
proof -
  have "members_ok (d - 1) (omit_nil ''settings'' config_json (req_Settings r))"
    by (rule members_ok_omit_nil) (use assms(2) in \<open>auto simp: names_valid intro: printable_config\<close>)
  moreover have "members_ok (d - 1) (omit_nil ''audit'' audit_json (req_Audit r))"
    by (rule members_ok_omit_nil)
      (use assms in \<open>auto simp: names_valid wire_request_def intro: printable_audit\<close>)
  ultimately show ?thesis
    using assms unfolding request_json_def wire_request_def
    by (intro printable_members) (simp_all add: members_ok_omit_empty names_valid printable_JInt)
qed

lemma decode_single_print:
  assumes "printable max_depth j" "into zero j = (r, False)" "list_all json_space t" "after_number t"
  shows "decode_single texts into zero (json_print j @ t) = (r, None)"
  using next_value_print [OF assms(1,4)] next_value_blank [OF assms(3)] assms(2)
  by (simp add: decode_single_def)

lemma DecodeRequest_encoded:
  assumes "wire_request r" "length (json_print (request_json r)) \<le> MaxRequestBytes"
  shows "DecodeRequest texts (json_print (request_json r)) = (r, validateRequest r)"
proof -
  have "printable max_depth (request_json r)"
    using assms(1) by (rule printable_request) (simp add: max_depth_def)
  moreover have "into_request zero_request (request_json r) = (r, False)"
    by (rule into_request_json) (use assms(1) in \<open>auto simp: wire_request_def\<close>)
  ultimately have "decode_single texts into_request zero_request (json_print (request_json r) @ []) = (r, None)"
    by (rule decode_single_print) simp_all
  with assms(2) show ?thesis by (simp add: DecodeRequest_def)
qed

text \<open>
  C32: The wire format is faithful.  For every request whose texts are valid UTF-8 and whose encoding
  fits into the limit, \<open>DecodeRequest\<close> of what \<open>json.Marshal\<close> makes of it yields exactly that
  request, and its verdict is that of \<open>validateRequest\<close>: no byte of a target, a message or an
  attribution can change another field or be misread.
\<close>

theorem encoded_requests_decode:
  assumes "wire_request r" "length (json_print (request_json r)) \<le> MaxRequestBytes"
  shows "DecodeRequest texts (json_print (request_json r)) = (r, validateRequest r)"
  using assms by (rule DecodeRequest_encoded)

end
