(* ===== verification/Aredn_Hosts.thy ===== *)
theory Aredn_Hosts
  imports Netip Store_Rules
begin

text \<open>
  The packages \<open>internal/arednhosts\<close>, \<open>internal/aredndhcp\<close> and \<open>internal/arednnodes\<close>: the host records
  and DHCP leases of the AREDN node, which name the sources of requests and the nodes one can
  address.  The host records are the files of \<open>HostsDir\<close>; the lease file is an entry of
  \<open>LeaseDir\<close>.
\<close>

subsection \<open>Parsing host records\<close>

record host_entry =
  he_Address :: addr
  he_Name :: string

record host_section =
  hs_Originator :: addr
  hs_Entries :: "host_entry list"

definition parse_ipv4_only :: "string \<Rightarrow> addr option" where
  "parse_ipv4_only s =
     (case ParseAddr s of
        None \<Rightarrow> None
      | Some address \<Rightarrow> if Is4 (Unmap address) then Some (Unmap address) else None)"

definition parseSectionHeader :: "string \<Rightarrow> addr option" where
  "parseSectionHeader line = parse_ipv4_only (TrimSpace (TrimSuffix (TrimPrefix line ''##'') ''##''))"

text \<open>\<open>*current = append(current.Entries, entry)\<close>; the current section is the last one.\<close>

definition add_host_entry :: "host_section list \<Rightarrow> host_entry \<Rightarrow> host_section list" where
  "add_host_entry sections e =
     butlast sections @ [(last sections)\<lparr>hs_Entries := hs_Entries (last sections) @ [e]\<rparr>]"

text \<open>The loop over the lines of a record; the flag says that \<open>current\<close> is not nil.\<close>

fun parse_host_lines :: "string list \<Rightarrow> bool \<Rightarrow> host_section list \<Rightarrow> host_section list" where
  "parse_host_lines [] current sections = sections"
| "parse_host_lines (rawLine # rest) current sections =
     (let line = TrimSpace rawLine in
      if line = [] then parse_host_lines rest current sections
      else if HasPrefix line ''##'' \<and> HasSuffix line ''##'' then
        (case parseSectionHeader line of
           None \<Rightarrow> parse_host_lines rest False sections
         | Some originator \<Rightarrow>
             parse_host_lines rest True (sections @ [\<lparr>hs_Originator = originator, hs_Entries = []\<rparr>]))
      else if \<not> current then parse_host_lines rest current sections
      else
        let fields = Fields line in
        if length fields < 2 then parse_host_lines rest current sections
        else case parse_ipv4_only (fields ! 0) of
          None \<Rightarrow> parse_host_lines rest current sections
        | Some address \<Rightarrow>
            parse_host_lines rest current
              (add_host_entry sections \<lparr>he_Address = address, he_Name = fields ! 1\<rparr>))"

fun parse_host_records :: "string list \<Rightarrow> host_section list \<Rightarrow> host_section list" where
  "parse_host_records [] sections = sections"
| "parse_host_records (rec # records) sections =
     parse_host_records records (parse_host_lines (Split rec LF) False sections)"

definition hosts_Parse :: "string list \<Rightarrow> host_section list" where
  "hosts_Parse records = parse_host_records records []"

subsection \<open>Reading the host records\<close>

record hosts_reader =
  hr_directory :: string
  hr_maxFiles :: nat
  hr_maxFileBytes :: nat
  hr_maxTotalBytes :: nat

definition hosts_defaultReader :: hosts_reader where
  "hosts_defaultReader = \<lparr>hr_directory = ''/var/run/arednlink/hosts'', hr_maxFiles = 128,
     hr_maxFileBytes = 256 * 1024, hr_maxTotalBytes = 2 * 1024 * 1024\<rparr>"

definition hosts_error :: "string \<Rightarrow> goerror" where
  "hosts_error what = sentinelf arednhosts_ErrRead what"

definition verifyOpenedFile :: "file_info \<Rightarrow> nat \<Rightarrow> unit io" where
  "verifyOpenedFile expected file =
     bind_io (map_error (\<lambda>_. hosts_error ''verify'') (Stat file)) (\<lambda>openedInfo.
     if fi_kind openedInfo \<noteq> Regular \<or> \<not> SameFile expected openedInfo
     then fail_io (hosts_error ''verify'')
     else return_io ())"

text \<open>One regular file: opened, verified, read and closed.\<close>

definition read_host_file :: "hosts_reader \<Rightarrow> file_info \<Rightarrow> string \<Rightarrow> string io" where
  "read_host_file r info name =
     bind_io (map_error (\<lambda>_. hosts_error ''open'') (Open HostsDir name)) (\<lambda>file.
     bind_io (on_error (Close file) (verifyOpenedFile info file)) (\<lambda>_.
     bind_io (try_io (read_limited file 0 (hr_maxFileBytes r + 1))) (\<lambda>data.
     bind_io (try_io (Close file)) (\<lambda>closed.
     case data of
       Inl _ \<Rightarrow> fail_io (hosts_error ''read'')
     | Inr bytes \<Rightarrow>
         (case closed of
            Inl _ \<Rightarrow> fail_io (hosts_error ''close'')
          | Inr _ \<Rightarrow>
              if length bytes > hr_maxFileBytes r then fail_io (Sentinel arednhosts_ErrDataTooLarge)
              else return_io bytes)))))"

text \<open>The loop over the directory, with the files and bytes counted so far.\<close>

fun read_host_files :: "hosts_reader \<Rightarrow> nat \<Rightarrow> nat \<Rightarrow> string list \<Rightarrow> string list io" where
  "read_host_files r fileCount totalBytes [] = return_io []"
| "read_host_files r fileCount totalBytes (name # names) =
     bind_io (map_error (\<lambda>_. hosts_error ''stat'') (Lstat HostsDir name)) (\<lambda>info.
     if fi_kind info = Symlink \<or> fi_kind info \<noteq> Regular
     then read_host_files r fileCount totalBytes names
     else if fileCount + 1 > hr_maxFiles r then fail_io (Sentinel arednhosts_ErrDataTooLarge)
     else if fi_size info > hr_maxFileBytes r then fail_io (Sentinel arednhosts_ErrDataTooLarge)
     else
     bind_io (read_host_file r info name) (\<lambda>data.
     if totalBytes + length data > hr_maxTotalBytes r then fail_io (Sentinel arednhosts_ErrDataTooLarge)
     else
     bind_io (read_host_files r (fileCount + 1) (totalBytes + length data) names) (\<lambda>records.
     return_io (data # records))))"

text \<open>\<open>os.ReadDir\<close> opens the directory, reads and sorts the names, and closes it.\<close>

definition os_ReadDir :: "dirid \<Rightarrow> string list io" where
  "os_ReadDir d =
     bind_io (OpenDir d) (\<lambda>_.
     bind_io (deferred (CloseDir d) (ReadDir d)) (\<lambda>names. return_io (sort names)))"

definition hosts_read :: "hosts_reader \<Rightarrow> string list io" where
  "hosts_read r =
     (if hr_directory r = [] \<or> hr_maxFiles r = 0 \<or> hr_maxFileBytes r = 0 \<or> hr_maxTotalBytes r = 0
      then fail_io (hosts_error ''invalid reader configuration'')
      else
      bind_io (map_error (\<lambda>_. hosts_error ''directory'') (os_ReadDir HostsDir)) (\<lambda>names.
      read_host_files r 0 0 names))"

definition hosts_ReadLocal :: "string list io" where
  "hosts_ReadLocal = hosts_read hosts_defaultReader"

subsection \<open>DHCP leases\<close>

text \<open>The loop over the lines, with \<open>found\<close> and \<open>hostname\<close> as an option.\<close>

fun lookup_leases :: "addr \<Rightarrow> string list \<Rightarrow> string option \<Rightarrow> goerror + string" where
  "lookup_leases source [] found = Inr (case found of None \<Rightarrow> [] | Some hostname \<Rightarrow> hostname)"
| "lookup_leases source (rawLine # rest) found =
     (let fields = Fields rawLine in
      if length fields \<noteq> 5 then lookup_leases source rest found
      else case parse_ipv4_only (fields ! 2) of
        None \<Rightarrow> lookup_leases source rest found
      | Some leaseAddress \<Rightarrow>
          if leaseAddress \<noteq> source then lookup_leases source rest found
          else if fields ! 3 = ''*'' then lookup_leases source rest found
          else if found \<noteq> None \<and> found \<noteq> Some (fields ! 3)
          then Inl (Sentinel aredndhcp_ErrAmbiguousLease)
          else lookup_leases source rest (Some (fields ! 3)))"

definition dhcp_Lookup :: "string \<Rightarrow> string \<Rightarrow> goerror + string" where
  "dhcp_Lookup data source =
     (case parse_ipv4_only source of
        None \<Rightarrow> Inl (Sentinel aredndhcp_ErrInvalidSource)
      | Some sourceAddress \<Rightarrow> lookup_leases sourceAddress (Split data LF) None)"

record lease_reader =
  lr_path :: string
  lr_maxBytes :: nat

definition dhcp_defaultReader :: lease_reader where
  "dhcp_defaultReader = \<lparr>lr_path = ''/tmp/dhcp.leases'', lr_maxBytes = 256 * 1024\<rparr>"

definition lease_error :: "string \<Rightarrow> goerror" where
  "lease_error what = sentinelf aredndhcp_ErrUnavailable what"

definition verify_lease_file :: "file_info \<Rightarrow> nat \<Rightarrow> unit io" where
  "verify_lease_file info file =
     bind_io (map_error (\<lambda>_. lease_error ''verify lease file'') (Stat file)) (\<lambda>openedInfo.
     if fi_kind openedInfo \<noteq> Regular \<or> \<not> SameFile info openedInfo
     then fail_io (Sentinel aredndhcp_ErrUnavailable)
     else return_io ())"

text \<open>The lease file is the entry \<open>name\<close> of its directory.\<close>

definition dhcp_lookup :: "lease_reader \<Rightarrow> string \<Rightarrow> string \<Rightarrow> string io" where
  "dhcp_lookup r name source =
     (if lr_path r = [] \<or> lr_maxBytes r = 0 then fail_io (Sentinel aredndhcp_ErrUnavailable)
      else
      bind_io (map_error (\<lambda>_. lease_error ''stat lease file'') (Lstat LeaseDir name)) (\<lambda>info.
      if fi_kind info = Symlink \<or> fi_kind info \<noteq> Regular then fail_io (Sentinel aredndhcp_ErrUnavailable)
      else if fi_size info > lr_maxBytes r then fail_io (Sentinel aredndhcp_ErrDataTooLarge)
      else
      bind_io (map_error (\<lambda>_. lease_error ''open lease file'') (Open LeaseDir name)) (\<lambda>file.
      bind_io (on_error (Close file) (verify_lease_file info file)) (\<lambda>_.
      bind_io (try_io (read_limited file 0 (lr_maxBytes r + 1))) (\<lambda>data.
      bind_io (try_io (Close file)) (\<lambda>closed.
      case data of
        Inl _ \<Rightarrow> fail_io (lease_error ''read lease file'')
      | Inr bytes \<Rightarrow>
          (case closed of
             Inl _ \<Rightarrow> fail_io (lease_error ''close lease file'')
           | Inr _ \<Rightarrow>
               if length bytes > lr_maxBytes r then fail_io (Sentinel aredndhcp_ErrDataTooLarge)
               else case dhcp_Lookup bytes source of
                 Inl err \<Rightarrow> fail_io err
               | Inr hostname \<Rightarrow> return_io hostname)))))))"

definition dhcp_LookupLocal :: "string \<Rightarrow> string io" where
  "dhcp_LookupLocal source = dhcp_lookup dhcp_defaultReader ''dhcp.leases'' source"

subsection \<open>The nodes of the mesh\<close>

text \<open>The first entry of a section that is the originator's and a valid target other than \<open>all\<close>.\<close>

fun section_node :: "addr \<Rightarrow> host_entry list \<Rightarrow> string option" where
  "section_node originator [] = None"
| "section_node originator (e # entries) =
     (if he_Address e \<noteq> originator then section_node originator entries
      else case target_Parse (he_Name e) of
        Inl _ \<Rightarrow> section_node originator entries
      | Inr target \<Rightarrow>
          if target_String target = ''all'' then section_node originator entries
          else Some (target_String target))"

definition NodesFromHostRecords :: "string list \<Rightarrow> string list" where
  "NodesFromHostRecords records =
     sort (remdups (concat (map (\<lambda>section.
       case section_node (hs_Originator section) (hs_Entries section) of None \<Rightarrow> [] | Some name \<Rightarrow> [name])
       (hosts_Parse records))))"

text \<open>A fetcher holds the function that reads the records, or nil.\<close>

record Fetcher =
  fetcher_readRecords :: "string list io option"

definition NewFetcher :: Fetcher where
  "NewFetcher = \<lparr>fetcher_readRecords = Some hosts_ReadLocal\<rparr>"

definition LocalNodes :: "Fetcher option \<Rightarrow> string list io" where
  "LocalNodes f =
     (case f of
        None \<Rightarrow> fail_io (Sentinel arednnodes_ErrUnavailable)
      | Some fetcher \<Rightarrow>
          (case fetcher_readRecords fetcher of
             None \<Rightarrow> fail_io (Sentinel arednnodes_ErrUnavailable)
           | Some readRecords \<Rightarrow>
               bind_io (map_error
                   (\<lambda>_. sentinelf arednnodes_ErrUnavailable ''read local host records'') readRecords)
                 (\<lambda>records. return_io (NodesFromHostRecords records))))"

end
