(* ===== verification/Aredn_Source.thy ===== *)
theory Aredn_Source
  imports Aredn_Hosts
begin

text \<open>
  The packages \<open>internal/arednsource\<close> and \<open>internal/arednauth\<close>: who a request comes from.  The source
  of an address is the node whose host records list it, or the node of the longest route to it; the
  answer is advisory and ambiguous records are refused.  The authentication verifier asks the
  node's own web service whether a cookie is that of the administrator.  The route command and the
  HTTP exchange are described by what they return.
\<close>

subsection \<open>Prefixes\<close>

definition addr_BitLen :: "addr \<Rightarrow> nat" where
  "addr_BitLen a = (case a of Addr4 _ \<Rightarrow> 32 | Addr6 _ _ \<Rightarrow> 128)"

definition addr_value :: "addr \<Rightarrow> nat" where
  "addr_value a =
     (case a of
        Addr4 bs \<Rightarrow> foldl (\<lambda>n b. n * 256 + b) 0 bs
      | Addr6 gs _ \<Rightarrow> foldl (\<lambda>n g. n * 65536 + g) 0 gs)"

record Prefix =
  prefix_Addr :: addr
  prefix_Bits :: nat

text \<open>\<open>Prefix.Contains\<close>; an address with a zone is in no prefix.\<close>

definition prefix_Contains :: "Prefix \<Rightarrow> addr \<Rightarrow> bool" where
  "prefix_Contains p a \<longleftrightarrow>
     (case a of Addr6 _ zone \<Rightarrow> zone = [] | Addr4 _ \<Rightarrow> True) \<and>
     addr_BitLen (prefix_Addr p) = addr_BitLen a \<and>
     addr_value (prefix_Addr p) div 2 ^ (addr_BitLen a - prefix_Bits p) =
       addr_value a div 2 ^ (addr_BitLen a - prefix_Bits p)"

definition ParsePrefix :: "string \<Rightarrow> Prefix option" where
  "ParsePrefix s =
     (if CHR ''/'' \<notin> set s then None
      else
        let bits = rev (takeWhile (\<lambda>c. c \<noteq> CHR ''/'') (rev s));
            address = take (length s - length bits - 1) s
        in case ParseAddr address of
          None \<Rightarrow> None
        | Some ip \<Rightarrow>
            if (case ip of Addr6 _ zone \<Rightarrow> zone \<noteq> [] | Addr4 _ \<Rightarrow> False) then None
            else if bits = [] \<or> \<not> list_all is_digit bits \<or> (length bits > 1 \<and> hd bits = CHR ''0'') \<or>
              decimal_value bits > addr_BitLen ip
            then None
            else Some \<lparr>prefix_Addr = ip, prefix_Bits = decimal_value bits\<rparr>)"

text \<open>\<open>Masked\<close>: the bits after the prefix are cleared, in bytes or groups of \<open>w\<close> bits.\<close>

fun mask_digits :: "nat \<Rightarrow> nat \<Rightarrow> nat list \<Rightarrow> nat list" where
  "mask_digits w bits [] = []"
| "mask_digits w bits (d # ds) =
     (if w \<le> bits then d # mask_digits w (bits - w) ds
      else (d div 2 ^ (w - bits) * 2 ^ (w - bits)) # mask_digits w 0 ds)"

definition prefix_Masked :: "Prefix \<Rightarrow> Prefix" where
  "prefix_Masked p = p\<lparr>prefix_Addr :=
     (case prefix_Addr p of
        Addr4 bs \<Rightarrow> Addr4 (mask_digits 8 (prefix_Bits p) bs)
      | Addr6 gs zone \<Rightarrow> Addr6 (mask_digits 16 (prefix_Bits p) gs) [])\<rparr>"

subsection \<open>Lines of a command's output\<close>

text \<open>\<open>bufio.Scanner\<close> with \<open>ScanLines\<close>: a carriage return before the newline is dropped, an empty last
  line is no line, and a line of 64 KiB or more ends the scan.\<close>

definition drop_CR :: "string \<Rightarrow> string" where
  "drop_CR line = (if line \<noteq> [] \<and> last line = CR then butlast line else line)"

definition scanner_lines :: "string \<Rightarrow> string list" where
  "scanner_lines text =
     (let parts = Split text LF;
          lines = (if last parts = [] then butlast parts else parts)
      in map drop_CR (takeWhile (\<lambda>line. length line < 64 * 1024) lines))"

subsection \<open>Attribution\<close>

record Attribution =
  attr_SourceNode :: string
  attr_SourceHost :: string

definition no_attribution :: Attribution where
  "no_attribution = \<lparr>attr_SourceNode = [], attr_SourceHost = []\<rparr>"

record source_section =
  ss_originator :: addr
  ss_node :: string
  ss_entries :: "host_entry list"

text \<open>The node of a section: the first entry of the originator that is a valid target, as written.\<close>

fun source_node :: "addr \<Rightarrow> host_entry list \<Rightarrow> string" where
  "source_node originator [] = []"
| "source_node originator (e # entries) =
     (if he_Address e = originator \<and>
         (case target_Parse (he_Name e) of Inl _ \<Rightarrow> False | Inr target \<Rightarrow> target_String target \<noteq> ''all'') \<and>
         he_Name e \<noteq> []
      then he_Name e else source_node originator entries)"

definition parseHostRecords :: "string list \<Rightarrow> source_section list" where
  "parseHostRecords records = map (\<lambda>section.
     \<lparr>ss_originator = hs_Originator section,
      ss_node = source_node (hs_Originator section) (hs_Entries section),
      ss_entries = hs_Entries section\<rparr>) (hosts_Parse records)"

definition isLANName :: "string \<Rightarrow> string \<Rightarrow> bool" where
  "isLANName name node \<longleftrightarrow> EqualFold name (''lan.'' @ node @ ''.local.mesh'')"

definition isInfrastructureName :: "string \<Rightarrow> bool" where
  "isInfrastructureName name \<longleftrightarrow>
     (let lower = ToLower name in
      list_ex (\<lambda>prefix. HasPrefix lower prefix \<and> HasSuffix lower ''.local.mesh'')
        [''lan.'', ''dtdlink.'', ''mid.'', ''xlink.''])"

text \<open>The two nested loops run over the pairs of a section and an entry.\<close>

definition section_entries :: "source_section list \<Rightarrow> (source_section \<times> host_entry) list" where
  "section_entries sections = concat (map (\<lambda>section. map (\<lambda>e. (section, e)) (ss_entries section)) sections)"

definition exact_candidate :: "source_section \<Rightarrow> host_entry \<Rightarrow> Attribution" where
  "exact_candidate section e =
     \<lparr>attr_SourceNode = ss_node section,
      attr_SourceHost =
        (if he_Address e \<noteq> ss_originator section \<and> \<not> isInfrastructureName (he_Name e)
         then he_Name e else [])\<rparr>"

text \<open>\<open>Inr None\<close>: not found.\<close>

fun exact_loop ::
  "addr \<Rightarrow> (source_section \<times> host_entry) list \<Rightarrow> Attribution option \<Rightarrow> goerror + Attribution option"
where
  "exact_loop source [] found = Inr found"
| "exact_loop source ((section, e) # rest) found =
     (if he_Address e \<noteq> source then exact_loop source rest found
      else
        let candidate = exact_candidate section e in
        if found \<noteq> None \<and> found \<noteq> Some candidate then Inl (Sentinel arednsource_ErrAmbiguous)
        else exact_loop source rest (Some candidate))"

definition exactHostAttribution :: "addr \<Rightarrow> source_section list \<Rightarrow> goerror + Attribution option" where
  "exactHostAttribution source sections = exact_loop source (section_entries sections) None"

fun route_loop :: "Prefix \<Rightarrow> (source_section \<times> host_entry) list \<Rightarrow> string \<Rightarrow> goerror + string" where
  "route_loop route [] node = Inr node"
| "route_loop route ((section, e) # rest) node =
     (if ss_node section = [] \<or> \<not> prefix_Contains route (he_Address e) \<or>
         \<not> isLANName (he_Name e) (ss_node section)
      then route_loop route rest node
      else if node \<noteq> [] \<and> node \<noteq> ss_node section then Inl (Sentinel arednsource_ErrAmbiguous)
      else route_loop route rest (ss_node section))"

definition routeAttribution :: "Prefix \<Rightarrow> source_section list \<Rightarrow> goerror + Attribution" where
  "routeAttribution route sections =
     (case route_loop route (section_entries sections) [] of
        Inl err \<Rightarrow> Inl err
      | Inr node \<Rightarrow> Inr \<lparr>attr_SourceNode = node, attr_SourceHost = []\<rparr>)"

definition parseRouteDestination :: "string \<Rightarrow> Prefix option" where
  "parseRouteDestination value =
     (if value = ''default'' then None
      else case ParsePrefix value of
        Some prefix \<Rightarrow> Some (prefix_Masked prefix)
      | None \<Rightarrow>
          (case ParseAddr value of
             None \<Rightarrow> None
           | Some address \<Rightarrow>
               let address = Unmap address
               in Some \<lparr>prefix_Addr = (case address of Addr6 gs _ \<Rightarrow> Addr6 gs [] | Addr4 _ \<Rightarrow> address),
                    prefix_Bits = addr_BitLen address\<rparr>))"

fun route_search :: "addr \<Rightarrow> string list \<Rightarrow> Prefix option \<Rightarrow> Prefix option" where
  "route_search source [] best = best"
| "route_search source (line # rest) best =
     (case Fields line of
        [] \<Rightarrow> route_search source rest best
      | field # _ \<Rightarrow>
          (case parseRouteDestination field of
             None \<Rightarrow> route_search source rest best
           | Some prefix \<Rightarrow>
               if addr_BitLen (prefix_Addr prefix) \<noteq> addr_BitLen source \<or> \<not> prefix_Contains prefix source
               then route_search source rest best
               else if (case best of None \<Rightarrow> True | Some b \<Rightarrow> prefix_Bits prefix > prefix_Bits b)
               then route_search source rest (Some prefix)
               else route_search source rest best))"

definition longestRoute :: "addr \<Rightarrow> string \<Rightarrow> Prefix option" where
  "longestRoute source out = route_search source (scanner_lines out) None"

definition source_Resolve :: "string \<Rightarrow> string \<Rightarrow> string list \<Rightarrow> goerror + Attribution" where
  "source_Resolve source routeOutput hostRecords =
     (case ParseAddr source of
        None \<Rightarrow> Inl (Sentinel arednsource_ErrInvalidSource)
      | Some address \<Rightarrow>
          let sourceAddress = Unmap address; sections = parseHostRecords hostRecords in
          (case exactHostAttribution sourceAddress sections of
             Inl err \<Rightarrow> Inl err
           | Inr (Some attribution) \<Rightarrow> Inr attribution
           | Inr None \<Rightarrow>
               (case longestRoute sourceAddress routeOutput of
                  None \<Rightarrow> Inr no_attribution
                | Some route \<Rightarrow> routeAttribution route sections)))"

subsection \<open>The route command\<close>

text \<open>A run of \<open>/sbin/ip -4 route show table all\<close>: whether the pipe and the process could be made,
  what it printed, and how reading, the context and the process ended.\<close>

record command_run =
  run_pipe :: bool
  run_start :: bool
  run_output :: string
  run_read_failed :: bool
  run_context :: "goerror option"
  run_wait_failed :: bool

definition defaultMaxRouteBytes :: nat where
  "defaultMaxRouteBytes = 1024 * 1024"

definition readRoutes :: "nat \<Rightarrow> command_run \<Rightarrow> goerror + string" where
  "readRoutes maxRouteBytes run =
     (let output = take (maxRouteBytes + 1) (run_output run) in
      if \<not> run_pipe run then Inl (sentinelf arednsource_ErrRouteQuery ''stdout pipe'')
      else if \<not> run_start run then Inl (sentinelf arednsource_ErrRouteQuery ''start'')
      else if length output > maxRouteBytes then Inl (Sentinel arednsource_ErrDataTooLarge)
      else case run_context run of
        Some err \<Rightarrow> Inl (Errorf (sentinel_text arednsource_ErrRouteQuery @ '': '' @ error_text err)
                         [Sentinel arednsource_ErrRouteQuery, err])
      | None \<Rightarrow>
          if run_read_failed run then Inl (sentinelf arednsource_ErrRouteQuery ''read'')
          else if run_wait_failed run then Inl (sentinelf arednsource_ErrRouteQuery ''command'')
          else Inr output)"

record runtimeResolver =
  rr_reader :: hosts_reader
  rr_maxRouteBytes :: nat

definition defaultRuntimeResolver :: runtimeResolver where
  "defaultRuntimeResolver = \<lparr>rr_reader = \<lparr>hr_directory = ''/var/run/arednlink/hosts'', hr_maxFiles = 128,
       hr_maxFileBytes = 256 * 1024, hr_maxTotalBytes = 2 * 1024 * 1024\<rparr>,
     rr_maxRouteBytes = defaultMaxRouteBytes\<rparr>"

definition runtime_resolve :: "runtimeResolver \<Rightarrow> command_run \<Rightarrow> string \<Rightarrow> Attribution io" where
  "runtime_resolve r run source =
     (case parse_ipv4_only source of
        None \<Rightarrow> fail_io (Sentinel arednsource_ErrInvalidSource)
      | Some address \<Rightarrow>
          bind_io (try_io (hosts_read (rr_reader r))) (\<lambda>result.
          case result of
            Inl err \<Rightarrow>
              if errors_is err arednhosts_ErrDataTooLarge then fail_io (Sentinel arednsource_ErrDataTooLarge)
              else fail_io (sentinelf arednsource_ErrHostRecords (error_text err))
          | Inr hostRecords \<Rightarrow>
              (case readRoutes (rr_maxRouteBytes r) run of
                 Inl err \<Rightarrow> fail_io err
               | Inr routeOutput \<Rightarrow>
                   (case source_Resolve (addr_String address) routeOutput hostRecords of
                      Inl err \<Rightarrow> fail_io err
                    | Inr attribution \<Rightarrow> return_io attribution))))"

definition ResolveLocal :: "command_run \<Rightarrow> string \<Rightarrow> Attribution io" where
  "ResolveLocal run source = runtime_resolve defaultRuntimeResolver run source"

subsection \<open>Authentication\<close>

record Session =
  session_Authenticated :: bool
  session_Name :: string

definition no_session :: Session where
  "no_session = \<lparr>session_Authenticated = False, session_Name = []\<rparr>"

text \<open>What comes back from the endpoint: the status, the body, and whether reading the body failed.\<close>

record auth_reply =
  reply_status :: int
  reply_body :: string
  reply_read_failed :: bool

record whoami =
  whoami_name :: string
  whoami_authenticated :: "bool option"

definition into_whoami :: "whoami into" where
  "into_whoami = into_struct False
     [field_of ''name'' whoami_name whoami_name_update into_string,
      field_of ''authenticated'' whoami_authenticated whoami_authenticated_update
        (into_pointer False into_bool)]"

text \<open>\<open>json.Unmarshal\<close>: the input is one value and white space; \<open>None\<close> is an error.\<close>

definition json_Unmarshal :: "'r into \<Rightarrow> 'r \<Rightarrow> string \<Rightarrow> 'r option" where
  "json_Unmarshal into_r zero data =
     (case next_value data of
        Dec_Value j rest \<Rightarrow>
          if skip_space rest \<noteq> [] then None
          else (case into_r zero j of (r, failed) \<Rightarrow> if failed then None else Some r)
      | _ \<Rightarrow> None)"

definition maxAuthResponseBytes :: nat where
  "maxAuthResponseBytes = 4096"

definition session_of_body :: "string \<Rightarrow> goerror + Session" where
  "session_of_body body =
     (case json_Unmarshal into_whoami \<lparr>whoami_name = [], whoami_authenticated = None\<rparr> body of
        None \<Rightarrow> Inl (sentinelf arednauth_ErrInvalidResponse ''malformed JSON'')
      | Some result \<Rightarrow>
          (case whoami_authenticated result of
             None \<Rightarrow> Inl (sentinelf arednauth_ErrInvalidResponse ''authenticated field missing'')
           | Some authenticated \<Rightarrow>
               if \<not> authenticated then Inr no_session
               else if TrimSpace (whoami_name result) = []
               then Inl (sentinelf arednauth_ErrInvalidResponse ''authenticated name missing'')
               else Inr \<lparr>session_Authenticated = True, session_Name = whoami_name result\<rparr>))"

definition session_of_reply :: "auth_reply \<Rightarrow> goerror + Session" where
  "session_of_reply response =
     (if reply_status response \<noteq> 200
      then Inl (sentinelf arednauth_ErrInvalidResponse
             (''unexpected HTTP status '' @ show_int (reply_status response)))
      else if length (reply_body response) > maxAuthResponseBytes
      then Inl (sentinelf arednauth_ErrInvalidResponse
             (''response exceeds '' @ show_nat maxAuthResponseBytes @ '' bytes''))
      else if reply_read_failed response
      then Inl (sentinelf arednauth_ErrUnavailable ''read response'')
      else session_of_body (reply_body response))"

text \<open>\<open>exchange\<close> sends a request with the given \<open>Cookie\<close> header to the fixed endpoint; it is called only
  when the credential cannot break out of the header.  The body is read up to one byte more than the
  limit, so a longer body is found too long before a later read can fail.\<close>

definition VerifySession :: "(string \<Rightarrow> goerror + auth_reply) \<Rightarrow> string \<Rightarrow> goerror + Session" where
  "VerifySession exchange authV1 =
     (if authV1 = [] then Inr no_session
      else if list_ex (\<lambda>c. c = CR \<or> c = LF \<or> c = CHR '';'') authV1 then Inr no_session
      else case exchange (''authV1='' @ authV1) of
        Inl _ \<Rightarrow> Inl (sentinelf arednauth_ErrUnavailable ''request failed'')
      | Inr response \<Rightarrow> session_of_reply response)"

definition auth_Verify :: "(string \<Rightarrow> goerror + auth_reply) \<Rightarrow> string \<Rightarrow> goerror + bool" where
  "auth_Verify exchange authV1 =
     (case VerifySession exchange authV1 of
        Inl err \<Rightarrow> Inl err
      | Inr session \<Rightarrow> Inr (session_Authenticated session))"

end
