(* ===== verification/Control_Client.thy ===== *)
theory Control_Client
  imports Request_Roundtrip Aredn_Source
begin

text \<open>
  The package \<open>internal/auditidentity\<close> and the client side of \<open>internal/localcontrol\<close>: the calls the
  web service makes to the daemon.  The context carries the identity of the administrator; the
  resolver and the lease lookup are functions of the client, as in the code, and may be nil.  The
  socket is described by what happens on it (\<open>transport\<close>): whether connecting, setting the deadline
  and writing fail, what comes back for the line that was written, and the context's error at the
  time of a failure.  \<open>number\<close> is the text \<open>json.Marshal\<close> gives to the \<open>float64\<close> that a number literal
  is read as when it is decoded into an \<open>any\<close>.
\<close>

subsection \<open>The identity in the context\<close>

record Identity =
  identity_Name :: string
  identity_SourceIP :: string

record call_context =
  ctx_identity :: "Identity option"

definition WithIdentity :: "call_context \<Rightarrow> Identity \<Rightarrow> call_context" where
  "WithIdentity ctx identity = ctx\<lparr>ctx_identity := Some identity\<rparr>"

text \<open>A nil context, a context without an identity and an identity without a name give \<open>None\<close>.\<close>

definition FromContext :: "call_context option \<Rightarrow> Identity option" where
  "FromContext ctx =
     (case ctx of
        None \<Rightarrow> None
      | Some c \<Rightarrow>
          (case ctx_identity c of
             None \<Rightarrow> None
           | Some identity \<Rightarrow> if identity_Name identity = [] then None else Some identity))"

subsection \<open>The client\<close>

record Client =
  client_resolveSource :: "(string \<Rightarrow> Attribution io) option"
  client_lookupDHCPHost :: "(string \<Rightarrow> string io) option"

definition NewClient :: "command_run \<Rightarrow> Client" where
  "NewClient run = \<lparr>client_resolveSource = Some (ResolveLocal run),
     client_lookupDHCPHost = Some dhcp_LookupLocal\<rparr>"

text \<open>Advisory metadata: any failure gives none.\<close>

definition usable_attribution :: "Attribution \<Rightarrow> Attribution" where
  "usable_attribution attribution =
     (if validateAuditText ''source node'' (attr_SourceNode attribution) MaxSourceNodeBytes False \<noteq> None
      then no_attribution
      else if attr_SourceNode attribution = [] then no_attribution
      else if validateAuditText ''source host'' (attr_SourceHost attribution) MaxSourceHostBytes False \<noteq> None
      then attribution\<lparr>attr_SourceHost := []\<rparr>
      else attribution)"

definition sourceAttribution :: "Client option \<Rightarrow> string \<Rightarrow> Attribution io" where
  "sourceAttribution client sourceIP =
     (case client of
        None \<Rightarrow> return_io no_attribution
      | Some c \<Rightarrow>
          (case client_resolveSource c of
             None \<Rightarrow> return_io no_attribution
           | Some resolveSource \<Rightarrow>
               bind_io (try_io (resolveSource sourceIP)) (\<lambda>r.
               case r of
                 Inl _ \<Rightarrow> return_io no_attribution
               | Inr attribution \<Rightarrow> return_io (usable_attribution attribution))))"

text \<open>The lease lookup fills in the host when the source is the administrator's own node.\<close>

definition with_lease_host :: "Client option \<Rightarrow> Identity \<Rightarrow> string \<Rightarrow> Attribution \<Rightarrow> Attribution io" where
  "with_lease_host client identity sourceIP attribution =
     (case client of
        None \<Rightarrow> return_io attribution
      | Some c \<Rightarrow>
          (case client_lookupDHCPHost c of
             None \<Rightarrow> return_io attribution
           | Some lookupDHCPHost \<Rightarrow>
               if attr_SourceNode attribution \<noteq> [] \<and> attr_SourceHost attribution = [] \<and>
                 EqualFold (attr_SourceNode attribution) (identity_Name identity)
               then
                 bind_io (try_io (lookupDHCPHost sourceIP)) (\<lambda>r.
                 case r of
                   Inl _ \<Rightarrow> return_io attribution
                 | Inr host \<Rightarrow>
                     if validateAuditText ''source host'' host MaxSourceHostBytes False = None
                     then return_io (attribution\<lparr>attr_SourceHost := host\<rparr>)
                     else return_io attribution)
               else return_io attribution))"

definition mutationAuditFromContext :: "Client option \<Rightarrow> call_context option \<Rightarrow> MutationAudit io" where
  "mutationAuditFromContext client ctx =
     (case FromContext ctx of
        None \<Rightarrow> fail_io (sentinelf localcontrol_ErrInvalidRequest ''authenticated identity required'')
      | Some identity \<Rightarrow>
          (case ParseAddr (identity_SourceIP identity) of
             None \<Rightarrow> fail_io (sentinelf localcontrol_ErrInvalidRequest ''trusted source address required'')
           | Some sourceAddress \<Rightarrow>
               let sourceIP = addr_String (Unmap sourceAddress) in
               bind_io (sourceAttribution client sourceIP) (\<lambda>attribution.
               bind_io (with_lease_host client identity sourceIP attribution) (\<lambda>attribution.
               let audit = \<lparr>AuthNode = identity_Name identity, AuthRole = ''admin'', SourceIP = sourceIP,
                     SourceNode = attr_SourceNode attribution, SourceHost = attr_SourceHost attribution\<rparr>
               in case validateMutationAudit audit of
                 Some err \<Rightarrow> fail_io err
               | None \<Rightarrow> return_io audit))))"

subsection \<open>One call\<close>

record transport =
  tr_connect :: "goerror option"
  tr_deadline :: "goerror option"
  tr_write :: "goerror option"
  tr_reply :: "string \<Rightarrow> connection"
  tr_context :: "goerror option"

definition MaxResponseBytes :: nat where
  "MaxResponseBytes = 2 ^ 20"

definition clientIOError :: "transport \<Rightarrow> string \<Rightarrow> goerror \<Rightarrow> goerror" where
  "clientIOError tr action err =
     (case tr_context tr of
        Some ctxErr \<Rightarrow> wrapf (''control '' @ action) ctxErr
      | None \<Rightarrow> sentinelf localcontrol_ErrControlUnavailable (action @ '': '' @ error_text err))"

definition readResponse :: "connection \<Rightarrow> goerror + string" where
  "readResponse reader =
     (case read_line_limited (MaxResponseBytes + 2) (conn_bytes reader) (conn_end reader) of (line, ending) \<Rightarrow>
      if length line > MaxResponseBytes + 1 then Inl (Sentinel localcontrol_ErrResponseTooLarge)
      else case ending of
        Read_EOF \<Rightarrow>
          if length line > MaxResponseBytes then Inl (Sentinel localcontrol_ErrResponseTooLarge)
          else Inl (sentinelf localcontrol_ErrInvalidResponse ''newline terminator required'')
      | Read_Failed t \<Rightarrow> Inl (OsError OtherKind t)
      | Read_Line \<Rightarrow>
          let line = butlast line in
          if length line > MaxResponseBytes then Inl (Sentinel localcontrol_ErrResponseTooLarge)
          else Inr line)"

text \<open>Decoding into the field \<open>Result any\<close>, and into \<open>*Error\<close>.\<close>

definition into_any :: "result option into" where
  "into_any x j =
     (case j of
        JNull \<Rightarrow> (None, False)
      | _ \<Rightarrow> if json_overflows j then (x, True) else (Some (ResultAny j), False))"

definition zero_error :: ErrorBody where
  "zero_error = \<lparr>error_Code = [], error_Message = []\<rparr>"

definition into_error :: "ErrorBody into" where
  "into_error = into_struct True
     [field_of ''code'' error_Code error_Code_update into_string,
      field_of ''message'' error_Message error_Message_update into_string]"

definition zero_response :: Response where
  "zero_response = \<lparr>resp_Version = 0, resp_OK = False, resp_Result = None, resp_Error = None\<rparr>"

definition into_response :: "Response into" where
  "into_response = into_struct True
     [field_of ''version'' resp_Version resp_Version_update into_int,
      field_of ''ok'' resp_OK resp_OK_update into_bool,
      field_of ''result'' resp_Result resp_Result_update into_any,
      field_of ''error'' resp_Error resp_Error_update (into_pointer zero_error into_error)]"

definition invalid_response :: "string \<Rightarrow> goerror" where
  "invalid_response text = sentinelf localcontrol_ErrInvalidResponse text"

definition decodeResponse :: "json_texts \<Rightarrow> string \<Rightarrow> goerror + Response" where
  "decodeResponse texts data =
     (case decode_single texts into_response zero_response data of
        (_, Some text) \<Rightarrow> Inl (invalid_response text)
      | (response, None) \<Rightarrow>
          if resp_Version response \<noteq> ProtocolVersion
          then Inl (invalid_response (''unsupported version '' @ show_int (resp_Version response)))
          else if resp_OK response then
            (if resp_Error response \<noteq> None
             then Inl (invalid_response ''successful response contains error'')
             else Inr response)
          else if (case resp_Error response of None \<Rightarrow> True | Some e \<Rightarrow> error_Code e = [])
          then Inl (invalid_response ''failed response missing error'')
          else if resp_Result response \<noteq> None
          then Inl (invalid_response ''failed response contains result'')
          else Inr response)"

definition Client_Call :: "json_texts \<Rightarrow> transport \<Rightarrow> Request \<Rightarrow> goerror + Response" where
  "Client_Call texts tr request =
     (let requestData = json_print (request_json request) in
      case DecodeRequest texts requestData of
        (_, Some err) \<Rightarrow> Inl err
      | (_, None) \<Rightarrow>
          (case tr_connect tr of
             Some err \<Rightarrow> Inl (clientIOError tr ''connect'' err)
           | None \<Rightarrow>
               (case tr_deadline tr of
                  Some err \<Rightarrow> Inl (sentinelf localcontrol_ErrControlUnavailable
                               (''set deadline: '' @ error_text err))
                | None \<Rightarrow>
                    (case tr_write tr of
                       Some err \<Rightarrow> Inl (clientIOError tr ''write request'' err)
                     | None \<Rightarrow>
                         (case readResponse (tr_reply tr (requestData @ [LF])) of
                            Inl err \<Rightarrow>
                              if errors_is err localcontrol_ErrResponseTooLarge \<or>
                                errors_is err localcontrol_ErrInvalidResponse
                              then Inl err
                              else Inl (clientIOError tr ''read response'' err)
                          | Inr responseData \<Rightarrow> decodeResponse texts responseData)))))"

subsection \<open>Typed results\<close>

text \<open>\<open>json.Marshal\<close> of a decoded \<open>any\<close>: members in the order of their names, the last of equal names,
  numbers as \<open>float64\<close>.\<close>

fun last_members :: "(string \<times> 'a) list \<Rightarrow> (string \<times> 'a) list" where
  "last_members [] = []"
| "last_members ((k, v) # ms) = (if k \<in> fst ` set ms then last_members ms else (k, v) # last_members ms)"

fun marshal_any :: "(string \<Rightarrow> string) \<Rightarrow> json \<Rightarrow> json" where
  "marshal_any number (JNumber s) = JNumber (number s)"
| "marshal_any number (JArray vs) = JArray (map (marshal_any number) vs)"
| "marshal_any number (JObject ms) =
     JObject (sort_key fst (last_members (map (\<lambda>(k, v). (k, marshal_any number v)) ms)))"
| "marshal_any number j = j"

definition into_slice :: "'r \<Rightarrow> 'r into \<Rightarrow> 'r list into" where
  "into_slice zero into_r xs j =
     (case j of
        JNull \<Rightarrow> ([], False)
      | JArray vs \<Rightarrow> (map (\<lambda>v. fst (into_r zero v)) vs, list_ex (\<lambda>v. snd (into_r zero v)) vs)
      | _ \<Rightarrow> (xs, True))"

definition into_entry :: "EntryResult into" where
  "into_entry = into_struct False
     [field_of ''target'' er_Target er_Target_update into_string,
      field_of ''kind'' er_Kind er_Kind_update into_string,
      field_of ''message'' er_Message er_Message_update into_string,
      field_of ''legacy_source'' er_LegacySource er_LegacySource_update into_string,
      field_of ''size'' er_Size er_Size_update into_int]"

definition zero_entry :: EntryResult where
  "zero_entry = \<lparr>er_Target = [], er_Kind = [], er_Message = [], er_LegacySource = [], er_Size = 0\<rparr>"

definition into_issue :: "IssueResult into" where
  "into_issue = into_struct False
     [field_of ''name'' ir_Name ir_Name_update into_string,
      field_of ''kind'' ir_Kind ir_Kind_update into_string,
      field_of ''message'' ir_Message ir_Message_update into_string]"

definition zero_issue :: IssueResult where
  "zero_issue = \<lparr>ir_Name = [], ir_Kind = [], ir_Message = []\<rparr>"

definition into_list_result :: "ListResult into" where
  "into_list_result = into_struct False
     [field_of ''entries'' lr_Entries lr_Entries_update (into_slice zero_entry into_entry),
      field_of ''issues'' lr_Issues lr_Issues_update (into_slice zero_issue into_issue)]"

definition into_create :: "CreateResult into" where
  "into_create = into_struct False
     [field_of ''target'' cr_Target cr_Target_update into_string,
      field_of ''kind'' cr_Kind cr_Kind_update into_string]"

definition into_write :: "WriteResult into" where
  "into_write = into_struct False
     [field_of ''target'' wr_Target wr_Target_update into_string,
      field_of ''kind'' wr_Kind wr_Kind_update into_string]"

definition into_convert :: "ConvertResult into" where
  "into_convert = into_struct False
     [field_of ''target'' vr_Target vr_Target_update into_string,
      field_of ''kind'' vr_Kind vr_Kind_update into_string,
      field_of ''backup_name'' vr_BackupName vr_BackupName_update into_string]"

definition into_remove :: "RemoveResult into" where
  "into_remove = into_struct False
     [field_of ''target'' dr_Target dr_Target_update into_string,
      field_of ''backup_name'' dr_BackupName dr_BackupName_update into_string]"

definition decodeTypedResult ::
  "json_texts \<Rightarrow> (string \<Rightarrow> string) \<Rightarrow> 'r into \<Rightarrow> 'r \<Rightarrow> Response \<Rightarrow> goerror + 'r"
where
  "decodeTypedResult texts number into_r zero response =
     (if \<not> resp_OK response then
        (case resp_Error response of
           None \<Rightarrow> Inl (invalid_response ''failed response missing error'')
         | Some e \<Rightarrow> Inl (RemoteError (error_Code e) (error_Message e)))
      else case resp_Result response of
        None \<Rightarrow> Inl (invalid_response ''successful response missing result'')
      | Some result \<Rightarrow>
          let j = marshal_any number (result_json result) in
          (case into_r zero j of (r, failed) \<Rightarrow>
           if failed then Inl (invalid_response (''decode result: '' @ jt_first texts (json_print j)))
           else Inr r))"

definition decodeSettingsResult ::
  "json_texts \<Rightarrow> (string \<Rightarrow> string) \<Rightarrow> Response \<Rightarrow> goerror + Config"
where
  "decodeSettingsResult texts number response =
     (if \<not> resp_OK response then decodeTypedResult texts number (into_config False) zero_config response
      else case resp_Result response of
        None \<Rightarrow> Inl (invalid_response ''successful settings response missing result'')
      | Some result \<Rightarrow>
          (case into_config True zero_config (marshal_any number (result_json result)) of (config, failed) \<Rightarrow>
           if failed \<or> config_Validate config \<noteq> None
           then Inl (invalid_response ''invalid application settings result'')
           else Inr config))"

subsection \<open>The operations\<close>

definition lift_result :: "goerror + 'a \<Rightarrow> 'a io" where
  "lift_result r = (case r of Inl err \<Rightarrow> fail_io err | Inr x \<Rightarrow> return_io x)"

definition client_target :: "string \<Rightarrow> target io" where
  "client_target value =
     (case target_Parse value of
        Inl _ \<Rightarrow> fail_io (sentinelf localcontrol_ErrInvalidRequest ''invalid target'')
      | Inr target \<Rightarrow> return_io target)"

definition client_message :: "string \<Rightarrow> message io" where
  "client_message value =
     (case message_Parse value of
        Inl _ \<Rightarrow> fail_io (sentinelf localcontrol_ErrInvalidRequest ''invalid message'')
      | Inr message \<Rightarrow> return_io message)"

definition new_request :: "string \<Rightarrow> Request" where
  "new_request operation = zero_request\<lparr>req_Version := ProtocolVersion, req_Operation := operation\<rparr>"

definition Client_List ::
  "json_texts \<Rightarrow> (string \<Rightarrow> string) \<Rightarrow> transport \<Rightarrow> ListResult io"
where
  "Client_List texts number tr =
     bind_io (lift_result (Client_Call texts tr (new_request OperationList))) (\<lambda>response.
     lift_result (decodeTypedResult texts number into_list_result \<lparr>lr_Entries = [], lr_Issues = []\<rparr> response))"

definition Client_Read ::
  "json_texts \<Rightarrow> (string \<Rightarrow> string) \<Rightarrow> transport \<Rightarrow> string \<Rightarrow> EntryResult io"
where
  "Client_Read texts number tr target =
     bind_io (client_target target) (\<lambda>parsedTarget.
     bind_io (lift_result (Client_Call texts tr
       ((new_request OperationRead)\<lparr>req_Target := target_String parsedTarget\<rparr>))) (\<lambda>response.
     lift_result (decodeTypedResult texts number into_entry zero_entry response)))"

definition Client_Create ::
  "json_texts \<Rightarrow> (string \<Rightarrow> string) \<Rightarrow> Client option \<Rightarrow> call_context option \<Rightarrow> transport \<Rightarrow>
     string \<Rightarrow> string \<Rightarrow> CreateResult io"
where
  "Client_Create texts number client ctx tr target message =
     bind_io (client_target target) (\<lambda>parsedTarget.
     bind_io (client_message message) (\<lambda>parsedMessage.
     bind_io (mutationAuditFromContext client ctx) (\<lambda>audit.
     bind_io (lift_result (Client_Call texts tr
       ((new_request OperationCreate)\<lparr>req_Target := target_String parsedTarget,
          req_Message := message_String parsedMessage, req_Audit := Some audit\<rparr>))) (\<lambda>response.
     lift_result (decodeTypedResult texts number into_create \<lparr>cr_Target = [], cr_Kind = []\<rparr> response)))))"

definition Client_Write ::
  "json_texts \<Rightarrow> (string \<Rightarrow> string) \<Rightarrow> Client option \<Rightarrow> call_context option \<Rightarrow> transport \<Rightarrow>
     string \<Rightarrow> string \<Rightarrow> WriteResult io"
where
  "Client_Write texts number client ctx tr target message =
     bind_io (client_target target) (\<lambda>parsedTarget.
     bind_io (client_message message) (\<lambda>parsedMessage.
     bind_io (mutationAuditFromContext client ctx) (\<lambda>audit.
     bind_io (lift_result (Client_Call texts tr
       ((new_request OperationWrite)\<lparr>req_Target := target_String parsedTarget,
          req_Message := message_String parsedMessage, req_Audit := Some audit\<rparr>))) (\<lambda>response.
     lift_result (decodeTypedResult texts number into_write \<lparr>wr_Target = [], wr_Kind = []\<rparr> response)))))"

definition Client_Convert ::
  "json_texts \<Rightarrow> (string \<Rightarrow> string) \<Rightarrow> Client option \<Rightarrow> call_context option \<Rightarrow> transport \<Rightarrow>
     string \<Rightarrow> string \<Rightarrow> ConvertResult io"
where
  "Client_Convert texts number client ctx tr target message =
     bind_io (client_target target) (\<lambda>parsedTarget.
     bind_io (client_message message) (\<lambda>parsedMessage.
     bind_io (mutationAuditFromContext client ctx) (\<lambda>audit.
     bind_io (lift_result (Client_Call texts tr
       ((new_request OperationConvert)\<lparr>req_Target := target_String parsedTarget,
          req_Message := message_String parsedMessage, req_Audit := Some audit\<rparr>))) (\<lambda>response.
     lift_result (decodeTypedResult texts number into_convert
       \<lparr>vr_Target = [], vr_Kind = [], vr_BackupName = []\<rparr> response)))))"

definition Client_Delete ::
  "json_texts \<Rightarrow> (string \<Rightarrow> string) \<Rightarrow> Client option \<Rightarrow> call_context option \<Rightarrow> transport \<Rightarrow>
     string \<Rightarrow> RemoveResult io"
where
  "Client_Delete texts number client ctx tr target =
     bind_io (client_target target) (\<lambda>parsedTarget.
     bind_io (mutationAuditFromContext client ctx) (\<lambda>audit.
     bind_io (lift_result (Client_Call texts tr
       ((new_request OperationDelete)\<lparr>req_Target := target_String parsedTarget,
          req_Audit := Some audit\<rparr>))) (\<lambda>response.
     lift_result (decodeTypedResult texts number into_remove \<lparr>dr_Target = [], dr_BackupName = []\<rparr> response))))"

definition SettingsRead :: "json_texts \<Rightarrow> (string \<Rightarrow> string) \<Rightarrow> transport \<Rightarrow> Config io" where
  "SettingsRead texts number tr =
     bind_io (lift_result (Client_Call texts tr (new_request OperationSettingsRead))) (\<lambda>response.
     lift_result (decodeSettingsResult texts number response))"

definition SettingsReplace ::
  "json_texts \<Rightarrow> (string \<Rightarrow> string) \<Rightarrow> Client option \<Rightarrow> call_context option \<Rightarrow> transport \<Rightarrow> Config \<Rightarrow> Config io"
where
  "SettingsReplace texts number client ctx tr config =
     (case config_Validate config of
        Some err \<Rightarrow> fail_io err
      | None \<Rightarrow>
          bind_io (mutationAuditFromContext client ctx) (\<lambda>audit.
          bind_io (lift_result (Client_Call texts tr
            ((new_request OperationSettingsReplace)\<lparr>req_Settings := Some config, req_Audit := Some audit\<rparr>)))
            (\<lambda>response.
          lift_result (decodeSettingsResult texts number response))))"

end
