(* ===== verification/Http_Text.thy ===== *)
theory Http_Text
  imports Json "HOL-Library.AList"
begin

text \<open>
  The file \<open>minihttp.go\<close> of the package \<open>internal/minihttp\<close>: status codes, header fields and the
  characters that may stand in a token, a field value and a host.  A \<open>Header\<close> is an association list
  with one entry per canonical name; its order is never visible, because fields are written in the
  order of their names.
\<close>

subsection \<open>Methods and status codes\<close>

abbreviation MethodGet :: string where "MethodGet \<equiv> ''GET''"
abbreviation MethodHead :: string where "MethodHead \<equiv> ''HEAD''"
abbreviation MethodPost :: string where "MethodPost \<equiv> ''POST''"
abbreviation MethodPut :: string where "MethodPut \<equiv> ''PUT''"

definition statusText :: "(nat \<times> string) list" where
  "statusText =
    [(100, ''Continue''), (101, ''Switching Protocols''), (200, ''OK''), (201, ''Created''),
     (202, ''Accepted''), (204, ''No Content''), (206, ''Partial Content''),
     (301, ''Moved Permanently''), (302, ''Found''), (303, ''See Other''), (304, ''Not Modified''),
     (307, ''Temporary Redirect''), (308, ''Permanent Redirect''), (400, ''Bad Request''),
     (401, ''Unauthorized''), (403, ''Forbidden''), (404, ''Not Found''), (405, ''Method Not Allowed''),
     (408, ''Request Timeout''), (409, ''Conflict''), (411, ''Length Required''),
     (413, ''Request Entity Too Large''), (414, ''Request URI Too Long''),
     (415, ''Unsupported Media Type''), (422, ''Unprocessable Entity''), (429, ''Too Many Requests''),
     (431, ''Request Header Fields Too Large''), (500, ''Internal Server Error''),
     (501, ''Not Implemented''), (502, ''Bad Gateway''), (503, ''Service Unavailable''),
     (504, ''Gateway Timeout''), (505, ''HTTP Version Not Supported'')]"

definition StatusText :: "nat \<Rightarrow> string" where
  "StatusText code = (case map_of statusText code of None \<Rightarrow> [] | Some text \<Rightarrow> text)"

subsection \<open>Characters\<close>

definition is_alphanumeric :: "char \<Rightarrow> bool" where
  "is_alphanumeric c \<longleftrightarrow> is_digit c \<or> is_lower c \<or> is_upper c"

definition isTokenByte :: "char \<Rightarrow> bool" where
  "isTokenByte c \<longleftrightarrow> is_alphanumeric c \<or> c \<in> set (''!#$%&'' @ SQUOTE # ''*+-.^_`|~'')"

definition isToken :: "string \<Rightarrow> bool" where
  "isToken s \<longleftrightarrow> s \<noteq> [] \<and> list_all isTokenByte s"

definition is_control :: "char \<Rightarrow> bool" where
  "is_control c \<longleftrightarrow> (byte c < 32 \<and> c \<noteq> TAB) \<or> byte c = 127"

definition validFieldValue :: "string \<Rightarrow> bool" where
  "validFieldValue s \<longleftrightarrow> list_all (\<lambda>c. \<not> is_control c) s"

definition validHost :: "string \<Rightarrow> bool" where
  "validHost s \<longleftrightarrow> s \<noteq> [] \<and> list_all (\<lambda>c. is_alphanumeric c \<or> c \<in> set ''-._~%:[]'') s"

subsection \<open>Header fields\<close>

type_synonym header = "(string \<times> string list) list"

text \<open>\<open>textproto.CanonicalMIMEHeaderKey\<close>: a token gets an upper-case letter at its start and after
  every hyphen and lower-case letters elsewhere; any other string is left alone.\<close>

fun canonical_key :: "bool \<Rightarrow> string \<Rightarrow> string" where
  "canonical_key upper [] = []"
| "canonical_key upper (c # cs) =
     (if upper \<and> is_lower c then char_of (byte c - 32)
      else if \<not> upper \<and> is_upper c then char_of (byte c + 32)
      else c) # canonical_key (c = CHR ''-'') cs"

definition CanonicalHeaderKey :: "string \<Rightarrow> string" where
  "CanonicalHeaderKey s = (if list_all isTokenByte s then canonical_key True s else s)"

definition header_Values :: "header \<Rightarrow> string \<Rightarrow> string list" where
  "header_Values h key = (case map_of h (CanonicalHeaderKey key) of None \<Rightarrow> [] | Some vs \<Rightarrow> vs)"

definition header_Get :: "header \<Rightarrow> string \<Rightarrow> string" where
  "header_Get h key = (case header_Values h key of [] \<Rightarrow> [] | v # vs \<Rightarrow> v)"

definition header_Set :: "header \<Rightarrow> string \<Rightarrow> string \<Rightarrow> header" where
  "header_Set h key v = AList.update (CanonicalHeaderKey key) [v] h"

definition header_Add :: "header \<Rightarrow> string \<Rightarrow> string \<Rightarrow> header" where
  "header_Add h key v = AList.update (CanonicalHeaderKey key) (header_Values h key @ [v]) h"

definition header_Del :: "header \<Rightarrow> string \<Rightarrow> header" where
  "header_Del h key = AList.delete (CanonicalHeaderKey key) h"

text \<open>A header is a value, so the deep copy has the same fields.\<close>

definition header_Clone :: "header \<Rightarrow> header" where
  "header_Clone h = map (\<lambda>(key, vs). (key, [] @ vs)) h"

subsection \<open>Lemmas\<close>

lemma isTokenByte_not [simp]:
  "\<not> isTokenByte CR" "\<not> isTokenByte LF" "\<not> isTokenByte CHR '' ''" "\<not> isTokenByte TAB" "\<not> isTokenByte CHR '':''"
  by (simp_all add: isTokenByte_def is_alphanumeric_def is_digit_def is_lower_def is_upper_def)

lemma is_alphanumeric_bounds: "is_alphanumeric c \<Longrightarrow> 48 \<le> byte c \<and> byte c \<le> 122"
  by (auto simp: is_alphanumeric_def is_digit_def is_lower_def is_upper_def)

lemma isTokenByte_visible: "isTokenByte c \<Longrightarrow> 32 < byte c \<and> byte c < 127"
  by (auto simp: isTokenByte_def dest: is_alphanumeric_bounds)

lemma validFieldValue_not:
  "validFieldValue s \<Longrightarrow> CR \<notin> set s \<and> LF \<notin> set s \<and> CHR 0x00 \<notin> set s"
  by (auto simp: validFieldValue_def list_all_iff is_control_def)

lemma validHost_visible: "validHost s \<Longrightarrow> c \<in> set s \<Longrightarrow> 32 < byte c \<and> byte c < 127"
  by (auto simp: validHost_def list_all_iff dest!: bspec is_alphanumeric_bounds)

lemma header_Set_same [simp]: "header_Values (header_Set h key v) key = [v]"
  by (simp add: header_Values_def header_Set_def update_conv')

lemma header_Get_Set_same [simp]: "header_Get (header_Set h key v) key = v"
  by (simp add: header_Get_def)

lemma header_Values_Set_other:
  "CanonicalHeaderKey key' \<noteq> CanonicalHeaderKey key \<Longrightarrow>
     header_Values (header_Set h key v) key' = header_Values h key'"
  by (simp add: header_Values_def header_Set_def update_conv')

lemma header_Get_Set_other:
  "CanonicalHeaderKey key' \<noteq> CanonicalHeaderKey key \<Longrightarrow> header_Get (header_Set h key v) key' = header_Get h key'"
  by (simp add: header_Get_def header_Values_Set_other)

lemma header_Values_Del_same [simp]: "header_Values (header_Del h key) key = []"
  by (simp add: header_Values_def header_Del_def delete_conv')

lemma header_Values_Del_other:
  "CanonicalHeaderKey key' \<noteq> CanonicalHeaderKey key \<Longrightarrow> header_Values (header_Del h key) key' = header_Values h key'"
  by (simp add: header_Values_def header_Del_def delete_conv')

lemma header_Get_Del_same [simp]: "header_Get (header_Del h key) key = []"
  by (simp add: header_Get_def)

lemma header_Get_Del_other:
  "CanonicalHeaderKey key' \<noteq> CanonicalHeaderKey key \<Longrightarrow> header_Get (header_Del h key) key' = header_Get h key'"
  by (simp add: header_Get_def header_Values_Del_other)

lemma header_Values_Add:
  "header_Values (header_Add h key v) key' =
     (if CanonicalHeaderKey key' = CanonicalHeaderKey key then header_Values h key @ [v] else header_Values h key')"
  by (simp add: header_Values_def header_Add_def update_conv')

lemma header_Clone_same [simp]: "header_Clone h = h"
  by (simp add: header_Clone_def)

end
