(* ===== verification/Http_Url.thy ===== *)
theory Http_Url
  imports Http_Text
begin

text \<open>
  What the program uses of Go's packages \<open>net/url\<close> and \<open>path\<close>: percent-encoding, parsing of request
  targets and query strings, and \<open>path.Clean\<close>.  The host part of an absolute URL is split off but
  not decoded: which hosts are well formed is a parameter of the parser.
\<close>

subsection \<open>Percent-encoding\<close>

definition from_hex :: "char \<Rightarrow> nat option" where
  "from_hex c =
     (if is_digit c then Some (byte c - 48)
      else if 97 \<le> byte c \<and> byte c \<le> 102 then Some (byte c - 87)
      else if 65 \<le> byte c \<and> byte c \<le> 70 then Some (byte c - 55)
      else None)"

definition hex_char :: "nat \<Rightarrow> char" where
  "hex_char n = char_of (if n < 10 then 48 + n else 55 + n)"

definition escape_byte :: "char \<Rightarrow> string" where
  "escape_byte c = [CHR ''%'', hex_char (byte c div 16), hex_char (byte c mod 16)]"

text \<open>\<open>unescape\<close>; \<open>form\<close> is the mode of a query component.\<close>

fun unescape :: "bool \<Rightarrow> string \<Rightarrow> string option" where
  "unescape form [] = Some []"
| "unescape form (c # cs) =
     (if c = CHR ''%'' then
        (case cs of
           a # b # rest \<Rightarrow>
             (case (from_hex a, from_hex b) of
                (Some x, Some y) \<Rightarrow>
                  (case unescape form rest of None \<Rightarrow> None | Some s \<Rightarrow> Some (char_of (16 * x + y) # s))
              | _ \<Rightarrow> None)
         | _ \<Rightarrow> None)
      else
        (case unescape form cs of
           None \<Rightarrow> None
         | Some s \<Rightarrow> Some ((if form \<and> c = CHR ''+'' then CHR '' '' else c) # s)))"

definition PathUnescape :: "string \<Rightarrow> string option" where
  "PathUnescape s = unescape False s"

definition QueryUnescape :: "string \<Rightarrow> string option" where
  "QueryUnescape s = unescape True s"

text \<open>\<open>shouldEscape\<close> and \<open>validEncoded\<close> in the mode of a path.\<close>

definition path_plain :: "char \<Rightarrow> bool" where
  "path_plain c \<longleftrightarrow> is_alphanumeric c \<or> c \<in> set ''-_.~$&+,/:;=@''"

definition escape_path :: "string \<Rightarrow> string" where
  "escape_path s = concat (map (\<lambda>c. if path_plain c then [c] else escape_byte c) s)"

definition valid_encoded :: "string \<Rightarrow> bool" where
  "valid_encoded s \<longleftrightarrow> list_all (\<lambda>c. path_plain c \<or> c \<in> set (''!()*[]%'' @ [SQUOTE])) s"

subsection \<open>URLs\<close>

record URL =
  url_Scheme :: string
  url_Opaque :: string
  url_Host :: string
  url_Path :: string
  url_RawPath :: string
  url_ForceQuery :: bool
  url_RawQuery :: string

definition empty_URL :: URL where
  "empty_URL = \<lparr>url_Scheme = [], url_Opaque = [], url_Host = [], url_Path = [], url_RawPath = [],
     url_ForceQuery = False, url_RawQuery = []\<rparr>"

definition set_path :: "URL \<Rightarrow> string \<Rightarrow> URL option" where
  "set_path u p =
     (case unescape False p of
        None \<Rightarrow> None
      | Some path \<Rightarrow>
          Some (u\<lparr>url_Path := path, url_RawPath := (if escape_path path = p then [] else p)\<rparr>))"

text \<open>\<open>getScheme\<close>: \<open>None\<close> is an error, else the scheme and the rest.\<close>

fun scheme_end :: "nat \<Rightarrow> string \<Rightarrow> nat option" where
  "scheme_end i [] = None"
| "scheme_end i (c # cs) =
     (if is_lower c \<or> is_upper c then scheme_end (Suc i) cs
      else if is_digit c \<or> c \<in> set ''+-.'' then if i = 0 then None else scheme_end (Suc i) cs
      else if c = CHR '':'' then Some i
      else None)"

definition getScheme :: "string \<Rightarrow> (string \<times> string) option" where
  "getScheme s =
     (case scheme_end 0 s of
        None \<Rightarrow> Some ([], s)
      | Some i \<Rightarrow> if i = 0 then None else Some (take i s, drop (Suc i) s))"

text \<open>\<open>parse\<close> with its flag \<open>viaRequest\<close>; \<open>parse_host authority\<close> is the host of a well-formed authority.\<close>

definition url_parse :: "(string \<Rightarrow> string option) \<Rightarrow> bool \<Rightarrow> string \<Rightarrow> URL option" where
  "url_parse parse_host viaRequest raw =
     (if list_ex (\<lambda>c. byte c < 32 \<or> byte c = 127) raw then None
      else if raw = [] \<and> viaRequest then None
      else if raw = ''*'' then Some (empty_URL\<lparr>url_Path := ''*''\<rparr>)
      else case getScheme raw of
        None \<Rightarrow> None
      | Some (scheme, rest) \<Rightarrow>
          let u = empty_URL\<lparr>url_Scheme := ToLower scheme\<rparr>;
              force = HasSuffix rest ''?'' \<and> length (filter (\<lambda>c. c = CHR ''?'') rest) = 1;
              (rest, query) = (if force then (butlast rest, []) else
                case Cut rest CHR ''?'' of (r, q, _) \<Rightarrow> (r, q));
              u = u\<lparr>url_ForceQuery := force, url_RawQuery := query\<rparr>
          in
            if \<not> HasPrefix rest ''/'' \<and> scheme \<noteq> [] then Some (u\<lparr>url_Opaque := rest\<rparr>)
            else if \<not> HasPrefix rest ''/'' \<and> viaRequest then None
            else if \<not> HasPrefix rest ''/'' \<and> CHR '':'' \<in> set (fst (Cut rest CHR ''/'')) then None
            else if (scheme \<noteq> [] \<or> \<not> viaRequest \<and> \<not> HasPrefix rest ''///'') \<and> HasPrefix rest ''//'' then
              let authority = takeWhile (\<lambda>c. c \<noteq> CHR ''/'') (drop 2 rest);
                  rest = drop (length authority) (drop 2 rest)
              in (case parse_host authority of
                   None \<Rightarrow> None
                 | Some host \<Rightarrow> set_path (u\<lparr>url_Host := host\<rparr>) rest)
            else set_path u rest)"

definition ParseRequestURI :: "(string \<Rightarrow> string option) \<Rightarrow> string \<Rightarrow> URL option" where
  "ParseRequestURI parse_host raw = url_parse parse_host True raw"

text \<open>\<open>Parse\<close> cuts off the fragment, which must decode.\<close>

definition url_Parse :: "(string \<Rightarrow> string option) \<Rightarrow> string \<Rightarrow> URL option" where
  "url_Parse parse_host raw =
     (case Cut raw CHR ''#'' of (u, fragment, _) \<Rightarrow>
      case url_parse parse_host False u of
        None \<Rightarrow> None
      | Some parsed \<Rightarrow> if unescape False fragment = None then None else Some parsed)"

definition EscapedPath :: "URL \<Rightarrow> string" where
  "EscapedPath u =
     (if url_RawPath u \<noteq> [] \<and> valid_encoded (url_RawPath u) \<and>
         unescape False (url_RawPath u) = Some (url_Path u) then url_RawPath u
      else if url_Path u = ''*'' then ''*''
      else escape_path (url_Path u))"

definition url_query_suffix :: "URL \<Rightarrow> string" where
  "url_query_suffix u = (if url_ForceQuery u \<or> url_RawQuery u \<noteq> [] then ''?'' @ url_RawQuery u else [])"

text \<open>\<open>RequestURI\<close> of a URL that is not opaque.\<close>

definition RequestURI :: "URL \<Rightarrow> string" where
  "RequestURI u = (if EscapedPath u = [] then ''/'' else EscapedPath u) @ url_query_suffix u"

text \<open>\<open>String\<close> of a URL with a scheme, a host that needs no escaping and a path.\<close>

definition url_String :: "URL \<Rightarrow> string" where
  "url_String u =
     url_Scheme u @ ''://'' @ url_Host u @
     (if EscapedPath u \<noteq> [] \<and> \<not> HasPrefix (EscapedPath u) ''/'' then ''/'' else []) @
     EscapedPath u @ url_query_suffix u"

subsection \<open>Query strings\<close>

type_synonym "values" = "(string \<times> string list) list"

definition maxQueryParams :: nat where
  "maxQueryParams = 10000"

definition values_add :: "values \<Rightarrow> string \<Rightarrow> string \<Rightarrow> values" where
  "values_add m key v = AList.update key ((case map_of m key of None \<Rightarrow> [] | Some vs \<Rightarrow> vs) @ [v]) m"

text \<open>The loop of \<open>parseQuery\<close>; the flag says that some pair was malformed.\<close>

fun parse_pairs :: "string list \<Rightarrow> values \<Rightarrow> values \<times> bool" where
  "parse_pairs [] m = (m, False)"
| "parse_pairs (pair # pairs) m =
     (if CHR '';'' \<in> set pair then (fst (parse_pairs pairs m), True)
      else if pair = [] then parse_pairs pairs m
      else case Cut pair CHR ''='' of (key, v, _) \<Rightarrow>
        (case (QueryUnescape key, QueryUnescape v) of
           (Some key, Some v) \<Rightarrow> parse_pairs pairs (values_add m key v)
         | _ \<Rightarrow> (fst (parse_pairs pairs m), True)))"

definition ParseQuery :: "string \<Rightarrow> values \<times> bool" where
  "ParseQuery query =
     (if length (filter (\<lambda>c. c = CHR ''&'') query) + 1 > maxQueryParams then ([], True)
      else parse_pairs (Split query CHR ''&'') [])"

subsection \<open>Paths\<close>

text \<open>The elements of a cleaned path, last first.\<close>

fun clean_elements :: "bool \<Rightarrow> string list \<Rightarrow> string list \<Rightarrow> string list" where
  "clean_elements rooted stack [] = stack"
| "clean_elements rooted stack (e # es) =
     (if e = [] \<or> e = ''.'' then clean_elements rooted stack es
      else if e = ''..'' then
        (if stack \<noteq> [] \<and> hd stack \<noteq> ''..'' then clean_elements rooted (tl stack) es
         else if rooted then clean_elements rooted stack es
         else clean_elements rooted (e # stack) es)
      else clean_elements rooted (e # stack) es)"

fun join_path :: "string list \<Rightarrow> string" where
  "join_path [] = []"
| "join_path [e] = e"
| "join_path (e # f # es) = e @ ''/'' @ join_path (f # es)"

definition path_Clean :: "string \<Rightarrow> string" where
  "path_Clean p =
     (let rooted = HasPrefix p ''/'';
          body = join_path (rev (clean_elements rooted [] (Split p CHR ''/'')))
      in if rooted then ''/'' @ body else if body = [] then ''.'' else body)"

definition path_Dir_of_Split :: "string \<Rightarrow> string" where
  "path_Dir_of_Split p = rev (dropWhile (\<lambda>c. c \<noteq> CHR ''/'') (rev p))"

end
