(* ===== verification/Web_Pages.thy ===== *)
theory Web_Pages
  imports Control_Client Http_Url
begin

text \<open>
  The pages of \<open>webadmin/handler.go\<close>: the two templates and what \<open>html/template\<close> makes of them.  A
  page is the list of the pieces that the template writes, in turn: its own texts, named by the line
  of \<open>handler.go\<close> they start on, and the values of its actions, each behind the escapers that
  \<open>html/template\<close> inserts for the place it stands in: \<open>htmlescaper\<close> in text and plain attributes
  (\<open>rcdataescaper\<close> and \<open>attrescaper\<close> use the same table), \<open>urlfilter\<close> and \<open>urlnormalizer\<close> before
  \<open>attrescaper\<close> at the start of a URL, \<open>urlnormalizer\<close> and \<open>attrescaper\<close> further on in its path.
\<close>

subsection \<open>Escapers\<close>

definition html_escape_char :: "char \<Rightarrow> string" where
  "html_escape_char c =
     (if c = CHR 0x00 then EncodeRune 0xFFFD
      else if c = DQUOTE then ''&#34;''
      else if c = CHR ''&'' then ''&amp;''
      else if c = SQUOTE then ''&#39;''
      else if c = CHR ''+'' then ''&#43;''
      else if c = CHR ''<'' then ''&lt;''
      else if c = CHR ''>'' then ''&gt;''
      else [c])"

definition html_escape :: "string \<Rightarrow> string" where
  "html_escape s = concat (map html_escape_char s)"

definition hex_lower :: "nat \<Rightarrow> char" where
  "hex_lower n = char_of (if n < 10 then 48 + n else 87 + n)"

definition url_plain :: "char \<Rightarrow> bool" where
  "url_plain c \<longleftrightarrow> is_alphanumeric c \<or> c \<in> set ''!#$&*+,/:;=?@[]-._~''"

text \<open>\<open>processURLOnto\<close> in its normalizing mode: valid percent escapes stay.\<close>

fun url_normalize :: "string \<Rightarrow> string" where
  "url_normalize [] = []"
| "url_normalize (c # cs) =
     (if url_plain c \<or>
         (c = CHR ''%'' \<and> (case cs of a # b # _ \<Rightarrow> from_hex a \<noteq> None \<and> from_hex b \<noteq> None | _ \<Rightarrow> False))
      then [c]
      else [CHR ''%'', hex_lower (byte c div 16), hex_lower (byte c mod 16)]) @ url_normalize cs"

definition isSafeURL :: "string \<Rightarrow> bool" where
  "isSafeURL s \<longleftrightarrow>
     (case Cut s CHR '':'' of (protocol, _, found) \<Rightarrow>
        \<not> found \<or> CHR ''/'' \<in> set protocol \<or>
        list_ex (EqualFold protocol) [''http'', ''https'', ''mailto''])"

definition url_part :: "string \<Rightarrow> string" where
  "url_part s = html_escape (url_normalize s)"

definition url_first :: "string \<Rightarrow> string" where
  "url_first s = url_part (if isSafeURL s then s else ''#ZgotmplZ'')"

text \<open>Lines of a template, each with the number of tabs it starts with.\<close>

definition page_text :: "(nat \<times> string) list \<Rightarrow> string" where
  "page_text ls = join_lines (map (\<lambda>(n, s). replicate n TAB @ s) ls)"

subsection \<open>The texts of the templates\<close>

definition markup_464 :: string where
  "markup_464 = page_text
    [(0, ''<!doctype html>''), (0, ''<html lang=\"en\">''), (0, ''<head>''),
      (0, ''<meta charset=\"utf-8\">''),
      (0, ''<meta name=\"viewport\" content=\"width=device-width, initial-scale=1\">''),
      (0, ''<title>AAMM-NG '' @ EncodeRune 0x2014 @ '' Alert Message Manager</title>''), (0, ''''),
      (0, ''<link rel=\"stylesheet\" href=\"/a/css/theme.css\">''),
      (0, ''<link rel=\"stylesheet\" href=\"/a/css/user.css\">''),
      (0, ''<link rel=\"stylesheet\" href=\"/a/css/admin.css\">''),
      (0, ''<link rel=\"stylesheet\" href=\"/apps/AAMM-NG/aamm-ng.css\">''),
      (0, ''<script src=\"/apps/AAMM-NG/aamm-ng.js\" defer></script>''), (0, ''''),
      (0, ''<link rel=\"icon\" type=\"image/svg+xml\" href=\"/apps/AAMM-NG/icon.svg\">''),
      (0, ''</head>''), (0, ''''), (0, ''<body class=\"authenticated\">''), (0, ''''), (0, '''')]"

definition markup_482 :: string where
  "markup_482 = page_text
    [(0, ''''), (0, ''<dialog''), (1, ''id=\"ctrl-modal\"''), (1, ''data-return-url=\"'')]"

definition markup_485 :: string where
  "markup_485 = page_text
    [(0, ''/\"''), (0, ''>''), (1, ''<div class=\"dialog\">''), (0, ''''), (2, ''<div>''),
      (3, ''<div class=\"t\">Create AAMM-NG Alert</div>''),
      (3, ''<div class=\"s\">New alert message</div>''), (3, ''<hr>''), (2, ''</div>''), (0, ''''),
      (2, ''<div>''), (3, ''<form''), (4, ''id=\"aamm-create-form\"''), (4, ''method=\"post\"''),
      (4, ''action=\"'')]"

definition markup_499 :: string where
  "markup_499 = page_text
    [(0, ''/alerts/new\"''), (3, ''>''), (4, ''<div class=\"o\">Target</div>''), (0, ''''), (4, ''<div''),
      (5, ''class=\"aamm-target-picker\"''), (5, ''data-aamm-node-endpoint=\"'')]"

definition markup_505 :: string where
  "markup_505 = page_text
    [(0, ''/api/local-nodes\"''), (4, ''>''), (5, ''<input''), (6, ''class=\"aamm-create-target\"''),
      (6, ''id=\"target\"''), (6, ''name=\"target\"''), (6, ''type=\"text\"''),
      (6, ''autocomplete=\"off\"''), (6, ''autofocus''), (6, ''maxlength=\"63\"''),
      (6, ''pattern=\"[A-Za-z0-9][A-Za-z0-9_-]{0,62}\"''), (6, ''placeholder=\"all or node-name\"''),
      (6, ''required''), (5, ''>''), (0, ''''), (5, ''<button''), (6, ''type=\"button\"''),
      (6, ''data-aamm-find-node''), (6, ''aria-controls=\"aamm-node-results\"''),
      (6, ''aria-expanded=\"false\"''), (5, ''>''), (6, ''Find node''), (5, ''</button>''), (0, ''''),
      (5, ''<div''), (6, ''id=\"aamm-node-results\"''), (6, ''class=\"aamm-node-results\"''),
      (6, ''data-aamm-node-results''), (6, ''role=\"group\"''), (6, ''aria-label=\"Local AREDN nodes\"''),
      (6, ''hidden''), (5, ''></div>''), (4, ''</div>''), (0, ''''), (4, ''<div class=\"m\">''),
      (5, ''Use <strong>all</strong> for all nodes, enter a node target,''),
      (5, ''or use <strong>Find node</strong> to search the local AREDN mesh.''),
      (5, ''Letters, numbers, hyphen, and underscore are supported.''), (4, ''</div>''), (0, ''''),
      (4, ''<div''), (5, ''class=\"m aamm-node-status\"''), (5, ''data-aamm-node-status''),
      (5, ''aria-live=\"polite\"''), (4, ''></div>''), (0, ''''), (4, ''<div class=\"o\">Message</div>''),
      (0, ''''), (4, ''<textarea''), (5, ''class=\"aamm-message-editor\"''), (5, ''id=\"message\"''),
      (5, ''name=\"message\"''), (5, ''required''), (4, ''></textarea>''), (0, ''''),
      (4, ''<div class=\"m\">''), (5, ''Maximum 4096 bytes.''),
      (5, ''AAMM-NG will not overwrite an existing alert.''), (4, ''</div>''), (3, ''</form>''),
      (2, ''</div>''), (0, ''''), (2, ''<div class=\"ctrl-modal-footer\">''), (3, ''<hr>''), (0, ''''),
      (3, ''<div class=\"aamm-modal-actions\">''), (4, ''<button type=\"button\" data-aamm-close>''),
      (5, ''Cancel''), (4, ''</button>''), (0, ''''), (4, ''<button''), (5, ''id=\"dialog-done\"''),
      (5, ''type=\"submit\"''), (5, ''form=\"aamm-create-form\"''), (4, ''>''), (5, ''Create''),
      (4, ''</button>''), (3, ''</div>''), (2, ''</div>''), (0, ''''), (1, ''</div>''), (0, ''</dialog>''),
      (0, '''')]"

definition markup_587 :: string where
  "markup_587 = page_text
    [(0, ''''), (0, ''''), (0, '''')]"

definition markup_589 :: string where
  "markup_589 = page_text
    [(0, ''''), (0, ''<dialog''), (1, ''id=\"ctrl-modal\"''), (1, ''data-return-url=\"'')]"

definition markup_592 :: string where
  "markup_592 = page_text
    [(0, ''/\"''), (0, ''>''), (1, ''<div class=\"dialog\">''), (0, ''''), (2, ''<div>''),
      (3, ''<div class=\"t\">Edit AAMM-NG Alert</div>''), (3, ''<div class=\"s\">'')]"

definition markup_598 :: string where
  "markup_598 = page_text
    [(0, ''</div>''), (3, ''<hr>''), (2, ''</div>''), (0, ''''), (2, ''<div>''),
      (3, ''<div class=\"aamm-modal-meta\">''), (4, ''<div>''), (5, ''<div class=\"s\">Target</div>''),
      (5, ''<div class=\"t aamm-modal-target\">'')]"

definition markup_606 :: string where
  "markup_606 = page_text
    [(0, ''</div>''), (4, ''</div>''), (0, ''''), (4, ''<div>''), (5, ''<div class=\"s\">Status</div>''),
      (5, ''<div>''), (6, '''')]"

definition markup_612 :: string where
  "markup_612 = page_text
    [(0, ''''), (6, ''<span class=\"aamm-kind aamm-managed\">Managed</span>''), (6, '''')]"

definition markup_614 :: string where
  "markup_614 = page_text
    [(0, ''''), (6, ''<span class=\"aamm-kind aamm-existing\">Existing</span>''), (6, '''')]"

definition markup_616 :: string where
  "markup_616 = page_text
    [(0, ''''), (6, ''<span class=\"aamm-kind aamm-oversized\">Review</span>''), (6, '''')]"

definition markup_618 :: string where
  "markup_618 = page_text
    [(0, ''''), (5, ''</div>''), (4, ''</div>''), (0, ''''), (4, ''<div>''),
      (5, ''<div class=\"s\">Size</div>''), (5, ''<div>'')]"

definition markup_624 :: string where
  "markup_624 = page_text
    [(0, '' bytes</div>''), (4, ''</div>''), (3, ''</div>''), (0, ''''), (3, ''<hr>''), (0, ''''),
      (3, '''')]"

definition markup_630 :: string where
  "markup_630 = page_text
    [(0, ''''), (3, ''<form''), (4, ''id=\"aamm-alert-form\"''), (4, ''method=\"post\"''),
      (4, ''action=\"'')]"

definition markup_634 :: string where
  "markup_634 = page_text
    [(0, ''/alerts/'')]"

definition markup_634b :: string where
  "markup_634b = page_text
    [(0, ''\"''), (3, ''>''), (4, ''<div class=\"o\">Message</div>''), (4, ''<textarea''),
      (5, ''class=\"aamm-message-editor\"''), (5, ''id=\"message\"''), (5, ''name=\"message\"''),
      (5, ''required''), (4, ''>'')]"

definition markup_642 :: string where
  "markup_642 = page_text
    [(0, ''</textarea>''), (4, ''<div class=\"m\">''), (5, ''Maximum 4096 bytes.''), (4, ''</div>''),
      (3, ''</form>''), (0, ''''), (3, '''')]"

definition markup_648 :: string where
  "markup_648 = page_text
    [(0, ''''), (3, ''<div class=\"o\">Existing alert</div>''), (3, ''<div class=\"m\">''),
      (4, ''This alert was not created by AAMM-NG.''), (4, ''Convert it before editing.''),
      (3, ''</div>''), (0, ''''), (3, ''<div class=\"o\">Original content</div>''),
      (3, ''<pre class=\"aamm-source-preview\">'')]"

definition markup_656 :: string where
  "markup_656 = page_text
    [(0, ''</pre>''), (0, ''''), (3, ''<form''), (4, ''id=\"aamm-alert-form\"''), (4, ''method=\"post\"''),
      (4, ''action=\"'')]"

definition markup_661 :: string where
  "markup_661 = page_text
    [(0, ''/alerts/'')]"

definition markup_661b :: string where
  "markup_661b = page_text
    [(0, ''/convert\"''), (3, ''>''), (4, ''<div class=\"o\">Replacement message</div>''),
      (4, ''<textarea''), (5, ''class=\"aamm-message-editor\"''), (5, ''id=\"message\"''),
      (5, ''name=\"message\"''), (5, ''required''), (4, ''></textarea>''), (4, ''<div class=\"m\">''),
      (5, ''AAMM-NG will back up the existing alert before conversion.''), (4, ''</div>''),
      (3, ''</form>''), (0, ''''), (3, '''')]"

definition markup_675 :: string where
  "markup_675 = page_text
    [(0, ''''), (3, ''<div class=\"o\">Manual review required</div>''), (3, ''<div class=\"m\">''),
      (4, ''This alert is larger than AAMM-NG can safely edit.''), (3, ''</div>''), (3, '''')]"

definition markup_680 :: string where
  "markup_680 = page_text
    [(0, ''''), (2, ''</div>''), (0, ''''), (2, ''<div class=\"ctrl-modal-footer\">''), (3, ''<hr>''),
      (0, ''''), (3, ''<div class=\"aamm-modal-actions\">''), (4, '''')]"

definition markup_687 :: string where
  "markup_687 = page_text
    [(0, ''''), (4, ''<a''), (5, ''class=\"aamm-delete-link\"''), (5, ''href=\"'')]"

definition markup_690 :: string where
  "markup_690 = page_text
    [(0, ''/alerts/'')]"

definition markup_690b :: string where
  "markup_690b = page_text
    [(0, ''/delete\"''), (4, ''>''), (5, ''Delete alert''), (4, ''</a>''), (4, '''')]"

definition markup_694 :: string where
  "markup_694 = page_text
    [(0, ''''), (0, ''''), (4, ''<button type=\"button\" data-aamm-close>''), (5, ''Cancel''),
      (4, ''</button>''), (0, ''''), (4, '''')]"

definition markup_700 :: string where
  "markup_700 = page_text
    [(0, ''''), (4, ''<button''), (5, ''id=\"dialog-done\"''), (5, ''type=\"submit\"''),
      (5, ''form=\"aamm-alert-form\"''), (4, ''>''), (5, '''')]"

definition markup_706 :: string where
  "markup_706 = page_text
    [(0, ''Save'')]"

definition markup_706b :: string where
  "markup_706b = page_text
    [(0, ''Convert'')]"

definition markup_706c :: string where
  "markup_706c = page_text
    [(0, ''''), (4, ''</button>''), (4, '''')]"

definition markup_708 :: string where
  "markup_708 = page_text
    [(0, ''''), (3, ''</div>''), (2, ''</div>''), (0, ''''), (1, ''</div>''), (0, ''</dialog>''),
      (0, '''')]"

definition markup_714 :: string where
  "markup_714 = page_text
    [(0, ''''), (0, ''''), (0, '''')]"

definition markup_716 :: string where
  "markup_716 = page_text
    [(0, ''''), (0, ''<dialog''), (1, ''id=\"ctrl-modal\"''), (1, ''data-return-url=\"'')]"

definition markup_719 :: string where
  "markup_719 = page_text
    [(0, ''/alerts/'')]"

definition markup_719b :: string where
  "markup_719b = page_text
    [(0, ''\"''), (0, ''>''), (1, ''<div class=\"dialog\">''), (0, ''''), (2, ''<div>''),
      (3, ''<div class=\"t\">Delete AAMM-NG Alert</div>''), (3, ''<div class=\"s\">'')]"

definition markup_725 :: string where
  "markup_725 = page_text
    [(0, ''</div>''), (3, ''<hr>''), (2, ''</div>''), (0, ''''), (2, ''<div>''),
      (3, ''<div class=\"aamm-delete-warning\">''), (4, ''<div class=\"o\">Confirm deletion</div>''),
      (4, ''<div class=\"m\">''), (5, ''This will remove the alert from this node.''),
      (5, ''AAMM-NG will create a backup before deletion.''), (4, ''</div>''), (3, ''</div>''), (0, ''''),
      (3, ''<div class=\"aamm-modal-meta\">''), (4, ''<div>''), (5, ''<div class=\"s\">Target</div>''),
      (5, ''<div class=\"t aamm-modal-target\">'')]"

definition markup_741 :: string where
  "markup_741 = page_text
    [(0, ''</div>''), (4, ''</div>''), (0, ''''), (4, ''<div>''), (5, ''<div class=\"s\">Status</div>''),
      (5, ''<div>''), (6, '''')]"

definition markup_747 :: string where
  "markup_747 = page_text
    [(0, ''''), (6, ''<span class=\"aamm-kind aamm-managed\">Managed</span>''), (6, '''')]"

definition markup_749 :: string where
  "markup_749 = page_text
    [(0, ''''), (6, ''<span class=\"aamm-kind aamm-existing\">Existing</span>''), (6, '''')]"

definition markup_751 :: string where
  "markup_751 = page_text
    [(0, ''''), (6, ''<span class=\"aamm-kind aamm-oversized\">Review</span>''), (6, '''')]"

definition markup_753 :: string where
  "markup_753 = page_text
    [(0, ''''), (5, ''</div>''), (4, ''</div>''), (0, ''''), (4, ''<div>''),
      (5, ''<div class=\"s\">Size</div>''), (5, ''<div>'')]"

definition markup_759 :: string where
  "markup_759 = page_text
    [(0, '' bytes</div>''), (4, ''</div>''), (3, ''</div>''), (0, ''''), (3, ''<hr>''), (0, ''''),
      (3, ''<form''), (4, ''id=\"aamm-delete-form\"''), (4, ''method=\"post\"''), (4, ''action=\"'')]"

definition markup_768 :: string where
  "markup_768 = page_text
    [(0, ''/alerts/'')]"

definition markup_768b :: string where
  "markup_768b = page_text
    [(0, ''/delete\"''), (3, ''>''), (4, ''<div class=\"aamm-delete-confirm\">''),
      (5, ''<label for=\"confirm\">''), (6, ''Type <strong>'')]"

definition markup_772 :: string where
  "markup_772 = page_text
    [(0, ''</strong> to confirm deletion:''), (5, ''</label>''), (0, ''''), (5, ''<input''),
      (6, ''id=\"confirm\"''), (6, ''name=\"confirm\"''), (6, ''type=\"text\"''),
      (6, ''autocomplete=\"off\"''), (6, ''data-aamm-confirm-target=\"'')]"

definition markup_780 :: string where
  "markup_780 = page_text
    [(0, ''\"''), (6, ''required''), (5, ''>''), (4, ''</div>''), (3, ''</form>''), (2, ''</div>''),
      (0, ''''), (2, ''<div class=\"ctrl-modal-footer\">''), (3, ''<hr>''), (0, ''''),
      (3, ''<div class=\"aamm-modal-actions\">''), (4, ''<button type=\"button\" data-aamm-close>''),
      (5, ''Cancel''), (4, ''</button>''), (0, ''''), (4, ''<button''), (5, ''id=\"dialog-done\"''),
      (5, ''class=\"aamm-danger-button\"''), (5, ''type=\"submit\"''), (5, ''form=\"aamm-delete-form\"''),
      (5, ''data-aamm-delete-submit''), (5, ''disabled''), (4, ''>''), (5, ''Delete''), (4, ''</button>''),
      (3, ''</div>''), (2, ''</div>''), (0, ''''), (1, ''</div>''), (0, ''</dialog>''), (0, '''')]"

definition markup_810 :: string where
  "markup_810 = page_text
    [(0, ''''), (0, ''''), (0, ''<div id=\"all\">''), (0, ''''), (0, ''<div id=\"nav\">''), (1, ''<a''),
      (2, ''class=\"aamm-brand-icon\"''), (2, ''href=\"'')]"

definition markup_817 :: string where
  "markup_817 = page_text
    [(0, ''/\"''), (2, ''title=\"AAMM-NG dashboard\"''), (1, ''>''),
      (2, ''<img src=\"/apps/AAMM-NG/icon.svg\" alt=\"\">''), (1, ''</a>''), (0, ''''),
      (1, ''<a class=\"nav-node-name\" href=\"'')]"

definition markup_823 :: string where
  "markup_823 = page_text
    [(0, ''/\">''), (2, ''AAMM-NG''), (1, ''</a>''), (0, ''''), (1, ''<div id=\"nav-status\">''),
      (2, ''Next Generation Alert Manager''), (1, ''</div>''), (0, ''''),
      (1, ''<div class=\"aamm-nav-spacer\"></div>''), (0, ''''),
      (1, ''<a class=\"aamm-back-link\" href=\"/a/status\">''), (2, ''Back to AREDN Status''),
      (1, ''</a>''), (0, ''</div>''), (0, ''''), (0, ''<div id=\"panel\">''), (0, ''''),
      (1, ''<div id=\"select\">''), (2, ''<div class=\"aamm-rail\">''), (3, ''<a''),
      (4, ''title=\"Back to AREDN status\"''), (4, ''href=\"/a/status\"''), (3, ''>''),
      (4, ''<div class=\"icon status\"></div>''), (3, ''</a>''), (0, ''''), (3, ''<hr>''), (0, ''''),
      (3, ''<a''), (4, ''class=\"aamm-rail-link\"''), (4, ''title=\"AAMM-NG alerts\"''), (4, ''href=\"'')]"

definition markup_854 :: string where
  "markup_854 = page_text
    [(0, ''/\"''), (3, ''>''), (4, ''<img''), (5, ''class=\"aamm-rail-icon\"''),
      (5, ''src=\"/apps/AAMM-NG/icon.svg\"''), (5, ''alt=\"\"''), (4, ''>''), (3, ''</a>''), (0, ''''),
      (0, ''                        <a''),
      (0, ''                                class=\"aamm-rail-link aamm-settings-link\"''),
      (0, ''                                title=\"AAMM-NG settings\"''),
      (0, ''                                aria-label=\"AAMM-NG settings\"''),
      (0, ''                                href=\"'')]"

definition markup_867 :: string where
  "markup_867 = page_text
    [(0, ''/settings\"''), (0, ''                        >''),
      (0, ''                                <span''),
      (0, ''                                        class=\"aamm-settings-icon\"''),
      (0, ''                                        aria-hidden=\"true\"''),
      (0, ''                                >&#9881;</span>''), (0, ''                        </a>''),
      (2, ''</div>''), (1, ''</div>''), (0, ''''), (1, ''<div id=\"main\">''),
      (2, ''<div id=\"main-container\">''), (3, ''<div class=\"aamm-dashboard\">''), (0, ''''),
      (4, ''<div class=\"aamm-page-header\">''), (5, ''<div>''), (6, ''<div class=\"aamm-page-title\">''),
      (7, ''AAMM-NG Alert Message Manager''), (6, ''</div>''), (0, ''''),
      (6, ''<div class=\"aamm-page-subtitle\">''),
      (7, ''Next-generation AREDN alert management for this node.''), (6, ''</div>''), (5, ''</div>''),
      (0, ''''), (5, ''<div class=\"aamm-page-actions\">''), (6, ''<div class=\"aamm-alert-count\">''),
      (7, '''')]"

definition markup_894 :: string where
  "markup_894 = page_text
    [(0, '' alert'')]"

definition markup_894b :: string where
  "markup_894b = page_text
    [(0, ''s'')]"

definition markup_894c :: string where
  "markup_894c = page_text
    [(0, ''''), (6, ''</div>''), (0, ''''), (6, ''<a''), (7, ''class=\"aamm-new-alert-button\"''),
      (7, ''href=\"'')]"

definition markup_899 :: string where
  "markup_899 = page_text
    [(0, ''/alerts/new\"''), (6, ''>''), (7, ''+ New Alert''), (6, ''</a>''), (5, ''</div>''),
      (4, ''</div>''), (0, ''''), (4, ''<div class=\"section\">''), (5, ''<div class=\"section-title\">''),
      (6, ''Current Alerts''), (5, ''</div>''), (0, ''''), (5, '''')]"

definition markup_911 :: string where
  "markup_911 = page_text
    [(0, ''''), (0, ''''), (5, ''<div class=\"aamm-alert-list\">''), (6, '''')]"

definition markup_914 :: string where
  "markup_914 = page_text
    [(0, ''''), (6, ''<a''), (7, ''class=\"aamm-alert-row\"''), (7, ''href=\"'')]"

definition markup_917 :: string where
  "markup_917 = page_text
    [(0, ''/alerts/'')]"

definition markup_917b :: string where
  "markup_917b = page_text
    [(0, ''\"''), (6, ''>''), (7, ''<div class=\"aamm-alert-target\">''),
      (8, ''<div class=\"aamm-target-line\">''), (9, ''<span class=\"t\">'')]"

definition markup_921 :: string where
  "markup_921 = page_text
    [(0, ''</span>''), (0, ''''), (9, '''')]"

definition markup_923 :: string where
  "markup_923 = page_text
    [(0, ''''), (9, ''<span class=\"aamm-kind aamm-managed\">''), (10, ''Managed''), (9, ''</span>''),
      (9, '''')]"

definition markup_927 :: string where
  "markup_927 = page_text
    [(0, ''''), (9, ''<span class=\"aamm-kind aamm-existing\">''), (10, ''Existing''), (9, ''</span>''),
      (9, '''')]"

definition markup_931 :: string where
  "markup_931 = page_text
    [(0, ''''), (9, ''<span class=\"aamm-kind aamm-oversized\">''), (10, ''Review''), (9, ''</span>''),
      (9, '''')]"

definition markup_935 :: string where
  "markup_935 = page_text
    [(0, ''''), (8, ''</div>''), (0, ''''), (8, ''<div class=\"s\">''), (9, '''')]"

definition markup_939 :: string where
  "markup_939 = page_text
    [(0, '' bytes''), (8, ''</div>''), (7, ''</div>''), (0, ''''),
      (7, ''<div class=\"aamm-alert-message\">''), (8, '''')]"

definition markup_944 :: string where
  "markup_944 = page_text
    [(0, ''''), (9, '''')]"

definition markup_945 :: string where
  "markup_945 = page_text
    [(0, ''''), (8, '''')]"

definition markup_946 :: string where
  "markup_946 = page_text
    [(0, ''''), (9, ''Existing alert '' @ EncodeRune 0x2014 @ '' conversion required''), (8, '''')]"

definition markup_948 :: string where
  "markup_948 = page_text
    [(0, ''''), (9, ''Oversized alert '' @ EncodeRune 0x2014 @ '' manual review required''), (8, '''')]"

definition markup_950 :: string where
  "markup_950 = page_text
    [(0, ''''), (9, ''Unknown alert type''), (8, '''')]"

definition markup_952 :: string where
  "markup_952 = page_text
    [(0, ''''), (7, ''</div>''), (0, ''''), (7, ''<div class=\"aamm-row-arrow\" aria-hidden=\"true\">''),
      (8, EncodeRune 0x203A), (7, ''</div>''), (6, ''</a>''), (6, '''')]"

definition markup_959 :: string where
  "markup_959 = page_text
    [(0, ''''), (5, ''</div>''), (0, ''''), (5, '''')]"

definition markup_962 :: string where
  "markup_962 = page_text
    [(0, ''''), (0, ''''), (5, ''<div class=\"aamm-empty-state\">''),
      (6, ''<div class=\"t\">No alert files found</div>''), (6, ''<div class=\"s\">''),
      (7, ''This node does not currently have any AAM alert messages.''), (6, ''</div>''), (5, ''</div>''),
      (0, ''''), (5, '''')]"

definition markup_971 :: string where
  "markup_971 = page_text
    [(0, ''''), (4, ''</div>''), (0, ''''), (4, '''')]"

definition markup_974 :: string where
  "markup_974 = page_text
    [(0, ''''), (4, ''<div class=\"section\">''), (5, ''<div class=\"section-title\">''),
      (6, ''Inspection Issues''), (5, ''</div>''), (0, ''''), (5, ''<div class=\"aamm-issues\">''),
      (6, '''')]"

definition markup_981 :: string where
  "markup_981 = page_text
    [(0, ''''), (6, ''<div class=\"aamm-issue\">''), (7, ''<span class=\"t\">'')]"

definition markup_983 :: string where
  "markup_983 = page_text
    [(0, ''</span>''), (7, ''<span class=\"s\">'')]"

definition markup_984 :: string where
  "markup_984 = page_text
    [(0, ''</span>''), (6, ''</div>''), (6, '''')]"

definition markup_986 :: string where
  "markup_986 = page_text
    [(0, ''''), (5, ''</div>''), (4, ''</div>''), (4, '''')]"

definition markup_989 :: string where
  "markup_989 = page_text
    [(0, ''''), (0, ''''), (3, ''</div>''), (2, ''</div>''), (1, ''</div>''), (0, ''''), (0, ''</div>''),
      (0, ''</div>''), (0, ''</body>''), (0, ''</html>''), (0, '''')]"

definition markup_1003 :: string where
  "markup_1003 = page_text
    [(0, ''<!doctype html>''), (0, ''<html lang=\"en\">''), (0, ''<head>''),
      (0, ''<meta charset=\"utf-8\">''),
      (0, ''<meta name=\"viewport\" content=\"width=device-width, initial-scale=1\">''),
      (0, ''<title>AAMM-NG Settings</title>''), (0, ''''),
      (0, ''<link rel=\"stylesheet\" href=\"/a/css/theme.css\">''),
      (0, ''<link rel=\"stylesheet\" href=\"/a/css/user.css\">''),
      (0, ''<link rel=\"stylesheet\" href=\"/a/css/admin.css\">''),
      (0, ''<link rel=\"stylesheet\" href=\"/apps/AAMM-NG/aamm-ng.css\">''), (0, ''''),
      (0, ''<link rel=\"icon\" type=\"image/svg+xml\" href=\"/apps/AAMM-NG/icon.svg\">''),
      (0, ''</head>''), (0, ''''), (0, ''<body class=\"authenticated\">''), (0, ''''),
      (0, ''<div id=\"page\">''), (0, ''''), (0, ''<div id=\"nav\">''), (1, ''<a''),
      (2, ''class=\"aamm-brand-icon\"''), (2, ''href=\"'')]"

definition markup_1025 :: string where
  "markup_1025 = page_text
    [(0, ''/\"''), (2, ''title=\"AAMM-NG dashboard\"''), (1, ''>''),
      (2, ''<img src=\"/apps/AAMM-NG/icon.svg\" alt=\"\">''), (1, ''</a>''), (0, ''''),
      (1, ''<a class=\"nav-node-name\" href=\"'')]"

definition markup_1031 :: string where
  "markup_1031 = page_text
    [(0, ''/\">''), (2, ''AAMM-NG''), (1, ''</a>''), (0, ''''), (1, ''<div id=\"nav-status\">''),
      (2, ''Next Generation Alert Manager''), (1, ''</div>''), (0, ''''),
      (1, ''<div class=\"aamm-nav-spacer\"></div>''), (0, ''''),
      (1, ''<a class=\"aamm-back-link\" href=\"/a/status\">''), (2, ''Back to AREDN Status''),
      (1, ''</a>''), (0, ''</div>''), (0, ''''), (0, ''<div id=\"panel\">''), (0, ''''),
      (1, ''<div id=\"select\">''), (2, ''<div class=\"aamm-rail\">''), (3, ''<a''),
      (4, ''title=\"Back to AREDN status\"''), (4, ''href=\"/a/status\"''), (3, ''>''),
      (4, ''<div class=\"icon status\"></div>''), (3, ''</a>''), (0, ''''), (3, ''<hr>''), (0, ''''),
      (3, ''<a''), (4, ''class=\"aamm-rail-link\"''), (4, ''title=\"AAMM-NG alerts\"''), (4, ''href=\"'')]"

definition markup_1062 :: string where
  "markup_1062 = page_text
    [(0, ''/\"''), (3, ''>''), (4, ''<img''), (5, ''class=\"aamm-rail-icon\"''),
      (5, ''src=\"/apps/AAMM-NG/icon.svg\"''), (5, ''alt=\"\"''), (4, ''>''), (3, ''</a>''), (0, ''''),
      (3, ''<a''), (4, ''class=\"aamm-rail-link aamm-settings-link\"''),
      (4, ''title=\"AAMM-NG settings\"''), (4, ''aria-label=\"AAMM-NG settings\"''), (4, ''href=\"'')]"

definition markup_1075 :: string where
  "markup_1075 = page_text
    [(0, ''/settings\"''), (3, ''>''), (4, ''<span''), (5, ''class=\"aamm-settings-icon\"''),
      (5, ''aria-hidden=\"true\"''), (4, ''>&#9881;</span>''), (3, ''</a>''), (2, ''</div>''),
      (1, ''</div>''), (0, ''''), (1, ''<div id=\"main\">''), (2, ''<div id=\"main-container\">''),
      (3, ''<div class=\"aamm-dashboard\">''), (0, ''''), (4, ''<div class=\"aamm-page-header\">''),
      (5, ''<div>''), (6, ''<div class=\"aamm-page-title\">''), (7, ''AAMM-NG Settings''), (6, ''</div>''),
      (0, ''''), (6, ''<div class=\"aamm-page-subtitle\">''),
      (7, ''Application configuration for this node.''), (6, ''</div>''), (5, ''</div>''), (4, ''</div>''),
      (0, ''''), (4, ''<div class=\"section\">''), (5, ''<div class=\"section-title\">''),
      (6, ''Application settings''), (5, ''</div>''), (0, ''''),
      (5, ''<div class=\"aamm-settings-list\">''), (6, ''<div class=\"aamm-setting-row\">''),
      (7, ''<div>''), (8, ''<div class=\"t\">''), (9, ''Configuration schema''), (8, ''</div>''),
      (0, ''''), (8, ''<div class=\"s\">''), (9, ''Stored application configuration format.''),
      (8, ''</div>''), (7, ''</div>''), (0, ''''), (7, ''<div class=\"aamm-setting-value\">''),
      (8, ''Version '')]"

definition markup_1119 :: string where
  "markup_1119 = page_text
    [(0, ''''), (7, ''</div>''), (6, ''</div>''), (5, ''</div>''), (4, ''</div>''), (0, ''''),
      (3, ''</div>''), (2, ''</div>''), (1, ''</div>''), (0, ''''), (0, ''</div>''), (0, ''</div>''),
      (0, ''</body>''), (0, ''</html>''), (0, '''')]"

subsection \<open>The dashboard and its dialogs\<close>

record pageData =
  pd_BasePath :: string
  pd_Entries :: "EntryResult list"
  pd_Issues :: "IssueResult list"
  pd_Modal :: "EntryResult option"
  pd_DeleteModal :: "EntryResult option"
  pd_NewModal :: bool

definition no_page_data :: pageData where
  "no_page_data = \<lparr>pd_BasePath = [], pd_Entries = [], pd_Issues = [], pd_Modal = None, pd_DeleteModal = None,
     pd_NewModal = False\<rparr>"

definition edit_modal :: "pageData \<Rightarrow> EntryResult \<Rightarrow> string list" where
  "edit_modal d e =
     [markup_589, url_first (pd_BasePath d), markup_592, html_escape (er_Target e), markup_598,
        html_escape (er_Target e), markup_606] @
      (if er_Kind e = ''managed'' then [markup_612]
      else if er_Kind e = ''legacy'' then [markup_614]
      else if er_Kind e = ''oversized'' then [markup_616]
      else []) @
      [markup_618, html_escape (show_int (er_Size e)), markup_624] @
      (if er_Kind e = ''managed'' then [markup_630, url_first (pd_BasePath d), markup_634,
         url_part (er_Target e), markup_634b, html_escape (er_Message e), markup_642]
      else if er_Kind e = ''legacy'' then [markup_648, html_escape (er_LegacySource e), markup_656,
         url_first (pd_BasePath d), markup_661, url_part (er_Target e), markup_661b]
      else if er_Kind e = ''oversized'' then [markup_675]
      else []) @
      [markup_680] @
      (if er_Kind e \<noteq> ''oversized'' then [markup_687, url_first (pd_BasePath d), markup_690,
         url_part (er_Target e), markup_690b]
      else []) @
      [markup_694] @
      (if (er_Kind e = ''managed'') \<or> (er_Kind e = ''legacy'') then [markup_700] @
      (if er_Kind e = ''managed'' then [markup_706]
      else [markup_706b]) @
      [markup_706c]
      else []) @
      [markup_708]"

definition delete_modal :: "pageData \<Rightarrow> EntryResult \<Rightarrow> string list" where
  "delete_modal d e =
     [markup_716, url_first (pd_BasePath d), markup_719, url_part (er_Target e), markup_719b,
        html_escape (er_Target e), markup_725, html_escape (er_Target e), markup_741] @
      (if er_Kind e = ''managed'' then [markup_747]
      else if er_Kind e = ''legacy'' then [markup_749]
      else if er_Kind e = ''oversized'' then [markup_751]
      else []) @
      [markup_753, html_escape (show_int (er_Size e)), markup_759, url_first (pd_BasePath d), markup_768,
         url_part (er_Target e), markup_768b, html_escape (er_Target e), markup_772,
         html_escape (er_Target e), markup_780]"

definition entry_row :: "pageData \<Rightarrow> EntryResult \<Rightarrow> string list" where
  "entry_row d e =
     [markup_914, url_first (pd_BasePath d), markup_917, url_part (er_Target e), markup_917b,
        html_escape (er_Target e), markup_921] @
      (if er_Kind e = ''managed'' then [markup_923]
      else if er_Kind e = ''legacy'' then [markup_927]
      else if er_Kind e = ''oversized'' then [markup_931]
      else []) @
      [markup_935, html_escape (show_int (er_Size e)), markup_939] @
      (if er_Kind e = ''managed'' then [markup_944, html_escape (er_Message e), markup_945]
      else if er_Kind e = ''legacy'' then [markup_946]
      else if er_Kind e = ''oversized'' then [markup_948]
      else [markup_950]) @
      [markup_952]"

definition issue_row :: "IssueResult \<Rightarrow> string list" where
  "issue_row i =
     [markup_981, html_escape (ir_Name i), markup_983, html_escape (ir_Kind i), markup_984]"

definition landing_page :: "pageData \<Rightarrow> string list" where
  "landing_page d =
     [markup_464] @
      (if pd_NewModal d then [markup_482, url_first (pd_BasePath d), markup_485,
         url_first (pd_BasePath d), markup_499, html_escape (pd_BasePath d), markup_505]
      else []) @
      [markup_587] @
      (case pd_Modal d of None \<Rightarrow> [] | Some e \<Rightarrow> edit_modal d e) @
      [markup_714] @
      (case pd_DeleteModal d of None \<Rightarrow> [] | Some e \<Rightarrow> delete_modal d e) @
      [markup_810, url_first (pd_BasePath d), markup_817, url_first (pd_BasePath d), markup_823,
         url_first (pd_BasePath d), markup_854, url_first (pd_BasePath d), markup_867,
         html_escape (show_nat (length (pd_Entries d))), markup_894] @
      (if length (pd_Entries d) \<noteq> 1 then [markup_894b]
      else []) @
      [markup_894c, url_first (pd_BasePath d), markup_899] @
      (if pd_Entries d \<noteq> [] then [markup_911] @
      (concat (map (entry_row d) (pd_Entries d))) @
      [markup_959]
      else [markup_962]) @
      [markup_971] @
      (if pd_Issues d \<noteq> [] then [markup_974] @
      (concat (map issue_row (pd_Issues d))) @
      [markup_986]
      else []) @
      [markup_989]"

definition settings_page :: "string \<Rightarrow> Config \<Rightarrow> string list" where
  "settings_page basePath config =
     [markup_1003, url_first basePath, markup_1025, url_first basePath, markup_1031, url_first basePath,
        markup_1062, url_first basePath, markup_1075, html_escape (show_int (config_Version config)),
        markup_1119]"

end
