(* ===== verification/Web_Markup.thy ===== *)
theory Web_Markup
  imports Web_Pages
begin

text \<open>
  What the data of the program can do to a page: nothing to its markup.  The characters that open and
  close tags and attribute values are those of the templates alone.
\<close>

definition page_tags :: "string \<Rightarrow> string" where
  "page_tags s = filter (\<lambda>c. c \<in> {CHR ''<'', CHR ''>'', DQUOTE, SQUOTE}) s"

lemma page_tags_append [simp]: "page_tags (s @ t) = page_tags s @ page_tags t"
  by (simp add: page_tags_def)

lemma page_tags_Nil [simp]: "page_tags [] = []"
  by (simp add: page_tags_def)

lemma page_tags_concat: "page_tags (concat xs) = concat (map page_tags xs)"
  by (induction xs) simp_all

lemma page_tags_high: "list_all (\<lambda>c. 128 \<le> byte c) s \<Longrightarrow> page_tags s = []"
  by (auto simp: page_tags_def list_all_iff filter_empty_conv)

lemma page_tags_references:
  "page_tags (EncodeRune 0xFFFD) = []" "page_tags ''&#34;'' = []" "page_tags ''&amp;'' = []" "page_tags ''&#39;'' = []"
  "page_tags ''&#43;'' = []" "page_tags ''&lt;'' = []" "page_tags ''&gt;'' = []"
  by (simp add: page_tags_high EncodeRune_def) (simp_all add: page_tags_def)

lemma page_tags_other:
  "c \<noteq> DQUOTE \<Longrightarrow> c \<noteq> SQUOTE \<Longrightarrow> c \<noteq> CHR ''<'' \<Longrightarrow> c \<noteq> CHR ''>'' \<Longrightarrow> page_tags [c] = []"
  by (simp add: page_tags_def)

lemma page_tags_escape_char: "page_tags (html_escape_char c) = []"
  unfolding html_escape_char_def
  by (simp only: page_tags_references split: if_split) (blast intro: page_tags_other)

lemma page_tags_escape [simp]: "page_tags (html_escape s) = []"
  by (simp add: html_escape_def page_tags_concat page_tags_escape_char comp_def)

lemma page_tags_url [simp]: "page_tags (url_part s) = []" "page_tags (url_first s) = []"
  by (simp_all add: url_part_def url_first_def)

subsection \<open>Pages without data\<close>

text \<open>The same page with every string of the data empty and every number zero: what is left decides which
  parts of the templates are written and how often.\<close>

definition blank_entry :: "EntryResult \<Rightarrow> EntryResult" where
  "blank_entry e = e\<lparr>er_Target := [], er_Message := [], er_LegacySource := [], er_Size := 0\<rparr>"

definition blank_issue :: "IssueResult \<Rightarrow> IssueResult" where
  "blank_issue i = \<lparr>ir_Name = [], ir_Kind = [], ir_Message = []\<rparr>"

definition blank_data :: "pageData \<Rightarrow> pageData" where
  "blank_data d = d\<lparr>pd_BasePath := [], pd_Entries := map blank_entry (pd_Entries d),
     pd_Issues := map blank_issue (pd_Issues d), pd_Modal := map_option blank_entry (pd_Modal d),
     pd_DeleteModal := map_option blank_entry (pd_DeleteModal d)\<rparr>"

lemma blank_entry_Kind [simp]: "er_Kind (blank_entry e) = er_Kind e"
  by (simp add: blank_entry_def)

abbreviation same_tags :: "string list \<Rightarrow> string list \<Rightarrow> bool" where
  "same_tags xs ys \<equiv> concat (map page_tags xs) = concat (map page_tags ys)"

lemma same_tags_modals:
  "same_tags (edit_modal d e) (edit_modal (blank_data d) (blank_entry e))"
  "same_tags (delete_modal d e) (delete_modal (blank_data d) (blank_entry e))"
  by (simp_all add: edit_modal_def delete_modal_def)

lemma same_tags_rows:
  "same_tags (entry_row d e) (entry_row (blank_data d) (blank_entry e))"
  "same_tags (issue_row i) (issue_row (blank_issue i))"
  by (simp_all add: entry_row_def issue_row_def)

lemma same_tags_entries:
  "same_tags (concat (map (entry_row d) es)) (concat (map (entry_row (blank_data d)) (map blank_entry es)))"
proof (induction es)
  case (Cons e es)
  then show ?case by (simp only: list.map concat.simps map_append concat_append same_tags_rows(1) [of d e])
qed simp

lemma same_tags_issues:
  "same_tags (concat (map issue_row xs)) (concat (map issue_row (map blank_issue xs)))"
proof (induction xs)
  case (Cons x xs)
  then show ?case by (simp only: list.map concat.simps map_append concat_append same_tags_rows(2) [of x])
qed simp

lemma blank_data_fields:
  "pd_NewModal (blank_data d) = pd_NewModal d" "pd_Entries (blank_data d) = map blank_entry (pd_Entries d)"
  "pd_Issues (blank_data d) = map blank_issue (pd_Issues d)"
  "pd_Modal (blank_data d) = map_option blank_entry (pd_Modal d)"
  "pd_DeleteModal (blank_data d) = map_option blank_entry (pd_DeleteModal d)"
  by (simp_all add: blank_data_def)

lemma same_tags_dialog:
  assumes "\<And>e. same_tags (f e) (g (blank_entry e))"
  shows "same_tags (case x of None \<Rightarrow> [] | Some e \<Rightarrow> f e) (case map_option blank_entry x of None \<Rightarrow> [] | Some e \<Rightarrow> g e)"
  using assms by (cases x) auto

lemmas same_tags_dialogs =
  same_tags_dialog [where f = "edit_modal d" and g = "edit_modal (blank_data d)" for d, OF same_tags_modals(1)]
  same_tags_dialog [where f = "delete_modal d" and g = "delete_modal (blank_data d)" for d, OF same_tags_modals(2)]

text \<open>
  C9: Nothing in the data can change the structure of a page.  Angle brackets and quotes occur in the
  landing page and in the settings page exactly where the templates put them: the page for any data,
  whatever its targets, messages, sources, issues and base path, has the same sequence of these
  characters as the page with all of them empty.
\<close>

theorem data_never_becomes_markup:
  "page_tags (concat (landing_page d)) = page_tags (concat (landing_page (blank_data d))) \<and>
   page_tags (concat (settings_page base config)) = page_tags (concat (settings_page [] \<lparr>config_Version = 0\<rparr>))"
proof
  show "page_tags (concat (landing_page d)) = page_tags (concat (landing_page (blank_data d)))"
    by (simp only: page_tags_concat landing_page_def map_append concat_append blank_data_fields
        same_tags_dialogs(1) [where d = d] same_tags_dialogs(2) [where d = d]
        same_tags_entries [of d] same_tags_issues [of "pd_Issues d"] list.map concat.simps page_tags_url
        page_tags_escape length_map map_is_Nil_conv if_distrib [of page_tags] if_distrib [of concat]
        page_tags_append page_tags_Nil append_Nil append_Nil2)
  show "page_tags (concat (settings_page base config)) = page_tags (concat (settings_page [] \<lparr>config_Version = 0\<rparr>))"
    by (simp add: page_tags_concat settings_page_def)
qed

end
