(* ===== verification/Aredn_Facts.thy ===== *)
theory Aredn_Facts
  imports Aredn_Source Error_Rules
begin

text \<open>
  What holds of the AREDN data: reading the host records is bounded; a lease lookup is the unique
  name of its matching leases; a node that a request is attributed to, or that is offered as a
  target, is a valid target named by the records; and a session is authenticated only by an answer
  of the endpoint that says so, for a credential that is a single cookie value.
\<close>

subsection \<open>Bounds of the host records\<close>

lemma read_limited_bound:
  "read_limited h off limit w = (Inr data, w') \<Longrightarrow> length data \<le> limit"
proof (induction h off limit w arbitrary: data rule: read_limited.induct)
  case (1 h off limit w)
  show ?case
  proof (cases "limit = 0")
    case True
    with 1(2) show ?thesis by (simp add: read_limited.simps)
  next
    case False
    obtain r w1 where r: "Read_at h off limit w = (r, w1)" by fastforce
    show ?thesis
    proof (cases r)
      case (Inr bs)
      show ?thesis
      proof (cases "bs = []")
        case F: False
        obtain r2 w2 where r2: "read_limited h (off + length bs) (limit - length bs) w1 = (r2, w2)" by fastforce
        from 1(2) r Inr F False r2 obtain rest where rest: "r2 = Inr rest" "data = bs @ rest" "w2 = w'"
          by (cases r2) (auto simp: read_limited.simps [of h off limit w])
        have "length bs \<le> limit"
          using r Inr by (auto simp: Read_at_def split: prod.splits option.splits)
        moreover have "length rest \<le> limit - length bs"
          using 1(1) [OF False r [symmetric] Inr F] r2 rest(1,3) by blast
        ultimately show ?thesis using rest(2) by simp
      qed (use 1(2) r Inr False in \<open>auto simp: read_limited.simps [of h off limit w]\<close>)
    qed (use 1(2) r False in \<open>auto simp: read_limited.simps [of h off limit w]\<close>)
  qed
qed

lemma bind_io_Inr:
  assumes "bind_io m f w = (Inr y, w2)"
  obtains x w1 where "m w = (Inr x, w1)" "f x w1 = (Inr y, w2)"
  using assms by (auto simp: bind_io_def split: prod.splits sum.splits)

lemma read_host_file_bound:
  assumes "read_host_file r info name w = (Inr data, w')"
  shows "length data \<le> hr_maxFileBytes r"
  using assms unfolding read_host_file_def
  by (auto elim!: bind_io_Inr simp: fail_io_def return_io_def split: sum.splits if_splits)

lemma read_host_files_bound:
  "read_host_files r n sofar names w = (Inr records, w') \<Longrightarrow> n \<le> hr_maxFiles r \<Longrightarrow> sofar \<le> hr_maxTotalBytes r \<Longrightarrow>
     n + length records \<le> hr_maxFiles r \<and> sofar + length (concat records) \<le> hr_maxTotalBytes r \<and>
     list_all (\<lambda>data. length data \<le> hr_maxFileBytes r) records"
proof (induction names arbitrary: n sofar w records)
  case Nil
  then show ?case by (simp add: return_io_def)
next
  case (Cons name names)
  from Cons.prems(1) obtain info w1 where w1:
    "(if fi_kind info = Symlink \<or> fi_kind info \<noteq> Regular then read_host_files r n sofar names
      else if n + 1 > hr_maxFiles r then fail_io (Sentinel arednhosts_ErrDataTooLarge)
      else if fi_size info > hr_maxFileBytes r then fail_io (Sentinel arednhosts_ErrDataTooLarge)
      else bind_io (read_host_file r info name) (\<lambda>data.
        if sofar + length data > hr_maxTotalBytes r then fail_io (Sentinel arednhosts_ErrDataTooLarge)
        else bind_io (read_host_files r (n + 1) (sofar + length data) names) (\<lambda>records.
          return_io (data # records)))) w1 = (Inr records, w')"
    by (auto elim: bind_io_Inr)
  show ?case
  proof (cases "fi_kind info = Symlink \<or> fi_kind info \<noteq> Regular")
    case True
    with w1 have "read_host_files r n sofar names w1 = (Inr records, w')" by simp
    from Cons.IH [OF this Cons.prems(2,3)] show ?thesis .
  next
    case False
    with w1 have fits: "n + 1 \<le> hr_maxFiles r"
      by (auto simp: fail_io_def split: if_splits)
    with w1 False have "bind_io (read_host_file r info name) (\<lambda>data.
        if sofar + length data > hr_maxTotalBytes r then fail_io (Sentinel arednhosts_ErrDataTooLarge)
        else bind_io (read_host_files r (n + 1) (sofar + length data) names) (\<lambda>records.
          return_io (data # records))) w1 = (Inr records, w')"
      by (auto simp: fail_io_def split: if_splits)
    then obtain data w2 where d: "read_host_file r info name w1 = (Inr data, w2)"
      "(if sofar + length data > hr_maxTotalBytes r then fail_io (Sentinel arednhosts_ErrDataTooLarge)
        else bind_io (read_host_files r (n + 1) (sofar + length data) names) (\<lambda>records.
          return_io (data # records))) w2 = (Inr records, w')"
      by (rule bind_io_Inr)
    then have t: "sofar + length data \<le> hr_maxTotalBytes r"
      by (auto simp: fail_io_def split: if_splits)
    with d(2) obtain rest w3 where "read_host_files r (n + 1) (sofar + length data) names w2 = (Inr rest, w3)"
      "records = data # rest" "w3 = w'"
      by (auto elim!: bind_io_Inr simp: return_io_def)
    with Cons.IH [of "n + 1" "sofar + length data" w2 rest] fits t read_host_file_bound [OF d(1)] show ?thesis
      by simp
  qed
qed

text \<open>
  C36: However many files the host directory holds, however large they are and however they change
  while they are read, the records that are read are at most \<open>MaxFiles\<close>, each of at most
  \<open>MaxFileBytes\<close> and all of them together of at most \<open>MaxTotalBytes\<close>.
\<close>

theorem host_records_are_bounded:
  assumes "hosts_read r w = (Inr records, w')"
  shows "length records \<le> hr_maxFiles r \<and> length (concat records) \<le> hr_maxTotalBytes r \<and>
    list_all (\<lambda>data. length data \<le> hr_maxFileBytes r) records"
proof -
  from assms obtain names w1 where "read_host_files r 0 0 names w1 = (Inr records, w')"
    by (auto simp: hosts_read_def fail_io_def split: if_splits elim: bind_io_Inr)
  from read_host_files_bound [OF this] show ?thesis by simp
qed

subsection \<open>Leases\<close>

text \<open>The reference definition: the names of the well-formed leases of an address.\<close>

definition matching :: "addr \<Rightarrow> string list \<Rightarrow> string list" where
  "matching a lines =
     map (\<lambda>fields. fields ! 3)
       (filter (\<lambda>fields. length fields = 5 \<and> parse_ipv4_only (fields ! 2) = Some a \<and> fields ! 3 \<noteq> ''*'')
         (map Fields lines))"

definition lease_names :: "string \<Rightarrow> addr \<Rightarrow> string list" where
  "lease_names data a = matching a (Split data LF)"

definition unique_name :: "string list \<Rightarrow> goerror + string" where
  "unique_name names =
     (case remdups names of
        [] \<Rightarrow> Inr []
      | [name] \<Rightarrow> Inr name
      | _ \<Rightarrow> Inl (Sentinel aredndhcp_ErrAmbiguousLease))"

lemma unique_name_same: "set names \<subseteq> {x} \<Longrightarrow> unique_name (x # names) = Inr x"
proof -
  assume "set names \<subseteq> {x}"
  then have "remdups (x # names) = [x]"
    by (induction names) (auto split: if_splits)
  then show ?thesis by (simp add: unique_name_def)
qed

lemma unique_name_two: "y \<in> set names \<Longrightarrow> y \<noteq> x \<Longrightarrow> x \<in> set names \<Longrightarrow>
    unique_name names = Inl (Sentinel aredndhcp_ErrAmbiguousLease)"
proof -
  assume a: "y \<in> set names" "y \<noteq> x" "x \<in> set names"
  have "remdups names \<noteq> []" "\<And>z. remdups names \<noteq> [z]"
    using a by (metis empty_iff list.set(1) set_remdups, metis a empty_iff insert_iff list.set set_remdups)
  then show ?thesis
    by (simp add: unique_name_def split: list.split)
qed

lemma matching_Cons:
  "matching a (line # lines) =
     (let fields = Fields line in
      if length fields = 5 \<and> parse_ipv4_only (fields ! 2) = Some a \<and> fields ! 3 \<noteq> ''*''
      then fields ! 3 # matching a lines else matching a lines)"
  by (simp add: matching_def Let_def)

lemma lookup_leases_found:
  "lookup_leases a lines (Some x) =
     (if set (matching a lines) \<subseteq> {x} then Inr x else Inl (Sentinel aredndhcp_ErrAmbiguousLease))"
proof (induction lines)
  case (Cons line lines)
  then show ?case
    by (cases "parse_ipv4_only (Fields line ! 2)") (auto simp: matching_Cons Let_def split: if_splits)
qed (simp add: matching_def)

lemma lookup_leases_none: "lookup_leases a lines None = unique_name (matching a lines)"
proof (induction lines)
  case Nil
  then show ?case by (simp add: matching_def unique_name_def)
next
  case (Cons line lines)
  let ?f = "Fields line"
  show ?case
  proof (cases "length ?f = 5 \<and> parse_ipv4_only (?f ! 2) = Some a \<and> ?f ! 3 \<noteq> ''*''")
    case True
    then have "lookup_leases a (line # lines) None = lookup_leases a lines (Some (?f ! 3))"
      by (simp add: Let_def)
    also have "\<dots> = unique_name (?f ! 3 # matching a lines)"
    proof (cases "set (matching a lines) \<subseteq> {?f ! 3}")
      case False
      then obtain y where "y \<in> set (matching a lines)" "y \<noteq> ?f ! 3" by auto
      with unique_name_two [of y "?f ! 3 # matching a lines" "?f ! 3"] False show ?thesis
        by (simp add: lookup_leases_found)
    qed (simp add: lookup_leases_found unique_name_same)
    finally show ?thesis using True by (simp add: matching_Cons Let_def)
  next
    case False
    with Cons show ?thesis
      by (cases "parse_ipv4_only (?f ! 2)") (auto simp: matching_Cons Let_def)
  qed
qed

text \<open>
  C37: \<open>Lookup\<close> is the reference lookup: for an IPv4 address (or one mapped into IPv6) it returns the
  one name that the well-formed leases of that address give, the empty name when there is none, and
  an error when they give two different names, wherever the lines stand in the file; any other
  source is refused.
\<close>

theorem lease_lookup_is_the_unique_name:
  "dhcp_Lookup data source =
     (case parse_ipv4_only source of
        None \<Rightarrow> Inl (Sentinel aredndhcp_ErrInvalidSource)
      | Some a \<Rightarrow> unique_name (lease_names data a))"
  by (simp add: dhcp_Lookup_def lookup_leases_none lease_names_def split: option.split)

subsection \<open>Attribution\<close>

text \<open>A node named by the records: a section of the originator lists it, and it is a valid target.\<close>

definition named_node :: "string list \<Rightarrow> string \<Rightarrow> bool" where
  "named_node records node \<longleftrightarrow>
     (\<exists>section \<in> set (hosts_Parse records). \<exists>e \<in> set (hs_Entries section).
        he_Address e = hs_Originator section \<and> he_Name e = node \<and>
        (\<exists>target. target_Parse node = Inr target \<and> target_String target \<noteq> ''all''))"

lemma source_node_named:
  "source_node a entries = [] \<or> (\<exists>e \<in> set entries. he_Address e = a \<and> he_Name e = source_node a entries \<and>
     (\<exists>target. target_Parse (source_node a entries) = Inr target \<and> target_String target \<noteq> ''all''))"
  by (induction entries) (auto split: sum.splits)

lemma section_named:
  assumes "section \<in> set (parseHostRecords records)" "ss_node section \<noteq> []"
  shows "named_node records (ss_node section)"
proof -
  from assms(1) obtain s where s: "s \<in> set (hosts_Parse records)"
    "ss_node section = source_node (hs_Originator s) (hs_Entries s)"
    by (auto simp: parseHostRecords_def)
  with source_node_named [of "hs_Originator s" "hs_Entries s"] assms(2) show ?thesis
    unfolding named_node_def by (metis)
qed

lemma section_entries_set: "(section, e) \<in> set (section_entries sections) \<Longrightarrow> section \<in> set sections \<and> e \<in> set (ss_entries section)"
  by (auto simp: section_entries_def)

lemma exact_loop_result:
  "exact_loop a ps found = Inr (Some r) \<Longrightarrow>
     found = Some r \<or> (\<exists>(section, e) \<in> set ps. he_Address e = a \<and> r = exact_candidate section e)"
  by (induction a ps found rule: exact_loop.induct) (auto simp: Let_def split: if_splits)

lemma route_loop_result:
  "route_loop route ps node = Inr r \<Longrightarrow> r = node \<or> (\<exists>(section, e) \<in> set ps. r = ss_node section)"
  by (induction route ps node rule: route_loop.induct) (auto split: if_splits)

text \<open>
  C38: A source is only ever attributed to a node that the host records name: if \<open>Resolve\<close> gives a node,
  then some section of the records lists that name for its own originator, and the name is a valid
  alert target other than \<open>all\<close>; and a host is only given when a record lists it for the very address
  of the source.
\<close>

theorem attribution_names_a_listed_node:
  assumes "source_Resolve source routes records = Inr a"
  shows "(attr_SourceNode a = [] \<or> named_node records (attr_SourceNode a)) \<and>
    (attr_SourceHost a = [] \<or>
      (\<exists>address section e. ParseAddr source = Some address \<and> section \<in> set (parseHostRecords records) \<and>
         e \<in> set (ss_entries section) \<and> he_Address e = Unmap address \<and> he_Name e = attr_SourceHost a))"
proof -
  let ?s = "parseHostRecords records"
  from assms obtain address where p: "ParseAddr source = Some address"
    by (cases "ParseAddr source") (auto simp: source_Resolve_def)
  have run: "source_Resolve source routes records =
     (case exactHostAttribution (Unmap address) ?s of
        Inl err \<Rightarrow> Inl err
      | Inr (Some attribution) \<Rightarrow> Inr attribution
      | Inr None \<Rightarrow> (case longestRoute (Unmap address) routes of
          None \<Rightarrow> Inr no_attribution | Some route \<Rightarrow> routeAttribution route ?s))"
    using p by (simp add: source_Resolve_def Let_def)
  consider
    (exact) "exactHostAttribution (Unmap address) ?s = Inr (Some a)"
  | (none) "a = no_attribution"
  | (route) route where "routeAttribution route ?s = Inr a"
  proof (cases "exactHostAttribution (Unmap address) ?s")
    case (Inr found)
    show thesis
    proof (cases found)
      case None
      with Inr run assms show thesis
        by (cases "longestRoute (Unmap address) routes") (auto intro: none route)
    qed (use Inr run assms exact in auto)
  qed (use run assms in auto)
  then show ?thesis
  proof cases
    case exact
    then obtain sec e where e: "(sec, e) \<in> set (section_entries ?s)" "he_Address e = Unmap address"
      "a = exact_candidate sec e"
      unfolding exactHostAttribution_def by (auto dest!: exact_loop_result)
    from section_entries_set [OF e(1)] section_named e p show ?thesis
      by (auto simp: exact_candidate_def)
  next
    case route
    then obtain node where n: "route_loop route (section_entries ?s) [] = Inr node"
      "a = \<lparr>attr_SourceNode = node, attr_SourceHost = []\<rparr>"
      by (auto simp: routeAttribution_def split: sum.splits)
    from route_loop_result [OF n(1)] section_named n(2) show ?thesis
      by (auto dest: section_entries_set)
  qed (simp add: no_attribution_def)
qed

subsection \<open>Authentication\<close>

text \<open>A credential that is one cookie value.\<close>

definition one_cookie :: "string \<Rightarrow> bool" where
  "one_cookie v \<longleftrightarrow> v \<noteq> [] \<and> CR \<notin> set v \<and> LF \<notin> set v \<and> CHR '';'' \<notin> set v"

text \<open>
  C39: A session is authenticated only by an answer of the endpoint.  If \<open>VerifySession\<close> reports an
  authenticated session, then the credential was a single cookie value, the endpoint was asked with
  exactly that cookie, and it answered with status 200 and at most 4096 bytes of JSON that say
  \<open>authenticated: true\<close> and give the session's name, which is not blank.
\<close>

theorem sessions_are_vouched_for:
  assumes "VerifySession exchange authV1 = Inr session" "session_Authenticated session"
  shows "one_cookie authV1 \<and> TrimSpace (session_Name session) \<noteq> [] \<and>
    (\<exists>reply. exchange (''authV1='' @ authV1) = Inr reply \<and> reply_status reply = 200 \<and>
      length (reply_body reply) \<le> maxAuthResponseBytes \<and>
      json_Unmarshal into_whoami \<lparr>whoami_name = [], whoami_authenticated = None\<rparr> (reply_body reply) =
        Some \<lparr>whoami_name = session_Name session, whoami_authenticated = Some True\<rparr>)"
proof -
  have c: "one_cookie authV1"
    using assms by (auto simp: VerifySession_def one_cookie_def no_session_def list_ex_iff split: if_splits)
  then have "VerifySession exchange authV1 =
      (case exchange (''authV1='' @ authV1) of
         Inl _ \<Rightarrow> Inl (sentinelf arednauth_ErrUnavailable ''request failed'')
       | Inr response \<Rightarrow> session_of_reply response)"
    by (auto simp: VerifySession_def one_cookie_def list_ex_iff)
  with assms(1) obtain reply where r: "exchange (''authV1='' @ authV1) = Inr reply" "session_of_reply reply = Inr session"
    by (auto split: sum.splits)
  then have s: "reply_status reply = 200" "length (reply_body reply) \<le> maxAuthResponseBytes"
    "session_of_body (reply_body reply) = Inr session"
    by (auto simp: session_of_reply_def split: if_splits)
  with assms(2) obtain result where j:
    "json_Unmarshal into_whoami \<lparr>whoami_name = [], whoami_authenticated = None\<rparr> (reply_body reply) = Some result"
    "whoami_authenticated result = Some True" "TrimSpace (whoami_name result) \<noteq> []"
    "session = \<lparr>session_Authenticated = True, session_Name = whoami_name result\<rparr>"
    by (auto simp: session_of_body_def no_session_def split: option.splits if_splits)
  have n: "session_Name session = whoami_name result" unfolding j(4) by simp
  have "result = \<lparr>whoami_name = whoami_name result, whoami_authenticated = Some True\<rparr>"
    using j(2) by simp
  with j(1) show ?thesis
    unfolding n using c r(1) s(1,2) j(3) by metis
qed

end
