(* ===== verification/Store_Examples.thy ===== *)
theory Store_Examples
  imports Quiet_World "HOL-Library.Code_Target_Nat"
begin

text \<open>
  The theorems about the alert store at a concrete world: another process adds a file in the middle
  of the operation and a later system call fails, or the world is quiet and the operation succeeds.
\<close>

lemma demo_run: "\<exists>r w'. m w = (r, w')"
  by fastforce

lemma create_never_overwrites_witness:
  "present (snd (Store_Create demo_store (demo_target ''node'') demo_message (demo_world demo_script)))
      AlertDir (Filename (demo_target ''node'')) 1 demo_alert \<and>
   (\<exists>err. fst (Store_Create demo_store (demo_target ''node'') demo_message (demo_world demo_script)) = Inl err)"
proof -
  obtain r w' where run:
    "Store_Create demo_store (demo_target ''node'') demo_message (demo_world demo_script) = (r, w')"
    by fastforce
  from create_never_overwrites [OF run demo_roots(1) demo_targets(1) demo_among(1) TrueI demo_present(1)]
  show ?thesis by (simp add: run)
qed

lemma demo_create: "fst (Store_Create demo_store (demo_target ''new'') demo_message (demo_world [])) = Inr ()"
  by code_simp

lemma create_publishes_witness:
  "\<exists>i. present (snd (Store_Create demo_store (demo_target ''new'') demo_message (demo_world [])))
     AlertDir (Filename (demo_target ''new'')) i (managed_inode demo_message)"
proof -
  obtain w' where run:
    "Store_Create demo_store (demo_target ''new'') demo_message (demo_world []) = (Inr (), w')"
    using demo_create by (metis prod.collapse)
  from create_publishes [OF run demo_roots(1) demo_targets(3) demo_among(2)] show ?thesis by (simp add: run)
qed

lemma demo_managed_data: "managed_data (i_data demo_alert)" "\<not> managed_data (i_data demo_legacy)"
  by code_simp+

lemma write_spares_unmanaged_witness:
  "present (snd (Store_Write demo_store (demo_target ''old'') demo_message (demo_world demo_script)))
      AlertDir (Filename (demo_target ''old'')) 2 demo_legacy \<and>
   (\<exists>err. fst (Store_Write demo_store (demo_target ''old'') demo_message (demo_world demo_script)) = Inl err)"
proof -
  obtain r w' where run:
    "Store_Write demo_store (demo_target ''old'') demo_message (demo_world demo_script) = (r, w')"
    by fastforce
  from write_spares_unmanaged [OF run demo_roots(1) demo_targets(2) demo_among(1) demo_present(2)]
    demo_managed_data(2)
  show ?thesis by (simp add: run)
qed

lemma write_replaces_atomically_witness:
  "present (snd (Store_Write demo_store (demo_target ''node'') demo_message (demo_world demo_script)))
      AlertDir (Filename (demo_target ''old'')) 2 demo_legacy"
proof -
  obtain r w' where run:
    "Store_Write demo_store (demo_target ''node'') demo_message (demo_world demo_script) = (r, w')"
    by fastforce
  from write_replaces_atomically [OF run demo_roots(1) demo_targets(1) demo_among(1) TrueI demo_present(2)]
  show ?thesis by (simp only: run snd_conv) (simp add: demo_target_def Filename_def)
qed

lemma demo_dirs: "AlertDir \<noteq> BackupDir"
  by simp

lemma delete_keeps_a_copy_witness:
  "(\<exists>j bd name. present (snd (Store_Delete demo_store (demo_target ''node'') (demo_world demo_script)))
      BackupDir name j bd \<and> is_backup ''Hi'' bd) \<or>
   present (snd (Store_Delete demo_store (demo_target ''node'') (demo_world demo_script)))
      AlertDir (Filename (demo_target ''node'')) 1 demo_alert"
proof -
  obtain r w' where run:
    "Store_Delete demo_store (demo_target ''node'') (demo_world demo_script) = (r, w')"
    by fastforce
  from delete_keeps_a_copy [OF run demo_roots demo_dirs demo_targets(1) demo_among(1) TrueI demo_present(1)]
  show ?thesis by (cases r) (auto simp: run)
qed


definition demo_snapshot :: sourceSnapshot where
  "demo_snapshot = \<lparr>snapshot_info = info_of 1 demo_alert, snapshot_content = ''Hi''\<rparr>"

lemma demo_verify:
  "fst (verifySourceUnchanged AlertDir (demo_target ''node'') demo_snapshot (demo_world [])) = Inr ()"
  by (simp add: verifySourceUnchanged_def verify_open_def Let_def io_simps demo_world_def demo_fs_def
      lookup_def demo_snapshot_def demo_target_def Filename_def joined_results_def errors_Join_def
      MaxLegacyBytes_def)

lemma verify_detects_a_change_witness:
  "i_data demo_alert = snapshot_content demo_snapshot"
proof -
  obtain w' where run:
    "verifySourceUnchanged AlertDir (demo_target ''node'') demo_snapshot (demo_world []) = (Inr (), w')"
    using demo_verify by (metis prod.collapse)
  from verify_detects_a_change [OF run demo_among(2) demo_present(1)] show ?thesis by simp
qed

lemma read_is_exact_witness:
  "case fst (Store_Read demo_store (demo_target ''node'') (demo_world demo_script)) of
     Inr e \<Rightarrow> e = entry_of (demo_target ''node'') ''Hi'' | Inl err \<Rightarrow> \<not> errors_is err Os_ErrNotExist"
proof -
  obtain r w' where run: "Store_Read demo_store (demo_target ''node'') (demo_world demo_script) = (r, w')"
    by fastforce
  from read_is_exact [OF run demo_roots(1) demo_targets(1) demo_among(1) demo_present(1)]
  show ?thesis by (simp add: run split: sum.splits)
qed

text \<open>A backup directory with seventeen backups.\<close>

definition many_names :: "string list" where
  "many_names = map (\<lambda>k. pad_nat 2 k @ ''.txt'') [0..<17]"

definition many_world :: world where
  "many_world = (demo_world [])\<lparr>w_fs := demo_fs\<lparr>dirs := (\<lambda>d. case d of AlertDir \<Rightarrow> []
     | BackupDir \<Rightarrow> map (\<lambda>n. (n, 1)) many_names | _ \<Rightarrow> [])\<rparr>\<rparr>"

lemma many_run: "fst (pruneBackups BackupDir ''00.txt'' many_world) = Inr ()"
  by code_simp

lemma many_names_of: "names_of BackupDir (w_fs many_world) = many_names"
  by (simp add: names_of_def many_world_def o_def)

lemma many_distinct: "distinct many_names" "length (filter (\<lambda>n. HasSuffix n ''.txt'') many_names) = 17"
  by code_simp+

lemma many_quiet: "\<forall>ev \<in> set (w_script many_world). same_names BackupDir (ev_env ev)"
  by (simp add: many_world_def demo_world_def)

lemma retention_keeps_the_newest_witness:
  "length (backups BackupDir many_world) = 17 \<and>
   length (backups BackupDir (snd (pruneBackups BackupDir ''00.txt'' many_world))) \<le> 16"
proof -
  obtain w' where run: "pruneBackups BackupDir ''00.txt'' many_world = (Inr (), w')"
    using many_run by (metis prod.collapse)
  have "distinct (names_of BackupDir (w_fs many_world))"
    by (simp add: many_names_of many_distinct)
  from retention_keeps_the_newest [OF run this many_quiet] show ?thesis
    by (simp add: run backups_def many_names_of many_distinct)
qed

lemma demo_list: "\<exists>l w'. Store_List demo_store (demo_world []) = (Inr l, w')"
proof -
  obtain es "is" w' where "list_entries AlertDir [''node.txt'', ''old.txt''] \<lparr>listing_Entries = [], listing_Issues = []\<rparr>
      (demo_world []) = (Inr \<lparr>listing_Entries = es, listing_Issues = is\<rparr>, w')"
    using list_entries_run [of AlertDir "[''node.txt'', ''old.txt'']" "\<lparr>listing_Entries = [], listing_Issues = []\<rparr>"
        "demo_world []"] by auto
  moreover have "read_directory ''alert'' AlertDir (demo_world []) = (Inr [''node.txt'', ''old.txt''], demo_world [])"
    by (simp add: read_directory_quiet names_of_def demo_world_def demo_fs_def)
  ultimately show ?thesis by (simp add: Store_List_def io_simps)
qed

lemma list_is_complete_and_sorted_witness:
  "\<exists>l. fst (Store_List demo_store (demo_world [])) = Inr l \<and>
     mset (map (\<lambda>e. Filename (entry_Target e)) (listing_Entries l)) + mset (map issue_Name (listing_Issues l)) =
     {#''node.txt'', ''old.txt''#}"
proof -
  obtain l w' where run: "Store_List demo_store (demo_world []) = (Inr l, w')"
    using demo_list by blast
  have names: "names_of AlertDir (w_fs (demo_world [])) = [''node.txt'', ''old.txt'']"
    by (simp add: names_of_def demo_world_def demo_fs_def)
  from list_is_complete_and_sorted [OF run demo_roots(1)] show ?thesis
    by (simp add: run names HasSuffix_def) (simp add: demo_world_def)
qed

lemma demo_wf_message: "wf_message demo_message"
proof (rule message_Parse_wf)
  show "message_Parse ''Hi'' = Inr demo_message" by code_simp
qed

lemma demo_read_back:
  "fst (Store_Read demo_store (demo_target ''new'')
     (snd (Store_Create demo_store (demo_target ''new'') demo_message (demo_world [])))) =
   Inr (entry_of (demo_target ''new'') ''Hi'')"
  by code_simp

lemma published_message_reads_back_witness:
  "entry_Message (entry_of (demo_target ''new'') ''Hi'') = demo_message"
proof -
  obtain w1 where run: "Store_Create demo_store (demo_target ''new'') demo_message (demo_world []) = (Inr (), w1)"
    using demo_create by (metis prod.collapse)
  obtain w2 where read: "Store_Read demo_store (demo_target ''new'') w1 =
      (Inr (entry_of (demo_target ''new'') ''Hi''), w2)"
    using demo_read_back by (metis prod.collapse run snd_conv)
  from published_message_reads_back [OF disjI1 [OF run] read demo_roots(1) demo_targets(3) demo_wf_message
      demo_among(2)] show ?thesis by simp
qed

definition later_world :: world where
  "later_world = (demo_world [])\<lparr>w_clock := (\<lambda>_. demo_time\<lparr>t_nanosecond := 10\<rparr>)\<rparr>"

lemma backup_names_are_chronological_witness:
  "\<exists>earlier later. fst (newBackupName (demo_target ''zulu'') (demo_world [])) = Inr earlier \<and>
     fst (newBackupName (demo_target ''alpha'') later_world) = Inr later \<and> earlier < later"
proof -
  obtain earlier w1 later w2 where run: "newBackupName (demo_target ''zulu'') (demo_world []) = (Inr earlier, w1)"
    "newBackupName (demo_target ''alpha'') later_world = (Inr later, w2)"
    using newBackupName_now by blast
  have "utc_ok (clock_now (demo_world []))" "utc_ok (clock_now later_world)" "utc_fields (clock_now (demo_world [])) < utc_fields (clock_now later_world)"
    by (simp_all add: utc_ok_def utc_fields_def clock_now_def demo_time_def demo_world_def later_world_def Cons_less_Cons)
  from backup_names_are_chronological [OF run this] run show ?thesis by simp
qed

end
