(* ===== verification/Aredn_Examples.thy ===== *)
theory Aredn_Examples
  imports Aredn_Facts Store_Examples
begin

text \<open>The theorems about the AREDN data at concrete records, routes and answers.\<close>

definition demo_records :: string where
  "demo_records = ''## 10.1.2.3 ##'' @ [LF] @ ''10.1.2.3 KX1X-node'' @ [LF] @ ''10.1.2.9 printer'' @ [LF] @
     ''10.1.2.1 lan.KX1X-node.local.mesh'' @ [LF]"

definition demo_records_inode :: inode where
  "demo_records_inode = \<lparr>i_kind = Regular, i_mode = 420, i_data = demo_records, i_mtime = 0, i_synced = True, i_link = None\<rparr>"

definition demo_hosts_world :: world where
  "demo_hosts_world = (demo_world [])\<lparr>w_fs := demo_fs\<lparr>dirs := (dirs demo_fs)(HostsDir := [(''10.1.2.3'', 3)]),
     inodes := (inodes demo_fs)(3 \<mapsto> demo_records_inode), next_ino := 4\<rparr>\<rparr>"

lemma demo_hosts_read: "fst (hosts_read hosts_defaultReader demo_hosts_world) = Inr [demo_records]"
  by code_simp

lemma host_records_are_bounded_witness:
  "length demo_records \<le> hr_maxTotalBytes hosts_defaultReader"
proof -
  obtain w' where run: "hosts_read hosts_defaultReader demo_hosts_world = (Inr [demo_records], w')"
    using demo_hosts_read by (metis prod.collapse)
  from host_records_are_bounded [OF run] show ?thesis by simp
qed

lemma demo_resolves:
  "source_Resolve ''10.1.2.9'' [] [demo_records] = Inr \<lparr>attr_SourceNode = ''KX1X-node'', attr_SourceHost = ''printer''\<rparr>"
  "source_Resolve ''10.1.2.77'' (''10.1.2.0/24 dev br-lan'' @ [LF]) [demo_records] =
     Inr \<lparr>attr_SourceNode = ''KX1X-node'', attr_SourceHost = []\<rparr>"
  by code_simp+

lemma attribution_names_a_listed_node_witness:
  "named_node [demo_records] ''KX1X-node''"
  using attribution_names_a_listed_node [OF demo_resolves(1)] by simp

definition demo_exchange :: "string \<Rightarrow> goerror + auth_reply" where
  "demo_exchange cookie = Inr \<lparr>reply_status = 200,
     reply_body = ''{'' @ DQUOTE # ''authenticated'' @ DQUOTE # '':true,'' @ DQUOTE # ''name'' @ DQUOTE # '':'' @
       DQUOTE # ''KX1X-node'' @ DQUOTE # ''}'', reply_read_failed = False\<rparr>"

lemma demo_session:
  "VerifySession demo_exchange ''abc'' = Inr \<lparr>session_Authenticated = True, session_Name = ''KX1X-node''\<rparr>"
  by code_simp

lemma sessions_are_vouched_for_witness:
  "one_cookie ''abc'' \<and> TrimSpace ''KX1X-node'' \<noteq> []"
  using sessions_are_vouched_for [OF demo_session] by simp

end
