(* ===== verification/Http_Wire.thy ===== *)
theory Http_Wire
  imports Http_Url
begin

text \<open>
  The file \<open>wire.go\<close> of \<open>internal/minihttp\<close>: lines, header blocks, lengths and body readers.  A
  \<open>*bufio.Reader\<close> on a connection is the list of the byte chunks in which its reads are answered
  and the error that follows them (\<open>EOF\<close> when the peer closes).  Every \<open>io.Reader\<close> of a body is a
  constructor of \<open>body\<close>, one per type of the code.
\<close>

subsection \<open>Errors and readers\<close>

datatype http_error =
    EOF
  | UnexpectedEOF
  | ParseError nat string
  | MaxBytesError nat
  | HttpError string
  | NetError goerror

definition badRequest :: "string \<Rightarrow> http_error" where
  "badRequest msg = ParseError 400 msg"

record conn_reader =
  cr_chunks :: "string list"
  cr_end :: http_error

definition rest_text :: "conn_reader \<Rightarrow> string" where
  "rest_text r = concat (cr_chunks r)"

fun drop_bytes :: "nat \<Rightarrow> string list \<Rightarrow> string list" where
  "drop_bytes n [] = []"
| "drop_bytes n (c # cs) =
     (if length c \<le> n then drop_bytes (n - length c) cs else drop n c # cs)"

definition advance :: "nat \<Rightarrow> conn_reader \<Rightarrow> conn_reader" where
  "advance n r = r\<lparr>cr_chunks := drop_bytes n (cr_chunks r)\<rparr>"

text \<open>\<open>Read\<close> with a buffer of \<open>n\<close> bytes gives bytes of one chunk, or the error when none is left.\<close>

fun first_chunk :: "string list \<Rightarrow> string" where
  "first_chunk [] = []"
| "first_chunk (c # cs) = (if c = [] then first_chunk cs else c)"

definition conn_Read :: "nat \<Rightarrow> conn_reader \<Rightarrow> (string \<times> http_error option) \<times> conn_reader" where
  "conn_Read n r =
     (let data = take n (first_chunk (cr_chunks r)) in
      if first_chunk (cr_chunks r) = [] then (([], Some (cr_end r)), r)
      else ((data, None), advance (length data) r))"

subsection \<open>Lines\<close>

definition bufio_size :: nat where
  "bufio_size = 4096"

text \<open>\<open>ReadSlice\<close> with a newline as delimiter: the bytes up to it, or a full buffer, or all that is left.\<close>

datatype slice_end = Slice_Line | Slice_Full | Slice_End

definition ReadSlice :: "string \<Rightarrow> string \<times> slice_end" where
  "ReadSlice text =
     (let line = takeWhile (\<lambda>c. c \<noteq> LF) text in
      if LF \<in> set text \<and> length line < bufio_size then (line @ [LF], Slice_Line)
      else if bufio_size \<le> length text then (take bufio_size text, Slice_Full)
      else (text, Slice_End))"

text \<open>The loop of \<open>readLine\<close>: the bytes of the line with its newline.\<close>

function readLine_loop :: "nat \<Rightarrow> http_error \<Rightarrow> string \<Rightarrow> string \<Rightarrow> http_error + string" where
  "readLine_loop limit ending line text =
     (case ReadSlice text of (chunk, how) \<Rightarrow>
      if length (line @ chunk) > limit + 2 then Inl (ParseError 431 ''line too long'')
      else case how of
        Slice_Line \<Rightarrow> Inr (line @ chunk)
      | Slice_Full \<Rightarrow> readLine_loop limit ending (line @ chunk) (drop (length chunk) text)
      | Slice_End \<Rightarrow>
          if ending = EOF \<and> line @ chunk \<noteq> [] then Inl UnexpectedEOF else Inl ending)"
  by pat_completeness auto
termination
  by (relation "measure (\<lambda>(limit, ending, line, text). length text)")
    (auto simp: ReadSlice_def bufio_size_def Let_def split: if_splits)

declare readLine_loop.simps [simp del]

definition readLine :: "nat \<Rightarrow> conn_reader \<Rightarrow> http_error + (string \<times> conn_reader)" where
  "readLine limit br =
     (case readLine_loop limit (cr_end br) [] (rest_text br) of
        Inl err \<Rightarrow> Inl err
      | Inr line \<Rightarrow>
          if length line < 2 \<or> line ! (length line - 2) \<noteq> CR
          then Inl (badRequest ''line not terminated by CRLF'')
          else
            let text = take (length line - 2) line in
            if CHR 0x00 \<in> set text then Inl (badRequest ''NUL byte in line'')
            else Inr (text, advance (length line) br))"

subsection \<open>Header blocks\<close>

lemma rest_text_drop [simp]: "concat (drop_bytes n cs) = drop n (concat cs)"
  by (induction n cs rule: drop_bytes.induct) auto

lemma rest_text_advance [simp]: "rest_text (advance n r) = drop n (rest_text r)"
  by (simp add: rest_text_def advance_def)

lemma cr_end_advance [simp]: "cr_end (advance n r) = cr_end r"
  by (simp add: advance_def)

lemma line_split: "LF \<in> set s \<Longrightarrow> \<exists>t. s = takeWhile (\<lambda>c. c \<noteq> LF) s @ LF # t"
  by (induction s) auto

lemma readLine_loop_prefix:
  "readLine_loop limit ending line s = Inr whole \<Longrightarrow> \<exists>more. whole = line @ more \<and> (\<exists>t. s = more @ t)"
proof (induction limit ending line s rule: readLine_loop.induct)
  case (1 limit ending line s)
  obtain chunk how where sl: "ReadSlice s = (chunk, how)" by fastforce
  have pre: "how \<noteq> Slice_Line \<or> (\<exists>t. s = chunk @ t)"
  proof -
    from line_split [of s] sl show ?thesis by (auto simp: ReadSlice_def Let_def split: if_splits)
  qed
  have full: "how = Slice_Full \<Longrightarrow> chunk = take (length chunk) s"
    using sl by (auto simp: ReadSlice_def Let_def split: if_splits)
  show ?case
  proof (cases "how")
    case Slice_Line
    with 1(2) sl pre show ?thesis
      by (auto simp: readLine_loop.simps [of limit ending line s] split: if_splits)
  next
    case Slice_Full
    with 1(2) sl have run: "readLine_loop limit ending (line @ chunk) (drop (length chunk) s) = Inr whole"
      "\<not> length (line @ chunk) > limit + 2"
      by (auto simp: readLine_loop.simps [of limit ending line s] split: if_splits)
    from 1(1) [OF sl [symmetric] run(2) Slice_Full run(1)] full [OF Slice_Full]
    show ?thesis by (metis append.assoc append_take_drop_id)
  next
    case Slice_End
    with 1(2) sl show ?thesis
      by (auto simp: readLine_loop.simps [of limit ending line s] split: if_splits)
  qed
qed

lemma readLine_shorter:
  "readLine limit br = Inr (line, br') \<Longrightarrow> length (rest_text br') < length (rest_text br)"
proof -
  assume a: "readLine limit br = Inr (line, br')"
  then obtain whole where w: "readLine_loop limit (cr_end br) [] (rest_text br) = Inr whole"
    "2 \<le> length whole" "br' = advance (length whole) br"
    by (auto simp: readLine_def Let_def split: sum.splits if_splits)
  from readLine_loop_prefix [OF w(1)] obtain t where "rest_text br = whole @ t" by auto
  with w show ?thesis by (cases whole) auto
qed

function readHeader_loop :: "nat \<Rightarrow> header \<Rightarrow> conn_reader \<Rightarrow> http_error + (header \<times> conn_reader)" where
  "readHeader_loop remaining header br =
     (case readLine remaining br of
        Inl err \<Rightarrow> Inl err
      | Inr (line, br') \<Rightarrow>
          if line = [] then Inr (header, br')
          else if length line + 2 > remaining then Inl (ParseError 431 ''headers too large'')
          else if hd line = CHR '' '' \<or> hd line = TAB then Inl (badRequest ''obsolete header line folding'')
          else case Cut line CHR '':'' of (name, value, found) \<Rightarrow>
            if \<not> found \<or> \<not> isToken name then Inl (badRequest ''malformed header line'')
            else
              let value = Trim value (CHR '' '' # [TAB]) in
              if \<not> validFieldValue value then Inl (badRequest ''invalid header value'')
              else readHeader_loop (remaining - (length line + 2)) (header_Add header name value) br')"
  by pat_completeness auto
termination
  by (relation "measure (\<lambda>(remaining, header, br). length (rest_text br))") (auto dest: readLine_shorter)

declare readHeader_loop.simps [simp del]

definition readHeader :: "conn_reader \<Rightarrow> nat \<Rightarrow> http_error + (header \<times> conn_reader)" where
  "readHeader br limit = readHeader_loop limit [] br"

subsection \<open>Lengths and versions\<close>

text \<open>At most 18 digits, so \<open>ParseInt\<close> does not fail.\<close>

definition parseContentLength :: "header \<Rightarrow> http_error + int" where
  "parseContentLength header =
     (case header_Values header ''Content-Length'' of
        [] \<Rightarrow> Inr (- 1)
      | [value] \<Rightarrow>
          if value = [] \<or> length value > 18 \<or> \<not> list_all is_digit value
          then Inl (badRequest ''invalid Content-Length'')
          else Inr (int (decimal_value value))
      | _ \<Rightarrow> Inl (badRequest ''multiple Content-Length headers''))"

text \<open>The minor version.\<close>

definition parseVersion :: "string \<Rightarrow> nat option" where
  "parseVersion version =
     (if version = ''HTTP/1.0'' then Some 0 else if version = ''HTTP/1.1'' then Some 1 else None)"

subsection \<open>Chunked bodies\<close>

record chunkedReader =
  ch_br :: conn_reader
  ch_left :: nat
  ch_done :: bool
  ch_err :: "http_error option"

definition newChunkedReader :: "conn_reader \<Rightarrow> chunkedReader" where
  "newChunkedReader br = \<lparr>ch_br = br, ch_left = 0, ch_done = False, ch_err = None\<rparr>"

definition noEOF :: "http_error \<Rightarrow> http_error" where
  "noEOF err = (if err = EOF then UnexpectedEOF else err)"

definition expectCRLF :: "conn_reader \<Rightarrow> http_error + conn_reader" where
  "expectCRLF br =
     (case readLine 0 br of
        Inl err \<Rightarrow> Inl (noEOF err)
      | Inr (line, br') \<Rightarrow>
          if line \<noteq> [] then Inl (HttpError ''http: malformed chunk terminator'') else Inr br')"

text \<open>\<open>ParseUint\<close> to base 16; at most 15 digits, so the 62 bits suffice.\<close>

definition parse_hex :: "string \<Rightarrow> nat option" where
  "parse_hex s =
     (if list_all (\<lambda>c. from_hex c \<noteq> None) s then Some (foldl (\<lambda>n c. n * 16 + the (from_hex c)) 0 s) else None)"

definition nextChunk :: "chunkedReader \<Rightarrow> http_error + chunkedReader" where
  "nextChunk c =
     (case readLine 128 (ch_br c) of
        Inl err \<Rightarrow> Inl (noEOF err)
      | Inr (line, br) \<Rightarrow>
          let sizeText = TrimSpace (fst (Cut line CHR '';'')) in
          if sizeText = [] \<or> length sizeText > 15 then Inl (HttpError ''http: invalid chunk size'')
          else case parse_hex sizeText of
            None \<Rightarrow> Inl (HttpError ''http: invalid chunk size'')
          | Some n \<Rightarrow>
              if n > 0 then Inr (c\<lparr>ch_br := br, ch_left := n\<rparr>)
              else (case readHeader br (8 * 1024) of
                  Inl err \<Rightarrow> Inl (noEOF err)
                | Inr (_, br') \<Rightarrow> Inr (c\<lparr>ch_br := br', ch_done := True\<rparr>)))"

definition chunked_fail ::
  "string \<Rightarrow> http_error \<Rightarrow> chunkedReader \<Rightarrow> (string \<times> http_error option) \<times> chunkedReader"
where
  "chunked_fail data err c = ((data, Some err), c\<lparr>ch_err := Some err\<rparr>)"

text \<open>Bytes of the current chunk, and its end when the last of them was read.\<close>

definition chunk_data :: "nat \<Rightarrow> chunkedReader \<Rightarrow> (string \<times> http_error option) \<times> chunkedReader" where
  "chunk_data n c =
     (case conn_Read (min n (ch_left c)) (ch_br c) of ((data, err), br) \<Rightarrow>
      let c = c\<lparr>ch_br := br, ch_left := ch_left c - length data\<rparr> in
      case err of
        Some e \<Rightarrow> chunked_fail data (noEOF e) c
      | None \<Rightarrow>
          if ch_left c = 0 then
            (case expectCRLF br of
               Inl e \<Rightarrow> chunked_fail data e c
             | Inr br' \<Rightarrow> ((data, None), c\<lparr>ch_br := br'\<rparr>))
          else ((data, None), c))"

text \<open>After \<open>nextChunk\<close> there are bytes to read, or the body is done.\<close>

definition chunked_Read :: "nat \<Rightarrow> chunkedReader \<Rightarrow> (string \<times> http_error option) \<times> chunkedReader" where
  "chunked_Read n c =
     (case ch_err c of
        Some err \<Rightarrow> (([], Some err), c)
      | None \<Rightarrow>
          if ch_left c \<noteq> 0 then chunk_data n c
          else if ch_done c then chunked_fail [] EOF c
          else case nextChunk c of
            Inl err \<Rightarrow> chunked_fail [] err c
          | Inr c \<Rightarrow> if ch_left c \<noteq> 0 then chunk_data n c else chunked_fail [] EOF c)"

subsection \<open>Bodies\<close>

datatype body =
    NoBody
  | ConnBody conn_reader
  | BodyReader conn_reader nat
  | ChunkedBody chunkedReader
  | MaxBytesBody body nat nat "http_error option"
  | LimitedBody body nat

text \<open>The method \<open>Read\<close> of each reader; \<open>maxBytesReader\<close> is the one of \<open>request.go\<close> and \<open>LimitedBody\<close> is
  \<open>io.LimitReader\<close>.\<close>

fun body_Read :: "nat \<Rightarrow> body \<Rightarrow> (string \<times> http_error option) \<times> body" where
  "body_Read n NoBody = (([], Some EOF), NoBody)"
| "body_Read n (ConnBody br) = (case conn_Read n br of (result, br') \<Rightarrow> (result, ConnBody br'))"
| "body_Read n (BodyReader br left) =
     (if left = 0 then (([], Some EOF), BodyReader br left)
      else case conn_Read (min n left) br of ((data, err), br') \<Rightarrow>
        let left' = left - length data;
            err = (if err = Some EOF \<and> left' > 0 then Some UnexpectedEOF else err);
            err = (if err = None \<and> left' = 0 then Some EOF else err)
        in ((data, err), BodyReader br' left'))"
| "body_Read n (ChunkedBody c) = (case chunked_Read n c of (result, c') \<Rightarrow> (result, ChunkedBody c'))"
| "body_Read n (MaxBytesBody b left limit failed) =
     (case failed of
        Some err \<Rightarrow> (([], Some err), MaxBytesBody b left limit failed)
      | None \<Rightarrow>
          if n = 0 then (([], None), MaxBytesBody b left limit failed)
          else case body_Read (min n (left + 1)) b of ((data, err), b') \<Rightarrow>
            if length data \<le> left then ((data, err), MaxBytesBody b' (left - length data) limit err)
            else ((take left data, Some (MaxBytesError limit)), MaxBytesBody b' 0 limit (Some (MaxBytesError limit))))"
| "body_Read n (LimitedBody b left) =
     (if left = 0 then (([], Some EOF), LimitedBody b left)
      else case body_Read (min n left) b of ((data, err), b') \<Rightarrow>
        ((data, err), LimitedBody b' (left - length data)))"

definition MaxBytesReader :: "body \<Rightarrow> int \<Rightarrow> body" where
  "MaxBytesReader b limit = MaxBytesBody b (nat limit) (nat limit) None"

subsection \<open>Reading a body to its end\<close>

text \<open>\<open>io.ReadAll\<close> with reads of 512 bytes.  The size of each read is the spare capacity of a slice
  that the runtime grows; what is read does not depend on it.\<close>

fun unread :: "body \<Rightarrow> nat" where
  "unread NoBody = 0"
| "unread (ConnBody br) = length (rest_text br)"
| "unread (BodyReader br left) = length (rest_text br)"
| "unread (ChunkedBody c) = length (rest_text (ch_br c))"
| "unread (MaxBytesBody b left limit failed) = unread b"
| "unread (LimitedBody b left) = unread b"

lemma first_chunk_prefix: "\<exists>t. concat cs = first_chunk cs @ t"
  by (induction cs rule: first_chunk.induct) auto

lemma conn_Read_data:
  assumes "conn_Read n br = ((data, None), br')" "0 < n"
  shows "data \<noteq> [] \<and> length data \<le> n \<and> rest_text br = data @ rest_text br' \<and> cr_end br' = cr_end br"
proof -
  let ?c = "first_chunk (cr_chunks br)"
  from assms have d: "?c \<noteq> []" "data = take n ?c" "br' = advance (length data) br"
    by (auto simp: conn_Read_def Let_def split: if_splits)
  obtain t where "rest_text br = ?c @ t"
    using first_chunk_prefix unfolding rest_text_def by blast
  then have whole: "rest_text br = data @ (drop n ?c @ t)" using d by simp
  have "rest_text br' = drop (length data) (rest_text br)" "cr_end br' = cr_end br"
    unfolding d(3) by simp_all
  with whole have "rest_text br = data @ rest_text br'" "cr_end br' = cr_end br" by simp_all
  with d(1,2) assms(2) show ?thesis by simp
qed

lemma first_chunk_empty: "first_chunk cs = [] \<longleftrightarrow> concat cs = []"
  by (induction cs rule: first_chunk.induct) auto

lemma conn_Read_end:
  "conn_Read n br = ((data, Some err), br') \<Longrightarrow> data = [] \<and> err = cr_end br \<and> rest_text br = [] \<and> br' = br"
  by (auto simp: conn_Read_def Let_def rest_text_def first_chunk_empty split: if_splits)

lemma readHeader_loop_shorter:
  "readHeader_loop remaining header br = Inr (header', br') \<Longrightarrow> length (rest_text br') < length (rest_text br)"
proof (induction remaining header br rule: readHeader_loop.induct)
  case (1 remaining header br)
  show ?case
  proof (cases "readLine remaining br")
    case (Inr p)
    obtain line br1 where p: "p = (line, br1)" by fastforce
    note short = readLine_shorter [OF Inr [unfolded p]]
    obtain name v found where c: "Cut line CHR '':'' = (name, v, found)" by (metis prod_cases3)
    show ?thesis
      using 1(2) Inr p c short 1(1) [OF Inr p [symmetric], of name "(v, found)" v found]
      by (auto simp: readHeader_loop.simps [of remaining header br] Let_def split: if_splits)
  qed (use 1(2) in \<open>simp add: readHeader_loop.simps\<close>)
qed

lemma nextChunk_shorter:
  "nextChunk c = Inr c' \<Longrightarrow> length (rest_text (ch_br c')) < length (rest_text (ch_br c))"
  by (auto simp: nextChunk_def Let_def readHeader_def dest!: readLine_shorter readHeader_loop_shorter
      split: sum.splits if_splits option.splits)

lemma chunk_data_shorter:
  assumes "chunk_data n c = ((data, None), c')" "0 < n" "0 < ch_left c"
  shows "length (rest_text (ch_br c')) < length (rest_text (ch_br c))"
proof -
  obtain d e br where r: "conn_Read (min n (ch_left c)) (ch_br c) = ((d, e), br)" by (metis prod_cases3 surj_pair)
  with assms(1) have e: "e = None" by (cases e) (auto simp: chunk_data_def chunked_fail_def Let_def)
  from conn_Read_data [OF r [unfolded e]] assms(2,3)
  have "length (rest_text br) < length (rest_text (ch_br c))" by (cases d) auto
  with assms(1) r e show ?thesis
    by (auto simp: chunk_data_def chunked_fail_def expectCRLF_def Let_def dest: readLine_shorter
        split: sum.splits if_splits)
qed

lemma chunked_Read_shorter:
  assumes "chunked_Read n c = ((data, None), c')" "0 < n"
  shows "length (rest_text (ch_br c')) < length (rest_text (ch_br c))"
proof (cases "ch_left c = 0")
  case True
  with assms(1) obtain c1 where "nextChunk c = Inr c1" "ch_left c1 \<noteq> 0" "chunk_data n c1 = ((data, None), c')"
    by (auto simp: chunked_Read_def chunked_fail_def split: option.splits if_splits sum.splits)
  with nextChunk_shorter chunk_data_shorter assms(2) show ?thesis by fastforce
next
  case False
  with assms show ?thesis
    by (auto simp: chunked_Read_def intro: chunk_data_shorter split: option.splits)
qed

lemma body_Read_unread: "body_Read n b = ((data, None), b') \<Longrightarrow> 0 < n \<Longrightarrow> unread b' < unread b"
proof (induction n b arbitrary: data b' rule: body_Read.induct)
  case (2 n br)
  then show ?case by (auto split: prod.splits dest!: conn_Read_data)
next
  case (3 n br left)
  obtain d e br' where r: "conn_Read (min n left) br = ((d, e), br')" by (metis prod_cases3 surj_pair)
  with 3 have "e = None" "0 < min n left" "b' = BodyReader br' (left - length d)"
    by (auto simp: Let_def split: if_splits)
  with conn_Read_data [of "min n left" br d br'] r show ?case by (cases d) auto
next
  case (4 n c)
  then show ?case by (auto split: prod.splits intro: chunked_Read_shorter)
next
  case (5 n b left limit failed)
  obtain d e b1 where r: "body_Read (min n (left + 1)) b = ((d, e), b1)" by (metis prod_cases3 surj_pair)
  with 5(2,3) have "failed = None" "e = None" "unread b' = unread b1"
    by (auto split: option.splits if_splits)
  with 5(1) [of d b1] 5(3) r show ?case by simp
next
  case (6 n b left)
  obtain d e b1 where r: "body_Read (min n left) b = ((d, e), b1)" by (metis prod_cases3 surj_pair)
  with 6(2) have "left \<noteq> 0" "e = None" "unread b' = unread b1" by (auto split: if_splits)
  with 6(1) [of d b1] 6(3) r show ?case by simp
qed auto

function ReadAll :: "body \<Rightarrow> (string \<times> http_error option) \<times> body" where
  "ReadAll b =
     (case body_Read 512 b of
        ((data, Some err), b') \<Rightarrow> ((data, if err = EOF then None else Some err), b')
      | ((data, None), b') \<Rightarrow> (case ReadAll b' of ((data', err), b'') \<Rightarrow> ((data @ data', err), b'')))"
  by pat_completeness auto
termination
  by (relation "measure unread") (auto dest: body_Read_unread [OF sym])

declare ReadAll.simps [simp del]

subsection \<open>Writing header fields\<close>

text \<open>\<open>strings.NewReplacer\<close> with three one-byte patterns.\<close>

definition flatten_value :: "string \<Rightarrow> string" where
  "flatten_value = map (\<lambda>c. if c = CR \<or> c = LF \<or> c = CHR 0x00 then CHR '' '' else c)"

abbreviation CRLF :: string where "CRLF \<equiv> [CR, LF]"

definition write_field :: "string \<Rightarrow> string \<Rightarrow> string" where
  "write_field name value = name @ '': '' @ flatten_value value @ CRLF"

definition writeHeader :: "header \<Rightarrow> string list \<Rightarrow> string" where
  "writeHeader header skip =
     concat (map (\<lambda>name.
       if \<not> isToken name then []
       else if list_ex (EqualFold name) skip then []
       else concat (map (write_field name) (case map_of header name of None \<Rightarrow> [] | Some vs \<Rightarrow> vs)))
     (sort (map fst header)))"

end
