(* ===== verification/Http_Request.thy ===== *)
theory Http_Request
  imports Http_Wire Control_Client
begin

text \<open>
  The file \<open>request.go\<close> of \<open>internal/minihttp\<close>: requests, cookies and forms.  A request's body is its
  reader; reading it returns the request with the body that is left.  Every request of the server
  and of \<open>NewRequestWithContext\<close> has a body, so \<open>Body\<close> is never nil here.
\<close>

record http_request =
  hq_Method :: string
  hq_URL :: URL
  hq_Header :: header
  hq_Body :: body
  hq_ContentLength :: int
  hq_Host :: string
  hq_RemoteAddr :: string
  hq_Form :: "values option"
  hq_PostForm :: "values option"
  hq_pathValues :: "(string \<times> string) list"
  hq_ctx :: "call_context option"

definition background :: call_context where
  "background = \<lparr>ctx_identity = None\<rparr>"

text \<open>\<open>None\<close> is a nil context; the body is given with the length that \<open>setBody\<close> finds, 0 when unknown.
  The texts of the errors of \<open>net/url\<close> are not modelled.\<close>

definition NewRequestWithContext ::
  "(string \<Rightarrow> string option) \<Rightarrow> call_context option \<Rightarrow> string \<Rightarrow> string \<Rightarrow> body \<Rightarrow> int \<Rightarrow> http_error + http_request"
where
  "NewRequestWithContext parse_host ctx method target b len =
     (case ctx of
        None \<Rightarrow> Inl (HttpError ''http: nil Context'')
      | Some _ \<Rightarrow>
          let method = (if method = [] then MethodGet else method) in
          if \<not> isToken method then Inl (HttpError (''http: invalid method '' @ Quote method))
          else case url_Parse parse_host target of
            None \<Rightarrow> Inl (HttpError ''parse'')
          | Some parsed \<Rightarrow>
              Inr \<lparr>hq_Method = method, hq_URL = parsed, hq_Header = [], hq_Body = b,
                hq_ContentLength = (if b = NoBody then 0 else len), hq_Host = url_Host parsed, hq_RemoteAddr = [],
                hq_Form = None, hq_PostForm = None, hq_pathValues = [], hq_ctx = ctx\<rparr>)"

definition request_Context :: "http_request \<Rightarrow> call_context" where
  "request_Context r = (case hq_ctx r of None \<Rightarrow> background | Some c \<Rightarrow> c)"

definition WithContext :: "http_request \<Rightarrow> call_context \<Rightarrow> http_request" where
  "WithContext r c = r\<lparr>hq_ctx := Some c\<rparr>"

definition PathValue :: "http_request \<Rightarrow> string \<Rightarrow> string" where
  "PathValue r name = (case map_of (hq_pathValues r) name of None \<Rightarrow> [] | Some v \<Rightarrow> v)"

subsection \<open>Cookies\<close>

record http_cookie =
  cookie_Name :: string
  cookie_Value :: string

definition unquote_cookie :: "string \<Rightarrow> string" where
  "unquote_cookie v =
     (if length v > 1 \<and> hd v = DQUOTE \<and> last v = DQUOTE then butlast (tl v) else v)"

text \<open>The two loops run over the parts of every line.\<close>

fun find_cookie :: "string \<Rightarrow> string list \<Rightarrow> http_cookie option" where
  "find_cookie name [] = None"
| "find_cookie name (part # parts) =
     (case Cut (TrimSpace part) CHR ''='' of (key, v, found) \<Rightarrow>
        if \<not> found \<or> key \<noteq> name then find_cookie name parts
        else Some \<lparr>cookie_Name = key, cookie_Value = unquote_cookie v\<rparr>)"

definition request_Cookie :: "http_request \<Rightarrow> string \<Rightarrow> http_cookie option" where
  "request_Cookie r name =
     find_cookie name (concat (map (\<lambda>line. Split line CHR '';'') (header_Values (hq_Header r) ''Cookie'')))"

definition AddCookie :: "http_request \<Rightarrow> http_cookie \<Rightarrow> http_request" where
  "AddCookie r cookie =
     (let pair = cookie_Name cookie @ ''='' @ cookie_Value cookie;
          existing = header_Get (hq_Header r) ''Cookie''
      in r\<lparr>hq_Header := header_Set (hq_Header r) ''Cookie''
           (if existing \<noteq> [] then existing @ ''; '' @ pair else pair)\<rparr>)"

subsection \<open>Forms\<close>

definition maxFormSize :: nat where
  "maxFormSize = 10 * 2 ^ 20"

definition is_max_bytes :: "body \<Rightarrow> bool" where
  "is_max_bytes b = (case b of MaxBytesBody _ _ _ _ \<Rightarrow> True | _ \<Rightarrow> False)"

definition form_media_type :: "http_request \<Rightarrow> string" where
  "form_media_type r =
     (let contentType = header_Get (hq_Header r) ''Content-Type'';
          contentType = (if contentType = [] then ''application/octet-stream'' else contentType)
      in ToLower (TrimSpace (fst (Cut contentType CHR '';''))))"

text \<open>The form, the error and the request with the body that is left.  A \<open>maxBytesReader\<close> has its own
  limit; the length of what it gives never exceeds \<open>2 ^ 63 - 1\<close>.  \<open>ParseQuery\<close> returns the pairs it
  could decode together with its error.\<close>

definition parsePostForm :: "http_request \<Rightarrow> (values option \<times> http_error option) \<times> http_request" where
  "parsePostForm r =
     (if form_media_type r \<noteq> ''application/x-www-form-urlencoded'' then ((None, None), r)
      else
        let limited = \<not> is_max_bytes (hq_Body r);
            reader = (if limited then LimitedBody (hq_Body r) (maxFormSize + 1) else hq_Body r)
        in case ReadAll reader of ((data, err), left) \<Rightarrow>
          let r = r\<lparr>hq_Body := (case left of LimitedBody b _ \<Rightarrow> b | b \<Rightarrow> b)\<rparr> in
          (case err of
             Some e \<Rightarrow> ((None, Some e), r)
           | None \<Rightarrow>
               if limited \<and> length data > maxFormSize then ((None, Some (HttpError ''http: POST too large'')), r)
               else case ParseQuery data of (form, bad) \<Rightarrow>
                 ((Some form, if bad then Some (HttpError ''invalid form'') else None), r)))"

definition append_values :: "values \<Rightarrow> values \<Rightarrow> values" where
  "append_values m m' = foldl (\<lambda>m (key, vs).
     AList.update key ((case map_of m key of None \<Rightarrow> [] | Some old \<Rightarrow> old) @ vs) m) m m'"

definition post_form :: "http_request \<Rightarrow> http_error option \<times> http_request" where
  "post_form r =
     (if hq_PostForm r \<noteq> None then (None, r)
      else if hq_Method r = MethodPost \<or> hq_Method r = MethodPut then
        (case parsePostForm r of ((form, err), r') \<Rightarrow>
           (err, r'\<lparr>hq_PostForm := Some (case form of None \<Rightarrow> [] | Some f \<Rightarrow> f)\<rparr>))
      else (None, r\<lparr>hq_PostForm := Some []\<rparr>))"

definition ParseForm :: "http_request \<Rightarrow> http_error option \<times> http_request" where
  "ParseForm r =
     (case post_form r of (err, r) \<Rightarrow>
      if hq_Form r \<noteq> None then (err, r)
      else
        case ParseQuery (url_RawQuery (hq_URL r)) of (query, bad) \<Rightarrow>
          (if err = None \<and> bad then Some (HttpError ''invalid query'') else err,
           r\<lparr>hq_Form := Some (append_values (case hq_PostForm r of None \<Rightarrow> [] | Some f \<Rightarrow> f) query)\<rparr>))"

end
