(* ===== verification/Http_Response.thy ===== *)
theory Http_Response
  imports Http_Request
begin

text \<open>
  The \<open>responseWriter\<close> of \<open>server.go\<close>: the response a handler assembles in memory, and the bytes that
  are sent when it returns.  \<open>rw_panic\<close> holds the text of a panic the handler has raised.
\<close>

record responseWriter =
  rw_header :: header
  rw_status :: nat
  rw_wroteHeader :: bool
  rw_head :: bool
  rw_body :: string
  rw_panic :: "string option"

definition new_writer :: "bool \<Rightarrow> responseWriter" where
  "new_writer head = \<lparr>rw_header = [], rw_status = 0, rw_wroteHeader = False, rw_head = head, rw_body = [],
     rw_panic = None\<rparr>"

type_synonym handler = "http_request \<Rightarrow> responseWriter \<Rightarrow> responseWriter io"

definition set_header :: "string \<Rightarrow> string \<Rightarrow> responseWriter \<Rightarrow> responseWriter" where
  "set_header key v w = w\<lparr>rw_header := header_Set (rw_header w) key v\<rparr>"

definition WriteHeader :: "nat \<Rightarrow> responseWriter \<Rightarrow> responseWriter" where
  "WriteHeader code w =
     (if rw_wroteHeader w then w
      else if code < 100 \<or> code > 999 then w\<lparr>rw_panic := Some (''invalid WriteHeader code '' @ show_nat code)\<rparr>
      else w\<lparr>rw_wroteHeader := True, rw_status := code\<rparr>)"

definition bodyAllowed :: "nat \<Rightarrow> bool" where
  "bodyAllowed status \<longleftrightarrow> \<not> (status \<ge> 100 \<and> status < 200) \<and> status \<noteq> 204 \<and> status \<noteq> 304"

definition maxResponseBodyBytes :: nat where
  "maxResponseBodyBytes = 8 * 2 ^ 20"

text \<open>\<open>Write\<close>; the flag says that it succeeded.\<close>

definition rw_Write :: "string \<Rightarrow> responseWriter \<Rightarrow> bool \<times> responseWriter" where
  "rw_Write data w =
     (let w = (if rw_wroteHeader w then w else WriteHeader 200 w) in
      if \<not> bodyAllowed (rw_status w) then (False, w)
      else if length (rw_body w) + length data > maxResponseBodyBytes then (False, w)
      else (True, w\<lparr>rw_body := rw_body w @ data\<rparr>))"

text \<open>Writes whose errors are ignored, and a template that stops at the first failed write.\<close>

definition write_ignored :: "string \<Rightarrow> responseWriter \<Rightarrow> responseWriter" where
  "write_ignored data w = snd (rw_Write data w)"

fun write_chunks :: "string list \<Rightarrow> responseWriter \<Rightarrow> responseWriter" where
  "write_chunks [] w = w"
| "write_chunks (c # cs) w = (case rw_Write c w of (True, w') \<Rightarrow> write_chunks cs w' | (False, w') \<Rightarrow> w')"

text \<open>\<open>finish\<close>: the bytes on the connection.\<close>

definition response_head :: "responseWriter \<Rightarrow> string" where
  "response_head w =
     ''HTTP/1.1 '' @ show_nat (rw_status w) @ '' '' @
     (if StatusText (rw_status w) = [] then ''Status'' else StatusText (rw_status w)) @ CRLF @
     writeHeader (rw_header w) [''Content-Length'', ''Transfer-Encoding'', ''Connection''] @
     (if bodyAllowed (rw_status w) then ''Content-Length: '' @ show_nat (length (rw_body w)) @ CRLF else []) @
     ''Connection: close'' @ CRLF @ CRLF"

definition finish :: "responseWriter \<Rightarrow> string" where
  "finish w =
     (let w = (if rw_wroteHeader w then w else WriteHeader 200 w)
      in response_head w @ (if bodyAllowed (rw_status w) \<and> \<not> rw_head w then rw_body w else []))"

end
