(* ===== verification/Http_Mux.thy ===== *)
theory Http_Mux
  imports Http_Response Html
begin

text \<open>
  The file \<open>mux.go\<close> of \<open>internal/minihttp\<close>: routing by path, redirects and error replies.
\<close>

subsection \<open>Replies\<close>

definition http_Error :: "string \<Rightarrow> nat \<Rightarrow> responseWriter \<Rightarrow> responseWriter" where
  "http_Error message code w =
     (let w = w\<lparr>rw_header := header_Del (rw_header w) ''Content-Length''\<rparr>;
          w = set_header ''Content-Type'' ''text/plain; charset=utf-8'' w;
          w = set_header ''X-Content-Type-Options'' ''nosniff'' w
      in write_ignored (message @ [LF]) (WriteHeader code w))"

definition http_NotFound :: "responseWriter \<Rightarrow> responseWriter" where
  "http_NotFound w = http_Error ''404 page not found'' 404 w"

definition escapeNonASCII :: "string \<Rightarrow> string" where
  "escapeNonASCII s =
     concat (map (\<lambda>c. if byte c \<ge> 128 \<or> byte c < 32 \<or> byte c = 127 then escape_byte c else [c]) s)"

text \<open>The target of a redirect, resolved against the request path.  Its authority is not decoded: no
  target of the program starts with two slashes.\<close>

definition redirect_target :: "http_request \<Rightarrow> string \<Rightarrow> string" where
  "redirect_target r target =
     (case url_Parse Some target of
        None \<Rightarrow> target
      | Some parsed \<Rightarrow>
          if url_Scheme parsed \<noteq> [] \<or> url_Host parsed \<noteq> [] then target
          else
            let oldPath = (if url_Path (hq_URL r) = [] then ''/'' else url_Path (hq_URL r));
                oldPath = TrimSuffix oldPath ''/'';
                target = (if target = [] then oldPath
                  else if hd target \<noteq> CHR ''/'' then path_Dir_of_Split (url_Path (hq_URL r)) @ target
                  else target);
                base = takeWhile (\<lambda>c. c \<noteq> CHR ''?'') target;
                query = drop (length base) target;
                cleaned = path_Clean base;
                cleaned = (if HasSuffix base ''/'' \<and> \<not> HasSuffix cleaned ''/'' then cleaned @ ''/'' else cleaned)
            in cleaned @ query)"

definition http_Redirect :: "http_request \<Rightarrow> string \<Rightarrow> nat \<Rightarrow> responseWriter \<Rightarrow> responseWriter" where
  "http_Redirect r target code w =
     (let target = redirect_target r target;
          hadContentType = map_of (rw_header w) ''Content-Type'' \<noteq> None;
          w = set_header ''Location'' (escapeNonASCII target) w;
          w = (if \<not> hadContentType \<and> (hq_Method r = MethodGet \<or> hq_Method r = MethodHead)
               then set_header ''Content-Type'' ''text/html; charset=utf-8'' w else w);
          w = WriteHeader code w
      in if \<not> hadContentType \<and> hq_Method r = MethodGet
         then write_ignored (''<a href='' @ DQUOTE # EscapeString target @ DQUOTE # ''>'' @ StatusText code @
                ''</a>.'' @ [LF]) w
         else w)"

subsection \<open>Routes\<close>

record mux_segment =
  seg_literal :: string
  seg_wildcard :: string

record mux_route =
  rt_pattern :: string
  rt_segs :: "mux_segment list"
  rt_subtree :: bool
  rt_handler :: handler
  rt_score :: nat

definition parse_segment :: "string \<Rightarrow> mux_segment" where
  "parse_segment part =
     (if HasPrefix part ''{'' \<and> HasSuffix part ''}''
      then \<lparr>seg_literal = [], seg_wildcard = take (length part - 2) (tl part)\<rparr>
      else \<lparr>seg_literal = part, seg_wildcard = []\<rparr>)"

definition pattern_segments :: "string \<Rightarrow> mux_segment list" where
  "pattern_segments pattern =
     (let trimmed = Trim pattern ''/''
      in if trimmed = [] then [] else map parse_segment (Split trimmed CHR ''/''))"

text \<open>\<open>None\<close> is a panic.\<close>

definition mux_Handle :: "mux_route list \<Rightarrow> string \<Rightarrow> handler \<Rightarrow> mux_route list option" where
  "mux_Handle routes pattern h =
     (if \<not> HasPrefix pattern ''/'' then None
      else
        let subtree = HasSuffix pattern ''/''; segs = pattern_segments pattern;
            score = length segs + 10 * length (filter (\<lambda>seg. seg_wildcard seg = []) segs) +
              (if subtree then 0 else 1000)
        in Some (routes @ [\<lparr>rt_pattern = pattern, rt_segs = segs, rt_subtree = subtree, rt_handler = h,
             rt_score = score\<rparr>]))"

text \<open>The loop of \<open>matches\<close> over the segments and the parts of the path.\<close>

fun match_segments :: "mux_segment list \<Rightarrow> string list \<Rightarrow> (string \<times> string) list \<Rightarrow> (string \<times> string) list option" where
  "match_segments [] parts vs = Some vs"
| "match_segments (seg # segs) [] vs = None"
| "match_segments (seg # segs) (p # parts) vs =
     (case PathUnescape p of
        None \<Rightarrow> None
      | Some part \<Rightarrow>
          if seg_wildcard seg = [] then
            (if seg_literal seg \<noteq> part then None else match_segments segs parts vs)
          else if part = [] then None
          else match_segments segs parts (AList.update (seg_wildcard seg) part vs))"

definition route_matches :: "mux_route \<Rightarrow> string list \<Rightarrow> (string \<times> string) list option" where
  "route_matches rt parts =
     (if rt_subtree rt \<and> length parts < length (rt_segs rt) + 1 \<and> rt_segs rt \<noteq> [] then None
      else if \<not> rt_subtree rt \<and> length parts \<noteq> length (rt_segs rt) then None
      else match_segments (rt_segs rt) parts [])"

fun best_match :: "string list \<Rightarrow> mux_route list \<Rightarrow> (mux_route \<times> (string \<times> string) list) option \<Rightarrow>
  (mux_route \<times> (string \<times> string) list) option"
where
  "best_match parts [] best = best"
| "best_match parts (rt # routes) best =
     (case route_matches rt parts of
        None \<Rightarrow> best_match parts routes best
      | Some vs \<Rightarrow>
          if (case best of None \<Rightarrow> True | Some (b, _) \<Rightarrow> rt_score b < rt_score rt)
          then best_match parts routes (Some (rt, vs))
          else best_match parts routes best)"

definition mux_match :: "mux_route list \<Rightarrow> string \<Rightarrow> (mux_route \<times> (string \<times> string) list) option" where
  "mux_match routes escapedPath =
     best_match (Split (TrimPrefix escapedPath ''/'') CHR ''/'') routes None"

definition cleanPath :: "string \<Rightarrow> string" where
  "cleanPath p =
     (if p = [] then ''/''
      else
        let p = (if hd p \<noteq> CHR ''/'' then ''/'' @ p else p); cleaned = path_Clean p
        in if last p = CHR ''/'' \<and> cleaned \<noteq> ''/'' then cleaned @ ''/'' else cleaned)"

definition mux_ServeHTTP :: "mux_route list \<Rightarrow> handler" where
  "mux_ServeHTTP routes r w =
     (let requestPath = url_Path (hq_URL r); cleaned = cleanPath requestPath in
      if cleaned \<noteq> requestPath then
        return_io (http_Redirect r
          (cleaned @ (if url_RawQuery (hq_URL r) \<noteq> [] then ''?'' @ url_RawQuery (hq_URL r) else [])) 301 w)
      else case mux_match routes (EscapedPath (hq_URL r)) of
        None \<Rightarrow> return_io (http_NotFound w)
      | Some (best, vs) \<Rightarrow>
          if (rt_pattern best = ''/'' \<or> rt_subtree best) \<and> \<not> HasSuffix requestPath ''/'' \<and>
            list_ex (\<lambda>rt. rt_pattern rt = requestPath @ ''/'' \<and> rt_pattern rt \<noteq> rt_pattern best) routes
          then return_io (http_Redirect r (requestPath @ ''/'') 301 w)
          else rt_handler best (if vs \<noteq> [] then r\<lparr>hq_pathValues := vs\<rparr> else r) w)"

end
