(* ===== verification/Http_Server.thy ===== *)
theory Http_Server
  imports Http_Mux
begin

text \<open>
  The file \<open>server.go\<close> of \<open>internal/minihttp\<close>: reading one request from a connection and serving it.
  A connection is what its reads will give and its peer's address; serving it returns the bytes
  written to it.
\<close>

subsection \<open>Reading a request\<close>

definition maxRequestBodyBytes :: int where
  "maxRequestBodyBytes = 10 * 2 ^ 20"

definition line_error :: "http_error \<Rightarrow> http_error" where
  "line_error err =
     (case err of
        ParseError status msg \<Rightarrow> if status = 431 then ParseError 414 ''request line too long'' else err
      | _ \<Rightarrow> err)"

definition request_host :: "nat \<Rightarrow> header \<Rightarrow> http_error + string" where
  "request_host minor header =
     (let hosts = header_Values header ''Host'' in
      if length hosts > 1 then Inl (badRequest ''multiple Host headers'')
      else
        let host = (case hosts of [] \<Rightarrow> [] | h # _ \<Rightarrow> h) in
        if host \<noteq> [] \<and> \<not> validHost host then Inl (badRequest ''invalid Host header'')
        else if minor = 1 \<and> host = [] then Inl (badRequest ''missing Host header'')
        else Inr host)"

text \<open>The request after its line and header block have been read.\<close>

definition build_request ::
  "string \<Rightarrow> URL \<Rightarrow> nat \<Rightarrow> header \<Rightarrow> conn_reader \<Rightarrow> http_error + http_request"
where
  "build_request method parsed minor header br =
     (if header_Values header ''Transfer-Encoding'' \<noteq> []
      then Inl (ParseError 501 ''Transfer-Encoding is not supported'')
      else case request_host minor header of
        Inl err \<Rightarrow> Inl err
      | Inr host \<Rightarrow>
          (case parseContentLength header of
             Inl err \<Rightarrow> Inl err
           | Inr len \<Rightarrow>
               if len > maxRequestBodyBytes then Inl (ParseError 413 ''request body too large'')
               else Inr \<lparr>hq_Method = method, hq_URL = parsed, hq_Header = header_Del header ''Host'',
                 hq_Body = (if len > 0 then BodyReader br (nat len) else NoBody),
                 hq_ContentLength = (if len > 0 then len else 0), hq_Host = host, hq_RemoteAddr = [],
                 hq_Form = None, hq_PostForm = None, hq_pathValues = [], hq_ctx = None\<rparr>))"

text \<open>The target starts with a slash, so it has no authority to decode.\<close>

definition server_readRequest :: "conn_reader \<Rightarrow> nat \<Rightarrow> http_error + http_request" where
  "server_readRequest br maxHeader =
     (case readLine 8192 br of
        Inl err \<Rightarrow> Inl (line_error err)
      | Inr (line, br) \<Rightarrow>
          (case Split line CHR '' '' of
             [method, target, version] \<Rightarrow>
               if \<not> isToken method then Inl (badRequest ''invalid method'')
               else (case parseVersion version of
                   None \<Rightarrow> Inl (ParseError 505 ''unsupported HTTP version'')
                 | Some minor \<Rightarrow>
                     if \<not> HasPrefix target ''/'' then Inl (badRequest ''unsupported request target'')
                     else if list_ex (\<lambda>c. byte c \<le> 32 \<or> byte c = 127) target
                     then Inl (badRequest ''invalid request target'')
                     else (case ParseRequestURI (\<lambda>_. None) target of
                         None \<Rightarrow> Inl (badRequest ''invalid request target'')
                       | Some parsed \<Rightarrow>
                           (case readHeader br maxHeader of
                              Inl err \<Rightarrow> Inl err
                            | Inr (header, br) \<Rightarrow> build_request method parsed minor header br)))
           | _ \<Rightarrow> Inl (badRequest ''malformed request line'')))"

subsection \<open>Serving a connection\<close>

definition defaultMaxHeaderBytes :: nat where
  "defaultMaxHeaderBytes = 16 * 1024"

definition writeSimple :: "nat \<Rightarrow> string \<Rightarrow> string" where
  "writeSimple status msg =
     (let body = msg @ [LF] in
      ''HTTP/1.1 '' @ show_nat status @ '' '' @ StatusText status @ CRLF @
      ''Content-Type: text/plain; charset=utf-8'' @ CRLF @
      ''X-Content-Type-Options: nosniff'' @ CRLF @
      ''Content-Length: '' @ show_nat (length body) @ CRLF @
      ''Connection: close'' @ CRLF @ CRLF @ body)"

record http_conn =
  conn_reads :: conn_reader
  conn_peer :: string

text \<open>What the deferred function sends after a panic of the handler.\<close>

definition recovered :: "responseWriter \<Rightarrow> responseWriter" where
  "recovered w =
     (case rw_panic w of
        None \<Rightarrow> w
      | Some _ \<Rightarrow>
          if rw_wroteHeader w then w
          else WriteHeader 500 (w\<lparr>rw_header := [], rw_body := [], rw_panic := None\<rparr>))"

definition serveConn :: "handler option \<Rightarrow> nat \<Rightarrow> http_conn \<Rightarrow> string io" where
  "serveConn h maxHeaderBytes conn =
     (let maxHeader = (if maxHeaderBytes = 0 then defaultMaxHeaderBytes else maxHeaderBytes) in
      case server_readRequest (conn_reads conn) maxHeader of
        Inl (ParseError status msg) \<Rightarrow> return_io (writeSimple status msg)
      | Inl _ \<Rightarrow> return_io []
      | Inr request \<Rightarrow>
          let request = request\<lparr>hq_ctx := Some background, hq_RemoteAddr := conn_peer conn\<rparr>;
              serve = (case h of None \<Rightarrow> (\<lambda>_ w. return_io (http_NotFound w)) | Some handler \<Rightarrow> handler)
          in bind_io (serve request (new_writer (hq_Method request = MethodHead))) (\<lambda>w.
             return_io (finish (recovered w))))"

definition rejectBusy :: string where
  "rejectBusy = ''HTTP/1.1 503 Service Unavailable'' @ CRLF @ ''Content-Length: 0'' @ CRLF @
     ''Connection: close'' @ CRLF @ CRLF"

end
