(* ===== verification/Http_Client.thy ===== *)
theory Http_Client
  imports Http_Request
begin

text \<open>
  The file \<open>client.go\<close> of \<open>internal/minihttp\<close>: one plain HTTP exchange.  The network is described by
  what happens when the client dials and writes and by what comes back for the bytes it wrote.
\<close>

subsection \<open>The connection\<close>

record network =
  net_dial :: "string \<Rightarrow> goerror option"
  net_write :: "string \<Rightarrow> goerror option"
  net_reply :: "string \<Rightarrow> conn_reader"
  net_context :: "goerror option"

text \<open>\<open>net.SplitHostPort\<close> succeeds, and \<open>net.JoinHostPort\<close>.\<close>

definition has_port :: "string \<Rightarrow> bool" where
  "has_port hostport \<longleftrightarrow>
     (let tail = takeWhile (\<lambda>c. c \<noteq> CHR '':'') (rev hostport);
          i = length hostport - length tail - 1;
          close = length (takeWhile (\<lambda>c. c \<noteq> CHR '']'') hostport)
      in CHR '':'' \<in> set hostport \<and>
         (if HasPrefix hostport ''[''
          then CHR '']'' \<in> set hostport \<and> close + 1 = i \<and>
            CHR ''['' \<notin> set (tl hostport) \<and> CHR '']'' \<notin> set (drop (close + 1) hostport)
          else CHR '':'' \<notin> set (take i hostport) \<and> CHR ''['' \<notin> set hostport \<and> CHR '']'' \<notin> set hostport))"

definition JoinHostPort :: "string \<Rightarrow> string \<Rightarrow> string" where
  "JoinHostPort host port =
     (if CHR '':'' \<in> set host then ''['' @ host @ '']:'' @ port else host @ '':'' @ port)"

definition dial_address :: "string \<Rightarrow> string" where
  "dial_address address = (if has_port address then address else JoinHostPort (Trim address ''[]'') ''80'')"

subsection \<open>The request on the wire\<close>

text \<open>\<open>io.ReadFull\<close>: exactly \<open>n\<close> bytes; \<open>EOF\<close> only when there is none.\<close>

function ReadFull :: "nat \<Rightarrow> body \<Rightarrow> http_error + string" where
  "ReadFull n b =
     (if n = 0 then Inr []
      else case body_Read n b of
        ((data, Some err), b') \<Rightarrow>
          if length data = n then Inr data
          else if err = EOF \<and> data \<noteq> [] then Inl UnexpectedEOF else Inl err
      | ((data, None), b') \<Rightarrow>
          (case ReadFull (n - length data) b' of
             Inr rest \<Rightarrow> Inr (data @ rest)
           | Inl err \<Rightarrow> if err = EOF \<and> data \<noteq> [] then Inl UnexpectedEOF else Inl err))"
  by pat_completeness auto
termination
  by (relation "measure (\<lambda>(n, b). unread b)") (auto dest: body_Read_unread [OF sym])

declare ReadFull.simps [simp del]

definition maxUnknownLengthBody :: nat where
  "maxUnknownLengthBody = 2 ^ 20"

definition outgoingBody :: "http_request \<Rightarrow> http_error + string \<times> int" where
  "outgoingBody request =
     (if hq_Body request = NoBody then Inr ([], 0)
      else if hq_ContentLength request > 0 then
        (case ReadFull (nat (hq_ContentLength request)) (hq_Body request) of
           Inl err \<Rightarrow> Inl (HttpError ''http: read request body'')
         | Inr data \<Rightarrow> Inr (data, hq_ContentLength request))
      else if hq_ContentLength request < 0 then
        (case ReadAll (LimitedBody (hq_Body request) (maxUnknownLengthBody + 1)) of ((data, err), _) \<Rightarrow>
           if err \<noteq> None then Inl (HttpError ''http: read request body'')
           else if length data > maxUnknownLengthBody then Inl (HttpError ''http: request body too large'')
           else Inr (data, int (length data)))
      else Inr ([], 0))"

definition request_bytes :: "http_request \<Rightarrow> string \<Rightarrow> string \<Rightarrow> int \<Rightarrow> string" where
  "request_bytes request host data len =
     hq_Method request @ '' '' @ RequestURI (hq_URL request) @ '' HTTP/1.1'' @ CRLF @
     ''Host: '' @ host @ CRLF @
     writeHeader (hq_Header request) [''Host'', ''Content-Length'', ''Transfer-Encoding'', ''Connection''] @
     (if len > 0 \<or> hq_Method request = MethodPost \<or> hq_Method request = MethodPut
      then ''Content-Length: '' @ show_int len @ CRLF else []) @
     ''Connection: close'' @ CRLF @ CRLF @ data"

subsection \<open>The response\<close>

record http_response =
  hr_Status :: string
  hr_StatusCode :: nat
  hr_Header :: header
  hr_Body :: body
  hr_ContentLength :: int

text \<open>\<open>strconv.Atoi\<close> of three bytes gives a value of at least 100 only for three digits.\<close>

definition status_code :: "string \<Rightarrow> nat option" where
  "status_code s =
     (if list_all is_digit s \<and> decimal_value s \<ge> 100 then Some (decimal_value s) else None)"

definition response_body :: "string \<Rightarrow> nat \<Rightarrow> header \<Rightarrow> conn_reader \<Rightarrow> http_error + body \<times> int" where
  "response_body method code header br =
     (if method = MethodHead \<or> (code \<ge> 100 \<and> code < 200) \<or> code = 204 \<or> code = 304
      then Inr (NoBody, - 1)
      else if EqualFold (TrimSpace (header_Get header ''Transfer-Encoding'')) ''chunked''
      then Inr (ChunkedBody (newChunkedReader br), - 1)
      else case parseContentLength header of
        Inl err \<Rightarrow> Inl err
      | Inr len \<Rightarrow> Inr (if len \<ge> 0 then BodyReader br (nat len) else ConnBody br, len))"

definition maxResponseHeaderBytes :: nat where
  "maxResponseHeaderBytes = 64 * 1024"

text \<open>The response and what is left of the input after its header block.\<close>

definition client_readResponse :: "conn_reader \<Rightarrow> string \<Rightarrow> http_error + http_response \<times> conn_reader" where
  "client_readResponse br method =
     (case readLine 8192 br of
        Inl err \<Rightarrow> Inl (noEOF err)
      | Inr (line, br) \<Rightarrow>
          (case Cut line CHR '' '' of (version, rest, found) \<Rightarrow>
            if \<not> found then Inl (HttpError ''http: malformed status line'')
            else if parseVersion version = None then Inl (HttpError ''http: unsupported response version'')
            else case Cut rest CHR '' '' of (codeText, reason, _) \<Rightarrow>
              if length codeText \<noteq> 3 then Inl (HttpError ''http: malformed status code'')
              else case status_code codeText of
                None \<Rightarrow> Inl (HttpError ''http: malformed status code'')
              | Some code \<Rightarrow>
                  (case readHeader br maxResponseHeaderBytes of
                     Inl err \<Rightarrow> Inl (noEOF err)
                   | Inr (header, br) \<Rightarrow>
                       (case response_body method code header br of
                          Inl err \<Rightarrow> Inl err
                        | Inr (b, len) \<Rightarrow>
                            Inr (\<lparr>hr_Status = codeText @ '' '' @ reason, hr_StatusCode = code, hr_Header = header,
                              hr_Body = b, hr_ContentLength = len\<rparr>, br)))))"

lemma client_readResponse_shorter:
  "client_readResponse br method = Inr (r, br') \<Longrightarrow> length (rest_text br') < length (rest_text br)"
  by (auto simp: client_readResponse_def readHeader_def dest!: readLine_shorter readHeader_loop_shorter
      split: sum.splits prod.splits if_splits option.splits)

text \<open>The loop of \<open>roundTrip\<close>: interim responses are skipped.\<close>

function final_response :: "string \<Rightarrow> conn_reader \<Rightarrow> http_error + http_response" where
  "final_response method br =
     (case client_readResponse br method of
        Inl err \<Rightarrow> Inl err
      | Inr (response, br') \<Rightarrow>
          if hr_StatusCode response \<ge> 100 \<and> hr_StatusCode response < 200 then final_response method br'
          else Inr response)"
  by pat_completeness auto
termination
  by (relation "measure (\<lambda>(method, br). length (rest_text br))") (auto dest: client_readResponse_shorter)

declare final_response.simps [simp del]

definition roundTrip :: "network \<Rightarrow> http_request \<Rightarrow> string \<Rightarrow> string \<Rightarrow> int \<Rightarrow> http_error + http_response" where
  "roundTrip net request host data len =
     (let out = request_bytes request host data len in
      case net_write net out of
        Some err \<Rightarrow> Inl (NetError err)
      | None \<Rightarrow> final_response (hq_Method request) (net_reply net out))"

subsection \<open>The exchange\<close>

definition request_problem :: "http_request \<Rightarrow> string \<Rightarrow> string option" where
  "request_problem request host =
     (if \<not> validHost host then Some ''http: invalid Host header''
      else if \<not> isToken (hq_Method request) then Some ''http: invalid method''
      else if list_ex (\<lambda>(name, vs). \<not> isToken name) (hq_Header request) then Some ''http: invalid header field name''
      else if list_ex (\<lambda>(name, vs). list_ex (\<lambda>v. \<not> validFieldValue v) vs) (hq_Header request)
      then Some ''http: invalid header field value''
      else None)"

definition client_Do :: "network \<Rightarrow> http_request \<Rightarrow> http_error + http_response" where
  "client_Do net request =
     (let address = url_Host (hq_URL request);
          host = (if hq_Host request = [] then url_Host (hq_URL request) else hq_Host request) in
      if url_Scheme (hq_URL request) \<noteq> ''http'' then Inl (HttpError ''http: unsupported protocol scheme'')
      else if address = [] then Inl (HttpError ''http: no Host in request URL'')
      else case request_problem request host of
        Some text \<Rightarrow> Inl (HttpError text)
      | None \<Rightarrow>
          (case outgoingBody request of
             Inl err \<Rightarrow> Inl err
           | Inr (data, len) \<Rightarrow>
               (case net_dial net (dial_address address) of
                  Some err \<Rightarrow> Inl (NetError err)
                | None \<Rightarrow>
                    (case roundTrip net request host data len of
                       Inl err \<Rightarrow> (case net_context net of Some e \<Rightarrow> Inl (NetError e) | None \<Rightarrow> Inl err)
                     | Inr response \<Rightarrow> Inr response))))"

definition client_Get :: "(string \<Rightarrow> string option) \<Rightarrow> network \<Rightarrow> string \<Rightarrow> http_error + http_response" where
  "client_Get parse_host net target =
     (case NewRequestWithContext parse_host (Some background) MethodGet target NoBody 0 of
        Inl err \<Rightarrow> Inl err
      | Inr request \<Rightarrow> client_Do net request)"

end
