(* ===== verification/Web_Admin.thy ===== *)
theory Web_Admin
  imports Http_Server Http_Client Web_Pages
begin

text \<open>
  The package \<open>internal/webadmin\<close>: authentication in front of the handlers, the check of the origin,
  and one handler per path.  The alert manager, the node finder and the verifier are interfaces and
  may be nil; the first two act on the world, as the client of the daemon does.
\<close>

subsection \<open>Interfaces\<close>

record AlertManager =
  am_List :: "call_context \<Rightarrow> ListResult io"
  am_Read :: "call_context \<Rightarrow> string \<Rightarrow> EntryResult io"
  am_Create :: "call_context \<Rightarrow> string \<Rightarrow> string \<Rightarrow> CreateResult io"
  am_Write :: "call_context \<Rightarrow> string \<Rightarrow> string \<Rightarrow> WriteResult io"
  am_Convert :: "call_context \<Rightarrow> string \<Rightarrow> string \<Rightarrow> ConvertResult io"
  am_Delete :: "call_context \<Rightarrow> string \<Rightarrow> RemoveResult io"
  am_SettingsRead :: "call_context \<Rightarrow> Config io"

type_synonym verifier = "string \<Rightarrow> goerror + Session"
type_synonym node_finder = "string list io"

subsection \<open>auth.go, cookie.go, origin.go and prefix.go\<close>

definition AuthV1FromRequest :: "http_request \<Rightarrow> string" where
  "AuthV1FromRequest request =
     (case request_Cookie request ''authV1'' of None \<Rightarrow> [] | Some cookie \<Rightarrow> cookie_Value cookie)"

abbreviation SourceIPHeader :: string where
  "SourceIPHeader \<equiv> ''X-AAMM-Remote-Addr''"

definition trustedSourceIP :: "http_request \<Rightarrow> string option" where
  "trustedSourceIP request =
     map_option (\<lambda>address. addr_String (Unmap address)) (ParseAddr (header_Get (hq_Header request) SourceIPHeader))"

definition setAuthResponseHeaders :: "responseWriter \<Rightarrow> responseWriter" where
  "setAuthResponseHeaders w =
     set_header ''X-Frame-Options'' ''DENY''
     (set_header ''X-Content-Type-Options'' ''nosniff''
     (set_header ''Referrer-Policy'' ''same-origin''
     (set_header ''Content-Security-Policy''
       (''default-src '' @ SQUOTE # ''self'' @ SQUOTE # ''; img-src '' @ SQUOTE # ''self'' @ SQUOTE #
        '' data:; object-src '' @ SQUOTE # ''none'' @ SQUOTE # ''; base-uri '' @ SQUOTE # ''none'' @ SQUOTE #
        ''; frame-ancestors '' @ SQUOTE # ''none'' @ SQUOTE # ''; form-action '' @ SQUOTE # ''self'' @ [SQUOTE])
     (set_header ''Cache-Control'' ''no-store'' w))))"

definition unauthorized :: "responseWriter \<Rightarrow> responseWriter" where
  "unauthorized w = http_Error ''AREDN administrator login required.'' 401 w"

definition serviceUnavailable :: "responseWriter \<Rightarrow> responseWriter" where
  "serviceUnavailable w = http_Error ''AREDN authentication service unavailable.'' 503 w"

definition RequireAdmin :: "verifier option \<Rightarrow> handler \<Rightarrow> handler" where
  "RequireAdmin verify next_handler request w =
     (let w = setAuthResponseHeaders w in
      case verify of
        None \<Rightarrow> return_io (serviceUnavailable w)
      | Some verify_session \<Rightarrow>
          (case verify_session (AuthV1FromRequest request) of
             Inl err \<Rightarrow> return_io (serviceUnavailable w)
           | Inr session \<Rightarrow>
               if \<not> session_Authenticated session then return_io (unauthorized w)
               else if TrimSpace (session_Name session) = [] then return_io (serviceUnavailable w)
               else (case trustedSourceIP request of
                   None \<Rightarrow> return_io (serviceUnavailable w)
                 | Some sourceIP \<Rightarrow>
                     let ctx = WithIdentity (request_Context request)
                           \<lparr>identity_Name = session_Name session, identity_SourceIP = sourceIP\<rparr>;
                         r = WithContext request ctx;
                         r = r\<lparr>hq_Header := header_Del (header_Clone (hq_Header request)) SourceIPHeader\<rparr>
                     in next_handler r w)))"

definition sameOrigin :: "http_request \<Rightarrow> bool" where
  "sameOrigin request \<longleftrightarrow>
     (let origin = header_Get (hq_Header request) ''Origin''
      in origin \<noteq> [] \<and> origin = ''http://'' @ hq_Host request)"

definition forbidden :: "responseWriter \<Rightarrow> responseWriter" where
  "forbidden w = http_Error ''Forbidden.'' 403 w"

definition arednAppBasePath :: string where
  "arednAppBasePath = ''/cgi-bin/apps/AAMM-NG/admin''"

definition requestBasePath :: "http_request \<Rightarrow> string" where
  "requestBasePath request =
     (if header_Get (hq_Header request) ''X-Forwarded-Prefix'' = arednAppBasePath then arednAppBasePath else [])"

subsection \<open>Replies\<close>

definition managementUnavailable :: "responseWriter \<Rightarrow> responseWriter" where
  "managementUnavailable w = http_Error
     (''AAMM-NG control service unavailable. '' @ ''It may not have started. '' @
      ''Check the system log (logread | grep aamm-ng) '' @
      ''and free space on /overlay (df -k /overlay).'') 503 w"

definition method_not_allowed :: "string \<Rightarrow> responseWriter \<Rightarrow> responseWriter" where
  "method_not_allowed allow w = http_Error ''Method not allowed.'' 405 (set_header ''Allow'' allow w)"

definition html_ok :: "responseWriter \<Rightarrow> responseWriter" where
  "html_ok w = WriteHeader 200 (set_header ''Content-Type'' ''text/html; charset=utf-8'' w)"

text \<open>A page, for a \<open>GET\<close> request; for \<open>HEAD\<close> only its header.\<close>

definition reply_page :: "http_request \<Rightarrow> string list \<Rightarrow> responseWriter \<Rightarrow> responseWriter" where
  "reply_page request page w =
     (if hq_Method request = MethodHead then html_ok w else write_chunks page (html_ok w))"

definition is_remote :: "goerror \<Rightarrow> string list \<Rightarrow> bool" where
  "is_remote err codes \<longleftrightarrow> (case find_remote err of None \<Rightarrow> False | Some (code, _) \<Rightarrow> code \<in> set codes)"

definition invalidAlertUpdate :: "responseWriter \<Rightarrow> responseWriter" where
  "invalidAlertUpdate w = http_Error ''Invalid alert update.'' 400 w"

definition invalidAlertCreate :: "responseWriter \<Rightarrow> responseWriter" where
  "invalidAlertCreate w = http_Error ''Invalid new alert.'' 400 w"

definition invalidDeleteConfirmation :: "responseWriter \<Rightarrow> responseWriter" where
  "invalidDeleteConfirmation w = http_Error ''Invalid delete confirmation.'' 400 w"

definition oversizedDeleteConflict :: "responseWriter \<Rightarrow> responseWriter" where
  "oversizedDeleteConflict w = http_Error
     ''This alert is too large for a safe backup. AAMM-NG did not delete the alert.'' 409 w"

definition handleMutationError :: "goerror \<Rightarrow> responseWriter \<Rightarrow> responseWriter" where
  "handleMutationError err w =
     (if errors_is err localcontrol_ErrInvalidRequest then invalidAlertUpdate w
      else if find_remote err = None then managementUnavailable w
      else if is_remote err [ErrorInvalidTarget, ErrorInvalidMessage] then invalidAlertUpdate w
      else if is_remote err [ErrorNotFound] then http_NotFound w
      else if is_remote err [ErrorLegacyConflict, ErrorOversizedConflict, ErrorManagedConflict, ErrorSourceChanged]
      then http_Error ''Alert changed and cannot be updated safely.'' 409 w
      else managementUnavailable w)"

definition handleCreateError :: "goerror \<Rightarrow> responseWriter \<Rightarrow> responseWriter" where
  "handleCreateError err w =
     (if errors_is err localcontrol_ErrInvalidRequest then invalidAlertCreate w
      else if find_remote err = None then managementUnavailable w
      else if is_remote err [ErrorInvalidTarget, ErrorInvalidMessage] then invalidAlertCreate w
      else if is_remote err [ErrorAlreadyExists]
      then http_Error ''An alert already exists for that target.'' 409 w
      else managementUnavailable w)"

definition handleDeleteError :: "goerror \<Rightarrow> responseWriter \<Rightarrow> responseWriter" where
  "handleDeleteError err w =
     (if errors_is err localcontrol_ErrInvalidRequest then invalidDeleteConfirmation w
      else if find_remote err = None then managementUnavailable w
      else if is_remote err [ErrorNotFound] then http_NotFound w
      else if is_remote err [ErrorSourceChanged]
      then http_Error ''Alert changed and cannot be deleted safely.'' 409 w
      else if is_remote err [ErrorOversizedConflict] then oversizedDeleteConflict w
      else managementUnavailable w)"

definition handleDeleteReadError :: "goerror \<Rightarrow> responseWriter \<Rightarrow> responseWriter" where
  "handleDeleteReadError err w =
     (if is_remote err [ErrorNotFound] then http_NotFound w else managementUnavailable w)"

text \<open>A call of the alert manager: the reply to its error, or what follows its result.\<close>

definition on_result ::
  "'a io \<Rightarrow> (goerror \<Rightarrow> responseWriter \<Rightarrow> responseWriter) \<Rightarrow> ('a \<Rightarrow> responseWriter \<Rightarrow> responseWriter io) \<Rightarrow>
     responseWriter \<Rightarrow> responseWriter io"
where
  "on_result call failed ok w =
     bind_io (try_io call) (\<lambda>r. case r of Inl err \<Rightarrow> return_io (failed err w) | Inr x \<Rightarrow> ok x w)"

subsection \<open>Mutations: write.go, convert.go, create.go and delete.go\<close>

definition maxMutationBodyBytes :: int where
  "maxMutationBodyBytes = 16 * 1024"

definition limit_body :: "http_request \<Rightarrow> http_request" where
  "limit_body request = request\<lparr>hq_Body := MaxBytesReader (hq_Body request) maxMutationBodyBytes\<rparr>"

text \<open>The form of a limited body, or \<open>None\<close> when it does not parse.\<close>

definition mutation_form :: "http_request \<Rightarrow> values option" where
  "mutation_form request =
     (case ParseForm (limit_body request) of (err, r) \<Rightarrow> if err \<noteq> None then None else hq_PostForm r)"

text \<open>The only value of the only field.\<close>

definition sole_value :: "values \<Rightarrow> string \<Rightarrow> string option" where
  "sole_value form name =
     (case map_of form name of Some [v] \<Rightarrow> if length form = 1 then Some v else None | _ \<Rightarrow> None)"

definition mutationMessage :: "http_request \<Rightarrow> string option" where
  "mutationMessage request =
     (case mutation_form request of None \<Rightarrow> None | Some form \<Rightarrow> sole_value form ''message'')"

definition handleAlertWrite :: "AlertManager \<Rightarrow> target \<Rightarrow> handler" where
  "handleAlertWrite alerts target request w =
     (case mutationMessage request of
        None \<Rightarrow> return_io (invalidAlertUpdate w)
      | Some message \<Rightarrow>
          on_result (am_Write alerts (request_Context request) (target_String target) message) handleMutationError
            (\<lambda>_ w. return_io (http_Redirect request ''/'' 303 w)) w)"

definition handleAlertConvert :: "AlertManager \<Rightarrow> target \<Rightarrow> handler" where
  "handleAlertConvert alerts target request w =
     (case mutationMessage request of
        None \<Rightarrow> return_io (invalidAlertUpdate w)
      | Some message \<Rightarrow>
          on_result (am_Convert alerts (request_Context request) (target_String target) message) handleMutationError
            (\<lambda>_ w. return_io (http_Redirect request ''/'' 303 w)) w)"

definition create_values :: "values \<Rightarrow> (string \<times> string) option" where
  "create_values form =
     (case (map_of form ''target'', map_of form ''message'') of
        (Some [target], Some [message]) \<Rightarrow> if length form = 2 then Some (target, message) else None
      | _ \<Rightarrow> None)"

definition handleAlertCreate :: "AlertManager \<Rightarrow> handler" where
  "handleAlertCreate alerts request w =
     (case mutation_form request of
        None \<Rightarrow> return_io (invalidAlertCreate w)
      | Some form \<Rightarrow>
          (case create_values form of
             None \<Rightarrow> return_io (invalidAlertCreate w)
           | Some (value, message) \<Rightarrow>
               (case target_Parse value of
                  Inl _ \<Rightarrow> return_io (invalidAlertCreate w)
                | Inr target \<Rightarrow>
                    on_result (am_Create alerts (request_Context request) (target_String target) message)
                      handleCreateError (\<lambda>_ w. return_io (http_Redirect request ''/'' 303 w)) w)))"

definition handleAlertDelete :: "AlertManager \<Rightarrow> target \<Rightarrow> handler" where
  "handleAlertDelete alerts target request w =
     (case mutation_form request of
        None \<Rightarrow> return_io (invalidDeleteConfirmation w)
      | Some form \<Rightarrow>
          if sole_value form ''confirm'' \<noteq> Some (target_String target)
          then return_io (invalidDeleteConfirmation w)
          else on_result (am_Delete alerts (request_Context request) (target_String target)) handleDeleteError
            (\<lambda>_ w. return_io (http_Redirect request ''/'' 303 w)) w)"

subsection \<open>Pages: handler.go and delete.go\<close>

text \<open>The listing behind a dialog, fetched for \<open>GET\<close> only.\<close>

definition with_listing ::
  "AlertManager \<Rightarrow> http_request \<Rightarrow> (ListResult \<Rightarrow> pageData) \<Rightarrow> responseWriter \<Rightarrow> responseWriter io"
where
  "with_listing alerts request page w =
     (if hq_Method request = MethodGet then
        on_result (am_List alerts (request_Context request)) (\<lambda>_. managementUnavailable)
          (\<lambda>listing w. return_io (reply_page request (landing_page (page listing)) w)) w
      else return_io (reply_page request (landing_page (page \<lparr>lr_Entries = [], lr_Issues = []\<rparr>)) w))"

definition listing_data :: "http_request \<Rightarrow> ListResult \<Rightarrow> pageData" where
  "listing_data request listing = no_page_data\<lparr>pd_BasePath := requestBasePath request,
     pd_Entries := lr_Entries listing, pd_Issues := lr_Issues listing\<rparr>"

definition handleDeleteConfirmation :: "AlertManager \<Rightarrow> target \<Rightarrow> handler" where
  "handleDeleteConfirmation alerts target request w =
     on_result (am_Read alerts (request_Context request) (target_String target)) handleDeleteReadError
       (\<lambda>e w. if er_Kind e = ''oversized'' then return_io (oversizedDeleteConflict w)
          else with_listing alerts request (\<lambda>listing. (listing_data request listing)\<lparr>pd_DeleteModal := Some e\<rparr>) w) w"

text \<open>\<open>GET\<close> and \<open>HEAD\<close> pass, \<open>POST\<close> only from the same origin, others are refused.\<close>

definition guard_post :: "http_request \<Rightarrow> (responseWriter \<Rightarrow> responseWriter io) \<Rightarrow> responseWriter \<Rightarrow> responseWriter io" where
  "guard_post request k w =
     (if hq_Method request = MethodGet \<or> hq_Method request = MethodHead then k w
      else if hq_Method request = MethodPost then
        (if sameOrigin request then k w else return_io (forbidden w))
      else return_io (method_not_allowed ''GET, HEAD, POST'' w))"

definition guard_get :: "http_request \<Rightarrow> (responseWriter \<Rightarrow> responseWriter io) \<Rightarrow> responseWriter \<Rightarrow> responseWriter io" where
  "guard_get request k w =
     (if hq_Method request = MethodGet \<or> hq_Method request = MethodHead then k w
      else return_io (method_not_allowed ''GET, HEAD'' w))"

definition with_target :: "string \<Rightarrow> (target \<Rightarrow> responseWriter \<Rightarrow> responseWriter io) \<Rightarrow> responseWriter \<Rightarrow> responseWriter io" where
  "with_target value k w =
     (case target_Parse value of Inl _ \<Rightarrow> return_io (http_NotFound w) | Inr target \<Rightarrow> k target w)"

definition with_alerts ::
  "AlertManager option \<Rightarrow> (AlertManager \<Rightarrow> responseWriter \<Rightarrow> responseWriter io) \<Rightarrow> responseWriter \<Rightarrow> responseWriter io"
where
  "with_alerts alerts k w = (case alerts of None \<Rightarrow> return_io (managementUnavailable w) | Some a \<Rightarrow> k a w)"

definition localNodesUnavailable :: "responseWriter \<Rightarrow> responseWriter" where
  "localNodesUnavailable w = http_Error ''Local AREDN node discovery unavailable.'' 503 w"

definition handleLocalNodes :: "node_finder option \<Rightarrow> handler" where
  "handleLocalNodes nodes request w =
     (if hq_Method request \<noteq> MethodGet then return_io (method_not_allowed ''GET'' w)
      else case nodes of
        None \<Rightarrow> return_io (localNodesUnavailable w)
      | Some local_nodes \<Rightarrow>
          on_result local_nodes (\<lambda>_. localNodesUnavailable)
            (\<lambda>names w. return_io (write_ignored
               (json_print (JObject [(''nodes'', JArray (map JString names))]) @ [LF])
               (WriteHeader 200 (set_header ''Content-Type'' ''application/json; charset=utf-8'' w)))) w)"

definition handleSettings :: "AlertManager option \<Rightarrow> handler" where
  "handleSettings alerts request =
     guard_get request (with_alerts alerts (\<lambda>alerts w.
       if hq_Method request = MethodHead then return_io (html_ok w)
       else on_result (am_SettingsRead alerts (request_Context request)) (\<lambda>_. managementUnavailable)
         (\<lambda>settings w. return_io (write_chunks (settings_page (requestBasePath request) settings) (html_ok w))) w))"

definition handleRoot :: "AlertManager option \<Rightarrow> handler" where
  "handleRoot alerts request w =
     (if url_Path (hq_URL request) \<noteq> ''/'' then return_io (http_NotFound w)
      else guard_get request (with_alerts alerts (\<lambda>alerts.
        on_result (am_List alerts (request_Context request)) (\<lambda>_. managementUnavailable)
          (\<lambda>listing w. return_io (reply_page request (landing_page (listing_data request listing)) w)))) w)"

definition handleDelete :: "AlertManager option \<Rightarrow> handler" where
  "handleDelete alerts request =
     guard_post request (with_target (PathValue request ''target'') (\<lambda>target.
       with_alerts alerts (\<lambda>alerts.
         if hq_Method request = MethodPost then handleAlertDelete alerts target request
         else handleDeleteConfirmation alerts target request)))"

definition handleConvert :: "AlertManager option \<Rightarrow> handler" where
  "handleConvert alerts request w =
     (if hq_Method request \<noteq> MethodPost then return_io (method_not_allowed ''POST'' w)
      else if \<not> sameOrigin request then return_io (forbidden w)
      else with_target (PathValue request ''target'') (\<lambda>target.
        with_alerts alerts (\<lambda>alerts. handleAlertConvert alerts target request)) w)"

definition handleNew :: "AlertManager option \<Rightarrow> handler" where
  "handleNew alerts request =
     guard_post request (with_alerts alerts (\<lambda>alerts.
       if hq_Method request = MethodPost then handleAlertCreate alerts request
       else with_listing alerts request (\<lambda>listing. (listing_data request listing)\<lparr>pd_NewModal := True\<rparr>)))"

definition read_failed :: "goerror \<Rightarrow> responseWriter \<Rightarrow> responseWriter" where
  "read_failed err w = (if is_remote err [ErrorNotFound] then http_NotFound w else managementUnavailable w)"

definition handleAlert :: "AlertManager option \<Rightarrow> handler" where
  "handleAlert alerts request =
     guard_post request (\<lambda>w.
       let targetValue = TrimPrefix (url_Path (hq_URL request)) ''/alerts/'' in
       if targetValue = [] \<or> CHR ''/'' \<in> set targetValue then return_io (http_NotFound w)
       else with_target targetValue (\<lambda>target. with_alerts alerts (\<lambda>alerts.
         if hq_Method request = MethodPost then handleAlertWrite alerts target request
         else on_result (am_Read alerts (request_Context request) (target_String target)) read_failed
           (\<lambda>e. with_listing alerts request (\<lambda>listing. (listing_data request listing)\<lparr>pd_Modal := Some e\<rparr>)))) w)"

subsection \<open>The handler of the service\<close>

fun handle_all :: "(string \<times> handler) list \<Rightarrow> mux_route list \<Rightarrow> mux_route list option" where
  "handle_all [] routes = Some routes"
| "handle_all ((pattern, h) # hs) routes =
     (case mux_Handle routes pattern h of None \<Rightarrow> None | Some routes' \<Rightarrow> handle_all hs routes')"

definition admin_routes :: "AlertManager option \<Rightarrow> node_finder option \<Rightarrow> mux_route list option" where
  "admin_routes alerts nodes = handle_all
     [(''/api/local-nodes'', handleLocalNodes nodes),
      (''/settings'', handleSettings alerts),
      (''/'', handleRoot alerts),
      (''/alerts/{target}/delete'', handleDelete alerts),
      (''/alerts/{target}/convert'', handleConvert alerts),
      (''/alerts/new'', handleNew alerts),
      (''/alerts/'', handleAlert alerts)] []"

text \<open>\<open>None\<close>: a pattern was refused and the program has panicked.\<close>

definition newHandler :: "verifier option \<Rightarrow> AlertManager option \<Rightarrow> node_finder option \<Rightarrow> handler option" where
  "newHandler verify alerts nodes =
     map_option (\<lambda>routes. RequireAdmin verify (mux_ServeHTTP routes)) (admin_routes alerts nodes)"

definition NewHandler :: "verifier option \<Rightarrow> AlertManager option \<Rightarrow> handler option" where
  "NewHandler verify alerts = newHandler verify alerts (Some (LocalNodes (Some NewFetcher)))"

subsection \<open>The production verifier and manager\<close>

abbreviation ProductionEndpoint :: string where
  "ProductionEndpoint \<equiv> ''http://127.0.0.1/a/whoami''"

text \<open>The exchange of \<open>VerifySession\<close>: one \<open>GET\<close> with the cookie as its only header field.\<close>

definition node_exchange :: "network \<Rightarrow> string \<Rightarrow> goerror + auth_reply" where
  "node_exchange net cookie =
     (case NewRequestWithContext Some (Some background) MethodGet ProductionEndpoint NoBody 0 of
        Inl _ \<Rightarrow> Inl (sentinelf arednauth_ErrUnavailable ''create request'')
      | Inr request \<Rightarrow>
          (case client_Do net (request\<lparr>hq_Header := header_Set (hq_Header request) ''Cookie'' cookie\<rparr>) of
             Inl _ \<Rightarrow> Inl (new_error ''exchange'')
           | Inr response \<Rightarrow>
               (case ReadAll (LimitedBody (hr_Body response) (maxAuthResponseBytes + 1)) of ((data, err), _) \<Rightarrow>
                  Inr \<lparr>reply_status = int (hr_StatusCode response), reply_body = data, reply_read_failed = err \<noteq> None\<rparr>)))"

definition production_verifier :: "network \<Rightarrow> verifier" where
  "production_verifier net = VerifySession (node_exchange net)"

definition client_manager ::
  "json_texts \<Rightarrow> (string \<Rightarrow> string) \<Rightarrow> Client option \<Rightarrow> transport \<Rightarrow> AlertManager"
where
  "client_manager texts number client tr = \<lparr>
     am_List = (\<lambda>ctx. Client_List texts number tr),
     am_Read = (\<lambda>ctx. Client_Read texts number tr),
     am_Create = (\<lambda>ctx. Client_Create texts number client (Some ctx) tr),
     am_Write = (\<lambda>ctx. Client_Write texts number client (Some ctx) tr),
     am_Convert = (\<lambda>ctx. Client_Convert texts number client (Some ctx) tr),
     am_Delete = (\<lambda>ctx. Client_Delete texts number client (Some ctx) tr),
     am_SettingsRead = (\<lambda>ctx. SettingsRead texts number tr)\<rparr>"

end
