(* ===== verification/Web_Safety.thy ===== *)
theory Web_Safety
  imports Web_Admin
begin

text \<open>
  Who may do what through the web service.  The service is a function of the calls that its alert
  manager answers, so "no call of this kind is made" is stated as: two managers that answer all other
  calls alike give the same service.
\<close>

subsection \<open>The router\<close>

definition same_route :: "http_request \<Rightarrow> mux_route \<Rightarrow> mux_route \<Rightarrow> bool" where
  "same_route r x y \<longleftrightarrow> rt_pattern x = rt_pattern y \<and> rt_segs x = rt_segs y \<and> rt_subtree x = rt_subtree y \<and>
     rt_score x = rt_score y \<and>
     (\<forall>vs. rt_handler x (r\<lparr>hq_pathValues := vs\<rparr>) = rt_handler y (r\<lparr>hq_pathValues := vs\<rparr>))"

lemma same_route_handler: "same_route r x y \<Longrightarrow> rt_handler x r = rt_handler y r"
  unfolding same_route_def by (metis http_request.surjective http_request.update_convs(10))

lemma same_route_matches: "same_route r x y \<Longrightarrow> route_matches x parts = route_matches y parts"
  by (simp add: same_route_def route_matches_def)

lemma best_match_same:
  "list_all2 (same_route r) xs ys \<Longrightarrow> rel_option (rel_prod (same_route r) (=)) bx by' \<Longrightarrow>
     rel_option (rel_prod (same_route r) (=)) (best_match parts xs bx) (best_match parts ys by')"
proof (induction xs ys arbitrary: bx by' rule: list_all2_induct)
  case (Cons x xs y ys)
  have s: "rt_score x = rt_score y" using Cons.hyps(1) by (simp add: same_route_def)
  show ?case
  proof (cases "route_matches x parts")
    case None
    with Cons same_route_matches [OF Cons.hyps(1)] show ?thesis by simp
  next
    case (Some vs)
    have "(case bx of None \<Rightarrow> True | Some (b, _) \<Rightarrow> rt_score b < rt_score x) =
        (case by' of None \<Rightarrow> True | Some (b, _) \<Rightarrow> rt_score b < rt_score y)"
      using Cons.prems s by (cases bx; cases by') (auto simp: same_route_def)
    with Cons Some same_route_matches [OF Cons.hyps(1)] show ?thesis by simp
  qed
qed simp

lemma mux_ServeHTTP_same:
  assumes "list_all2 (same_route r) xs ys"
  shows "mux_ServeHTTP xs r w = mux_ServeHTTP ys r w"
proof -
  let ?redirects = "\<lambda>best routes. list_ex (\<lambda>rt. rt_pattern rt = url_Path (hq_URL r) @ ''/'' \<and>
      rt_pattern rt \<noteq> rt_pattern best) routes"
  have red: "?redirects b xs = ?redirects b' ys" if "rt_pattern b = rt_pattern b'" for b b'
    using assms that by (induction rule: list_all2_induct) (auto simp: same_route_def)
  have m: "rel_option (rel_prod (same_route r) (=)) (mux_match xs (EscapedPath (hq_URL r))) (mux_match ys (EscapedPath (hq_URL r)))"
    unfolding mux_match_def by (rule best_match_same [OF assms]) simp
  show ?thesis
  proof (cases "mux_match xs (EscapedPath (hq_URL r))")
    case None
    with m show ?thesis by (simp add: mux_ServeHTTP_def Let_def)
  next
    case (Some p)
    then obtain b vs where b: "mux_match xs (EscapedPath (hq_URL r)) = Some (b, vs)" by (cases p) auto
    with m obtain b' where b': "mux_match ys (EscapedPath (hq_URL r)) = Some (b', vs)" "same_route r b b'"
      by (auto simp: option_rel_Some1)
    have pat: "rt_pattern b = rt_pattern b'" "rt_subtree b = rt_subtree b'"
      "rt_handler b (r\<lparr>hq_pathValues := vs\<rparr>) = rt_handler b' (r\<lparr>hq_pathValues := vs\<rparr>)"
      using b'(2) by (simp_all add: same_route_def)
    note h = same_route_handler [OF b'(2)]
    show ?thesis
      unfolding mux_ServeHTTP_def Let_def b b'(1) option.case prod.case red [OF pat(1)]
      using pat h by simp
  qed
qed

subsection \<open>The routes of the service\<close>

definition route_of :: "string \<times> handler \<Rightarrow> mux_route" where
  "route_of ph =
     (let segs = pattern_segments (fst ph); subtree = HasSuffix (fst ph) ''/''
      in \<lparr>rt_pattern = fst ph, rt_segs = segs, rt_subtree = subtree, rt_handler = snd ph,
        rt_score = length segs + 10 * length (filter (\<lambda>seg. seg_wildcard seg = []) segs) + (if subtree then 0 else 1000)\<rparr>)"

lemma handle_all_routes:
  "list_all (\<lambda>ph. HasPrefix (fst ph) ''/'') phs \<Longrightarrow> handle_all phs routes = Some (routes @ map route_of phs)"
  by (induction phs routes rule: handle_all.induct) (simp_all add: mux_Handle_def route_of_def Let_def)

definition admin_handlers :: "AlertManager option \<Rightarrow> node_finder option \<Rightarrow> (string \<times> handler) list" where
  "admin_handlers alerts nodes =
     [(''/api/local-nodes'', handleLocalNodes nodes), (''/settings'', handleSettings alerts), (''/'', handleRoot alerts),
      (''/alerts/{target}/delete'', handleDelete alerts), (''/alerts/{target}/convert'', handleConvert alerts),
      (''/alerts/new'', handleNew alerts), (''/alerts/'', handleAlert alerts)]"

lemma newHandler_routes:
  "newHandler verify alerts nodes = Some (RequireAdmin verify (mux_ServeHTTP (map route_of (admin_handlers alerts nodes))))"
  using handle_all_routes [of "admin_handlers alerts nodes" "[]"]
  by (simp add: newHandler_def admin_routes_def admin_handlers_def HasPrefix_def)

subsection \<open>Managers that answer alike\<close>

text \<open>Reads of valid targets and, when \<open>mutate\<close> allows them, mutations of valid targets, all for the caller
  in the context.\<close>

definition same_calls :: "call_context \<Rightarrow> bool \<Rightarrow> AlertManager \<Rightarrow> AlertManager \<Rightarrow> bool" where
  "same_calls ctx mutate a b \<longleftrightarrow>
     am_List a ctx = am_List b ctx \<and> am_SettingsRead a ctx = am_SettingsRead b ctx \<and>
     (\<forall>v t. target_Parse v = Inr t \<longrightarrow>
       am_Read a ctx (target_String t) = am_Read b ctx (target_String t) \<and>
       (mutate \<longrightarrow>
         am_Delete a ctx (target_String t) = am_Delete b ctx (target_String t) \<and>
         am_Create a ctx (target_String t) = am_Create b ctx (target_String t) \<and>
         am_Write a ctx (target_String t) = am_Write b ctx (target_String t) \<and>
         am_Convert a ctx (target_String t) = am_Convert b ctx (target_String t)))"

definition may_mutate :: "http_request \<Rightarrow> bool" where
  "may_mutate r \<longleftrightarrow> hq_Method r = MethodPost \<and> sameOrigin r"

lemma with_target_same:
  assumes "\<And>t w. target_Parse v = Inr t \<Longrightarrow> k t w = k' t w"
  shows "with_target v k w = with_target v k' w"
  using assms by (simp add: with_target_def split: sum.split)

lemma guard_post_same:
  assumes "hq_Method r \<noteq> MethodPost \<or> sameOrigin r \<Longrightarrow> k w = k' w"
  shows "guard_post r k w = guard_post r k' w"
  using assms by (auto simp: guard_post_def)

lemma on_result_same:
  assumes "\<And>x w. ok x w = ok' x w"
  shows "on_result call failed ok w = on_result call failed ok' w"
  using assms by (simp add: on_result_def cong: sum.case_cong)

lemma with_listing_same: "same_calls (request_Context r) mutate a b \<Longrightarrow> with_listing a r = with_listing b r"
  by (intro ext) (simp add: with_listing_def same_calls_def)

lemma target_handlers_same:
  assumes "same_calls (request_Context r) mutate a b" "target_Parse v = Inr t"
  shows "am_Read a (request_Context r) (target_String t) = am_Read b (request_Context r) (target_String t)"
    "handleDeleteConfirmation a t r = handleDeleteConfirmation b t r"
    "mutate \<Longrightarrow> handleAlertDelete a t r = handleAlertDelete b t r"
    "mutate \<Longrightarrow> handleAlertConvert a t r = handleAlertConvert b t r"
    "mutate \<Longrightarrow> handleAlertWrite a t r = handleAlertWrite b t r"
proof -
  show read: "am_Read a (request_Context r) (target_String t) = am_Read b (request_Context r) (target_String t)"
    using assms by (simp add: same_calls_def)
  show "handleDeleteConfirmation a t r = handleDeleteConfirmation b t r"
    by (intro ext) (simp only: handleDeleteConfirmation_def read with_listing_same [OF assms(1)])
  have m: "mutate \<Longrightarrow> am_Delete a (request_Context r) (target_String t) = am_Delete b (request_Context r) (target_String t)"
    "mutate \<Longrightarrow> am_Convert a (request_Context r) (target_String t) = am_Convert b (request_Context r) (target_String t)"
    "mutate \<Longrightarrow> am_Write a (request_Context r) (target_String t) = am_Write b (request_Context r) (target_String t)"
    using assms by (simp_all add: same_calls_def)
  show "mutate \<Longrightarrow> handleAlertDelete a t r = handleAlertDelete b t r"
    by (intro ext) (simp only: handleAlertDelete_def m)
  show "mutate \<Longrightarrow> handleAlertConvert a t r = handleAlertConvert b t r"
    by (intro ext) (simp only: handleAlertConvert_def m)
  show "mutate \<Longrightarrow> handleAlertWrite a t r = handleAlertWrite b t r"
    by (intro ext) (simp only: handleAlertWrite_def m)
qed

lemma handleAlertCreate_same:
  assumes "same_calls (request_Context r) True a b"
  shows "handleAlertCreate a r = handleAlertCreate b r"
proof -
  have "am_Create a (request_Context r) (target_String t) = am_Create b (request_Context r) (target_String t)"
    if "target_Parse v = Inr t" for v t
    using assms that by (simp add: same_calls_def)
  then show ?thesis by (intro ext) (auto simp: handleAlertCreate_def split: option.split sum.split)
qed

lemma handlers_same:
  assumes "same_calls (request_Context r) (may_mutate r) a b"
  shows "handleSettings (Some a) r w = handleSettings (Some b) r w"
    "handleRoot (Some a) r w = handleRoot (Some b) r w"
    "handleDelete (Some a) r w = handleDelete (Some b) r w"
    "handleConvert (Some a) r w = handleConvert (Some b) r w"
    "handleNew (Some a) r w = handleNew (Some b) r w"
    "handleAlert (Some a) r w = handleAlert (Some b) r w"
proof -
  note s = target_handlers_same [OF assms] and l = with_listing_same [OF assms]
  show "handleSettings (Some a) r w = handleSettings (Some b) r w"
    using assms by (simp add: handleSettings_def guard_get_def with_alerts_def same_calls_def)
  show "handleRoot (Some a) r w = handleRoot (Some b) r w"
    using assms by (simp add: handleRoot_def guard_get_def with_alerts_def same_calls_def)
  show "handleDelete (Some a) r w = handleDelete (Some b) r w"
    unfolding handleDelete_def with_alerts_def option.case
    by (intro guard_post_same with_target_same) (auto simp: s may_mutate_def)
  show "handleConvert (Some a) r w = handleConvert (Some b) r w"
    unfolding handleConvert_def with_alerts_def option.case
    by (auto simp: s may_mutate_def intro!: with_target_same)
  have "handleAlertCreate a r = handleAlertCreate b r" if "may_mutate r"
    using assms that handleAlertCreate_same [of r a b] by simp
  then show "handleNew (Some a) r w = handleNew (Some b) r w"
    unfolding handleNew_def with_alerts_def option.case
    by (intro guard_post_same) (auto simp: l may_mutate_def)
  show "handleAlert (Some a) r w = handleAlert (Some b) r w"
    unfolding handleAlert_def with_alerts_def option.case Let_def
    by (intro guard_post_same if_cong refl with_target_same) (auto simp: s l may_mutate_def)
qed

lemma routes_same:
  assumes "same_calls (request_Context r) (may_mutate r) a b"
  shows "list_all2 (same_route r) (map route_of (admin_handlers (Some a) nodes)) (map route_of (admin_handlers (Some b) nodes))"
proof -
  have route: "same_route r (route_of (p, h)) (route_of (p, h'))"
    if "\<And>vs. h (r\<lparr>hq_pathValues := vs\<rparr>) = h' (r\<lparr>hq_pathValues := vs\<rparr>)" for p h h'
    using that by (simp add: same_route_def route_of_def Let_def)
  have "same_calls (request_Context (r\<lparr>hq_pathValues := vs\<rparr>)) (may_mutate (r\<lparr>hq_pathValues := vs\<rparr>)) a b" for vs
    using assms by (simp add: request_Context_def may_mutate_def sameOrigin_def)
  from handlers_same [OF this] show ?thesis
    unfolding admin_handlers_def by (auto intro!: route)
qed

subsection \<open>The guard\<close>

definition admitted :: "verifier option \<Rightarrow> http_request \<Rightarrow> Identity option" where
  "admitted verify r =
     (case verify of
        None \<Rightarrow> None
      | Some v \<Rightarrow>
          (case v (AuthV1FromRequest r) of
             Inl _ \<Rightarrow> None
           | Inr session \<Rightarrow>
               if session_Authenticated session \<and> TrimSpace (session_Name session) \<noteq> []
               then map_option (\<lambda>ip. \<lparr>identity_Name = session_Name session, identity_SourceIP = ip\<rparr>) (trustedSourceIP r)
               else None))"

lemma identity_context: "c\<lparr>ctx_identity := i\<rparr> = \<lparr>ctx_identity = i\<rparr>" for c :: call_context
  by (cases c) simp

lemma RequireAdmin_admitted:
  assumes "admitted verify r = Some identity"
  shows "RequireAdmin verify h r w =
    h (r\<lparr>hq_ctx := Some \<lparr>ctx_identity = Some identity\<rparr>, hq_Header := header_Del (hq_Header r) SourceIPHeader\<rparr>)
      (setAuthResponseHeaders w)"
  using assms
  by (auto simp: admitted_def RequireAdmin_def Let_def WithContext_def WithIdentity_def header_Clone_def identity_context
      split: option.splits sum.splits if_splits)

lemma RequireAdmin_refused:
  assumes "admitted verify r = None"
  shows "\<exists>text code. RequireAdmin verify h r w = return_io (http_Error text code (setAuthResponseHeaders w)) \<and> code \<in> {401, 503}"
  using assms
  by (auto simp: admitted_def RequireAdmin_def Let_def serviceUnavailable_def unauthorized_def
      split: option.splits sum.splits if_splits)

lemma http_Error_status:
  "\<not> rw_wroteHeader w \<Longrightarrow> 100 \<le> code \<Longrightarrow> code \<le> 999 \<Longrightarrow>
     rw_wroteHeader (http_Error text code w) \<and> rw_status (http_Error text code w) = code"
  by (auto simp: http_Error_def Let_def set_header_def WriteHeader_def write_ignored_def rw_Write_def)

text \<open>
  C7: A request without a verified administrator session and a trusted source address gets status 401
  or 503 and nothing else happens: the handler returns the reply at once, with no call of the alert
  manager and no other effect.
\<close>

theorem strangers_change_nothing:
  assumes "newHandler verify alerts nodes = Some h"
    "\<And>v session. verify = Some v \<Longrightarrow> v (AuthV1FromRequest r) = Inr session \<Longrightarrow>
       session_Authenticated session \<Longrightarrow> TrimSpace (session_Name session) \<noteq> [] \<Longrightarrow> trustedSourceIP r = None"
  shows "\<exists>w. h r (new_writer (hq_Method r = MethodHead)) = return_io w \<and> rw_status w \<in> {401, 503}"
proof -
  have "admitted verify r = None"
    using assms(2) by (auto simp: admitted_def split: option.split sum.split)
  from RequireAdmin_refused [OF this] obtain msg code where
    e: "h r (new_writer (hq_Method r = MethodHead)) =
      return_io (http_Error msg code (setAuthResponseHeaders (new_writer (hq_Method r = MethodHead))))"
    and code: "code \<in> {401, 503}"
    using assms(1) unfolding newHandler_routes by blast
  moreover have "\<not> rw_wroteHeader (setAuthResponseHeaders (new_writer (hq_Method r = MethodHead)))"
    by (simp add: setAuthResponseHeaders_def set_header_def new_writer_def)
  ultimately show ?thesis using http_Error_status code by fastforce
qed

lemma sameOrigin_guarded: "sameOrigin (r\<lparr>hq_ctx := c, hq_Header := header_Del (hq_Header r) SourceIPHeader\<rparr>) = sameOrigin r"
proof -
  have "CanonicalHeaderKey ''Origin'' \<noteq> CanonicalHeaderKey SourceIPHeader" by code_simp
  then show ?thesis by (simp add: sameOrigin_def header_Get_def header_Values_Del_other)
qed

text \<open>
  C5: Only an administrator's calls reach the alert manager.  Whatever the routes do with a request,
  two managers give the same reply and the same effects when they agree on the calls for the verified
  identity (the session's name and the trusted source address): listing, reading valid targets and the
  settings and, only if the request is a POST from the same origin, changing valid targets.  So no
  other call is ever made: none without a verified session, none with another identity, no change
  by GET, HEAD or another origin's POST, and none for a string that is no target.
\<close>

theorem only_admin_calls_reach_the_manager:
  assumes "newHandler verify (Some a) nodes = Some ha" "newHandler verify (Some b) nodes = Some hb"
    "\<And>v session ip. verify = Some v \<Longrightarrow> v (AuthV1FromRequest r) = Inr session \<Longrightarrow>
       session_Authenticated session \<Longrightarrow> TrimSpace (session_Name session) \<noteq> [] \<Longrightarrow> trustedSourceIP r = Some ip \<Longrightarrow>
       same_calls \<lparr>ctx_identity = Some \<lparr>identity_Name = session_Name session, identity_SourceIP = ip\<rparr>\<rparr>
         (hq_Method r = MethodPost \<and> sameOrigin r) a b"
  shows "ha r w = hb r w"
proof (cases "admitted verify r")
  case None
  note n = newHandler_routes [of verify]
  have "RequireAdmin verify h r w = RequireAdmin verify h' r w" for h h'
    using None by (auto simp: admitted_def RequireAdmin_def Let_def split: option.splits sum.splits if_splits)
  with assms(1,2) show ?thesis by (simp add: n) blast
next
  case (Some identity)
  let ?r = "r\<lparr>hq_ctx := Some \<lparr>ctx_identity = Some identity\<rparr>, hq_Header := header_Del (hq_Header r) SourceIPHeader\<rparr>"
  have "same_calls \<lparr>ctx_identity = Some identity\<rparr> (hq_Method r = MethodPost \<and> sameOrigin r) a b"
    using Some assms(3) by (auto simp: admitted_def split: option.splits sum.splits if_splits)
  then have "same_calls (request_Context ?r) (may_mutate ?r) a b"
    by (simp add: request_Context_def may_mutate_def sameOrigin_guarded)
  from mux_ServeHTTP_same [OF routes_same [OF this]] show ?thesis
    using assms(1,2) by (auto simp: newHandler_routes RequireAdmin_admitted [OF Some])
qed

end
