(* ===== verification/Cgi_Bridge.thy ===== *)
theory Cgi_Bridge
  imports Web_Admin
begin

text \<open>
  The package \<open>internal/cgibridge\<close>: the program the node's web server runs for a request of a browser.
  It turns the CGI environment into one request to the web service and prints the response.
  Standard output takes what is written to it; a Go map is visited in any order, here that of the
  association list.
\<close>

subsection \<open>The request\<close>

abbreviation BackendAddress :: string where
  "BackendAddress \<equiv> ''127.0.0.1:11313''"

abbreviation ExternalBasePath :: string where
  "ExternalBasePath \<equiv> ''/cgi-bin/apps/AAMM-NG/admin''"

definition cgi_error :: "string \<Rightarrow> http_error" where
  "cgi_error text = NetError (sentinelf cgibridge_ErrInvalidEnvironment text)"

definition sourceAddress :: "string \<Rightarrow> http_error + string" where
  "sourceAddress v =
     (case ParseAddr v of
        None \<Rightarrow> Inl (cgi_error ''invalid REMOTE_ADDR'')
      | Some address \<Rightarrow> Inr (addr_String (Unmap address)))"

definition requestPath :: "(string \<Rightarrow> string option) \<Rightarrow> (string \<Rightarrow> string) \<Rightarrow> http_error + string" where
  "requestPath parse_host getenv =
     (let path = getenv ''PATH_INFO'' in
      if path \<noteq> [] then
        (if \<not> HasPrefix path ''/'' then Inl (cgi_error ''invalid PATH_INFO'') else Inr path)
      else
        let requestURI = getenv ''REQUEST_URI'' in
        if requestURI = [] then Inr ''/''
        else case ParseRequestURI parse_host requestURI of
          None \<Rightarrow> Inl (cgi_error ''invalid REQUEST_URI'')
        | Some parsed \<Rightarrow>
            if url_Path parsed = ExternalBasePath \<or> url_Path parsed = ExternalBasePath @ ''/'' then Inr ''/''
            else if \<not> HasPrefix (url_Path parsed) (ExternalBasePath @ ''/'')
            then Inl (cgi_error ''REQUEST_URI outside application path'')
            else
              let path = TrimPrefix (url_Path parsed) ExternalBasePath
              in Inr (if path = [] then ''/'' else path))"

definition copyHeader :: "(string \<Rightarrow> string) \<Rightarrow> string \<times> string \<Rightarrow> header \<Rightarrow> header" where
  "copyHeader getenv names h =
     (case names of (environmentName, headerName) \<Rightarrow>
      if getenv environmentName \<noteq> [] then header_Set h headerName (getenv environmentName) else h)"

definition copied_headers :: "(string \<times> string) list" where
  "copied_headers =
     [(''HTTP_COOKIE'', ''Cookie''), (''HTTP_ORIGIN'', ''Origin''), (''HTTP_REFERER'', ''Referer''),
      (''HTTP_USER_AGENT'', ''User-Agent''), (''HTTP_ACCEPT'', ''Accept''),
      (''HTTP_ACCEPT_LANGUAGE'', ''Accept-Language''), (''CONTENT_TYPE'', ''Content-Type'')]"

definition copy_headers :: "(string \<Rightarrow> string) \<Rightarrow> header \<Rightarrow> header" where
  "copy_headers getenv h = fold (copyHeader getenv) copied_headers h"

text \<open>\<open>strconv.ParseInt\<close> to base 10 with 64 bits.\<close>

definition parse_int64 :: "string \<Rightarrow> int option" where
  "parse_int64 s =
     (let negative = HasPrefix s ''-'';
          digits = (if negative \<or> HasPrefix s ''+'' then tl s else s);
          i = (if negative then - int (decimal_value digits) else int (decimal_value digits))
      in if digits = [] \<or> \<not> list_all is_digit digits \<or> i < - (2 ^ 63) \<or> i \<ge> 2 ^ 63 then None else Some i)"

definition set_source :: "(string \<Rightarrow> string) \<Rightarrow> http_request \<Rightarrow> http_error + http_request" where
  "set_source getenv request =
     (if getenv ''REMOTE_ADDR'' = [] then Inr request
      else case sourceAddress (getenv ''REMOTE_ADDR'') of
        Inl err \<Rightarrow> Inl err
      | Inr sourceIP \<Rightarrow> Inr (request\<lparr>hq_Header := header_Set (hq_Header request) SourceIPHeader sourceIP\<rparr>))"

definition set_length :: "(string \<Rightarrow> string) \<Rightarrow> http_request \<Rightarrow> http_error + http_request" where
  "set_length getenv request =
     (if getenv ''CONTENT_LENGTH'' = [] then Inr request
      else case parse_int64 (getenv ''CONTENT_LENGTH'') of
        None \<Rightarrow> Inl (cgi_error ''invalid CONTENT_LENGTH'')
      | Some len \<Rightarrow>
          if len < 0 then Inl (cgi_error ''invalid CONTENT_LENGTH'')
          else Inr (request\<lparr>hq_ContentLength := len\<rparr>))"

definition backend_target :: "string \<Rightarrow> string \<Rightarrow> string" where
  "backend_target path query = url_String (empty_URL\<lparr>url_Scheme := ''http'', url_Host := BackendAddress,
     url_Path := path, url_RawQuery := query\<rparr>)"

definition cgi_newRequest ::
  "(string \<Rightarrow> string option) \<Rightarrow> body \<Rightarrow> (string \<Rightarrow> string) \<Rightarrow> http_error + http_request"
where
  "cgi_newRequest parse_host stdin getenv =
     (let method = getenv ''REQUEST_METHOD''; host = getenv ''HTTP_HOST'' in
      if method \<noteq> MethodGet \<and> method \<noteq> MethodHead \<and> method \<noteq> MethodPost
      then Inl (cgi_error (''unsupported method '' @ Quote method))
      else if host = [] then Inl (cgi_error ''missing HTTP_HOST'')
      else case requestPath parse_host getenv of
        Inl err \<Rightarrow> Inl err
      | Inr path \<Rightarrow>
          (case NewRequestWithContext parse_host (Some background) method
               (backend_target path (getenv ''QUERY_STRING''))
               (if method \<noteq> MethodPost then NoBody else stdin) 0 of
             Inl err \<Rightarrow> Inl err
           | Inr request \<Rightarrow>
               let header = header_Set (copy_headers getenv (hq_Header request)) ''X-Forwarded-Prefix'' ExternalBasePath
               in (case set_source getenv (request\<lparr>hq_Host := host, hq_Header := header\<rparr>) of
                     Inl err \<Rightarrow> Inl err
                   | Inr request \<Rightarrow> set_length getenv request)))"

subsection \<open>The response\<close>

definition rewriteLocation :: "string \<Rightarrow> string" where
  "rewriteLocation v = (if HasPrefix v ''/'' then ExternalBasePath @ v else v)"

definition skipResponseHeader :: "string \<Rightarrow> bool" where
  "skipResponseHeader name \<longleftrightarrow> CanonicalHeaderKey name \<in> set
     [''Connection'', ''Content-Length'', ''Keep-Alive'', ''Proxy-Authenticate'', ''Proxy-Authorization'', ''Te'',
      ''Trailer'', ''Transfer-Encoding'', ''Upgrade'']"

definition cgi_field :: "string \<Rightarrow> string \<Rightarrow> string" where
  "cgi_field name v =
     name @ '': '' @ (if EqualFold name ''Location'' then rewriteLocation v else v) @ CRLF"

text \<open>What is printed, and whether copying the body failed.\<close>

definition writeResponse :: "http_response \<Rightarrow> string \<times> http_error option" where
  "writeResponse response =
     (let code = hr_StatusCode response;
          statusText = (if StatusText code = [] then ''Unknown'' else StatusText code);
          head = ''Status: '' @ show_nat code @ '' '' @ statusText @ CRLF;
          fields = concat (map (\<lambda>(name, vs).
            if skipResponseHeader name then [] else concat (map (cgi_field name) vs)) (hr_Header response))
      in case ReadAll (hr_Body response) of ((data, err), _) \<Rightarrow> (head @ fields @ CRLF @ data, err))"

definition cgi_Run ::
  "(string \<Rightarrow> string option) \<Rightarrow> network \<Rightarrow> body \<Rightarrow> (string \<Rightarrow> string) \<Rightarrow> string \<times> http_error option"
where
  "cgi_Run parse_host net stdin getenv =
     (case sourceAddress (getenv ''REMOTE_ADDR'') of
        Inl err \<Rightarrow> ([], Some err)
      | Inr _ \<Rightarrow>
          (case cgi_newRequest parse_host stdin getenv of
             Inl err \<Rightarrow> ([], Some err)
           | Inr request \<Rightarrow>
               (case client_Do net request of
                  Inl err \<Rightarrow> ([], Some err)
                | Inr response \<Rightarrow> writeResponse response)))"

end
