(* ===== verification/Http_Body.thy ===== *)
theory Http_Body
  imports Http_Server
begin

text \<open>
  What reading a body gives.  The contract of \<open>io.Reader\<close> is a locale: a reader has bytes to come and
  an error that follows them, and every read takes a piece off the front.  Whatever the sizes of the
  reads, draining a reader gives exactly those bytes and that error.  The connection's buffered
  reader and the readers built on it (the declared length, the byte limit) meet the contract, so how
  the network cuts a body into pieces never matters.
\<close>

subsection \<open>The contract of a reader\<close>

text \<open>Reads of the given sizes until an error; \<open>None\<close> when the sizes run out first.\<close>

fun drain ::
  "(nat \<Rightarrow> 's \<Rightarrow> (string \<times> http_error option) \<times> 's) \<Rightarrow> nat list \<Rightarrow> 's \<Rightarrow> string \<times> http_error option"
where
  "drain rd [] s = ([], None)"
| "drain rd (n # ns) s =
     (case rd n s of
        ((data, Some err), s') \<Rightarrow> (data, Some err)
      | ((data, None), s') \<Rightarrow> (case drain rd ns s' of (data', err) \<Rightarrow> (data @ data', err)))"

locale io_reader =
  fixes rd :: "nat \<Rightarrow> 's \<Rightarrow> (string \<times> http_error option) \<times> 's"
    and pending :: "'s \<Rightarrow> string"
    and final :: "'s \<Rightarrow> http_error"
    and ok :: "'s \<Rightarrow> bool"
  assumes read_piece: "ok s \<Longrightarrow> 0 < n \<Longrightarrow> rd n s = ((data, None), s') \<Longrightarrow>
      data \<noteq> [] \<and> length data \<le> n \<and> pending s = data @ pending s' \<and> final s' = final s \<and> ok s'"
    and read_last: "ok s \<Longrightarrow> 0 < n \<Longrightarrow> rd n s = ((data, Some err), s') \<Longrightarrow>
      length data \<le> n \<and> pending s = data \<and> final s = err"
begin

lemma drain_all:
  assumes "ok s" "\<forall>n \<in> set ns. 0 < n" "length (pending s) < length ns"
  shows "drain rd ns s = (pending s, Some (final s))"
  using assms
proof (induction ns arbitrary: s)
  case (Cons n ns)
  obtain data err s' where r: "rd n s = ((data, err), s')" by (metis prod_cases3 surj_pair)
  show ?case
  proof (cases err)
    case None
    from read_piece [OF Cons.prems(1) _ r [unfolded None]] Cons.prems(2)
    have p: "data \<noteq> []" "pending s = data @ pending s'" "final s' = final s" "ok s'" by auto
    then have "drain rd ns s' = (pending s', Some (final s'))"
      using Cons.prems(2,3) by (intro Cons.IH) (cases data; auto)+
    with r None p show ?thesis by simp
  next
    case (Some e)
    from read_last [OF Cons.prems(1) _ r [unfolded Some]] Cons.prems(2) r Some show ?thesis by simp
  qed
qed simp

text \<open>A prefix is read first, whatever the sizes.\<close>

lemma drain_prefix:
  assumes "ok s" "\<forall>n \<in> set ns. 0 < n"
  shows "\<exists>t. pending s = fst (drain rd ns s) @ t"
  using assms
proof (induction ns arbitrary: s)
  case (Cons n ns)
  obtain data err s' where r: "rd n s = ((data, err), s')" by (metis prod_cases3 surj_pair)
  show ?case
  proof (cases err)
    case None
    from read_piece [OF Cons.prems(1) _ r [unfolded None]] Cons.prems(2)
    have "pending s = data @ pending s'" "ok s'" by auto
    with Cons.IH [of s'] Cons.prems(2) r None show ?thesis by (auto split: prod.splits)
  next
    case (Some e)
    from read_last [OF Cons.prems(1) _ r [unfolded Some]] Cons.prems(2) r Some show ?thesis by simp
  qed
qed simp

end

subsection \<open>The connection\<close>

interpretation conn: io_reader conn_Read rest_text cr_end "\<lambda>_. True"
  by unfold_locales (auto dest: conn_Read_data conn_Read_end)

subsection \<open>Bodies\<close>

fun body_pending :: "body \<Rightarrow> string" and body_final :: "body \<Rightarrow> http_error" where
  "body_pending NoBody = []"
| "body_pending (ConnBody br) = rest_text br"
| "body_pending (BodyReader br left) = take left (rest_text br)"
| "body_pending (ChunkedBody c) = []"
| "body_pending (MaxBytesBody b left limit failed) = take left (body_pending b)"
| "body_pending (LimitedBody b left) = take left (body_pending b)"
| "body_final NoBody = EOF"
| "body_final (ConnBody br) = cr_end br"
| "body_final (BodyReader br left) =
     (if left \<le> length (rest_text br) then EOF else noEOF (cr_end br))"
| "body_final (ChunkedBody c) = EOF"
| "body_final (MaxBytesBody b left limit failed) =
     (if left < length (body_pending b) then MaxBytesError limit else body_final b)"
| "body_final (LimitedBody b left) =
     (if left \<le> length (body_pending b) then EOF else body_final b)"

text \<open>A chunked body is decoded, and needs a specification of its own.  When a limited reader ends exactly
  where its source does, the error of the source may come with the last bytes, so it must be \<open>EOF\<close>.\<close>

fun body_ok :: "body \<Rightarrow> bool" where
  "body_ok NoBody = True"
| "body_ok (ConnBody br) = True"
| "body_ok (BodyReader br left) = True"
| "body_ok (ChunkedBody c) = False"
| "body_ok (MaxBytesBody b left limit failed) = (body_ok b \<and> failed = None)"
| "body_ok (LimitedBody b left) = (body_ok b \<and> (length (body_pending b) = left \<longrightarrow> body_final b = EOF))"

lemma body_Read_result:
  "body_Read n b = ((data, e), b') \<Longrightarrow> body_ok b \<Longrightarrow> 0 < n \<Longrightarrow> length data \<le> n \<and>
     (case e of
        None \<Rightarrow> data \<noteq> [] \<and> body_pending b = data @ body_pending b' \<and> body_final b' = body_final b \<and> body_ok b'
      | Some err \<Rightarrow> body_pending b = data \<and> body_final b = err)"
proof (induction n b arbitrary: data e b' rule: body_Read.induct)
  case (2 n br)
  then show ?case by (cases e) (auto split: prod.splits dest!: conn_Read_data conn_Read_end)
next
  case (3 n br left)
  obtain d x br' where r: "conn_Read (min n left) br = ((d, x), br')" by (metis prod_cases3 surj_pair)
  show ?case
  proof (cases "left = 0")
    case False
    show ?thesis
    proof (cases x)
      case None
      with conn_Read_data [of "min n left" br d br'] r False 3 show ?thesis
        by (cases "length d = left") (auto simp: Let_def)
    next
      case (Some err)
      with conn_Read_end [of "min n left" br d err br'] r False 3 show ?thesis
        by (cases "err = EOF") (auto simp: Let_def noEOF_def)
    qed
  qed (use 3 in auto)
next
  case (5 n b left limit failed)
  obtain d x b1 where r: "body_Read (min n (left + 1)) b = ((d, x), b1)" by (metis prod_cases3 surj_pair)
  have f: "failed = None" "n \<noteq> 0" "body_ok b" using 5(3,4) by auto
  note IH = 5(1) [OF f(1,2) r f(3)]
  show ?case
  proof (cases "length d \<le> left")
    case True
    with r f 5(2) have "data = d" "e = x" "b' = MaxBytesBody b1 (left - length d) limit x" by auto
    with IH True f(2) show ?thesis by (cases x) auto
  next
    case False
    with r f 5(2) have "data = take left d" "e = Some (MaxBytesError limit)" by auto
    with IH False f(2) show ?thesis by (cases x) auto
  qed
next
  case (6 n b left)
  obtain d x b1 where r: "body_Read (min n left) b = ((d, x), b1)" by (metis prod_cases3 surj_pair)
  show ?case
  proof (cases "left = 0")
    case False
    with r 6(2) have "data = d" "e = x" "b' = LimitedBody b1 (left - length d)" by auto
    moreover have "body_ok b" "0 < min n left" using 6(3,4) False by auto
    ultimately show ?thesis using 6(1) [OF False r] 6(3) by (cases x) auto
  qed (use 6 in auto)
qed auto

lemmas body_piece = body_Read_result [where e = None, simplified]
lemmas body_last = body_Read_result [where e = "Some err" for err, simplified]

interpretation bodies: io_reader body_Read body_pending body_final body_ok
  by unfold_locales (blast dest: body_piece body_last)+

lemma ReadAll_result:
  "body_ok b \<Longrightarrow>
     fst (ReadAll b) = (body_pending b, if body_final b = EOF then None else Some (body_final b))"
proof (induction b rule: ReadAll.induct)
  case (1 b)
  obtain d e b1 where r: "body_Read 512 b = ((d, e), b1)" by (metis prod_cases3 surj_pair)
  show ?case
  proof (cases e)
    case None
    with body_piece [OF r [unfolded None] 1(2)] 1(1) [of "(d, e)" b1 d] r
    show ?thesis by (auto simp: ReadAll.simps [of b] split: prod.splits)
  next
    case (Some x)
    with body_last [OF r [unfolded Some] 1(2)] r show ?thesis by (simp add: ReadAll.simps [of b])
  qed
qed

text \<open>
  C19: The limit on a request body is exact, however the body arrives and however it is read.  Reading
  the body of a request with declared length \<open>n\<close> under the limit \<open>limit\<close>, in pieces of any sizes, over
  a connection that delivers its bytes in chunks of any sizes, gives the first \<open>n\<close> bytes and no more;
  it fails with the error of the limit exactly when more than \<open>limit\<close> bytes of the body arrive, with
  \<open>UnexpectedEOF\<close> (or the connection's error) when the body is cut short, and \<open>ReadAll\<close> gives the same.
\<close>

theorem body_limit_is_exact:
  assumes "\<forall>k \<in> set ns. 0 < k" "length (rest_text br) < length ns"
  shows "drain body_Read ns (MaxBytesReader (BodyReader br n) limit) =
      (take (min (nat limit) n) (rest_text br),
       Some (if nat limit < min n (length (rest_text br)) then MaxBytesError (nat limit)
             else if n \<le> length (rest_text br) then EOF else noEOF (cr_end br))) \<and>
    fst (ReadAll (MaxBytesReader (BodyReader br n) limit)) =
      (take (min (nat limit) n) (rest_text br),
       if nat limit < min n (length (rest_text br)) then Some (MaxBytesError (nat limit))
       else if n \<le> length (rest_text br) then None else Some (noEOF (cr_end br)))"
proof -
  let ?b = "MaxBytesReader (BodyReader br n) limit"
  have ok: "body_ok ?b" by (simp add: MaxBytesReader_def)
  have p: "body_pending ?b = take (min (nat limit) n) (rest_text br)"
    "body_final ?b = (if nat limit < min n (length (rest_text br)) then MaxBytesError (nat limit)
             else if n \<le> length (rest_text br) then EOF else noEOF (cr_end br))"
    by (auto simp: MaxBytesReader_def)
  have "length (body_pending ?b) < length ns" using assms(2) unfolding p by simp
  from bodies.drain_all [OF ok assms(1) this] ReadAll_result [OF ok] show ?thesis
    unfolding p by (auto simp: noEOF_def)
qed

end
