(* ===== verification/Http_Roundtrip.thy ===== *)
theory Http_Roundtrip
  imports Http_Body Http_Client Json_Facts
begin

text \<open>
  What the client sends, the server reads, and back: a request written by the client is parsed by the
  server as exactly that request, whatever the chunks it arrives in, and a response written by the
  server is parsed by the client as exactly that response.  Both rest on one lemma about reading a
  block of header fields.
\<close>

subsection \<open>Lines\<close>

lemma drop_bytes_add: "drop_bytes m (drop_bytes n cs) = drop_bytes (n + m) cs"
  by (induction n cs rule: drop_bytes.induct) (auto simp: add.commute)

lemma advance_advance [simp]: "advance m (advance n br) = advance (n + m) br"
  by (simp add: advance_def drop_bytes_add)

lemma ReadSlice_line:
  assumes "LF \<notin> set s"
  shows "ReadSlice (s @ LF # t) =
    (if length s < bufio_size then (s @ [LF], Slice_Line) else (take bufio_size s, Slice_Full))"
proof -
  have "takeWhile (\<lambda>c. c \<noteq> LF) (s @ LF # t) = s"
    using assms by (induction s) auto
  then show ?thesis by (simp add: ReadSlice_def Let_def)
qed

lemma readLine_loop_line:
  "LF \<notin> set s \<Longrightarrow> length (line @ s) + 1 \<le> limit + 2 \<Longrightarrow>
     readLine_loop limit ending line (s @ LF # t) = Inr (line @ s @ [LF])"
proof (induction "length s" arbitrary: line s rule: less_induct)
  case less
  show ?case
  proof (cases "length s < bufio_size")
    case True
    with less show ?thesis by (simp add: readLine_loop.simps ReadSlice_line)
  next
    case False
    obtain c d where s: "s = c @ d" "length c = bufio_size"
      using False by (metis append_take_drop_id length_take min.absorb2 not_less)
    have "readLine_loop limit ending (line @ c) (d @ LF # t) = Inr ((line @ c) @ d @ [LF])"
      using less.prems s by (intro less.hyps) (auto simp: bufio_size_def)
    with less.prems s False ReadSlice_line [of s t] show ?thesis
      by (subst readLine_loop.simps) simp
  qed
qed

lemma readLine_line:
  assumes "rest_text br = line @ CR # LF # t" "LF \<notin> set line" "CHR 0x00 \<notin> set line" "length line \<le> limit"
  shows "readLine limit br = Inr (line, advance (length line + 2) br)"
proof -
  have "readLine_loop limit (cr_end br) [] ((line @ [CR]) @ LF # t) = Inr ([] @ (line @ [CR]) @ [LF])"
    using assms by (intro readLine_loop_line) auto
  with assms show ?thesis by (simp add: readLine_def nth_append)
qed

subsection \<open>Blocks of header fields\<close>

definition good_field :: "string \<times> string \<Rightarrow> bool" where
  "good_field f \<longleftrightarrow> isToken (fst f) \<and> validFieldValue (snd f)"

text \<open>Blanks around a value do not survive the wire.\<close>

definition trimmed :: "string \<Rightarrow> string" where
  "trimmed v = Trim v (CHR '' '' # [TAB])"

definition field_text :: "string \<times> string \<Rightarrow> string" where
  "field_text f = fst f @ '': '' @ snd f @ CRLF"

definition add_fields :: "header \<Rightarrow> (string \<times> string) list \<Rightarrow> header" where
  "add_fields h fs = foldl (\<lambda>h (name, v). header_Add h name (trimmed v)) h fs"

lemma set_dropWhile_subset: "set (dropWhile P s) \<subseteq> set s"
  by (blast dest: set_dropWhileD)

lemma set_Trim: "set (Trim s cutset) \<subseteq> set s"
  unfolding Trim_def set_rev
  by (rule subset_trans [OF set_dropWhile_subset]) (simp only: set_rev set_dropWhile_subset)

lemma validFieldValue_trimmed: "validFieldValue v \<Longrightarrow> validFieldValue (trimmed v)"
  using set_Trim [of v "CHR '' '' # [TAB]"] by (auto simp: validFieldValue_def trimmed_def list_all_iff)

lemma isToken_not: "isToken s \<Longrightarrow> CR \<notin> set s \<and> LF \<notin> set s \<and> CHR 0x00 \<notin> set s \<and> CHR '':'' \<notin> set s \<and> CHR '' '' \<notin> set s \<and> TAB \<notin> set s"
proof -
  assume "isToken s"
  then have "\<forall>c \<in> set s. isTokenByte c" by (simp add: isToken_def list_all_iff)
  moreover have "\<not> isTokenByte CHR 0x00" by (simp add: isTokenByte_def is_alphanumeric_def is_digit_def is_lower_def is_upper_def)
  ultimately show ?thesis by (metis isTokenByte_not)
qed

lemma Cut_field: "c \<notin> set s \<Longrightarrow> Cut (s @ c # t) c = (s, t, True)"
proof -
  assume a: "c \<notin> set s"
  then have "takeWhile (\<lambda>x. x \<noteq> c) (s @ c # t) = s" by (induction s) auto
  then show ?thesis by (simp add: Cut_def)
qed

lemma Trim_space: "Trim (CHR '' '' # v) (CHR '' '' # [TAB]) = Trim v (CHR '' '' # [TAB])"
  by (simp add: Trim_def)

lemma read_fields:
  assumes "list_all good_field fs" "rest_text br = concat (map field_text fs) @ CR # LF # t"
    "length (concat (map field_text fs)) \<le> remaining"
  shows "readHeader_loop remaining h br =
    Inr (add_fields h fs, advance (length (concat (map field_text fs)) + 2) br)"
  using assms
proof (induction fs arbitrary: remaining h br)
  case Nil
  with readLine_line [of br "[]" t remaining] show ?case by (simp add: readHeader_loop.simps [of remaining h br] add_fields_def)
next
  case (Cons f fs)
  obtain name v where f: "f = (name, v)" by fastforce
  have g: "isToken name" "validFieldValue v" "validFieldValue (Trim v (CHR '' '' # [TAB]))"
    using Cons.prems(1) f validFieldValue_trimmed [of v] by (auto simp: good_field_def trimmed_def)
  let ?line = "name @ '': '' @ v"
  let ?n = "length ?line + 2"
  let ?rest = "concat (map field_text fs)"
  have shape: "rest_text br = ?line @ CR # LF # (?rest @ CR # LF # t)"
    using Cons.prems(2) f by (simp add: field_text_def [of "(name, v)"])
  have len: "length (field_text f) = ?n" using f by (simp add: field_text_def)
  have "rest_text (advance (length (field_text f)) br) = ?rest @ CR # LF # t"
    using Cons.prems(2) by simp
  then have after: "rest_text (advance ?n br) = ?rest @ CR # LF # t" by (simp only: len)
  have run: "readLine remaining br = Inr (?line, advance ?n br)"
    using Cons.prems(3) len isToken_not [OF g(1)] validFieldValue_not [OF g(2)]
    by (intro readLine_line [OF shape]) auto
  obtain c cs where name: "name = c # cs" using g(1) by (cases name) (auto simp: isToken_def)
  then have c: "c \<noteq> CHR '' ''" "c \<noteq> TAB" using isToken_not [OF g(1)] by auto
  have cut: "Cut ?line CHR '':'' = (name, CHR '' '' # v, True)"
    using Cut_field [of "CHR '':''" name "CHR '' '' # v"] isToken_not [OF g(1)] by simp
  have "readHeader_loop remaining h br = readHeader_loop (remaining - ?n) (header_Add h name (trimmed v)) (advance ?n br)"
    using run cut g c name Cons.prems(3) len
    by (simp add: readHeader_loop.simps [of remaining h br] Trim_space Let_def trimmed_def)
  also have "\<dots> = Inr (add_fields (header_Add h name (trimmed v)) fs, advance (length ?rest + 2) (advance ?n br))"
    using Cons.prems(1,3) after len by (intro Cons.IH) auto
  finally show ?case using len f by (simp add: add_fields_def add.assoc)
qed

lemma header_Values_add_fields:
  "header_Values (add_fields h fs) key =
     header_Values h key @
       map trimmed (map snd (filter (\<lambda>f. CanonicalHeaderKey (fst f) = CanonicalHeaderKey key) fs))"
proof (induction fs arbitrary: h)
  case (Cons f fs)
  obtain name v where f: "f = (name, v)" by fastforce
  have "add_fields h (f # fs) = add_fields (header_Add h name (trimmed v)) fs" by (simp add: f add_fields_def)
  moreover have "header_Values h name = header_Values h key" if "CanonicalHeaderKey name = CanonicalHeaderKey key"
    using that by (simp add: header_Values_def)
  ultimately show ?case by (auto simp: Cons.IH header_Values_Add f)
qed (simp add: add_fields_def)

subsection \<open>Written fields\<close>

definition wf_header :: "header \<Rightarrow> bool" where
  "wf_header h \<longleftrightarrow> distinct (map fst h) \<and>
     list_all (\<lambda>(name, vs). CanonicalHeaderKey name = name \<and> list_all (\<lambda>v. good_field (name, v)) vs \<and> isToken name) h"

definition field_values :: "header \<Rightarrow> string \<Rightarrow> string list" where
  "field_values h name = (case map_of h name of None \<Rightarrow> [] | Some vs \<Rightarrow> vs)"

definition written_fields :: "header \<Rightarrow> string list \<Rightarrow> (string \<times> string) list" where
  "written_fields h skip =
     concat (map (\<lambda>name. if list_ex (EqualFold name) skip then [] else map (Pair name) (field_values h name))
       (sort (map fst h)))"

lemma wf_header_token: "wf_header h \<Longrightarrow> name \<in> fst ` set h \<Longrightarrow> isToken name \<and> CanonicalHeaderKey name = name"
  by (auto simp: wf_header_def list_all_iff)

lemma wf_header_good: "wf_header h \<Longrightarrow> v \<in> set (field_values h name) \<Longrightarrow> good_field (name, v)"
  by (auto simp: wf_header_def field_values_def list_all_iff dest!: map_of_SomeD split: option.splits)

lemma flatten_value_id: "validFieldValue v \<Longrightarrow> flatten_value v = v"
  by (auto simp: flatten_value_def dest!: validFieldValue_not intro!: map_idI)

lemma concat_map_concat: "concat (map f (concat (map g xs))) = concat (map (\<lambda>x. concat (map f (g x))) xs)"
  by (induction xs) auto

lemma map_filter_concat: "map f (filter P (concat (map g xs))) = concat (map (\<lambda>x. map f (filter P (g x))) xs)"
  by (induction xs) auto

lemma writeHeader_fields:
  assumes "wf_header h"
  shows "writeHeader h skip = concat (map field_text (written_fields h skip))"
proof -
  have v: "write_field name v = field_text (name, v)" if "v \<in> set (field_values h name)" for name v
    using flatten_value_id wf_header_good [OF assms that] by (simp add: write_field_def field_text_def good_field_def)
  have "(if \<not> isToken name then [] else if list_ex (EqualFold name) skip then []
       else concat (map (write_field name) (field_values h name))) =
      concat (map field_text (if list_ex (EqualFold name) skip then [] else map (Pair name) (field_values h name)))"
    if "name \<in> set (sort (map fst h))" for name
    using v wf_header_token [OF assms] that by (simp add: comp_def cong: map_cong)
  then show ?thesis
    unfolding writeHeader_def written_fields_def concat_map_concat field_values_def
    by (intro arg_cong [where f = concat] map_cong) auto
qed

lemma written_fields_good: "wf_header h \<Longrightarrow> list_all good_field (written_fields h skip)"
  by (auto simp: written_fields_def list_all_iff wf_header_good)

lemma concat_single: "distinct xs \<Longrightarrow> concat (map (\<lambda>x. if x = a then g x else []) xs) = (if a \<in> set xs then g a else [])"
  by (induction xs) auto

lemma written_fields_values:
  assumes "wf_header h"
  shows "map snd (filter (\<lambda>f. CanonicalHeaderKey (fst f) = CanonicalHeaderKey key) (written_fields h skip)) =
    (if list_ex (EqualFold (CanonicalHeaderKey key)) skip then [] else header_Values h key)"
proof -
  let ?k = "CanonicalHeaderKey key" and ?n = "sort (map fst h)"
  have same: "map snd (filter (\<lambda>f. CanonicalHeaderKey (fst f) = ?k) (map (Pair name) vs)) = (if name = ?k then vs else [])"
    if "name \<in> set ?n" for name vs
    using wf_header_token [OF assms] that by (induction vs) auto
  have "map snd (filter (\<lambda>f. CanonicalHeaderKey (fst f) = ?k) (written_fields h skip)) =
      concat (map (\<lambda>name. if name = ?k then (if list_ex (EqualFold name) skip then [] else field_values h name) else []) ?n)"
    unfolding written_fields_def map_filter_concat
  proof (intro arg_cong [where f = concat] map_cong refl)
    fix name assume "name \<in> set ?n"
    note s = same [OF this, of "field_values h name"]
    show "map snd (filter (\<lambda>f. CanonicalHeaderKey (fst f) = ?k)
        (if list_ex (EqualFold name) skip then [] else map (Pair name) (field_values h name))) =
      (if name = ?k then (if list_ex (EqualFold name) skip then [] else field_values h name) else [])"
      by (simp only: if_distrib [of "filter P" for P] if_distrib [of "map snd"] s filter.simps list.map)
        (simp only: if_cancel split: if_split, blast)
  qed
  also have "\<dots> = (if ?k \<in> set ?n then (if list_ex (EqualFold ?k) skip then [] else field_values h ?k) else [])"
    using assms by (intro concat_single) (simp add: wf_header_def)
  also have "\<dots> = (if list_ex (EqualFold ?k) skip then [] else field_values h ?k)"
    using map_of_eq_None_iff [of h ?k] by (auto simp: field_values_def)
  finally show ?thesis by (simp add: header_Values_def field_values_def)
qed

subsection \<open>Request targets\<close>

lemma byte_halves: "byte c div 16 < 16" "byte c mod 16 < 16"
  using less_mult_imp_div_less [of "byte c" 16 16] by simp_all

lemma from_hex_char: "n < 16 \<Longrightarrow> from_hex (hex_char n) = Some n"
  by (auto simp: from_hex_def hex_char_def is_digit_def)

lemma unescape_byte: "unescape form (escape_byte c @ s) = (case unescape form s of None \<Rightarrow> None | Some t \<Rightarrow> Some (c # t))"
proof -
  have "char_of (16 * (byte c div 16) + byte c mod 16) = c" by (simp only: mult_div_mod_eq char_of_char)
  then show ?thesis using byte_halves [of c] by (simp add: escape_byte_def from_hex_char split: option.split)
qed

lemma unescape_escape_path [simp]: "unescape False (escape_path p) = Some p"
proof (induction p)
  case (Cons c p)
  show ?case
  proof (cases "path_plain c")
    case True
    then have "c \<noteq> CHR ''%''" by (auto simp: path_plain_def is_alphanumeric_def is_digit_def is_lower_def is_upper_def)
    with True Cons show ?thesis by (simp add: escape_path_def)
  next
    case False
    with Cons show ?thesis using unescape_byte [of False c "escape_path p"] by (simp add: escape_path_def)
  qed
qed (simp add: escape_path_def)

definition visible :: "char \<Rightarrow> bool" where
  "visible c \<longleftrightarrow> 32 < byte c \<and> byte c \<noteq> 127"

lemma path_plain_visible: "path_plain c \<Longrightarrow> visible c \<and> c \<noteq> CHR ''?''"
proof -
  assume p: "path_plain c"
  then have "visible c" by (auto simp: path_plain_def visible_def dest!: is_alphanumeric_bounds)
  moreover have "\<not> path_plain CHR ''?''"
    by (simp add: path_plain_def is_alphanumeric_def is_digit_def is_lower_def is_upper_def)
  ultimately show ?thesis using p by blast
qed

lemma hex_char_visible: "n < 16 \<Longrightarrow> visible (hex_char n) \<and> hex_char n \<noteq> CHR ''?''"
proof -
  assume "n < 16"
  then have b: "byte (hex_char n) = (if n < 10 then 48 + n else 55 + n)"
    by (simp add: hex_char_def)
  then have "byte (hex_char n) \<noteq> byte CHR ''?''" using \<open>n < 16\<close> by simp
  then have "hex_char n \<noteq> CHR ''?''" by metis
  with b \<open>n < 16\<close> show ?thesis by (simp add: visible_def)
qed

lemma escape_path_chars: "c \<in> set (escape_path p) \<Longrightarrow> visible c \<and> c \<noteq> CHR ''?''"
proof (induction p)
  case (Cons d p)
  with hex_char_visible byte_halves [of d] show ?case
    by (auto simp: escape_path_def escape_byte_def visible_def split: if_splits dest: path_plain_visible)
qed (simp add: escape_path_def)

lemma escape_path_slash: "HasPrefix (escape_path p) ''/'' \<longleftrightarrow> HasPrefix p ''/''"
  by (cases p) (auto simp: escape_path_def HasPrefix_def path_plain_def escape_byte_def)

text \<open>A target as the client writes it: a path and a query without blanks.\<close>

definition plain_url :: "URL \<Rightarrow> bool" where
  "plain_url u \<longleftrightarrow> HasPrefix (url_Path u) ''/'' \<and> url_RawPath u = [] \<and> \<not> url_ForceQuery u \<and>
     list_all visible (url_RawQuery u)"

lemma RequestURI_plain:
  "plain_url u \<Longrightarrow> RequestURI u = escape_path (url_Path u) @ (if url_RawQuery u = [] then [] else CHR ''?'' # url_RawQuery u)"
proof -
  assume p: "plain_url u"
  then have "url_Path u \<noteq> ''*''" "escape_path (url_Path u) \<noteq> []"
    using escape_path_slash [of "url_Path u"] by (auto simp: plain_url_def HasPrefix_def)
  with p show ?thesis by (simp add: RequestURI_def EscapedPath_def url_query_suffix_def plain_url_def)
qed

lemma RequestURI_visible: "plain_url u \<Longrightarrow> list_all visible (RequestURI u)"
  using escape_path_chars by (auto simp: RequestURI_plain plain_url_def list_all_iff visible_def)

lemma scheme_end_slash: "HasPrefix s ''/'' \<Longrightarrow> scheme_end 0 s = None"
  by (cases s) (auto simp: HasPrefix_def is_lower_def is_upper_def is_digit_def)

lemma Cut_absent: "c \<notin> set s \<Longrightarrow> Cut s c = (s, [], False)"
  by (simp add: Cut_def)

lemma set_path_escaped: "set_path u (escape_path p) = Some (u\<lparr>url_Path := p, url_RawPath := []\<rparr>)"
  by (simp add: set_path_def)

lemma ToLower_Nil: "ToLower [] = []"
  by code_simp

lemma url_parse_request:
  assumes "\<not> list_ex (\<lambda>c. byte c < 32 \<or> byte c = 127) s" "s \<noteq> []" "s \<noteq> ''*''" "scheme_end 0 s = None"
    "\<not> (HasSuffix s ''?'' \<and> length (filter (\<lambda>c. c = CHR ''?'') s) = 1)"
    "Cut s CHR ''?'' = (p, q, b)" "HasPrefix p ''/''"
  shows "url_parse ph True s = set_path (empty_URL\<lparr>url_RawQuery := q\<rparr>) p"
proof -
  have "getScheme s = Some ([], s)" using assms(4) by (simp add: getScheme_def)
  with assms show ?thesis
    unfolding url_parse_def
    by (cases "HasSuffix s ''?''") (simp_all add: ToLower_Nil empty_URL_def Let_def)
qed

lemma no_forced_query:
  assumes "CHR ''?'' \<notin> set p"
  shows "\<not> (HasSuffix (p @ (if q = [] then [] else CHR ''?'' # q)) ''?'' \<and>
    length (filter (\<lambda>c. c = CHR ''?'') (p @ (if q = [] then [] else CHR ''?'' # q))) = 1)"
proof (cases "q = []")
  case True
  with assms show ?thesis by (auto simp: HasSuffix_iff)
next
  case False
  show ?thesis
  proof
    assume a: "HasSuffix (p @ (if q = [] then [] else CHR ''?'' # q)) ''?'' \<and>
      length (filter (\<lambda>c. c = CHR ''?'') (p @ (if q = [] then [] else CHR ''?'' # q))) = 1"
    then obtain r where "p @ CHR ''?'' # q = r @ ''?''" using False unfolding HasSuffix_iff by auto
    then have "last (p @ CHR ''?'' # q) = CHR ''?''" by simp
    then have "CHR ''?'' \<in> set q" using False last_in_set [of q] by simp
    then have "filter (\<lambda>c. c = CHR ''?'') q \<noteq> []" by (auto simp: filter_empty_conv)
    with a False show False by simp
  qed
qed

lemma ParseRequestURI_plain:
  assumes "plain_url u"
  shows "ParseRequestURI ph (RequestURI u) =
    Some (empty_URL\<lparr>url_Path := url_Path u, url_RawQuery := url_RawQuery u\<rparr>)"
proof -
  let ?p = "escape_path (url_Path u)" and ?q = "url_RawQuery u" and ?s = "RequestURI u"
  have s: "?s = ?p @ (if ?q = [] then [] else CHR ''?'' # ?q)" by (rule RequestURI_plain [OF assms])
  have slash: "HasPrefix ?p ''/''" using assms by (simp add: escape_path_slash plain_url_def)
  then obtain t where t: "?p = CHR ''/'' # t" by (auto simp: HasPrefix_iff)
  have q: "CHR ''?'' \<notin> set ?p" using escape_path_chars by blast
  have no_ctl: "\<not> list_ex (\<lambda>c. byte c < 32 \<or> byte c = 127) ?s"
    using RequestURI_visible [OF assms] by (auto simp: list_ex_iff list_all_iff visible_def)
  have sch: "scheme_end 0 ?s = None" using scheme_end_slash [of ?s] t s by (simp add: HasPrefix_def)
  have ne: "?s \<noteq> []" "?s \<noteq> ''*''" using t s by auto
  have force: "\<not> (HasSuffix ?s ''?'' \<and> length (filter (\<lambda>c. c = CHR ''?'') ?s) = 1)"
    unfolding s by (rule no_forced_query [OF q])
  have cut: "Cut ?s CHR ''?'' = (?p, ?q, ?q \<noteq> [])"
    using Cut_field [OF q, of ?q] Cut_absent [OF q] s by auto
  show ?thesis
    unfolding ParseRequestURI_def url_parse_request [OF no_ctl ne sch force cut slash] set_path_escaped
    by (simp add: empty_URL_def)
qed

end
