(* ===== verification/Http_Exchange.thy ===== *)
theory Http_Exchange
  imports Http_Roundtrip
begin

text \<open>
  The two messages of an exchange: the client's request read by the server, and the server's response
  read by the client, each whatever the pieces it arrives in.
\<close>

subsection \<open>Fields that the program adds\<close>

lemma Trim_fixed:
  assumes "\<forall>c \<in> set s. c \<notin> set cutset"
  shows "Trim s cutset = s"
proof -
  have keep: "dropWhile (\<lambda>c. c \<in> set cutset) t = t" if "set t \<subseteq> set s" for t
    using that assms by (cases t) auto
  show ?thesis by (simp add: Trim_def keep)
qed

lemma good_field_visible: "isToken name \<Longrightarrow> list_all visible v \<Longrightarrow> good_field (name, v)"
  by (auto simp: good_field_def list_all_iff visible_def validFieldValue_def is_control_def)

lemma trimmed_visible: "list_all visible v \<Longrightarrow> trimmed v = v"
  unfolding trimmed_def by (intro Trim_fixed) (auto simp: list_all_iff visible_def)

lemma trimmed_close [simp]: "trimmed ''close'' = ''close''"
  by code_simp

lemma visible_digit: "is_digit c \<Longrightarrow> visible c"
  by (auto simp: is_digit_def visible_def)

lemma visible_show_nat: "list_all visible (show_nat n)"
  using show_nat_digits [of n] by (auto simp: list_all_iff visible_digit)

lemma visible_host: "validHost s \<Longrightarrow> list_all visible s"
  using validHost_visible [of s] by (fastforce simp: list_all_iff visible_def)

lemma length_show_nat: "n < 10 ^ k \<Longrightarrow> 0 < k \<Longrightarrow> length (show_nat n) \<le> k"
proof (induction n arbitrary: k rule: show_nat.induct)
  case (1 n)
  show ?case
  proof (cases "n < 10")
    case True
    with 1(3) show ?thesis by (subst show_nat.simps) simp
  next
    case False
    with 1(2,3) obtain m where m: "k = Suc m" "0 < m" by (cases k; cases "k - 1") auto
    then have "n div 10 < 10 ^ m" using 1(2) by (auto simp: less_mult_imp_div_less mult.commute)
    with 1(1) False m have "length (show_nat (n div 10)) \<le> m" by simp
    with False m show ?thesis by (subst show_nat.simps) simp
  qed
qed

lemma parseContentLength_one:
  assumes "header_Values h ''Content-Length'' = [show_nat n]" "n < 10 ^ 18"
  shows "parseContentLength h = Inr (int n)"
  using assms length_show_nat [OF assms(2)] by (simp add: parseContentLength_def show_nat_digits)

lemma token_names: "isToken ''Host''" "isToken ''Content-Length''" "isToken ''Connection''"
  by code_simp+

lemma canonical_names [simp]:
  "CanonicalHeaderKey ''Host'' = ''Host''" "CanonicalHeaderKey ''Content-Length'' = ''Content-Length''"
  "CanonicalHeaderKey ''Connection'' = ''Connection''"
  "CanonicalHeaderKey ''Transfer-Encoding'' = ''Transfer-Encoding''"
  by code_simp+

lemma EqualFold_refl [simp]: "EqualFold s s"
  by (simp add: EqualFold_def)

subsection \<open>The request\<close>

abbreviation reserved_fields :: "string list" where
  "reserved_fields \<equiv> [''Host'', ''Content-Length'', ''Transfer-Encoding'', ''Connection'']"

text \<open>The header block of \<open>request_bytes\<close> as a list of fields.\<close>

definition request_fields :: "http_request \<Rightarrow> string \<Rightarrow> nat \<Rightarrow> (string \<times> string) list" where
  "request_fields r host n =
     (''Host'', host) # written_fields (hq_Header r) reserved_fields @
     (if 0 < n \<or> hq_Method r = MethodPost \<or> hq_Method r = MethodPut then [(''Content-Length'', show_nat n)] else []) @
     [(''Connection'', ''close'')]"

definition request_line :: "http_request \<Rightarrow> string" where
  "request_line r = hq_Method r @ '' '' @ RequestURI (hq_URL r) @ '' HTTP/1.1''"

lemma request_bytes_fields:
  assumes "wf_header (hq_Header r)"
  shows "request_bytes r host data (int (length data)) =
    request_line r @ CRLF @ concat (map field_text (request_fields r host (length data))) @ CRLF @ data"
  by (simp add: request_bytes_def request_line_def request_fields_def writeHeader_fields [OF assms] show_int_def
      field_text_def)

lemma request_fields_good:
  assumes "wf_header (hq_Header r)" "validHost host"
  shows "list_all good_field (request_fields r host n)"
proof -
  have "list_all visible ''close''" by code_simp
  with good_field_visible [OF token_names(1) visible_host [OF assms(2)]]
    good_field_visible [OF token_names(2) visible_show_nat] good_field_visible [OF token_names(3)]
    written_fields_good [OF assms(1)]
  show ?thesis by (simp add: request_fields_def)
qed

lemma request_fields_values:
  assumes "wf_header (hq_Header r)" "validHost host"
  shows "header_Values (add_fields [] (request_fields r host n)) key =
    (let k = CanonicalHeaderKey key in
     (if ''Host'' = k then [host] else []) @
     (if list_ex (EqualFold k) reserved_fields then [] else map trimmed (header_Values (hq_Header r) key)) @
     (if ''Content-Length'' = k \<and> (0 < n \<or> hq_Method r = MethodPost \<or> hq_Method r = MethodPut) then [show_nat n] else []) @
     (if ''Connection'' = k then [''close''] else []))"
proof -
  let ?P = "\<lambda>k f. CanonicalHeaderKey (fst f) = k"
  have e: "header_Values [] key = []" by (simp add: header_Values_def)
  have f: "map snd (filter (?P k) (request_fields r host n)) =
     (if ''Host'' = k then [host] else []) @
     map snd (filter (?P k) (written_fields (hq_Header r) reserved_fields)) @
     (if ''Content-Length'' = k \<and> (0 < n \<or> hq_Method r = MethodPost \<or> hq_Method r = MethodPut)
      then [show_nat n] else []) @
     (if ''Connection'' = k then [''close''] else [])" for k
    by (auto simp: request_fields_def)
  show ?thesis
    unfolding header_Values_add_fields e f Let_def written_fields_values [OF assms(1)]
    by (simp add: trimmed_visible visible_host [OF assms(2)] visible_show_nat)
qed

lemma Split_request_line:
  assumes "isToken (hq_Method r)" "plain_url (hq_URL r)"
  shows "Split (request_line r) CHR '' '' = [hq_Method r, RequestURI (hq_URL r), ''HTTP/1.1'']"
proof -
  have "CHR '' '' \<notin> set (hq_Method r)" "CHR '' '' \<notin> set (RequestURI (hq_URL r))"
    using isToken_not [OF assms(1)] RequestURI_visible [OF assms(2)] by (auto simp: list_all_iff visible_def)
  moreover have "Split ''HTTP/1.1'' CHR '' '' = [''HTTP/1.1'']" by code_simp
  ultimately show ?thesis by (simp add: request_line_def Split_append)
qed

lemma request_line_clean:
  assumes "isToken (hq_Method r)" "plain_url (hq_URL r)"
  shows "LF \<notin> set (request_line r)" "CHR 0x00 \<notin> set (request_line r)"
  using isToken_not [OF assms(1)] RequestURI_visible [OF assms(2)]
  by (auto simp: request_line_def list_all_iff visible_def)

lemma RequestURI_slash: "plain_url u \<Longrightarrow> HasPrefix (RequestURI u) ''/''"
  using escape_path_slash [of "url_Path u"] by (auto simp: RequestURI_plain plain_url_def HasPrefix_iff)

lemma server_readRequest_fields:
  assumes "isToken (hq_Method r)" "plain_url (hq_URL r)" "length (request_line r) \<le> 8192"
    "list_all good_field fs" "length (concat (map field_text fs)) \<le> maxHeader"
    "rest_text br = request_line r @ CRLF @ concat (map field_text fs) @ CRLF @ rest"
  shows "\<exists>br'. rest_text br' = rest \<and> server_readRequest br maxHeader =
    build_request (hq_Method r) (empty_URL\<lparr>url_Path := url_Path (hq_URL r), url_RawQuery := url_RawQuery (hq_URL r)\<rparr>)
      1 (add_fields [] fs) br'"
proof -
  let ?n = "length (request_line r) + 2" and ?m = "length (concat (map field_text fs)) + 2"
  have line: "readLine 8192 br = Inr (request_line r, advance ?n br)"
    using assms(3,6) request_line_clean [OF assms(1,2)] by (intro readLine_line) auto
  have after: "rest_text (advance ?n br) = concat (map field_text fs) @ CR # LF # rest"
    using assms(6) by simp
  have block: "readHeader (advance ?n br) maxHeader = Inr (add_fields [] fs, advance ?m (advance ?n br))"
    unfolding readHeader_def by (rule read_fields [OF assms(4) after assms(5)])
  have version: "parseVersion ''HTTP/1.1'' = Some 1" by (simp add: parseVersion_def)
  have target: "\<not> list_ex (\<lambda>c. byte c \<le> 32 \<or> byte c = 127) (RequestURI (hq_URL r))"
    using RequestURI_visible [OF assms(2)] by (auto simp: list_ex_iff list_all_iff visible_def)
  have "rest_text (advance ?m (advance ?n br)) = rest"
    unfolding rest_text_advance [of ?m] after by simp
  moreover have "server_readRequest br maxHeader =
      build_request (hq_Method r) (empty_URL\<lparr>url_Path := url_Path (hq_URL r), url_RawQuery := url_RawQuery (hq_URL r)\<rparr>)
        1 (add_fields [] fs) (advance ?m (advance ?n br))"
    unfolding server_readRequest_def line
    by (simp only: sum.case prod.case list.case Split_request_line [OF assms(1,2)] assms(1) version option.case
        RequestURI_slash [OF assms(2)] target ParseRequestURI_plain [OF assms(2)] block not_True_eq_False if_False)
  ultimately show ?thesis by blast
qed

text \<open>
  C15: A request arrives as it was sent.  The server, reading the bytes that the client writes for a
  request (valid method, host and fields, a path and query of visible characters, a body of the
  declared length), in chunks of any sizes and whatever follows them, finds the same method, path,
  query, host, length and body, and of every header field but the four the protocol reserves the same
  values without the blanks around them.
\<close>

theorem requests_arrive_unchanged:
  assumes "isToken (hq_Method r)" "plain_url (hq_URL r)" "validHost host" "wf_header (hq_Header r)"
    "int (length data) \<le> maxRequestBodyBytes"
    "length (request_line r) \<le> 8192" "length (concat (map field_text (request_fields r host (length data)))) \<le> maxHeader"
    "rest_text br = request_bytes r host data (int (length data)) @ following"
  shows "\<exists>q. server_readRequest br maxHeader = Inr q \<and>
    hq_Method q = hq_Method r \<and> hq_Host q = host \<and>
    url_Path (hq_URL q) = url_Path (hq_URL r) \<and> url_RawQuery (hq_URL q) = url_RawQuery (hq_URL r) \<and>
    hq_ContentLength q = int (length data) \<and> fst (ReadAll (hq_Body q)) = (data, None) \<and>
    (\<forall>key. \<not> list_ex (EqualFold (CanonicalHeaderKey key)) reserved_fields \<longrightarrow>
      header_Values (hq_Header q) key = map trimmed (header_Values (hq_Header r) key))"
proof -
  let ?fs = "request_fields r host (length data)" and ?h = "add_fields [] (request_fields r host (length data))"
  have shape: "rest_text br = request_line r @ CRLF @ concat (map field_text ?fs) @ CRLF @ data @ following"
    using assms(8) request_bytes_fields [OF assms(4)] by simp
  obtain br' where b: "rest_text br' = data @ following"
    and run: "server_readRequest br maxHeader = build_request (hq_Method r)
      (empty_URL\<lparr>url_Path := url_Path (hq_URL r), url_RawQuery := url_RawQuery (hq_URL r)\<rparr>) 1 ?h br'"
    using server_readRequest_fields [OF assms(1,2,6) request_fields_good [OF assms(4,3)] assms(7) shape] by blast
  note v = request_fields_values [OF assms(4,3), of "length data"]
  have te: "header_Values ?h ''Transfer-Encoding'' = []" and host: "header_Values ?h ''Host'' = [host]"
    unfolding v by simp_all
  have cl: "header_Values ?h ''Content-Length'' =
      (if 0 < length data \<or> hq_Method r = MethodPost \<or> hq_Method r = MethodPut then [show_nat (length data)] else [])"
    unfolding v by simp
  have len: "length data < 10 ^ 18" using assms(5) by (simp add: maxRequestBodyBytes_def)
  have h1: "request_host 1 ?h = Inr host"
    using assms(3) by (simp add: request_host_def host validHost_def)
  obtain l where l: "parseContentLength ?h = Inr l" "l = int (length data) \<or> l = - 1 \<and> data = []"
    using parseContentLength_one [OF _ len, of ?h] cl by (cases "0 < length data \<or> hq_Method r = MethodPost \<or> hq_Method r = MethodPut")
      (auto simp: parseContentLength_def)
  have other: "header_Values (header_Del ?h ''Host'') key = map trimmed (header_Values (hq_Header r) key)"
    if "\<not> list_ex (EqualFold (CanonicalHeaderKey key)) reserved_fields" for key
  proof -
    have "CanonicalHeaderKey key \<noteq> ''Host''" "CanonicalHeaderKey key \<noteq> ''Content-Length''"
      "CanonicalHeaderKey key \<noteq> ''Connection''"
      using that by auto
    with that v [of key] show ?thesis by (simp add: header_Values_Del_other Let_def)
  qed
  have "fst (ReadAll (if 0 < l then BodyReader br' (nat l) else NoBody)) = (data, None)"
    using ReadAll_result [of "BodyReader br' (nat l)"] ReadAll_result [of NoBody] l(2) b by auto
  then show ?thesis
    using te h1 l assms(5) other unfolding run build_request_def by auto
qed

subsection \<open>The response\<close>

abbreviation response_reserved :: "string list" where
  "response_reserved \<equiv> [''Content-Length'', ''Transfer-Encoding'', ''Connection'']"

definition response_fields :: "responseWriter \<Rightarrow> (string \<times> string) list" where
  "response_fields w =
     written_fields (rw_header w) response_reserved @
     (if bodyAllowed (rw_status w) then [(''Content-Length'', show_nat (length (rw_body w)))] else []) @
     [(''Connection'', ''close'')]"

definition reason_phrase :: "nat \<Rightarrow> string" where
  "reason_phrase code = (if StatusText code = [] then ''Status'' else StatusText code)"

definition status_line :: "nat \<Rightarrow> string" where
  "status_line code = ''HTTP/1.1 '' @ show_nat code @ '' '' @ reason_phrase code"

lemma response_head_fields:
  assumes "wf_header (rw_header w)"
  shows "response_head w = status_line (rw_status w) @ CRLF @ concat (map field_text (response_fields w)) @ CRLF"
  by (simp add: response_head_def response_fields_def writeHeader_fields [OF assms] field_text_def status_line_def
      reason_phrase_def)

lemma response_fields_good:
  assumes "wf_header (rw_header w)"
  shows "list_all good_field (response_fields w)"
proof -
  have "list_all visible ''close''" by code_simp
  with good_field_visible [OF token_names(2) visible_show_nat] good_field_visible [OF token_names(3)]
    written_fields_good [OF assms]
  show ?thesis by (simp add: response_fields_def)
qed

lemma response_fields_values:
  assumes "wf_header (rw_header w)"
  shows "header_Values (add_fields [] (response_fields w)) key =
    (let k = CanonicalHeaderKey key in
     (if list_ex (EqualFold k) response_reserved then [] else map trimmed (header_Values (rw_header w) key)) @
     (if ''Content-Length'' = k \<and> bodyAllowed (rw_status w) then [show_nat (length (rw_body w))] else []) @
     (if ''Connection'' = k then [''close''] else []))"
proof -
  let ?P = "\<lambda>k f. CanonicalHeaderKey (fst f) = k"
  have e: "header_Values [] key = []" by (simp add: header_Values_def)
  have f: "map snd (filter (?P k) (response_fields w)) =
     map snd (filter (?P k) (written_fields (rw_header w) response_reserved)) @
     (if ''Content-Length'' = k \<and> bodyAllowed (rw_status w) then [show_nat (length (rw_body w))] else []) @
     (if ''Connection'' = k then [''close''] else [])" for k
    by (auto simp: response_fields_def)
  show ?thesis
    unfolding header_Values_add_fields e f Let_def written_fields_values [OF assms]
    by (simp add: trimmed_visible visible_show_nat)
qed

lemma reason_phrase_clean:
  "length (reason_phrase code) \<le> 100 \<and> LF \<notin> set (reason_phrase code) \<and> CHR 0x00 \<notin> set (reason_phrase code)"
proof -
  have all: "list_all (\<lambda>(n, s). length s \<le> 100 \<and> LF \<notin> set s \<and> CHR 0x00 \<notin> set s) statusText"
    by code_simp
  have "StatusText code = [] \<or> StatusText code \<in> snd ` set statusText"
    by (auto simp: StatusText_def dest: map_of_SomeD split: option.splits intro!: image_eqI)
  with all show ?thesis by (auto simp: reason_phrase_def list_all_iff)
qed

lemma length_show_nat_3: "100 \<le> n \<Longrightarrow> n \<le> 999 \<Longrightarrow> length (show_nat n) = 3"
proof -
  assume n: "100 \<le> n" "n \<le> 999"
  then have "\<not> n < 10" "\<not> n div 10 < 10" "n div 10 div 10 < 10" by auto
  then show ?thesis
    by (subst show_nat.simps, simp, subst show_nat.simps, simp, subst show_nat.simps, simp)
qed

lemma not_in_show_nat: "\<not> is_digit c \<Longrightarrow> c \<notin> set (show_nat n)"
  using show_nat_digits [of n] by (auto simp: list_all_iff)

lemma status_line_clean: "LF \<notin> set (status_line code)" "CHR 0x00 \<notin> set (status_line code)"
  using reason_phrase_clean [of code] not_in_show_nat [of LF code] not_in_show_nat [of "CHR 0x00" code]
  by (auto simp: status_line_def is_digit_def)

lemma client_readResponse_fields:
  assumes "100 \<le> code" "code \<le> 999" "list_all good_field fs"
    "length (concat (map field_text fs)) \<le> maxResponseHeaderBytes"
    "rest_text br = status_line code @ CRLF @ concat (map field_text fs) @ CRLF @ rest"
  shows "\<exists>br'. rest_text br' = rest \<and> client_readResponse br meth =
    (case response_body meth code (add_fields [] fs) br' of
       Inl err \<Rightarrow> Inl err
     | Inr (b, len) \<Rightarrow> Inr (\<lparr>hr_Status = show_nat code @ '' '' @ reason_phrase code, hr_StatusCode = code,
         hr_Header = add_fields [] fs, hr_Body = b, hr_ContentLength = len\<rparr>, br'))"
proof -
  let ?n = "length (status_line code) + 2" and ?m = "length (concat (map field_text fs)) + 2"
  have three: "length (show_nat code) = 3" by (rule length_show_nat_3 [OF assms(1,2)])
  have "length (status_line code) \<le> 8192" using three reason_phrase_clean [of code] by (simp add: status_line_def)
  then have line: "readLine 8192 br = Inr (status_line code, advance ?n br)"
    using assms(5) status_line_clean by (intro readLine_line) auto
  have after: "rest_text (advance ?n br) = concat (map field_text fs) @ CR # LF # rest"
    using assms(5) by simp
  have block: "readHeader (advance ?n br) maxResponseHeaderBytes = Inr (add_fields [] fs, advance ?m (advance ?n br))"
    unfolding readHeader_def by (rule read_fields [OF assms(3) after assms(4)])
  have cut1: "Cut (status_line code) CHR '' '' = (''HTTP/1.1'', show_nat code @ '' '' @ reason_phrase code, True)"
    using Cut_field [of "CHR '' ''" "''HTTP/1.1''" "show_nat code @ '' '' @ reason_phrase code"]
    by (simp add: status_line_def)
  have cut2: "Cut (show_nat code @ '' '' @ reason_phrase code) CHR '' '' = (show_nat code, reason_phrase code, True)"
    using Cut_field [of "CHR '' ''" "show_nat code" "reason_phrase code"] not_in_show_nat [of "CHR '' ''" code]
    by (simp add: is_digit_def)
  have code: "status_code (show_nat code) = Some code" using assms(1) by (simp add: status_code_def show_nat_digits)
  have version: "parseVersion ''HTTP/1.1'' = Some 1" by (simp add: parseVersion_def)
  have "rest_text (advance ?m (advance ?n br)) = rest"
    unfolding rest_text_advance [of ?m] after by simp
  moreover have "client_readResponse br meth =
    (case response_body meth code (add_fields [] fs) (advance ?m (advance ?n br)) of
       Inl err \<Rightarrow> Inl err
     | Inr (b, len) \<Rightarrow> Inr (\<lparr>hr_Status = show_nat code @ '' '' @ reason_phrase code, hr_StatusCode = code,
         hr_Header = add_fields [] fs, hr_Body = b, hr_ContentLength = len\<rparr>, advance ?m (advance ?n br)))"
    unfolding client_readResponse_def line
    by (simp only: sum.case prod.case cut1 cut2 three code option.case version block not_True_eq_False if_False
        option.distinct simp_thms)
  ultimately show ?thesis by blast
qed

lemma response_body_arrives:
  assumes "wf_header (rw_header w)" "length (rw_body w) \<le> maxResponseBodyBytes"
    "rest_text br = (if bodyAllowed (rw_status w) \<and> meth \<noteq> MethodHead then rw_body w else []) @ following"
  shows "\<exists>b len. response_body meth (rw_status w) (add_fields [] (response_fields w)) br = Inr (b, len) \<and>
    fst (ReadAll b) = (if bodyAllowed (rw_status w) \<and> meth \<noteq> MethodHead then rw_body w else [], None)"
proof (cases "meth = MethodHead \<or> \<not> bodyAllowed (rw_status w)")
  case True
  then show ?thesis using ReadAll_result [of NoBody] by (auto simp: response_body_def bodyAllowed_def)
next
  case False
  let ?h = "add_fields [] (response_fields w)" and ?n = "length (rw_body w)"
  note v = response_fields_values [OF assms(1)]
  have "header_Values ?h ''Transfer-Encoding'' = []" unfolding v by simp
  moreover have "EqualFold (TrimSpace []) ''chunked'' = False" by code_simp
  ultimately have te: "\<not> EqualFold (TrimSpace (header_Get ?h ''Transfer-Encoding'')) ''chunked''"
    by (simp add: header_Get_def)
  have "header_Values ?h ''Content-Length'' = [show_nat ?n]" using False unfolding v by simp
  moreover have "?n < 10 ^ 18" using assms(2) by (simp add: maxResponseBodyBytes_def)
  ultimately have "parseContentLength ?h = Inr (int ?n)" by (rule parseContentLength_one)
  then have "response_body meth (rw_status w) ?h br = Inr (BodyReader br ?n, int ?n)"
    using False te by (simp add: response_body_def bodyAllowed_def)
  moreover have "fst (ReadAll (BodyReader br ?n)) = (rw_body w, None)"
    using False assms(3) ReadAll_result [of "BodyReader br ?n"] by simp
  ultimately show ?thesis using False by simp
qed

text \<open>
  C16: A response arrives as the handler made it.  The client, reading the bytes that the server sends
  for a response with a final status, valid fields and a buffered body, in chunks of any sizes and
  whatever follows them, finds the same status, of every header field but the three the protocol
  reserves the same values without the blanks around them, and exactly the body, or none where the
  method or the status forbids it.
\<close>

theorem responses_arrive_unchanged:
  assumes "rw_wroteHeader w \<longrightarrow> 200 \<le> rw_status w \<and> rw_status w \<le> 999"
    "wf_header (rw_header w)" "length (rw_body w) \<le> maxResponseBodyBytes"
    "w' = (if rw_wroteHeader w then w else WriteHeader 200 w)"
    "length (concat (map field_text (response_fields w'))) \<le> maxResponseHeaderBytes"
    "rw_head w \<longleftrightarrow> meth = MethodHead"
    "rest_text br = finish w @ following"
  shows "\<exists>response. final_response meth br = Inr response \<and>
    hr_StatusCode response = rw_status w' \<and>
    fst (ReadAll (hr_Body response)) =
      (if bodyAllowed (rw_status w') \<and> meth \<noteq> MethodHead then rw_body w else [], None) \<and>
    (\<forall>key. \<not> list_ex (EqualFold (CanonicalHeaderKey key)) response_reserved \<longrightarrow>
      header_Values (hr_Header response) key = map trimmed (header_Values (rw_header w) key))"
proof -
  have w': "rw_header w' = rw_header w" "rw_body w' = rw_body w" "rw_head w' = rw_head w"
    "200 \<le> rw_status w'" "rw_status w' \<le> 999"
    using assms(1,4) by (auto simp: WriteHeader_def)
  let ?fs = "response_fields w'" and ?h = "add_fields [] (response_fields w')" and ?code = "rw_status w'"
  let ?sent = "if bodyAllowed ?code \<and> meth \<noteq> MethodHead then rw_body w else []"
  have wf: "wf_header (rw_header w')" using assms(2) w'(1) by simp
  have shape: "rest_text br = status_line ?code @ CRLF @ concat (map field_text ?fs) @ CRLF @ ?sent @ following"
    unfolding assms(7) finish_def Let_def assms(4) [symmetric] response_head_fields [OF wf] w'(2,3) assms(6) by simp
  have "100 \<le> ?code" using w'(4) by simp
  from client_readResponse_fields [OF this w'(5) response_fields_good [OF wf] assms(5) shape, of meth]
  obtain br' where br': "rest_text br' = ?sent @ following"
    and run: "client_readResponse br meth = (case response_body meth ?code ?h br' of
       Inl err \<Rightarrow> Inl err
     | Inr (b, len) \<Rightarrow> Inr (\<lparr>hr_Status = show_nat ?code @ '' '' @ reason_phrase ?code, hr_StatusCode = ?code,
         hr_Header = ?h, hr_Body = b, hr_ContentLength = len\<rparr>, br'))" by blast
  note v = response_fields_values [OF wf]
  have kept: "header_Values ?h key = map trimmed (header_Values (rw_header w) key)"
    if "\<not> list_ex (EqualFold (CanonicalHeaderKey key)) response_reserved" for key
    using that v [of key] w'(1) by (auto simp: Let_def)
  obtain b len where b: "response_body meth ?code ?h br' = Inr (b, len)" "fst (ReadAll b) = (?sent, None)"
    using response_body_arrives [OF wf, unfolded w'(2), OF assms(3) br'] by blast
  show ?thesis
    unfolding final_response.simps [of meth br] run b(1) using w'(4) b(2) kept by simp
qed

end
