(* ===== verification/Cgi_Safety.thy ===== *)
theory Cgi_Safety
  imports Cgi_Bridge Http_Exchange "HOL-Library.Code_Target_Nat"
begin

text \<open>
  The chain from the environment of the CGI process to the web service: what the service reads is what
  the web server of the node said about the visitor, and nothing of the visitor's own can take the
  place of the fields that the service trusts.
\<close>

subsection \<open>The target\<close>

lemma escape_path_no_hash: "CHR ''#'' \<notin> set (escape_path p)"
proof -
  have plain: "\<not> path_plain CHR ''#''"
    by (simp add: path_plain_def is_alphanumeric_def is_digit_def is_lower_def is_upper_def)
  have hex: "hex_char n \<noteq> CHR ''#''" if "n < 16" for n
  proof -
    have "byte (hex_char n) \<noteq> byte CHR ''#''" using that by (simp add: hex_char_def)
    then show ?thesis by metis
  qed
  show ?thesis
    using hex [OF byte_halves(1)] hex [OF byte_halves(2)] plain
    by (induction p) (auto simp: escape_path_def escape_byte_def dest: sym)
qed

definition backend_url :: "string \<Rightarrow> string \<Rightarrow> URL" where
  "backend_url path query = empty_URL\<lparr>url_Scheme := ''http'', url_Host := BackendAddress, url_Path := path,
     url_RawQuery := query\<rparr>"

lemma backend_target_text:
  assumes "HasPrefix path ''/''"
  shows "backend_target path query =
    ''http:'' @ (''//127.0.0.1:11313'' @ escape_path path @ (if query = [] then [] else CHR ''?'' # query))"
proof -
  have "path \<noteq> ''*''" "HasPrefix (escape_path path) ''/''" using assms escape_path_slash [of path] by (auto simp: HasPrefix_def)
  then show ?thesis
    by (simp add: backend_target_def url_String_def EscapedPath_def url_query_suffix_def empty_URL_def)
qed

lemma getScheme_http: "getScheme (''http:'' @ s) = Some (''http'', s)"
  by (simp add: getScheme_def is_lower_def is_upper_def is_digit_def)

lemma url_parse_backend:
  assumes "HasPrefix path ''/''" "list_all visible query" "parse_host BackendAddress = Some BackendAddress"
  shows "url_parse parse_host False (backend_target path query) = Some (backend_url path query)"
proof -
  let ?p = "''//127.0.0.1:11313'' @ escape_path path"
  let ?rest = "?p @ (if query = [] then [] else CHR ''?'' # query)"
  obtain t where t: "escape_path path = CHR ''/'' # t"
    using assms(1) escape_path_slash [of path] by (auto simp: HasPrefix_iff)
  have q: "CHR ''?'' \<notin> set ?p" using escape_path_chars [of "CHR ''?''" path] by auto
  have ctl: "\<not> list_ex (\<lambda>c. byte c < 32 \<or> byte c = 127) (backend_target path query)"
  proof -
    have "list_all visible (escape_path path)" using escape_path_chars by (auto simp: list_all_iff)
    then have "list_all visible (backend_target path query)"
      using assms(2) unfolding backend_target_text [OF assms(1)] by (simp add: visible_def)
    then show ?thesis by (auto simp: list_ex_iff list_all_iff visible_def)
  qed
  have force: "\<not> (HasSuffix ?rest ''?'' \<and> length (filter (\<lambda>c. c = CHR ''?'') ?rest) = 1)"
    using no_forced_query [OF q, of query] by simp
  have cut: "Cut ?rest CHR ''?'' = (?p, query, query \<noteq> [])"
    using Cut_field [OF q, of query] Cut_absent [OF q] by auto
  have authority: "takeWhile (\<lambda>c. c \<noteq> CHR ''/'') (drop 2 ?p) = BackendAddress" "drop (length BackendAddress) (drop 2 ?p) = escape_path path"
    unfolding t by simp_all
  have slashes: "HasPrefix ?p ''/''" "HasPrefix ?p ''//''" "\<not> HasPrefix ?p ''///''" by (simp_all add: HasPrefix_def)
  have lower: "ToLower ''http'' = ''http''" by code_simp
  have other: "backend_target path query \<noteq> ''*''" unfolding backend_target_text [OF assms(1)] by simp
  have scheme: "getScheme (backend_target path query) = Some (''http'', ?rest)"
    unfolding backend_target_text [OF assms(1)] getScheme_http by simp
  show ?thesis
    unfolding url_parse_def scheme
    using ctl force other slashes
    by (simp only: cut authority lower Let_def option.case prod.case if_False if_True simp_thms assms(3) set_path_escaped)
      (simp add: backend_url_def empty_URL_def)
qed

lemma url_Parse_backend:
  assumes "HasPrefix path ''/''" "list_all visible query" "CHR ''#'' \<notin> set query"
    "parse_host BackendAddress = Some BackendAddress"
  shows "url_Parse parse_host (backend_target path query) = Some (backend_url path query)"
proof -
  have "CHR ''#'' \<notin> set (backend_target path query)"
    using assms(3) escape_path_no_hash [of path] unfolding backend_target_text [OF assms(1)] by simp
  from Cut_absent [OF this] show ?thesis
    by (simp add: url_Parse_def url_parse_backend [where parse_host = parse_host, OF assms(1,2,4)])
qed

lemma requestPath_slash: "requestPath parse_host getenv = Inr path \<Longrightarrow> HasPrefix path ''/''"
proof -
  assume a: "requestPath parse_host getenv = Inr path"
  have strip: "HasPrefix (TrimPrefix s ExternalBasePath) ''/''" if "HasPrefix s (ExternalBasePath @ ''/'')" for s
  proof -
    from that obtain t where "s = (ExternalBasePath @ ''/'') @ t" unfolding HasPrefix_iff ..
    then have "s = ExternalBasePath @ (''/'' @ t)" by simp
    then show ?thesis by (simp only: TrimPrefix_append HasPrefix_append)
  qed
  from a strip show ?thesis
    by (auto simp only: requestPath_def Let_def split: if_splits option.splits sum.splits)
      (auto simp: HasPrefix_def)
qed

subsection \<open>The header fields\<close>

definition canonical_fields :: "header \<Rightarrow> bool" where
  "canonical_fields h \<longleftrightarrow> distinct (map fst h) \<and>
     list_all (\<lambda>name. CanonicalHeaderKey name = name \<and> isToken name) (map fst h)"

definition field_name :: "string \<Rightarrow> bool" where
  "field_name key \<longleftrightarrow> isToken (CanonicalHeaderKey key) \<and>
     CanonicalHeaderKey (CanonicalHeaderKey key) = CanonicalHeaderKey key"

lemma canonical_fields_Set: "canonical_fields h \<Longrightarrow> field_name key \<Longrightarrow> canonical_fields (header_Set h key v)"
  by (auto simp: canonical_fields_def header_Set_def field_name_def update_keys distinct_update)

lemma canonical_fields_copied:
  "canonical_fields h \<Longrightarrow> list_all (\<lambda>(e, key). field_name key) names \<Longrightarrow> canonical_fields (fold (copyHeader getenv) names h)"
  by (induction names arbitrary: h) (auto simp: copyHeader_def canonical_fields_Set split: prod.splits)

lemma header_Values_copied:
  "\<forall>(e, key') \<in> set names. CanonicalHeaderKey key \<noteq> CanonicalHeaderKey key' \<Longrightarrow>
     header_Values (fold (copyHeader getenv) names h) key = header_Values h key"
  by (induction names arbitrary: h) (auto simp: copyHeader_def header_Values_Set_other)

lemma header_Values_copied_one:
  "distinct (map (\<lambda>p. CanonicalHeaderKey (snd p)) names) \<Longrightarrow> (e, key) \<in> set names \<Longrightarrow>
     header_Values (fold (copyHeader getenv) names h) key = (if getenv e = [] then header_Values h key else [getenv e])"
proof (induction names arbitrary: h)
  case (Cons p names)
  show ?case
  proof (cases "p = (e, key)")
    case True
    with Cons.prems(1) have "\<forall>(e', key') \<in> set names. CanonicalHeaderKey key \<noteq> CanonicalHeaderKey key'"
      by (auto simp: rev_image_eqI)
    from header_Values_copied [OF this] True show ?thesis
      by (simp add: copyHeader_def [of getenv "(e, key)"])
  next
    case False
    with Cons.prems have "(e, key) \<in> set names" "CanonicalHeaderKey key \<noteq> CanonicalHeaderKey (snd p)"
      by (auto simp: rev_image_eqI)
    with Cons.IH [of "copyHeader getenv p h"] Cons.prems(1) show ?thesis
      by (simp add: copyHeader_def [of getenv p] header_Values_Set_other split: prod.splits)
  qed
qed simp

lemma wf_header_checked:
  assumes "canonical_fields (hq_Header r)" "request_problem r host = None"
  shows "wf_header (hq_Header r)" "validHost host" "isToken (hq_Method r)"
  using assms
  by (auto simp: wf_header_def canonical_fields_def request_problem_def good_field_def list_all_iff list_ex_iff
      split: if_splits)

subsection \<open>The body\<close>

lemma ReadFull_exact:
  "ReadFull n b = Inr data \<Longrightarrow> body_ok b \<Longrightarrow> data = take n (body_pending b) \<and> length data = n"
proof (induction n b arbitrary: data rule: ReadFull.induct)
  case (1 n b)
  obtain d e b' where r: "body_Read n b = ((d, e), b')" by (metis prod_cases3 surj_pair)
  show ?case
  proof (cases "n = 0")
    case False
    note piece = body_Read_result [OF r 1(3)]
    show ?thesis
    proof (cases e)
      case None
      with piece False have d: "length d \<le> n" "body_ok b'" "body_pending b = d @ body_pending b'" by auto
      from 1(2) r None False obtain rest where rest: "ReadFull (n - length d) b' = Inr rest" "data = d @ rest"
        by (auto simp: ReadFull.simps [of n b] split: sum.splits if_splits)
      have l: "rest = take (n - length d) (body_pending b')" "length rest = n - length d"
        using 1(1) [OF False r [symmetric] refl None rest(1) d(2)] by (rule conjunct1 conjunct2)+
      have "data = take n (body_pending b)" using d(1) by (simp only: rest(2) l(1) d(3) take_append take_all)
      moreover have "length data = n" using d(1) by (simp add: rest(2) l(2))
      ultimately show ?thesis by simp
    next
      case (Some err)
      with 1(2) r False piece show ?thesis by (auto simp: ReadFull.simps [of n b] split: if_splits)
    qed
  qed (use 1(2) in \<open>simp add: ReadFull.simps\<close>)
qed

lemma outgoingBody_length:
  "outgoingBody r = Inr (data, len) \<Longrightarrow> body_ok (hq_Body r) \<Longrightarrow> len = int (length data)"
  by (auto simp: outgoingBody_def dest!: ReadFull_exact split: if_splits sum.splits prod.splits)

text \<open>The body that the environment declares: of a \<open>POST\<close>, as many bytes of the process's input as
  \<open>CONTENT_LENGTH\<close> says, none when it is not set; of another method, none.\<close>

definition declared_length :: "(string \<Rightarrow> string) \<Rightarrow> nat" where
  "declared_length getenv = (case parse_int64 (getenv ''CONTENT_LENGTH'') of None \<Rightarrow> 0 | Some n \<Rightarrow> nat n)"

definition declared_body :: "(string \<Rightarrow> string) \<Rightarrow> body \<Rightarrow> string" where
  "declared_body getenv stdin =
     (if getenv ''REQUEST_METHOD'' = MethodPost then take (declared_length getenv) (body_pending stdin) else [])"

lemma outgoing_declared:
  assumes "outgoingBody r = Inr (data, len)" "body_ok stdin" "hq_ContentLength r = int (declared_length getenv) \<or> hq_Body r = NoBody"
    "hq_Body r = (if getenv ''REQUEST_METHOD'' = MethodPost then stdin else NoBody)"
  shows "data = declared_body getenv stdin"
proof (cases "hq_Body r = NoBody")
  case True
  with assms(1,4) show ?thesis by (auto simp: outgoingBody_def declared_body_def split: if_splits)
next
  case False
  with assms(3,4) have r: "hq_ContentLength r = int (declared_length getenv)" "hq_Body r = stdin"
    "getenv ''REQUEST_METHOD'' = MethodPost"
    by (auto split: if_splits)
  show ?thesis
  proof (cases "declared_length getenv = 0")
    case True
    with assms(1) False r show ?thesis by (simp add: outgoingBody_def declared_body_def)
  next
    case pos: False
    with assms(1) False r(1,2) have "ReadFull (declared_length getenv) stdin = Inr data"
      by (auto simp: outgoingBody_def split: sum.splits)
    from ReadFull_exact [OF this assms(2)] r(3) show ?thesis by (simp add: declared_body_def)
  qed
qed

subsection \<open>The request\<close>

lemma parse_int64_empty: "parse_int64 [] = None"
  by code_simp

lemma cgi_newRequest_parts:
  assumes "cgi_newRequest parse_host stdin getenv = Inr r" "getenv ''REMOTE_ADDR'' \<noteq> []"
  obtains path a where "requestPath parse_host getenv = Inr path"
    "url_Parse parse_host (backend_target path (getenv ''QUERY_STRING'')) = Some (hq_URL r)"
    "ParseAddr (getenv ''REMOTE_ADDR'') = Some a"
    "hq_Method r = getenv ''REQUEST_METHOD''" "hq_Host r = getenv ''HTTP_HOST''"
    "hq_Body r = (if getenv ''REQUEST_METHOD'' = MethodPost then stdin else NoBody)"
    "hq_ContentLength r = int (declared_length getenv) \<or> hq_Body r = NoBody"
    "hq_Header r = header_Set (header_Set (copy_headers getenv []) ''X-Forwarded-Prefix'' ExternalBasePath)
       SourceIPHeader (addr_String (Unmap a))"
  using assms
  by (auto simp: cgi_newRequest_def NewRequestWithContext_def set_source_def set_length_def sourceAddress_def Let_def
      declared_length_def parse_int64_empty
      split: if_splits sum.splits option.splits)

lemma cgi_field_names:
  "field_name SourceIPHeader" "field_name ''X-Forwarded-Prefix''" "list_all (\<lambda>(e, key). field_name key) copied_headers"
  by code_simp+

lemma cgi_fields_distinct:
  "CanonicalHeaderKey ''X-Forwarded-Prefix'' \<noteq> CanonicalHeaderKey SourceIPHeader"
  "distinct (map (\<lambda>p. CanonicalHeaderKey (snd p)) copied_headers)"
  "list_all (\<lambda>(e, key). CanonicalHeaderKey key \<noteq> CanonicalHeaderKey SourceIPHeader \<and>
     CanonicalHeaderKey key \<noteq> CanonicalHeaderKey ''X-Forwarded-Prefix'') copied_headers"
  by code_simp+

lemma cgi_fields_unreserved:
  "\<not> list_ex (EqualFold (CanonicalHeaderKey SourceIPHeader)) reserved_fields"
  "\<not> list_ex (EqualFold (CanonicalHeaderKey ''X-Forwarded-Prefix'')) reserved_fields"
  "list_all (\<lambda>(e, key). \<not> list_ex (EqualFold (CanonicalHeaderKey key)) reserved_fields) copied_headers"
  by code_simp+

lemma cgi_header:
  assumes "h = header_Set (header_Set (copy_headers getenv []) ''X-Forwarded-Prefix'' ExternalBasePath) SourceIPHeader ip"
  shows "canonical_fields h" "header_Values h SourceIPHeader = [ip]"
    "header_Values h ''X-Forwarded-Prefix'' = [ExternalBasePath]"
    "(e, key) \<in> set copied_headers \<Longrightarrow> header_Values h key = (if getenv e = [] then [] else [getenv e])"
proof -
  have "canonical_fields []" by (simp add: canonical_fields_def)
  then show "canonical_fields h"
    unfolding assms copy_headers_def by (intro canonical_fields_Set canonical_fields_copied cgi_field_names)
  show "header_Values h SourceIPHeader = [ip]" by (simp add: assms)
  show "header_Values h ''X-Forwarded-Prefix'' = [ExternalBasePath]"
    unfolding assms header_Values_Set_other [OF cgi_fields_distinct(1)] by (rule header_Set_same)
  assume e: "(e, key) \<in> set copied_headers"
  then have "CanonicalHeaderKey key \<noteq> CanonicalHeaderKey SourceIPHeader"
    "CanonicalHeaderKey key \<noteq> CanonicalHeaderKey ''X-Forwarded-Prefix''"
    using cgi_fields_distinct(3) by (auto simp: list_all_iff)
  from header_Values_Set_other [OF this(1)] header_Values_Set_other [OF this(2)]
    header_Values_copied_one [OF cgi_fields_distinct(2) e, of getenv "[]"]
  show "header_Values h key = (if getenv e = [] then [] else [getenv e])"
    by (simp add: assms copy_headers_def header_Values_def [of "[]"])
qed

text \<open>
  C8: The web service hears the truth about the visitor.  For any environment whose query has no blank
  and no fragment, when the CGI process builds a request that the client accepts and that is within
  the server's limits, the service reads a request with the environment's method, host, path and
  query; its body is, for a \<open>POST\<close>, exactly the \<open>CONTENT_LENGTH\<close> bytes at the front of the process's
  input, and empty otherwise; it has one source address field, the canonical form of \<open>REMOTE_ADDR\<close>,
  one prefix field, the fixed path, and the seven copied fields without the blanks around them: no
  variable that the visitor's own header fields set can add, replace or repeat the source address.
\<close>

theorem service_reads_the_environment:
  assumes "cgi_newRequest parse_host stdin getenv = Inr r" "getenv ''REMOTE_ADDR'' \<noteq> []"
    "list_all visible (getenv ''QUERY_STRING'')" "CHR ''#'' \<notin> set (getenv ''QUERY_STRING'')"
    "parse_host BackendAddress = Some BackendAddress" "body_ok stdin"
    "request_problem r (hq_Host r) = None" "outgoingBody r = Inr (data, len)" "len \<le> maxRequestBodyBytes"
    "length (request_line r) \<le> 8192"
    "length (concat (map field_text (request_fields r (hq_Host r) (length data)))) \<le> maxHeader"
    "rest_text br = request_bytes r (hq_Host r) data len @ following"
  shows "\<exists>q a. server_readRequest br maxHeader = Inr q \<and>
    hq_Method q = getenv ''REQUEST_METHOD'' \<and> hq_Host q = getenv ''HTTP_HOST'' \<and>
    requestPath parse_host getenv = Inr (url_Path (hq_URL q)) \<and> url_RawQuery (hq_URL q) = getenv ''QUERY_STRING'' \<and>
    fst (ReadAll (hq_Body q)) = (declared_body getenv stdin, None) \<and>
    ParseAddr (getenv ''REMOTE_ADDR'') = Some a \<and>
    header_Values (hq_Header q) SourceIPHeader = [trimmed (addr_String (Unmap a))] \<and>
    header_Values (hq_Header q) ''X-Forwarded-Prefix'' = [ExternalBasePath] \<and>
    list_all (\<lambda>(e, key). header_Values (hq_Header q) key = (if getenv e = [] then [] else [trimmed (getenv e)]))
      copied_headers"
proof -
  obtain path a where parts: "requestPath parse_host getenv = Inr path"
    "url_Parse parse_host (backend_target path (getenv ''QUERY_STRING'')) = Some (hq_URL r)"
    "ParseAddr (getenv ''REMOTE_ADDR'') = Some a" "hq_Method r = getenv ''REQUEST_METHOD''"
    "hq_Host r = getenv ''HTTP_HOST''"
    "hq_Body r = (if getenv ''REQUEST_METHOD'' = MethodPost then stdin else NoBody)"
    "hq_ContentLength r = int (declared_length getenv) \<or> hq_Body r = NoBody"
    "hq_Header r = header_Set (header_Set (copy_headers getenv []) ''X-Forwarded-Prefix'' ExternalBasePath)
       SourceIPHeader (addr_String (Unmap a))"
    by (rule cgi_newRequest_parts [OF assms(1,2)])
  note h = cgi_header [OF parts(8)]
  have path: "HasPrefix path ''/''" using requestPath_slash [OF parts(1)] .
  have url: "hq_URL r = backend_url path (getenv ''QUERY_STRING'')"
    using parts(2) url_Parse_backend [where parse_host = parse_host, OF path assms(3,4,5)] by simp
  then have plain: "plain_url (hq_URL r)" using path assms(3) by (simp add: plain_url_def backend_url_def empty_URL_def)
  have len: "len = int (length data)" using outgoingBody_length [OF assms(8)] parts(6) assms(6) by (auto split: if_splits)
  have data: "data = declared_body getenv stdin" by (rule outgoing_declared [OF assms(8,6) parts(7,6)])
  note wf = wf_header_checked [OF h(1) assms(7)]
  from requests_arrive_unchanged [OF wf(3) plain wf(2,1) assms(9) [unfolded len] assms(10,11) assms(12) [unfolded len]]
  obtain q where q: "server_readRequest br maxHeader = Inr q" "hq_Method q = hq_Method r" "hq_Host q = hq_Host r"
    "url_Path (hq_URL q) = url_Path (hq_URL r)" "url_RawQuery (hq_URL q) = url_RawQuery (hq_URL r)"
    "fst (ReadAll (hq_Body q)) = (data, None)"
    "\<And>key. \<not> list_ex (EqualFold (CanonicalHeaderKey key)) reserved_fields \<Longrightarrow>
      header_Values (hq_Header q) key = map trimmed (header_Values (hq_Header r) key)"
    by blast
  have "trimmed ExternalBasePath = ExternalBasePath" by code_simp
  then have "header_Values (hq_Header q) SourceIPHeader = [trimmed (addr_String (Unmap a))]"
    "header_Values (hq_Header q) ''X-Forwarded-Prefix'' = [ExternalBasePath]"
    using q(7) [OF cgi_fields_unreserved(1)] q(7) [OF cgi_fields_unreserved(2)] h(2,3) by simp_all
  moreover have "list_all (\<lambda>(e, key). header_Values (hq_Header q) key = (if getenv e = [] then [] else [trimmed (getenv e)]))
      copied_headers"
    using cgi_fields_unreserved(3) q(7) h(4) by (fastforce simp: list_all_iff)
  ultimately show ?thesis
    using q(1-6) parts(1,3-5) url data by (auto simp: backend_url_def empty_URL_def)
qed

end
