(* ===== verification/Control_Refinement.thy ===== *)
theory Control_Refinement
  imports Control_Client Request_Roundtrip
begin

text \<open>
  The client over the wire is the store next to it: the composition of the client, the two encodings,
  the daemon's handling of the connection and the dispatch behaves as the store's operation itself,
  with errors turned into their codes and texts.
\<close>

subsection \<open>Printed values are lines\<close>

lemma scan_string_plain: "scan_string s = Some (raw, t) \<Longrightarrow> \<forall>c \<in> set raw. 0x20 \<le> byte c"
proof (induction s arbitrary: raw rule: scan_string.induct)
  case (2 c s)
  have hex: "is_hex h \<Longrightarrow> 0x20 \<le> byte h" for h by (auto simp: is_hex_def is_digit_def)
  have simple: "e \<in> set (''bfnrt/'' @ [BSLASH, DQUOTE]) \<Longrightarrow> 0x20 \<le> byte e" for e by auto
  consider "c = DQUOTE" | "c \<noteq> DQUOTE" "c = BSLASH" | "c \<noteq> DQUOTE" "c \<noteq> BSLASH" by blast
  then show ?case
  proof cases
    case 2
    then obtain e s1 where s: "s = e # s1" using "2.prems" by (cases s) auto
    show ?thesis
    proof (cases "e \<in> set (''bfnrt/'' @ [BSLASH, DQUOTE])")
      case True
      with "2.prems" 2 s obtain r where r: "scan_string s1 = Some (r, t)" "raw = c # e # r" by auto
      from "2.IH"(1) [OF 2 s True r(1)] simple [OF True] r(2) 2 show ?thesis by simp
    next
      case False
      with "2.prems" 2 s obtain h1 h2 h3 h4 s2 r where
        r: "s1 = h1 # h2 # h3 # h4 # s2" "is_hex h1 \<and> is_hex h2 \<and> is_hex h3 \<and> is_hex h4" "e = CHR ''u''"
          "scan_string s2 = Some (r, t)" "raw = c # e # h1 # h2 # h3 # h4 # r"
        by (auto split: if_splits list.splits)
      from "2.IH"(2) [OF 2 s False r(3,1) refl refl refl r(2,4)] r 2 show ?thesis by (auto dest: hex)
    qed
  next
    case 3
    with "2.prems" obtain r where r: "0x20 \<le> byte c" "scan_string s = Some (r, t)" "raw = c # r"
      by (auto split: if_splits)
    from "2.IH"(3) [OF 3] r show ?thesis by auto
  qed (use "2.prems" in auto)
qed simp

definition printed :: "string \<Rightarrow> bool" where
  "printed s \<longleftrightarrow> (\<forall>c \<in> set s. 0x20 \<le> byte c)"

lemma printed_simps [simp]:
  "printed []" "printed (c # s) \<longleftrightarrow> 0x20 \<le> byte c \<and> printed s" "printed (s @ t) \<longleftrightarrow> printed s \<and> printed t"
  by (auto simp: printed_def)

lemma printed_quote: "ValidString s \<Longrightarrow> printed (json_quote s)"
proof -
  assume "ValidString s"
  then obtain body where b: "json_quote s = DQUOTE # body @ [DQUOTE]" "\<And>t. scan_string (body @ DQUOTE # t) = Some (body, t)"
    by (rule json_quote_read) blast
  from scan_string_plain [OF b(2)] show ?thesis by (simp add: b(1) printed_def)
qed

lemma printed_comma_join: "\<forall>x \<in> set xs. printed x \<Longrightarrow> printed (comma_join xs)"
  by (induction xs rule: comma_join.induct) simp_all

lemma printed_show_int: "printed (show_int i)"
proof -
  have "printed (show_nat n)" for n
    using show_nat_digits [of n] by (auto simp: printed_def list_all_iff is_digit_def)
  then show ?thesis by (simp add: show_int_def)
qed

lemma printed_json: "printable d j \<Longrightarrow> printed (json_print j)"
proof (induction j arbitrary: d rule: json_print.induct)
  case (5 vs)
  from 5(2) have "\<forall>x \<in> set (map json_print vs). printed x" using 5(1) by (simp, blast)
  then show ?case by (simp add: printed_comma_join)
next
  case (6 ms)
  then show ?case by (fastforce intro!: printed_comma_join printed_quote)
qed (auto simp: printed_show_int printed_quote)

lemma printed_no_LF: "printed s \<Longrightarrow> LF \<notin> set s"
  by (auto simp: printed_def)

subsection \<open>Responses\<close>

text \<open>What the client makes of a response: the result as a decoded value.\<close>

definition received :: "Response \<Rightarrow> Response" where
  "received response = response\<lparr>resp_Result := map_option (\<lambda>r. ResultAny (result_json r)) (resp_Result response)\<rparr>"

definition sendable :: "Response \<Rightarrow> bool" where
  "sendable response \<longleftrightarrow> printable max_depth (response_json response) \<and>
     length (json_print (response_json response)) \<le> MaxResponseBytes"

definition string_object :: "(string \<times> string) list \<Rightarrow> json" where
  "string_object ms = JObject (map (\<lambda>(k, v). (k, JString v)) ms)"

lemma string_object_overflow [simp]: "\<not> json_overflows (string_object ms)"
  by (auto simp: string_object_def list_ex_iff)

lemma into_error_json: "into_error zero_error (error_json e) = (e, False)"
  by (simp add: into_error_def into_struct_def error_json_def find_field_def field_of_def into_string_def zero_error_def)

lemma decode_failure:
  assumes "sendable (Failure code msg)" "code \<noteq> []"
  shows "decodeResponse texts (json_print (response_json (Failure code msg))) = Inr (Failure code msg)"
proof -
  let ?r = "Failure code msg"
  have "into_pointer zero_error into_error None (error_json \<lparr>error_Code = code, error_Message = msg\<rparr>) =
      (Some \<lparr>error_Code = code, error_Message = msg\<rparr>, False)"
    using into_error_json [of "\<lparr>error_Code = code, error_Message = msg\<rparr>"] by (simp add: into_pointer_def error_json_def)
  then have "into_response zero_response (response_json ?r) = (?r, False)"
    by (simp add: into_response_def into_struct_def response_json_def Failure_def find_field_def field_of_def
        omit_nil_def zero_response_def ProtocolVersion_def into_bool_def)
  from decode_single_print [where into = into_response and t = "[]", OF _ this] assms show ?thesis
    by (simp add: decodeResponse_def sendable_def) (simp add: Failure_def)
qed

lemma decode_success:
  assumes "sendable (Success r)" "result_json r = string_object ms"
  shows "decodeResponse texts (json_print (response_json (Success r))) = Inr (received (Success r))"
proof -
  let ?r = "Success r"
  have "into_any None (result_json r) = (Some (ResultAny (result_json r)), False)"
    using string_object_overflow [of ms] unfolding assms(2) by (simp add: into_any_def string_object_def)
  then have "into_response zero_response (response_json ?r) = (received ?r, False)"
    by (simp add: into_response_def into_struct_def response_json_def Success_def find_field_def field_of_def
        omit_nil_def zero_response_def ProtocolVersion_def into_bool_def received_def)
  from decode_single_print [where into = into_response and t = "[]", OF _ this] assms(1) show ?thesis
    by (simp add: decodeResponse_def sendable_def) (simp add: Success_def received_def)
qed

subsection \<open>The server as the other end of a call\<close>

definition plain_connection :: "string \<Rightarrow> connection" where
  "plain_connection bytes = \<lparr>conn_bytes = bytes, conn_end = None, conn_read_deadline = True, conn_write_deadline = True\<rparr>"

text \<open>A call that meets no failure on the socket: the reply is what the daemon writes.\<close>

definition server_transport ::
  "json_texts \<Rightarrow> store_operations \<Rightarrow> 's settings_operations option \<Rightarrow> 's \<Rightarrow> world \<Rightarrow> transport"
where
  "server_transport texts store settings s w = \<lparr>tr_connect = None, tr_deadline = None, tr_write = None,
     tr_reply = (\<lambda>bytes. plain_connection
       (case handleConnectionWithSettings texts store settings s (plain_connection bytes) w of
          (Inr (out, _, _), _) \<Rightarrow> out
        | _ \<Rightarrow> [])),
     tr_context = None\<rparr>"

lemma readResponse_line:
  assumes "LF \<notin> set data" "length data \<le> MaxResponseBytes"
  shows "readResponse (plain_connection (data @ [LF])) = Inr data"
proof -
  have "takeWhile (\<lambda>c. c \<noteq> LF) (data @ [LF]) = data" using assms(1) by (simp add: takeWhile_append)
  with assms(2) show ?thesis
    by (simp add: readResponse_def plain_connection_def read_line_limited_def Let_def)
qed

definition wire_ok :: "Request \<Rightarrow> bool" where
  "wire_ok r \<longleftrightarrow> wire_request r \<and> length (json_print (request_json r)) \<le> MaxRequestBytes \<and> validateRequest r = None \<and>
     req_Operation r \<noteq> OperationSettingsRead \<and> req_Operation r \<noteq> OperationSettingsReplace"

lemma handle_wire_ok:
  assumes "wire_ok r" "Dispatch store r w = (Inr response, w1)"
  shows "\<exists>log w2. handleConnectionWithSettings texts store settings s (plain_connection (json_print (request_json r) @ [LF])) w =
    (Inr (encode_response response, log, s), w2)"
proof -
  let ?data = "json_print (request_json r)"
  have r: "wire_request r" "length ?data \<le> MaxRequestBytes" "validateRequest r = None"
    "req_Operation r \<noteq> OperationSettingsRead" "req_Operation r \<noteq> OperationSettingsReplace"
    using assms(1) by (simp_all add: wire_ok_def)
  have "printable max_depth (request_json r)" by (rule printable_request [OF r(1)]) (simp add: max_depth_def)
  then have lf: "LF \<notin> set ?data" by (intro printed_no_LF printed_json)
  then have "readRequest (plain_connection (?data @ [LF])) = Inr ?data"
    unfolding readRequest_iff using r(2) by (simp add: plain_connection_def)
  moreover have "DecodeRequest texts ?data = (r, None)"
    using DecodeRequest_encoded [OF r(1,2), of texts] r(3) by simp
  ultimately show ?thesis
    using assms(2) r(4,5)
    by (cases settings) (auto simp: handleConnectionWithSettings_def plain_connection_def handle_request_def bind_io_def
        return_io_def time_Now_def DispatchWithSettings_def Let_def)
qed

lemma Client_Call_served:
  assumes "wire_ok r" "Dispatch store r w = (Inr response, w1)" "sendable response"
    "decodeResponse texts (json_print (response_json response)) = Inr decoded"
  shows "Client_Call texts (server_transport texts store settings s w) r = Inr decoded"
proof -
  obtain log w2 where run: "handleConnectionWithSettings texts store settings s
      (plain_connection (json_print (request_json r) @ [LF])) w = (Inr (encode_response response, log, s), w2)"
    using handle_wire_ok [where texts = texts and settings = settings and s = s, OF assms(1,2)] by blast
  have "printable max_depth (response_json response)" using assms(3) by (simp add: sendable_def)
  then have "LF \<notin> set (json_print (response_json response))" by (intro printed_no_LF) (rule printed_json)
  then have "readResponse (plain_connection (encode_response response)) = Inr (json_print (response_json response))"
    using readResponse_line assms(3) by (simp add: encode_response_def sendable_def)
  moreover have "DecodeRequest texts (json_print (request_json r)) = (r, None)"
    using DecodeRequest_encoded [of r texts] assms(1) by (simp add: wire_ok_def)
  ultimately show ?thesis
    by (simp add: Client_Call_def server_transport_def run assms(4) Let_def)
qed

subsection \<open>Typed results\<close>

lemmas typed_simps = decodeTypedResult_def received_def Success_def result_json_def into_create_def into_write_def
  into_convert_def into_remove_def into_struct_def find_field_def field_of_def into_string_def Let_def

lemma typed_results:
  "decodeTypedResult texts number into_create \<lparr>cr_Target = [], cr_Kind = []\<rparr> (received (Success (ResultCreate c))) = Inr c"
  "decodeTypedResult texts number into_write \<lparr>wr_Target = [], wr_Kind = []\<rparr> (received (Success (ResultWrite d))) = Inr d"
  "decodeTypedResult texts number into_convert \<lparr>vr_Target = [], vr_Kind = [], vr_BackupName = []\<rparr>
     (received (Success (ResultConvert e))) = Inr e"
  "decodeTypedResult texts number into_remove \<lparr>dr_Target = [], dr_BackupName = []\<rparr> (received (Success (ResultDelete f))) = Inr f"
  by (simp_all add: typed_simps)

lemma typed_failure:
  "decodeTypedResult texts number into_r zero (Failure code msg) = Inl (RemoteError code msg)"
  by (simp add: decodeTypedResult_def Failure_def)

lemma mutation_objects:
  "\<exists>ms. result_json (ResultCreate c) = string_object ms" "\<exists>ms. result_json (ResultWrite d) = string_object ms"
  "\<exists>ms. result_json (ResultConvert e) = string_object ms" "\<exists>ms. result_json (ResultDelete f) = string_object ms"
  by (auto simp: result_json_def string_object_def intro: exI [of _ "[(_, _), (_, _)]"] exI [of _ "[(_, _), (_, _), (_, _)]"])

text \<open>The client's view of a store operation: its result, or its error as code and text.\<close>

definition remote_view :: "(goerror + 'a) \<Rightarrow> ('a \<Rightarrow> 'r) \<Rightarrow> goerror + 'r" where
  "remote_view r f =
     (case r of
        Inl err \<Rightarrow> Inl (RemoteError (first_code error_codes err ErrorInternal) (error_text err))
      | Inr x \<Rightarrow> Inr (f x))"

lemma first_code_nonempty: "first_code error_codes err ErrorInternal \<noteq> []"
proof -
  have "list_all (\<lambda>(s, code). code \<noteq> []) cs \<Longrightarrow> fallback \<noteq> [] \<Longrightarrow> first_code cs err fallback \<noteq> []" for cs fallback
    by (induction cs err fallback rule: first_code.induct) auto
  then show ?thesis by (simp add: error_codes_def)
qed

text \<open>The response that the server makes of a result of the store.\<close>

definition response_of :: "('a \<Rightarrow> result) \<Rightarrow> goerror + 'a \<Rightarrow> Response" where
  "response_of f r = (case r of Inl err \<Rightarrow> responseForError err | Inr x \<Rightarrow> Success (f x))"

lemma call_served:
  assumes "wire_ok r" "Dispatch store r = respond call f" "sendable (response_of f (fst (call w)))"
    "\<And>x. \<exists>ms. result_json (f x) = string_object ms"
    "\<And>x. decodeTypedResult texts number into_r zero (received (Success (f x))) = Inr (g x)"
  shows "bind_io (lift_result (Client_Call texts (server_transport texts store settings s w) r))
      (\<lambda>response. lift_result (decodeTypedResult texts number into_r zero response)) wc =
    (remote_view (fst (call w)) g, wc)"
proof (cases "fst (call w)")
  case (Inl err)
  let ?f = "Failure (first_code error_codes err ErrorInternal) (error_text err)"
  have "Dispatch store r w = (Inr ?f, snd (call w))"
    using Inl unfolding assms(2) respond_run by (cases "call w") (simp add: responseForError_def)
  moreover have s: "sendable ?f" using assms(3) Inl by (simp add: response_of_def responseForError_def)
  ultimately have "Client_Call texts (server_transport texts store settings s w) r = Inr ?f"
    using decode_failure [OF s first_code_nonempty] by (rule Client_Call_served [OF assms(1)])
  with Inl show ?thesis by (simp add: bind_io_def lift_result_def return_io_def fail_io_def typed_failure remote_view_def)
next
  case (Inr x)
  have d: "Dispatch store r w = (Inr (Success (f x)), snd (call w))"
    using Inr unfolding assms(2) respond_run by (cases "call w") simp
  have s: "sendable (Success (f x))" using assms(3) Inr by (simp add: response_of_def)
  obtain ms where ms: "result_json (f x) = string_object ms" using assms(4) by blast
  have "Client_Call texts (server_transport texts store settings s w) r = Inr (received (Success (f x)))"
    by (rule Client_Call_served [OF assms(1) d s decode_success [OF s ms]])
  with Inr assms(5) show ?thesis by (simp add: bind_io_def lift_result_def return_io_def remote_view_def)
qed

text \<open>A request whose encoding is over the limit is refused by the client itself, whatever the transport.\<close>

definition request_fits :: "Request \<Rightarrow> bool" where
  "request_fits r \<longleftrightarrow> length (json_print (request_json r)) \<le> MaxRequestBytes"

definition too_large :: goerror where
  "too_large = Sentinel localcontrol_ErrRequestTooLarge"

lemma Client_Call_too_large: "\<not> request_fits r \<Longrightarrow> Client_Call texts tr r = Inl too_large"
  by (simp add: Client_Call_def DecodeRequest_def request_fits_def too_large_def)

lemma call_exact:
  assumes "request_fits r \<Longrightarrow> wire_ok r" "Dispatch store r = respond call f" "sendable (response_of f (fst (call w)))"
    "\<And>x. \<exists>ms. result_json (f x) = string_object ms"
    "\<And>x. decodeTypedResult texts number into_r zero (received (Success (f x))) = Inr (g x)"
  shows "bind_io (lift_result (Client_Call texts (server_transport texts store settings s w) r))
      (\<lambda>response. lift_result (decodeTypedResult texts number into_r zero response)) wc =
    (if request_fits r then remote_view (fst (call w)) g else Inl too_large, wc)"
proof (cases "request_fits r")
  case True
  then show ?thesis using call_served [OF assms(1) [OF True] assms(2-5)] by simp
next
  case False
  then show ?thesis by (simp add: Client_Call_too_large bind_io_def lift_result_def fail_io_def)
qed

subsection \<open>The four mutations\<close>

definition alert_request :: "string \<Rightarrow> target \<Rightarrow> string \<Rightarrow> MutationAudit \<Rightarrow> Request" where
  "alert_request operation t message audit = (new_request operation)\<lparr>req_Target := target_String t,
     req_Message := message, req_Audit := Some audit\<rparr>"

lemma audit_validated:
  "mutationAuditFromContext client ctx w = (Inr audit, w') \<Longrightarrow> validateMutationAudit audit = None"
  by (auto simp: mutationAuditFromContext_def bind_io_def return_io_def fail_io_def Let_def
      split: option.splits sum.splits prod.splits)

lemma target_String_valid:
  assumes "wf_target t"
  shows "ValidString (target_String t)" "target_String t \<noteq> []" "target_Parse (target_String t) = Inr t"
proof -
  have v: "target_String t = target_value t" by (simp add: target_String_def)
  have c: "canonical_name (target_value t)" using assms by (simp add: wf_target_def)
  show "ValidString (target_String t)"
    unfolding v by (rule ascii_valid) (use c target_char_ascii in \<open>auto simp: canonical_name_def list_all_iff\<close>)
  show "target_String t \<noteq> []" using assms by (simp add: v)
  show "target_Parse (target_String t) = Inr t" using target_Parse_canonical_name [OF c] by (simp add: v)
qed

lemma wire_ok_alert:
  assumes "wf_target t" "operation \<in> {OperationCreate, OperationWrite, OperationConvert} \<and> message \<noteq> [] \<or>
      operation = OperationDelete \<and> message = []"
    "ValidString message" "audit_utf8 audit" "validateMutationAudit audit = None"
    "request_fits (alert_request operation t message audit)"
  shows "wire_ok (alert_request operation t message audit)"
proof -
  have "ValidString OperationCreate" "ValidString OperationWrite" "ValidString OperationConvert" "ValidString OperationDelete"
    by (rule ascii_valid, simp)+
  with assms target_String_valid [OF assms(1)] show ?thesis
    by (auto simp: wire_ok_def wire_request_def alert_request_def new_request_def validateRequest_def
        validateRequestAudit_def zero_request_def ProtocolVersion_def int64_def request_fits_def)
qed

lemma dispatch_alert:
  assumes "wf_target t" "wf_message m"
  shows "Dispatch store (alert_request OperationCreate t (message_String m) audit) = respond (op_Create store t m)
      (\<lambda>_. ResultCreate \<lparr>cr_Target = target_String t, cr_Kind = ''managed''\<rparr>)"
    "Dispatch store (alert_request OperationWrite t (message_String m) audit) = respond (op_Write store t m)
      (\<lambda>_. ResultWrite \<lparr>wr_Target = target_String t, wr_Kind = ''managed''\<rparr>)"
    "Dispatch store (alert_request OperationConvert t (message_String m) audit) = respond (op_ConvertLegacy store t m)
      (\<lambda>r. ResultConvert \<lparr>vr_Target = target_String t, vr_Kind = ''managed'', vr_BackupName = conversion_BackupName r\<rparr>)"
    "Dispatch store (alert_request OperationDelete t [] audit) = respond (op_Delete store t)
      (\<lambda>r. ResultDelete \<lparr>dr_Target = target_String t, dr_BackupName = delete_BackupName r\<rparr>)"
  using target_String_valid(3) [OF assms(1)] wf_message_Parse [OF assms(2)]
  by (simp_all add: Dispatch_def alert_request_def new_request_def dispatchCreate_def dispatchWrite_def
      dispatchConvert_def dispatchDelete_def parseTarget_def parseMessage_def message_String_def zero_request_def)

subsection \<open>A valid message whose request is too large\<close>

text \<open>A less-than sign is one byte of a message and six of its JSON, so \<open>MaxBytes\<close> of them are a message
  but no request.\<close>

abbreviation less_thans :: "nat \<Rightarrow> string" where
  "less_thans n \<equiv> replicate n (CHR ''<'')"

lemma rune_chunks_less_thans: "rune_chunks (less_thans n) = replicate n (60, ''<'')"
  by (induction n) (simp_all add: rune_chunks.simps Let_def)

lemma less_thans_valid: "ValidString (less_thans n)"
  by (rule ascii_valid) (simp add: list_all_iff)

lemma ReplaceAll_less_thans: "ReplaceAll (less_thans n) (CR # old) new = less_thans n"
  by (induction n) (simp_all add: HasPrefix_def)

lemma TrimSpace_less_thans: "0 < n \<Longrightarrow> TrimSpace (less_thans n) = less_thans n"
proof -
  assume n: "0 < n"
  then obtain k where k: "less_thans n = CHR ''<'' # less_thans k" by (cases n) auto
  have "trim_left_space (less_thans n) = less_thans n"
    by (subst trim_left_space.simps) (simp add: k IsSpace_def)
  moreover have "trim_right_space (less_thans n) = less_thans n"
    using n by (subst trim_right_space.simps) (simp add: DecodeLastRune_def IsSpace_def last_replicate)
  ultimately show ?thesis by (simp add: TrimSpace_def)
qed

lemma check_less_thans: "check_characters cs i (replicate n 60) = None"
  by (induction n arbitrary: i) (simp_all add: IsControl_def is_Cf_def Cf_table_def)

lemma less_thans_Parse:
  assumes "0 < n" "n \<le> MaxBytes"
  shows "message_Parse (less_thans n) = Inr \<lparr>message_value = less_thans n\<rparr>"
  using assms TrimSpace_less_thans [of n]
  by (simp add: message_Parse_def normalize_newlines_def ReplaceAll_less_thans less_thans_valid runes_def
      rune_chunks_less_thans check_less_thans Let_def)

lemma json_quote_less_thans: "length (json_quote (less_thans n)) = 6 * n + 2"
proof -
  have "length (json_chunk (60, ''<'')) = 6" by code_simp
  then show ?thesis by (simp add: json_quote_def rune_chunks_less_thans length_concat sum_list_replicate)
qed

lemma comma_join_member: "x \<in> set xs \<Longrightarrow> length x \<le> length (comma_join xs)"
  by (induction xs rule: comma_join.induct) auto

lemma request_message_length: "req_Message r \<noteq> [] \<Longrightarrow> length (json_quote (req_Message r)) \<le> length (json_print (request_json r))"
proof -
  assume "req_Message r \<noteq> []"
  then obtain ms where ms: "request_json r = JObject ms" "(''message'', JString (req_Message r)) \<in> set ms"
    by (auto simp: request_json_def omit_empty_def)
  have "json_quote ''message'' @ '':'' @ json_quote (req_Message r) \<in>
      set (map (\<lambda>(k, v). json_quote k @ '':'' @ json_print v) ms)"
    unfolding set_map using ms(2) by (rule rev_image_eqI) simp
  from comma_join_member [OF this] show ?thesis by (simp add: ms(1))
qed

lemma less_thans_too_large:
  "2731 \<le> n \<Longrightarrow> \<not> request_fits (alert_request operation t (less_thans n) audit)"
  using request_message_length [of "alert_request operation t (less_thans n) audit"]
  by (simp add: request_fits_def alert_request_def json_quote_less_thans MaxRequestBytes_def)

text \<open>
  C6: A mutation through the client is the store's own operation.  For a valid target and message and
  an attribution in valid UTF-8, a call of the client whose transport is the daemon's own handling of
  the connection returns exactly what the store's operation returns in the daemon's world, the target
  and the backup's name on success, and on an error the error's code and text, provided that the
  request's encoding is within \<open>MaxRequestBytes\<close> (16384).  A request over it, as a long message of
  characters that JSON escapes can be although it is within the limit of messages, is refused
  with \<open>ErrRequestTooLarge\<close>.  The responses are assumed to be ones that the connection can carry: their
  strings are valid UTF-8 and their encodings are within \<open>MaxResponseBytes\<close> (\<open>sendable\<close>).
\<close>

theorem remote_mutations_are_the_stores:
  assumes "target_Parse tv = Inr t" "message_Parse mv = Inr m"
    "mutationAuditFromContext client ctx wc = (Inr audit, wc')" "audit_utf8 audit"
    "sendable (response_of (\<lambda>_. ResultCreate \<lparr>cr_Target = target_String t, cr_Kind = ''managed''\<rparr>) (fst (op_Create store t m w)))"
    "sendable (response_of (\<lambda>_. ResultWrite \<lparr>wr_Target = target_String t, wr_Kind = ''managed''\<rparr>) (fst (op_Write store t m w)))"
    "sendable (response_of (\<lambda>r. ResultConvert \<lparr>vr_Target = target_String t, vr_Kind = ''managed'',
       vr_BackupName = conversion_BackupName r\<rparr>) (fst (op_ConvertLegacy store t m w)))"
    "sendable (response_of (\<lambda>r. ResultDelete \<lparr>dr_Target = target_String t, dr_BackupName = delete_BackupName r\<rparr>)
       (fst (op_Delete store t w)))"
    "tr = server_transport texts store settings s w"
  shows "Client_Create texts number client ctx tr tv mv wc =
      (if request_fits (alert_request OperationCreate t (message_String m) audit)
       then remote_view (fst (op_Create store t m w)) (\<lambda>_. \<lparr>cr_Target = target_String t, cr_Kind = ''managed''\<rparr>)
       else Inl too_large, wc') \<and>
    Client_Write texts number client ctx tr tv mv wc =
      (if request_fits (alert_request OperationWrite t (message_String m) audit)
       then remote_view (fst (op_Write store t m w)) (\<lambda>_. \<lparr>wr_Target = target_String t, wr_Kind = ''managed''\<rparr>)
       else Inl too_large, wc') \<and>
    Client_Convert texts number client ctx tr tv mv wc =
      (if request_fits (alert_request OperationConvert t (message_String m) audit)
       then remote_view (fst (op_ConvertLegacy store t m w))
        (\<lambda>r. \<lparr>vr_Target = target_String t, vr_Kind = ''managed'', vr_BackupName = conversion_BackupName r\<rparr>)
       else Inl too_large, wc') \<and>
    Client_Delete texts number client ctx tr tv wc =
      (if request_fits (alert_request OperationDelete t [] audit)
       then remote_view (fst (op_Delete store t w))
        (\<lambda>r. \<lparr>dr_Target = target_String t, dr_BackupName = delete_BackupName r\<rparr>)
       else Inl too_large, wc')"
proof -
  have t: "wf_target t" and m: "wf_message m" using assms(1,2) by (auto intro: message_Parse_wf)
  note a = audit_validated [OF assms(3)]
  have msg: "message_String m \<noteq> []" "ValidString (message_String m)"
    using m by (auto simp: message_String_def wf_message_def)
  have ok: "wire_ok (alert_request operation t (message_String m) audit)"
    if "operation \<in> {OperationCreate, OperationWrite, OperationConvert}"
      "request_fits (alert_request operation t (message_String m) audit)" for operation
    using that msg by (intro wire_ok_alert [OF t _ msg(2) assms(4) a]) auto
  have del: "wire_ok (alert_request OperationDelete t [] audit)" if "request_fits (alert_request OperationDelete t [] audit)"
    using that by (intro wire_ok_alert [OF t _ ValidString_Nil assms(4) a]) auto
  note d = dispatch_alert [OF t m]
  note served = call_exact [where texts = texts and number = number and settings = settings and s = s and wc = wc']
  have start: "bind_io (client_target tv) f = f t" "bind_io (client_message mv) g = g m" for f :: "target \<Rightarrow> 'b io" and g :: "message \<Rightarrow> 'b io"
    using assms(1,2) by (simp_all add: client_target_def client_message_def bind_io_def return_io_def fun_eq_iff)
  have audit: "bind_io (mutationAuditFromContext client ctx) f wc = f audit wc'" for f :: "MutationAudit \<Rightarrow> 'b io"
    using assms(3) by (simp add: bind_io_def)
  have del_request: "(new_request OperationDelete)\<lparr>req_Target := target_String t, req_Audit := Some audit\<rparr> =
      alert_request OperationDelete t [] audit"
    by (simp add: alert_request_def new_request_def zero_request_def)
  note steps = start audit alert_request_def [symmetric] del_request
  show ?thesis
    unfolding Client_Create_def Client_Write_def Client_Convert_def Client_Delete_def steps assms(9)
    using served [OF ok d(1) assms(5) mutation_objects(1) typed_results(1)]
      served [OF ok d(2) assms(6) mutation_objects(2) typed_results(2)]
      served [OF ok d(3) assms(7) mutation_objects(3) typed_results(3)]
      served [OF del d(4) assms(8) mutation_objects(4) typed_results(4)]
    by simp
qed

end
