(* ===== verification/Control_Examples.thy ===== *)
theory Control_Examples
  imports Request_Roundtrip Store_Examples
begin

text \<open>The theorems about the settings and the control server at concrete inputs.\<close>

definition demo_texts :: json_texts where
  "demo_texts = \<lparr>jt_first = (\<lambda>_. ''error''), jt_second = (\<lambda>_. ''error'')\<rparr>"

definition demo_connection :: "string \<Rightarrow> connection" where
  "demo_connection bytes = \<lparr>conn_bytes = bytes, conn_end = None, conn_read_deadline = True,
     conn_write_deadline = True\<rparr>"

definition in_quotes :: "string \<Rightarrow> string" where
  "in_quotes s = DQUOTE # s @ [DQUOTE]"

definition demo_bad_delete :: string where
  "demo_bad_delete = ''{'' @ in_quotes ''version'' @ '':2,'' @ in_quotes ''operation'' @ '':'' @
     in_quotes ''delete'' @ ''}'' @ [LF]"

definition demo_manager :: Manager where
  "demo_manager = \<lparr>manager_path = ''/etc/aamm-ng/config.json'', manager_current = Defaults\<rparr>"

abbreviation demo_serve :: "(string list \<times> string \<times> Manager) io" where
  "demo_serve \<equiv> serve_connections demo_texts (alert_store_operations demo_store) (Some manager_operations)
     demo_manager [demo_connection ''x'', demo_connection demo_bad_delete]"

lemma demo_mutations:
  "length (filter (mutation_request demo_texts) [demo_connection ''x'', demo_connection demo_bad_delete]) = 1"
  by code_simp

lemma demo_serves: "\<exists>outs log m'. fst (demo_serve w) = Inr (outs, log, m')"
  using serve_returns [OF manager_returns] by (metis fst_conv)

lemma audit_log_has_one_line_per_mutation_witness:
  "\<exists>outs log m'. fst (demo_serve (demo_world demo_script)) = Inr (outs, log, m') \<and> lines_in log = 1 \<and> log_safe log"
proof -
  obtain outs log m' w' where run: "demo_serve (demo_world demo_script) = (Inr (outs, log, m'), w')"
    using demo_serves by (metis prod.collapse)
  from audit_log_has_one_line_per_mutation [OF run] demo_mutations run show ?thesis by simp
qed

lemma refused_requests_change_nothing_witness:
  "w_fs (snd (handleConnectionWithSettings demo_texts (alert_store_operations demo_store) (Some manager_operations)
     demo_manager (demo_connection demo_bad_delete) (demo_world demo_script))) = demo_fs"
proof -
  obtain out audit s' w' where run: "handleConnectionWithSettings demo_texts (alert_store_operations demo_store)
      (Some manager_operations) demo_manager (demo_connection demo_bad_delete) (demo_world demo_script) =
      (Inr (out, audit, s'), w')"
    using handle_returns [OF manager_returns] by blast
  have "accepted_request demo_texts (demo_connection demo_bad_delete) = None"
    by code_simp
  from refused_requests_change_nothing [OF this run] run show ?thesis by (simp add: demo_world_def)
qed

lemma daemon_settings_stay_valid_witness:
  "\<exists>outs log m'. fst (demo_serve (demo_world demo_script)) = Inr (outs, log, m') \<and>
     config_Validate (Manager_Current m') = None"
proof -
  obtain outs log m' w' where run: "demo_serve (demo_world demo_script) = (Inr (outs, log, m'), w')"
    using demo_serves by (metis prod.collapse)
  have "config_Validate (Manager_Current demo_manager) = None" by code_simp
  from daemon_settings_stay_valid [OF run this] run show ?thesis by simp
qed

definition demo_audit :: MutationAudit where
  "demo_audit = \<lparr>AuthNode = ''kx1x-node'', AuthRole = ''admin'', SourceIP = ''10.1.2.3'', SourceNode = [], SourceHost = []\<rparr>"

definition demo_request :: Request where
  "demo_request = \<lparr>req_Version = 2, req_Operation = ''create'', req_Target = ''new'', req_Message = ''Hi'',
     req_Settings = None, req_Audit = Some demo_audit\<rparr>"

lemma encoded_requests_decode_witness:
  "DecodeRequest demo_texts (json_print (request_json demo_request)) = (demo_request, None)"
proof -
  have "wire_request demo_request" by code_simp
  moreover have "length (json_print (request_json demo_request)) \<le> MaxRequestBytes" by code_simp
  moreover have "validateRequest demo_request = None" by code_simp
  ultimately show ?thesis using encoded_requests_decode [of demo_request demo_texts] by simp
qed

subsection \<open>The settings file\<close>

definition demo_config_world :: world where
  "demo_config_world = (demo_world [])\<lparr>w_fs := demo_fs\<lparr>dirs := (dirs demo_fs)(ConfigDir := [(''config.json'', 3)]),
     inodes := (inodes demo_fs)(3 \<mapsto> config_inode Defaults), next_ino := 4\<rparr>\<rparr>"

lemma demo_config_present: "present demo_config_world ConfigDir (filepath_Base ''/etc/aamm-ng/config.json'') 3 (config_inode Defaults)"
proof -
  have "filepath_Base ''/etc/aamm-ng/config.json'' = ''config.json''" by code_simp
  then show ?thesis by (simp add: present_def demo_config_world_def lookup_def)
qed

lemma demo_config_among: "config_among (\<lambda>_ _. True) ''/etc/aamm-ng/config.json'' demo_config_world"
  by (auto simp: config_among_def config_owned_def wf_fs_def demo_fs_def demo_config_world_def demo_world_def split: dirid.split)

text \<open>A settings file that somebody has spoilt.\<close>

definition spoilt_inode :: inode where
  "spoilt_inode = (config_inode Defaults)\<lparr>i_data := ''{}''\<rparr>"

definition spoilt_world :: world where
  "spoilt_world = demo_config_world\<lparr>w_fs := (w_fs demo_config_world)\<lparr>inodes := (inodes (w_fs demo_config_world))(3 \<mapsto> spoilt_inode)\<rparr>\<rparr>"

lemma spoilt_present: "present spoilt_world ConfigDir (filepath_Base ''/etc/aamm-ng/config.json'') 3 spoilt_inode"
proof -
  have "filepath_Base ''/etc/aamm-ng/config.json'' = ''config.json''" by code_simp
  then show ?thesis by (simp add: present_def spoilt_world_def demo_config_world_def lookup_def)
qed

lemma spoilt_among: "config_among (\<lambda>_ _. True) ''/etc/aamm-ng/config.json'' spoilt_world"
  using demo_config_among
  by (auto simp: config_among_def wf_fs_def spoilt_world_def demo_config_world_def demo_fs_def split: dirid.splits)

lemma settings_load_exactly_the_file_witness:
  "fst (Load demo_texts (\<lambda>_. True) ''/etc/aamm-ng/config.json'' demo_config_world) = Inr Defaults \<and>
   isl (fst (Load demo_texts (\<lambda>_. True) ''/etc/aamm-ng/config.json'' spoilt_world))"
proof -
  obtain r w1 r2 w2 where run: "Load demo_texts (\<lambda>_. True) ''/etc/aamm-ng/config.json'' demo_config_world = (r, w1)"
    "Load demo_texts (\<lambda>_. True) ''/etc/aamm-ng/config.json'' spoilt_world = (r2, w2)" by fastforce
  have kinds: "i_kind (config_inode Defaults) \<noteq> Symlink" "i_kind spoilt_inode \<noteq> Symlink" "w_script demo_config_world = []"
    by (simp_all add: config_inode_def spoilt_inode_def demo_config_world_def demo_world_def)
  have "config_Validate Defaults = None" "length (config_data Defaults) \<le> MaxConfigBytes" by code_simp+
  then have "r = Inr Defaults"
    using settings_load_exactly_the_file [OF run(1) demo_config_among demo_config_present kinds(1)] kinds(3) by blast
  moreover have "isl (decode_config demo_texts ''{}'')" by code_simp
  then have "isl r2"
    using settings_load_exactly_the_file [OF run(2) spoilt_among spoilt_present kinds(2)]
    by (cases r2) (auto simp: spoilt_inode_def)
  ultimately show ?thesis by (simp add: run)
qed

lemma config_save_is_all_or_nothing_witness:
  "\<exists>r w'. save ''/etc/aamm-ng/config.json'' Defaults demo_config_world = (r, w') \<and>
     ((\<exists>err. r = Inr (False, Some err)) \<or> (\<exists>err. r = Inr (True, err))) \<and>
     (\<exists>j nd. present w' AlertDir ''node.txt'' j nd)"
proof -
  obtain r w' where run: "save ''/etc/aamm-ng/config.json'' Defaults demo_config_world = (r, w')" by fastforce
  have "present demo_config_world AlertDir ''node.txt'' 1 demo_alert"
    by (simp add: present_def demo_config_world_def lookup_def demo_fs_def)
  with demo_config_among show ?thesis
    using config_save_is_all_or_nothing [OF run, of "\<lambda>_ _. True" AlertDir "''node.txt''" 1 demo_alert] run by blast
qed

end
