(* ===== verification/Http_Accept.thy ===== *)
theory Http_Accept
  imports Go_Errors
begin

text \<open>
  The concurrent part of \<open>server.go\<close> of \<open>internal/minihttp\<close>: the accept loop of \<open>Serve\<close>, the goroutine of
  each connection, \<open>Shutdown\<close> and \<open>Close\<close>.  They interleave at their operations on the state they
  share, so the server is a relation with one rule per such operation.
\<close>

subsection \<open>The shared state\<close>

text \<open>
  A goroutine reads its request, then runs the handler (\<open>started\<close> is set); when it is through it gives
  its slot back (\<open>Released\<close>, with the flag \<open>started\<close>), leaves the map \<open>conns\<close> (\<open>Deleted\<close>) and signs off
  the wait group.  \<open>Holding c\<close>: the loop has accepted \<open>c\<close> and taken a slot for it.
\<close>

datatype phase = Reading | Handling | Released bool | Deleted

datatype loop_place = Starting | Accepting | Holding nat | Returned goerror

record server_state =
  sv_closed :: bool
  sv_listening :: bool
  sv_place :: loop_place
  sv_slots :: nat
  sv_conns :: "nat \<Rightarrow> phase option"
  sv_wg :: nat
  sv_cut :: "nat set"
  sv_rejected :: "nat set"
  sv_seen :: "nat set"
  sv_shut :: bool

definition maxConnections :: nat where
  "maxConnections = 64"

definition fresh_server :: server_state where
  "fresh_server = \<lparr>sv_closed = False, sv_listening = True, sv_place = Starting, sv_slots = 0, sv_conns = Map.empty,
     sv_wg = 0, sv_cut = {}, sv_rejected = {}, sv_seen = {}, sv_shut = False\<rparr>"

subsection \<open>Steps\<close>

text \<open>The connections that \<open>Shutdown\<close> closes, those that have not started, and all that \<open>Close\<close> closes.\<close>

definition not_started :: "server_state \<Rightarrow> nat set" where
  "not_started s = {c. sv_conns s c = Some Reading \<or> sv_conns s c = Some (Released False)}"

definition registered :: "server_state \<Rightarrow> nat set" where
  "registered s = {c. sv_conns s c \<noteq> None \<and> sv_conns s c \<noteq> Some Deleted}"

text \<open>The first seven rules are the loop's, the next four the goroutine's, the last ones those of
  \<open>Shutdown\<close> and \<open>Close\<close>.  A listener is known to the server, and closed by it, once \<open>Serve\<close> has begun.\<close>

inductive server_step :: "server_state \<Rightarrow> server_state \<Rightarrow> bool" where
  begin_serve: "sv_place s = Starting \<Longrightarrow> \<not> sv_closed s \<Longrightarrow> server_step s (s\<lparr>sv_place := Accepting\<rparr>)"
| begin_closed: "sv_place s = Starting \<Longrightarrow> sv_closed s \<Longrightarrow>
     server_step s (s\<lparr>sv_place := Returned (Sentinel minihttp_ErrServerClosed), sv_listening := False\<rparr>)"
| accept: "sv_place s = Accepting \<Longrightarrow> sv_listening s \<Longrightarrow> c \<notin> sv_seen s \<Longrightarrow> sv_slots s < maxConnections \<Longrightarrow>
     server_step s (s\<lparr>sv_place := Holding c, sv_slots := sv_slots s + 1, sv_seen := insert c (sv_seen s)\<rparr>)"
| reject: "sv_place s = Accepting \<Longrightarrow> sv_listening s \<Longrightarrow> c \<notin> sv_seen s \<Longrightarrow> sv_slots s \<ge> maxConnections \<Longrightarrow>
     server_step s (s\<lparr>sv_rejected := insert c (sv_rejected s), sv_seen := insert c (sv_seen s)\<rparr>)"
| accept_closed: "sv_place s = Accepting \<Longrightarrow> sv_closed s \<Longrightarrow>
     server_step s (s\<lparr>sv_place := Returned (Sentinel minihttp_ErrServerClosed)\<rparr>)"
| accept_failed: "sv_place s = Accepting \<Longrightarrow> \<not> sv_closed s \<Longrightarrow> server_step s (s\<lparr>sv_place := Returned err\<rparr>)"
| register: "sv_place s = Holding c \<Longrightarrow> \<not> sv_closed s \<Longrightarrow>
     server_step s (s\<lparr>sv_place := Accepting, sv_conns := (sv_conns s)(c \<mapsto> Reading), sv_wg := sv_wg s + 1\<rparr>)"
| drop_closed: "sv_place s = Holding c \<Longrightarrow> sv_closed s \<Longrightarrow>
     server_step s (s\<lparr>sv_place := Returned (Sentinel minihttp_ErrServerClosed), sv_slots := sv_slots s - 1,
       sv_cut := insert c (sv_cut s)\<rparr>)"
| start: "sv_conns s c = Some Reading \<Longrightarrow> server_step s (s\<lparr>sv_conns := (sv_conns s)(c \<mapsto> Handling)\<rparr>)"
| release: "sv_conns s c = Some p \<Longrightarrow> p = Reading \<or> p = Handling \<Longrightarrow>
     server_step s (s\<lparr>sv_conns := (sv_conns s)(c \<mapsto> Released (p = Handling)), sv_slots := sv_slots s - 1\<rparr>)"
| delete: "sv_conns s c = Some (Released b) \<Longrightarrow> server_step s (s\<lparr>sv_conns := (sv_conns s)(c \<mapsto> Deleted)\<rparr>)"
| sign_off: "sv_conns s c = Some Deleted \<Longrightarrow>
     server_step s (s\<lparr>sv_conns := (sv_conns s)(c := None), sv_wg := sv_wg s - 1\<rparr>)"
| shutdown: "server_step s (s\<lparr>sv_closed := True, sv_listening := sv_listening s \<and> sv_place s = Starting,
     sv_cut := sv_cut s \<union> not_started s\<rparr>)"
| drained: "sv_closed s \<Longrightarrow> sv_wg s = 0 \<Longrightarrow> server_step s (s\<lparr>sv_shut := True\<rparr>)"
| close: "server_step s (s\<lparr>sv_closed := True, sv_listening := sv_listening s \<and> sv_place s = Starting,
     sv_cut := sv_cut s \<union> registered s\<rparr>)"

inductive server_reachable :: "server_state \<Rightarrow> bool" where
  fresh: "server_reachable fresh_server"
| step: "server_reachable s \<Longrightarrow> server_step s t \<Longrightarrow> server_reachable t"

inductive server_run :: "server_state \<Rightarrow> server_state \<Rightarrow> bool" where
  stop: "server_run s s"
| further: "server_step s t \<Longrightarrow> server_run t u \<Longrightarrow> server_run s u"

subsection \<open>The invariant\<close>

definition serving_of :: "(nat \<Rightarrow> phase option) \<Rightarrow> nat set" where
  "serving_of m = {c. m c = Some Reading \<or> m c = Some Handling}"

abbreviation serving :: "server_state \<Rightarrow> nat set" where
  "serving s \<equiv> serving_of (sv_conns s)"

definition held :: "loop_place \<Rightarrow> nat set" where
  "held p = (case p of Holding c \<Rightarrow> {c} | _ \<Rightarrow> {})"

text \<open>The tokens in the channel are the connections being served and the one the loop holds; the wait
  group counts the goroutines; the loop holds a connection that is in no map yet; once \<open>Shutdown\<close> has
  returned there is no goroutine.\<close>

definition server_inv :: "server_state \<Rightarrow> bool" where
  "server_inv s \<longleftrightarrow>
     finite (dom (sv_conns s)) \<and>
     sv_slots s = card (serving s \<union> held (sv_place s)) \<and>
     sv_slots s \<le> maxConnections \<and>
     sv_wg s = card (dom (sv_conns s)) \<and>
     dom (sv_conns s) \<union> held (sv_place s) \<union> sv_rejected s \<subseteq> sv_seen s \<and>
     held (sv_place s) \<inter> dom (sv_conns s) = {} \<and>
     sv_rejected s \<inter> (dom (sv_conns s) \<union> held (sv_place s)) = {} \<and>
     (sv_shut s \<longrightarrow> sv_closed s \<and> dom (sv_conns s) = {})"

lemma held_simps [simp]:
  "held Starting = {}" "held Accepting = {}" "held (Holding c) = {c}" "held (Returned err) = {}"
  by (simp_all add: held_def)

lemma serving_of_simps [simp]:
  "serving_of Map.empty = {}"
  "serving_of (m(c \<mapsto> Reading)) = insert c (serving_of m)"
  "serving_of (m(c \<mapsto> Handling)) = insert c (serving_of m)"
  "serving_of (m(c \<mapsto> Released b)) = serving_of m - {c}"
  "serving_of (m(c \<mapsto> Deleted)) = serving_of m - {c}"
  "serving_of (m(c := None)) = serving_of m - {c}"
  by (auto simp: serving_of_def)

lemma serving_of_dom: "serving_of m \<subseteq> dom m"
  by (auto simp: serving_of_def)

lemma finite_serving: "finite (dom m) \<Longrightarrow> finite (serving_of m)"
  using serving_of_dom by (rule finite_subset)

lemma serving_of_iff: "c \<in> serving_of m \<longleftrightarrow> m c = Some Reading \<or> m c = Some Handling"
  by (simp add: serving_of_def)

lemma server_inv_fresh: "server_inv fresh_server"
  by (simp add: server_inv_def fresh_server_def)

lemma server_step_inv: "server_step s t \<Longrightarrow> server_inv s \<Longrightarrow> server_inv t"
proof (induction rule: server_step.induct)
  case (accept s c)
  then have "c \<notin> serving s" using serving_of_dom by (auto simp: server_inv_def)
  with accept show ?case by (auto simp: server_inv_def finite_serving)
next
  case (register s c)
  then show ?case by (auto simp: server_inv_def finite_serving)
next
  case (drop_closed s c)
  then have "c \<notin> serving s" using serving_of_dom by (auto simp: server_inv_def)
  with drop_closed show ?case by (auto simp: server_inv_def finite_serving)
next
  case (start s c)
  then have "insert c (serving s) = serving s" "insert c (dom (sv_conns s)) = dom (sv_conns s)"
    by (auto simp: serving_of_iff)
  with start show ?case by (auto simp: server_inv_def)
next
  case (release s c p)
  then have c: "c \<in> serving s" "c \<notin> held (sv_place s)" "insert c (dom (sv_conns s)) = dom (sv_conns s)"
    by (auto simp: serving_of_iff server_inv_def)
  then have "serving s - {c} \<union> held (sv_place s) = (serving s \<union> held (sv_place s)) - {c}" by auto
  with release c show ?case by (auto simp: server_inv_def finite_serving)
next
  case (delete s c b)
  then have "serving s - {c} = serving s" "insert c (dom (sv_conns s)) = dom (sv_conns s)"
    by (auto simp: serving_of_iff)
  with delete show ?case by (auto simp: server_inv_def)
next
  case (sign_off s c)
  then have "serving s - {c} = serving s" "c \<in> dom (sv_conns s)"
    by (auto simp: serving_of_iff)
  with sign_off show ?case by (auto simp: server_inv_def)
next
  case (drained s)
  then show ?case by (auto simp: server_inv_def)
qed (auto simp: server_inv_def)

lemma reachable_inv: "server_reachable s \<Longrightarrow> server_inv s"
  by (induction rule: server_reachable.induct) (auto intro: server_inv_fresh server_step_inv)

subsection \<open>What the server guarantees\<close>

lemma card_serving: "server_inv s \<Longrightarrow> card (serving s) \<le> maxConnections"
proof -
  assume inv: "server_inv s"
  then have "card (serving s) \<le> card (serving s \<union> held (sv_place s))"
    by (intro card_mono) (auto simp: server_inv_def finite_serving held_def split: loop_place.split)
  with inv show ?thesis by (simp add: server_inv_def)
qed

text \<open>
  C17: At any moment of any interleaving of the accept loop, the connections and shutdown, at most
  \<open>maxConnections\<close> connections are being read or handled; the tokens in use are exactly those of the
  connections being served and of the one just accepted, so no slot is lost or given twice; and a
  connection is turned away as busy only when all the slots are taken.
\<close>

theorem connections_are_bounded:
  assumes "server_reachable s"
  shows "card (serving s) \<le> maxConnections \<and> sv_slots s = card (serving s \<union> held (sv_place s)) \<and>
    (\<forall>t c. server_step s t \<and> c \<in> sv_rejected t \<and> c \<notin> sv_rejected s \<longrightarrow> sv_slots s = maxConnections)"
proof -
  note inv = reachable_inv [OF assms]
  have "sv_slots s = maxConnections"
    if "server_step s t" "c \<in> sv_rejected t" "c \<notin> sv_rejected s" for t c
    using that inv by (cases rule: server_step.cases) (auto simp: server_inv_def)
  moreover have "sv_slots s = card (serving s \<union> held (sv_place s))" using inv by (simp add: server_inv_def)
  ultimately show ?thesis using card_serving [OF inv] by blast
qed

subsection \<open>Shutdown\<close>

lemma server_step_closed: "server_step s t \<Longrightarrow> sv_closed s \<Longrightarrow> sv_closed t \<and> dom (sv_conns t) \<subseteq> dom (sv_conns s)"
  by (induction rule: server_step.induct) auto

lemma server_step_shut: "server_step s t \<Longrightarrow> sv_shut s \<Longrightarrow> sv_shut t"
  by (induction rule: server_step.induct) auto

lemma server_run_closed:
  "server_run s t \<Longrightarrow> sv_closed s \<Longrightarrow> sv_closed t \<and> dom (sv_conns t) \<subseteq> dom (sv_conns s)"
  by (induction rule: server_run.induct) (blast dest: server_step_closed)+

lemma server_run_reachable: "server_run s t \<Longrightarrow> server_reachable s \<Longrightarrow> server_reachable t"
  by (induction rule: server_run.induct) (auto intro: server_reachable.step)

lemma server_run_trans: "server_run s t \<Longrightarrow> server_run t u \<Longrightarrow> server_run s u"
  by (induction rule: server_run.induct) (auto intro: server_run.further)

text \<open>How far a goroutine has to go.\<close>

definition to_go :: "phase \<Rightarrow> nat" where
  "to_go p = (case p of Reading \<Rightarrow> 4 | Handling \<Rightarrow> 3 | Released b \<Rightarrow> 2 | Deleted \<Rightarrow> 1)"

definition work_left :: "server_state \<Rightarrow> nat" where
  "work_left s = (\<Sum>c \<in> dom (sv_conns s). to_go (the (sv_conns s c)))"

lemma work_left_update:
  assumes "finite (dom m)" "m c = Some p"
  shows "(\<Sum>d \<in> dom (m(c \<mapsto> q)). to_go (the ((m(c \<mapsto> q)) d))) + to_go p = (\<Sum>d \<in> dom m. to_go (the (m d))) + to_go q"
proof -
  let ?m = "m(c \<mapsto> q)"
  have d: "dom ?m = insert c (dom m - {c})" "c \<in> dom m" using assms(2) by auto
  have "(\<Sum>d \<in> dom m - {c}. to_go (the (?m d))) = (\<Sum>d \<in> dom m - {c}. to_go (the (m d)))"
    by (rule sum.cong) auto
  moreover have "(\<Sum>d \<in> dom ?m. to_go (the (?m d))) = to_go q + (\<Sum>d \<in> dom m - {c}. to_go (the (?m d)))"
    unfolding d(1) using assms(1) by (subst sum.insert) auto
  ultimately show ?thesis
    using assms sum.remove [OF assms(1) d(2), of "\<lambda>d. to_go (the (m d))"] by simp
qed

lemma goroutine_step:
  assumes "finite (dom (sv_conns s))" "c \<in> dom (sv_conns s)"
  shows "\<exists>t. server_step s t \<and> work_left t < work_left s"
proof -
  from assms(2) obtain p where p: "sv_conns s c = Some p" by auto
  note up = work_left_update [OF assms(1) p]
  show ?thesis
  proof (cases "p = Deleted")
    case True
    have "work_left s = to_go p + work_left (s\<lparr>sv_conns := (sv_conns s)(c := None), sv_wg := sv_wg s - 1\<rparr>)"
      using sum.remove [OF assms(1,2), of "\<lambda>d. to_go (the (sv_conns s d))"] p
      by (simp add: work_left_def)
    with server_step.sign_off [of s c] p True show ?thesis by (auto simp: to_go_def)
  next
    case False
    define q where "q = (case p of Released b \<Rightarrow> Deleted | _ \<Rightarrow> Released (p = Handling))"
    have "\<exists>n. server_step s (s\<lparr>sv_conns := (sv_conns s)(c \<mapsto> q), sv_slots := n\<rparr>)"
    proof (cases p)
      case (Released b)
      with server_step.delete [of s c b] p show ?thesis
        by (auto simp: q_def intro!: exI [of _ "sv_slots s"])
    qed (use server_step.release [of s c p] p False in \<open>auto simp: q_def\<close>)
    moreover have "to_go q < to_go p" using False by (cases p) (auto simp: q_def to_go_def)
    ultimately show ?thesis using up [of q] by (fastforce simp: work_left_def)
  qed
qed

lemma drains:
  assumes "server_reachable s" "sv_closed s"
  shows "\<exists>t. server_run s t \<and> sv_shut t"
  using assms
proof (induction "work_left s" arbitrary: s rule: less_induct)
  case less
  note inv = reachable_inv [OF less.prems(1)]
  show ?case
  proof (cases "dom (sv_conns s) = {}")
    case True
    with inv less.prems have "server_step s (s\<lparr>sv_shut := True\<rparr>)"
      by (intro server_step.drained) (auto simp: server_inv_def)
    then show ?thesis by (fastforce intro: server_run.intros)
  next
    case False
    then obtain c where "c \<in> dom (sv_conns s)" by blast
    with goroutine_step [of s c] inv obtain t where t: "server_step s t" "work_left t < work_left s"
      by (auto simp: server_inv_def)
    from less.hyps [OF t(2)] t(1) less.prems server_step_closed [OF t(1)]
    show ?thesis by (blast intro: server_reachable.step server_run.further)
  qed
qed

text \<open>
  C18: Shutdown drains the server.  After \<open>Shutdown\<close> has begun no connection is ever admitted again,
  whatever the interleaving; when it has returned without error no goroutine is left, and none comes
  back; and it never gets stuck: from every state after its beginning, the steps of the connections
  lead to its return.
\<close>

theorem shutdown_drains:
  assumes "server_reachable s" "sv_closed s"
  shows "(\<forall>t. server_run s t \<longrightarrow> dom (sv_conns t) \<subseteq> dom (sv_conns s) \<and> (sv_shut t \<longrightarrow> sv_conns t = Map.empty)) \<and>
    (\<exists>t. server_run s t \<and> sv_shut t)"
proof -
  have "sv_conns t = Map.empty" if "server_run s t" "sv_shut t" for t
    using reachable_inv [OF server_run_reachable [OF that(1) assms(1)]] that(2) by (simp add: server_inv_def)
  with drains [OF assms] server_run_closed assms(2) show ?thesis by blast
qed

subsection \<open>Quiescence\<close>

definition place_rank :: "loop_place \<Rightarrow> nat" where
  "place_rank p = (case p of Starting \<Rightarrow> 3 | Accepting \<Rightarrow> 2 | Holding c \<Rightarrow> 1 | Returned err \<Rightarrow> 0)"

definition left_over :: "server_state \<Rightarrow> nat" where
  "left_over s = work_left s + place_rank (sv_place s)"

lemma conns_step:
  assumes "finite (dom (sv_conns s))" "sv_conns s c = Some p" "to_go q < to_go p" "sv_conns t = (sv_conns s)(c \<mapsto> q)"
    "sv_place t = sv_place s"
  shows "left_over t < left_over s"
  using work_left_update [OF assms(1,2), of q] assms(3-5) by (simp add: left_over_def work_left_def)

lemma closed_step:
  assumes "server_step s t" "server_inv s" "sv_closed s"
  shows "left_over t < left_over s \<or> sv_conns t = sv_conns s \<and> sv_place t = sv_place s"
  using assms
proof (induction rule: server_step.induct)
  case (start s c)
  then show ?case by (intro disjI1 conns_step [of s c Reading Handling]) (auto simp: server_inv_def to_go_def)
next
  case (release s c p)
  then show ?case
    by (intro disjI1 conns_step [of s c p "Released (p = Handling)"]) (auto simp: server_inv_def to_go_def)
next
  case (delete s c b)
  then show ?case by (intro disjI1 conns_step [of s c "Released b" Deleted]) (auto simp: server_inv_def to_go_def)
next
  case (sign_off s c)
  then have "finite (dom (sv_conns s))" "c \<in> dom (sv_conns s)" by (auto simp: server_inv_def)
  from sum.remove [OF this, of "\<lambda>d. to_go (the (sv_conns s d))"] sign_off show ?case
    by (simp add: left_over_def work_left_def to_go_def)
qed (auto simp: left_over_def place_rank_def work_left_def)

text \<open>A run is fair if what can be done next is done at some time: no goroutine and no accept loop that
  has a step to take is passed over for ever (a connection's reads end, its handler returns).\<close>

definition fair :: "(nat \<Rightarrow> server_state) \<Rightarrow> bool" where
  "fair f \<longleftrightarrow>
     (\<forall>i c. (\<exists>t. server_step (f i) t \<and> sv_conns t c \<noteq> sv_conns (f i) c) \<longrightarrow>
        (\<exists>j \<ge> i. sv_conns (f j) c \<noteq> sv_conns (f i) c)) \<and>
     (\<forall>i. (\<exists>t. server_step (f i) t \<and> sv_place t \<noteq> sv_place (f i)) \<longrightarrow>
        (\<exists>j \<ge> i. sv_place (f j) \<noteq> sv_place (f i)))"

text \<open>A goroutine that is there has a step to take, and so has the accept loop of a closed server.\<close>

lemma goroutine_enabled:
  assumes "sv_conns s c = Some p"
  shows "\<exists>t. server_step s t \<and> sv_conns t c \<noteq> sv_conns s c"
proof (cases p)
  case (Released b)
  with server_step.delete [of s c b] assms show ?thesis by fastforce
next
  case Deleted
  with server_step.sign_off [of s c] assms show ?thesis by fastforce
qed (use server_step.release [of s c p] assms in fastforce)+

lemma loop_enabled:
  assumes "sv_closed s" "\<And>err. sv_place s \<noteq> Returned err"
  shows "\<exists>t. server_step s t \<and> sv_place t \<noteq> sv_place s"
proof (cases "sv_place s")
  case Starting
  with server_step.begin_closed [of s] assms(1) show ?thesis by fastforce
next
  case Accepting
  with server_step.accept_closed [of s] assms(1) show ?thesis by fastforce
next
  case (Holding c)
  with server_step.drop_closed [of s c] assms(1) show ?thesis by fastforce
qed (use assms(2) in simp)

text \<open>
  C40: A closed server comes to an end.  In any infinite interleaving of steps after \<open>Shutdown\<close> or \<open>Close\<close>
  has begun no connection is added, and the accept loop and the goroutines take only finitely many
  steps: from some moment on no connection changes its phase and the loop stays where it is.  If the
  run is fair, they have then all come to their end: no connection is left, the wait group is at
  zero, which is what \<open>Shutdown\<close> waits for, and the accept loop has returned.
\<close>

theorem closed_server_comes_to_rest:
  assumes "server_reachable (f 0)" "sv_closed (f 0)" "\<And>i. server_step (f i) (f (Suc i))"
  shows "(\<forall>i. dom (sv_conns (f (Suc i))) \<subseteq> dom (sv_conns (f i))) \<and>
    (\<exists>n. (\<forall>m \<ge> n. sv_conns (f m) = sv_conns (f n) \<and> sv_place (f m) = sv_place (f n)) \<and>
      (fair f \<longrightarrow> (\<exists>err. \<forall>m \<ge> n. sv_conns (f m) = Map.empty \<and> sv_wg (f m) = 0 \<and> sv_place (f m) = Returned err)))"
proof -
  have inv: "server_inv (f i) \<and> sv_closed (f i)" for i
  proof (induction i)
    case (Suc i)
    with assms(3) [of i] show ?case by (blast dest: server_step_inv server_step_closed)
  qed (use assms(1,2) reachable_inv in blast)
  obtain n where least: "\<And>m. left_over (f n) \<le> left_over (f m)"
    using ex_has_least_nat [of "\<lambda>i. True" 0 "\<lambda>i. left_over (f i)"] by auto
  have "sv_conns (f (n + k)) = sv_conns (f n) \<and> sv_place (f (n + k)) = sv_place (f n)" for k
  proof (induction k)
    case (Suc k)
    then have "left_over (f (n + k)) = left_over (f n)" by (simp add: left_over_def work_left_def)
    with least [of "n + Suc k"] closed_step [OF assms(3), of "n + k"] inv [of "n + k"] Suc show ?case by auto
  qed simp
  then have rest: "sv_conns (f m) = sv_conns (f n) \<and> sv_place (f m) = sv_place (f n)" if "n \<le> m" for m
    using that by (metis le_add_diff_inverse)
  have "\<exists>err. \<forall>m \<ge> n. sv_conns (f m) = Map.empty \<and> sv_wg (f m) = 0 \<and> sv_place (f m) = Returned err" if fair: "fair f"
  proof -
    have "sv_conns (f n) c = None" for c
      using fair rest goroutine_enabled [of "f n" c] unfolding fair_def by (metis option.exhaust)
    then have "sv_conns (f n) = Map.empty" by blast
    moreover obtain err where "sv_place (f n) = Returned err"
      using fair rest inv [of n] loop_enabled [of "f n"] unfolding fair_def by metis
    moreover have "sv_wg (f m) = card (dom (sv_conns (f m)))" for m using inv [of m] by (simp add: server_inv_def)
    ultimately have "sv_conns (f m) = Map.empty \<and> sv_wg (f m) = 0 \<and> sv_place (f m) = Returned err" if "n \<le> m" for m
      using rest [OF that] by simp
    then show ?thesis by blast
  qed
  moreover have "dom (sv_conns (f (Suc i))) \<subseteq> dom (sv_conns (f i))" for i
    using server_step_closed [OF assms(3)] inv by blast
  ultimately show ?thesis using rest by blast
qed

end
