(* ===== verification/Web_Process.thy ===== *)
theory Web_Process
  imports Web_Safety Cgi_Bridge Http_Accept
begin

text \<open>
  The web process: internal/webadmin/server.go and listener.go, and cmd/aamm-ng-web.  Run with \<open>--cgi\<close> it
  answers one request of the node's web server; otherwise it serves until it is told to stop.
\<close>

subsection \<open>Serving until the context ends\<close>

text \<open>What the \<open>select\<close> of \<open>Serve\<close> sees: the end of the accept loop with its error, or the end of the context,
  after which \<open>Shutdown\<close> has its result and the accept loop ends with its error.\<close>

datatype service_event =
    Loop_ended goerror
  | Context_done "goerror option" goerror

definition serve_result :: "goerror \<Rightarrow> goerror option" where
  "serve_result err = (if errors_is err minihttp_ErrServerClosed then None else Some err)"

text \<open>The first three arguments: whether the context, the listener and the handler are there.\<close>

definition webadmin_Serve :: "bool \<Rightarrow> bool \<Rightarrow> bool \<Rightarrow> service_event \<Rightarrow> goerror option" where
  "webadmin_Serve ctx listener has_handler event =
     (if \<not> ctx \<or> \<not> listener \<or> \<not> has_handler then Some (Sentinel webadmin_ErrInvalidServer)
      else case event of
        Loop_ended err \<Rightarrow> serve_result err
      | Context_done (Some err) _ \<Rightarrow> Some (wrapf ''shut down web server'' err)
      | Context_done None err \<Rightarrow> serve_result err)"

definition webadmin_maxHeaderBytes :: nat where "webadmin_maxHeaderBytes = 16 * 1024"

text \<open>The service of one connection with the limits of this server.\<close>

definition web_connection :: "handler option \<Rightarrow> http_conn \<Rightarrow> string io" where
  "web_connection h conn = serveConn h webadmin_maxHeaderBytes conn"

definition ListenProduction :: "goerror option \<Rightarrow> goerror option" where
  "ListenProduction answer = map_option (wrapf ''listen for web administration'') answer"

subsection \<open>The command\<close>

datatype commandMode = modeServer | modeCGI

definition parseMode :: "string list \<Rightarrow> goerror + commandMode" where
  "parseMode args =
     (if length args = 0 then Inr modeServer
      else if length args = 1 \<and> args ! 0 = ''--cgi'' then Inr modeCGI
      else Inl (Sentinel main_ErrInvalidArguments))"

text \<open>The error and the lines on the standard output; the handler is that of the process.\<close>

definition web_run :: "goerror option \<Rightarrow> handler option \<Rightarrow> service_event \<Rightarrow> goerror option \<times> string list" where
  "web_run listen_err h event =
     (case listen_err of
        Some err \<Rightarrow> (Some (wrapf ''startup'' err), [])
      | None \<Rightarrow>
          (case webadmin_Serve True True (h \<noteq> None) event of
             Some err \<Rightarrow> (Some (wrapf ''web server'' err), [''AAMM-NG web started''])
           | None \<Rightarrow> (None, [''AAMM-NG web started'', ''AAMM-NG web stopped''])))"

definition production_handler :: "json_texts \<Rightarrow> (string \<Rightarrow> string) \<Rightarrow> network \<Rightarrow> Client \<Rightarrow> transport \<Rightarrow> handler option" where
  "production_handler texts number net client tr =
     NewHandler (Some (production_verifier net)) (Some (client_manager texts number (Some client) tr))"

text \<open>No pattern makes the router panic, so the process always has a handler; it ends without an error when
  it could listen and the service had none to report.\<close>

lemma production_handler_exists: "\<exists>h. production_handler texts number net client tr = Some h"
  by (simp add: production_handler_def NewHandler_def newHandler_routes)

lemma web_run_succeeds:
  "fst (web_run listen_err (production_handler texts number net client tr) event) = None \<longleftrightarrow>
     listen_err = None \<and> webadmin_Serve True True True event = None"
  using production_handler_exists [of texts number net client tr]
  by (auto simp: web_run_def split: option.split)

text \<open>\<open>err.Error()\<close> of the HTTP library's errors.\<close>

fun http_error_text :: "http_error \<Rightarrow> string" where
  "http_error_text EOF = ''EOF''"
| "http_error_text UnexpectedEOF = ''unexpected EOF''"
| "http_error_text (ParseError status msg) = msg"
| "http_error_text (MaxBytesError limit) = ''http: request body too large''"
| "http_error_text (HttpError msg) = msg"
| "http_error_text (NetError err) = error_text err"

text \<open>\<open>main\<close>: the exit status, the standard output and the standard error; \<open>server\<close> is what
  \<open>web_run\<close> returned when the process runs as a server.\<close>

definition web_main ::
  "(string \<Rightarrow> string option) \<Rightarrow> network \<Rightarrow> body \<Rightarrow> (string \<Rightarrow> string) \<Rightarrow> goerror option \<times> string list \<Rightarrow> string list \<Rightarrow>
     nat \<times> string \<times> string"
where
  "web_main parse_host net stdin getenv server args =
     (case parseMode args of
        Inl _ \<Rightarrow> (2, [], ''usage: aamm-ng-web [--cgi]'' @ [LF])
      | Inr modeCGI \<Rightarrow>
          (case cgi_Run parse_host net stdin getenv of
             (out, None) \<Rightarrow> (0, out, [])
           | (out, Some err) \<Rightarrow> (1, out, ''aamm-ng-web CGI: '' @ http_error_text err @ [LF]))
      | Inr modeServer \<Rightarrow>
          (case server of (err, lines) \<Rightarrow>
             let out = concat (map (\<lambda>line. line @ [LF]) lines)
             in case err of
               None \<Rightarrow> (0, out, [])
             | Some err \<Rightarrow> (1, out, ''aamm-ng-web: '' @ error_text err @ [LF])))"

subsection \<open>The service comes to an end\<close>

text \<open>The accept loop of a closed server that is still in it can only end with \<open>ErrServerClosed\<close>.\<close>

definition ends_closed :: "server_state \<Rightarrow> bool" where
  "ends_closed s \<longleftrightarrow> sv_closed s \<and> (\<forall>err. sv_place s = Returned err \<longrightarrow> err = Sentinel minihttp_ErrServerClosed)"

lemma server_step_ends_closed: "server_step s t \<Longrightarrow> ends_closed s \<Longrightarrow> ends_closed t"
  by (induction rule: server_step.induct) (auto simp: ends_closed_def)

lemma server_run_ends_closed: "server_run s t \<Longrightarrow> ends_closed s \<Longrightarrow> ends_closed t"
  by (induction rule: server_run.induct) (auto dest: server_step_ends_closed)

lemma server_run_one: "server_step s t \<Longrightarrow> server_run s t"
  by (blast intro: server_run.intros)

text \<open>Once closed, the loop has a step to its return.\<close>

lemma loop_returns:
  assumes "sv_closed s"
  shows "\<exists>t err. server_run s t \<and> sv_place t = Returned err \<and> sv_shut t = sv_shut s"
proof (cases "sv_place s")
  case Starting
  from server_run_one [OF server_step.begin_closed [OF this assms]] show ?thesis by fastforce
next
  case Accepting
  from server_run_one [OF server_step.accept_closed [OF this assms]] show ?thesis by fastforce
next
  case (Holding c)
  from server_run_one [OF server_step.drop_closed [OF this assms]] show ?thesis by fastforce
next
  case (Returned err)
  then show ?thesis using server_run.stop by blast
qed

text \<open>
  C12: A service that is told to stop while it runs stops cleanly.  From any state in which \<open>Shutdown\<close> has
  begun and the accept loop has not returned, whatever the interleaving, \<open>Serve\<close> has no error to report
  when the loop returns and \<open>Shutdown\<close> succeeds; and a run to such an end always exists.
\<close>

theorem service_stops_cleanly:
  assumes "server_reachable s" "sv_closed s" "\<And>err. sv_place s \<noteq> Returned err"
  shows "(\<forall>t err. server_run s t \<and> sv_place t = Returned err \<longrightarrow> webadmin_Serve True True True (Context_done None err) = None) \<and>
    (\<exists>t err. server_run s t \<and> sv_shut t \<and> sv_place t = Returned err)"
proof
  have "ends_closed s" using assms(2,3) by (simp add: ends_closed_def)
  then have closed: "ends_closed t" if "server_run s t" for t
    using that server_run_ends_closed by blast
  show "\<forall>t err. server_run s t \<and> sv_place t = Returned err \<longrightarrow> webadmin_Serve True True True (Context_done None err) = None"
    by (force simp: ends_closed_def webadmin_Serve_def serve_result_def dest: closed)
  obtain t where t: "server_run s t" "sv_shut t" using drains [OF assms(1,2)] by blast
  from closed [OF t(1)] have "sv_closed t" by (simp add: ends_closed_def)
  from loop_returns [OF this] t show "\<exists>t err. server_run s t \<and> sv_shut t \<and> sv_place t = Returned err"
    using server_run_trans by blast
qed

end
