(* ===== verification/Http_Examples.thy ===== *)
theory Http_Examples
  imports Http_Accept Http_Exchange "HOL-Library.Code_Target_Nat"
begin

text \<open>The theorems on the HTTP library at concrete inputs.\<close>

subsection \<open>A server with one connection\<close>

definition listening_server :: server_state where
  "listening_server = fresh_server\<lparr>sv_place := Accepting\<rparr>"

definition busy_server :: server_state where
  "busy_server = fresh_server\<lparr>sv_place := Accepting, sv_slots := 1, sv_seen := {7}, sv_conns := [7 \<mapsto> Reading], sv_wg := 1\<rparr>"

definition closing_server :: server_state where
  "closing_server = busy_server\<lparr>sv_closed := True, sv_listening := False, sv_cut := {7}\<rparr>"

lemma busy_reachable: "server_reachable busy_server"
proof -
  have "server_step fresh_server listening_server"
    using server_step.begin_serve [of fresh_server] by (simp add: fresh_server_def listening_server_def)
  then have "server_reachable listening_server"
    by (rule server_reachable.step [OF server_reachable.fresh])
  moreover have "server_step listening_server (listening_server\<lparr>sv_place := Holding 7, sv_slots := 1, sv_seen := {7}\<rparr>)"
    using server_step.accept [of listening_server 7] by (simp add: listening_server_def fresh_server_def maxConnections_def)
  ultimately have r: "server_reachable (listening_server\<lparr>sv_place := Holding 7, sv_slots := 1, sv_seen := {7}\<rparr>)"
    by (rule server_reachable.step)
  have "server_step (listening_server\<lparr>sv_place := Holding 7, sv_slots := 1, sv_seen := {7}\<rparr>) busy_server"
    using server_step.register [of "listening_server\<lparr>sv_place := Holding 7, sv_slots := 1, sv_seen := {7}\<rparr>" 7]
    by (simp add: listening_server_def busy_server_def fresh_server_def)
  with r show ?thesis by (rule server_reachable.step)
qed

lemma closing_reachable: "server_reachable closing_server"
proof -
  have "not_started busy_server = {7}" by (auto simp: not_started_def busy_server_def)
  then have "server_step busy_server closing_server"
    using server_step.shutdown [of busy_server] by (simp add: busy_server_def closing_server_def fresh_server_def)
  then show ?thesis by (rule server_reachable.step [OF busy_reachable])
qed

lemma connections_are_bounded_witness:
  "card (serving busy_server) \<le> maxConnections \<and> sv_slots busy_server = card (serving busy_server \<union> held (sv_place busy_server))"
  using connections_are_bounded [OF busy_reachable] by blast

lemma shutdown_drains_witness: "sv_conns closing_server 7 = Some Reading \<and> (\<exists>t. server_run closing_server t \<and> sv_shut t)"
proof -
  have "sv_closed closing_server" by (simp add: closing_server_def)
  from shutdown_drains [OF closing_reachable this] show ?thesis by (simp add: closing_server_def busy_server_def)
qed

text \<open>The connection is read, handled and signed off, the accept loop returns, and \<open>Shutdown\<close> is called
  again and again.\<close>

definition closing_run :: "nat \<Rightarrow> server_state" where
  "closing_run i =
     (if i = 0 then closing_server
      else if i = 1 then closing_server\<lparr>sv_conns := [7 \<mapsto> Handling]\<rparr>
      else if i = 2 then closing_server\<lparr>sv_slots := 0, sv_conns := [7 \<mapsto> Released True]\<rparr>
      else if i = 3 then closing_server\<lparr>sv_slots := 0, sv_conns := [7 \<mapsto> Deleted]\<rparr>
      else if i = 4 then closing_server\<lparr>sv_slots := 0, sv_conns := Map.empty, sv_wg := 0\<rparr>
      else closing_server\<lparr>sv_place := Returned (Sentinel minihttp_ErrServerClosed), sv_slots := 0, sv_conns := Map.empty,
        sv_wg := 0\<rparr>)"

lemmas closing_simps = closing_run_def closing_server_def busy_server_def fresh_server_def

lemma closing_run_step: "server_step (closing_run i) (closing_run (Suc i))"
proof -
  consider "i = 0" | "i = 1" | "i = 2" | "i = 3" | "i = 4" | "5 \<le> i" by linarith
  then show ?thesis
  proof cases
    case 1
    then show ?thesis using server_step.start [of closing_server 7] by (simp add: closing_simps)
  next
    case 2
    then show ?thesis using server_step.release [of "closing_run 1" 7 Handling] by (simp add: closing_simps)
  next
    case 3
    then show ?thesis using server_step.delete [of "closing_run 2" 7 True] by (simp add: closing_simps)
  next
    case 4
    then show ?thesis using server_step.sign_off [of "closing_run 3" 7] by (simp add: closing_simps fun_upd_idem)
  next
    case 5
    then show ?thesis using server_step.accept_closed [of "closing_run 4"] by (simp add: closing_simps)
  next
    case 6
    have "not_started (closing_run i) = {}" using 6 by (simp add: not_started_def closing_simps)
    with 6 show ?thesis using server_step.shutdown [of "closing_run i"] by (simp add: closing_simps)
  qed
qed

lemma closing_run_fair: "fair closing_run"
proof -
  have fin: "sv_conns (closing_run (i + 5)) c = None" "sv_place (closing_run (i + 5)) = Returned (Sentinel minihttp_ErrServerClosed)"
    for i c by (simp_all add: closing_run_def)
  have gone: "sv_conns t c = None" if "server_step (closing_run i) t" "sv_conns (closing_run i) c = None" for i t c
  proof -
    have "sv_closed (closing_run i)" by (simp add: closing_simps)
    with server_step_closed [OF that(1)] that(2) show ?thesis by blast
  qed
  have over: "sv_place t = Returned err" if "server_step s t" "sv_place s = Returned err" for s t err
    using that by (cases rule: server_step.cases) auto
  have "\<exists>j \<ge> i. sv_conns (closing_run j) c \<noteq> sv_conns (closing_run i) c"
    if "server_step (closing_run i) t" "sv_conns t c \<noteq> sv_conns (closing_run i) c" for i t c
    using that gone [of i t c] fin(1) [of i c] by (intro exI [of _ "i + 5"]) auto
  moreover have "\<exists>j \<ge> i. sv_place (closing_run j) \<noteq> sv_place (closing_run i)"
    if "server_step (closing_run i) t" "sv_place t \<noteq> sv_place (closing_run i)" for i t
    using that over [OF that(1)] by (metis fin(2) le_add1)
  ultimately show ?thesis unfolding fair_def by blast
qed

lemma closed_server_comes_to_rest_witness:
  "sv_conns (closing_run 0) 7 = Some Reading \<and> (\<exists>n. sv_conns (closing_run n) = Map.empty \<and> sv_wg (closing_run n) = 0)"
proof -
  have "server_reachable (closing_run 0)" "sv_closed (closing_run 0)" "sv_conns (closing_run 0) 7 = Some Reading"
    using closing_reachable by (simp_all add: closing_simps)
  with closed_server_comes_to_rest [OF this(1,2) closing_run_step] closing_run_fair show ?thesis by blast
qed

subsection \<open>A body cut at its limit\<close>

lemma body_limit_is_exact_witness:
  "drain body_Read [1, 2, 3, 4, 5, 6, 7] (MaxBytesReader (BodyReader \<lparr>cr_chunks = [''he'', ''llo''], cr_end = EOF\<rparr> 5) 3) =
     (''hel'', Some (MaxBytesError 3))"
  using body_limit_is_exact [of "[1, 2, 3, 4, 5, 6, 7]" "\<lparr>cr_chunks = [''he'', ''llo''], cr_end = EOF\<rparr>" 5 3]
  by (simp add: rest_text_def)

subsection \<open>A request and a response\<close>

definition sample_request :: http_request where
  "sample_request = \<lparr>hq_Method = ''POST'', hq_URL = empty_URL\<lparr>url_Path := ''/alerts/node one'', url_RawQuery := ''a=1''\<rparr>,
     hq_Header = [(''Content-Type'', [''text/plain'']), (''Origin'', ['' http://node ''])], hq_Body = NoBody,
     hq_ContentLength = 5, hq_Host = ''node.local'', hq_RemoteAddr = [], hq_Form = None, hq_PostForm = None,
     hq_pathValues = [], hq_ctx = None\<rparr>"

definition sample_input :: conn_reader where
  "sample_input = \<lparr>cr_chunks = [request_bytes sample_request ''node.local'' ''hello'' 5, ''GET''], cr_end = EOF\<rparr>"

lemma requests_arrive_unchanged_witness:
  "\<exists>q. server_readRequest sample_input 16384 = Inr q \<and> hq_Method q = ''POST'' \<and> hq_Host q = ''node.local'' \<and>
     url_Path (hq_URL q) = ''/alerts/node one'' \<and> fst (ReadAll (hq_Body q)) = (''hello'', None) \<and>
     header_Values (hq_Header q) ''Origin'' = [''http://node'']"
proof -
  have pre: "isToken (hq_Method sample_request)" "plain_url (hq_URL sample_request)" "validHost ''node.local''"
    "wf_header (hq_Header sample_request)" "int (length ''hello'') \<le> maxRequestBodyBytes"
    "length (request_line sample_request) \<le> 8192"
    "length (concat (map field_text (request_fields sample_request ''node.local'' (length ''hello'')))) \<le> 16384"
    by code_simp+
  have input: "rest_text sample_input = request_bytes sample_request ''node.local'' ''hello'' (int (length ''hello'')) @ ''GET''"
    by (simp add: sample_input_def rest_text_def)
  obtain q where q: "server_readRequest sample_input 16384 = Inr q" "hq_Method q = hq_Method sample_request"
    "hq_Host q = ''node.local''" "url_Path (hq_URL q) = url_Path (hq_URL sample_request)"
    "fst (ReadAll (hq_Body q)) = (''hello'', None)"
    "\<And>key. \<not> list_ex (EqualFold (CanonicalHeaderKey key)) reserved_fields \<Longrightarrow>
      header_Values (hq_Header q) key = map trimmed (header_Values (hq_Header sample_request) key)"
    using requests_arrive_unchanged [OF pre input] by blast
  have "\<not> list_ex (EqualFold (CanonicalHeaderKey ''Origin'')) reserved_fields"
    "map trimmed (header_Values (hq_Header sample_request) ''Origin'') = [''http://node'']"
    by code_simp+
  with q show ?thesis by (simp add: sample_request_def empty_URL_def)
qed

definition sample_writer :: responseWriter where
  "sample_writer = \<lparr>rw_header = [(''Location'', [''/''])], rw_status = 303, rw_wroteHeader = True, rw_head = False,
     rw_body = ''moved'', rw_panic = None\<rparr>"

lemma responses_arrive_unchanged_witness:
  "\<exists>response. final_response ''GET'' \<lparr>cr_chunks = [finish sample_writer], cr_end = EOF\<rparr> = Inr response \<and>
     hr_StatusCode response = 303 \<and> fst (ReadAll (hr_Body response)) = (''moved'', None)"
proof -
  have status: "rw_wroteHeader sample_writer \<longrightarrow> 200 \<le> rw_status sample_writer \<and> rw_status sample_writer \<le> 999"
    "wf_header (rw_header sample_writer)" "length (rw_body sample_writer) \<le> maxResponseBodyBytes"
    "sample_writer = (if rw_wroteHeader sample_writer then sample_writer else WriteHeader 200 sample_writer)"
    "length (concat (map field_text (response_fields sample_writer))) \<le> maxResponseHeaderBytes"
    "rw_head sample_writer \<longleftrightarrow> ''GET'' = MethodHead" "bodyAllowed (rw_status sample_writer)"
    by code_simp+
  have "rest_text \<lparr>cr_chunks = [finish sample_writer], cr_end = EOF\<rparr> = finish sample_writer @ []"
    by (simp add: rest_text_def)
  from responses_arrive_unchanged [OF status(1-6) this] status(7) show ?thesis
    by (auto simp: sample_writer_def)
qed

end
