(* ===== verification/Web_Examples.thy ===== *)
theory Web_Examples
  imports Web_Safety Cgi_Safety Control_Refinement Control_Examples Web_Process Http_Examples "HOL-Library.Code_Target_Nat"
begin

text \<open>The theorems on the web service, the CGI process and the client over the wire at concrete inputs.\<close>

subsection \<open>The web service\<close>

definition demo_web_request :: "string \<Rightarrow> string \<Rightarrow> http_request" where
  "demo_web_request source path = \<lparr>hq_Method = ''GET'', hq_URL = empty_URL\<lparr>url_Path := path\<rparr>,
     hq_Header = [(''Cookie'', [''authV1=abc'']), (CanonicalHeaderKey SourceIPHeader, [source])], hq_Body = NoBody,
     hq_ContentLength = 0, hq_Host = ''node.local'', hq_RemoteAddr = [], hq_Form = None, hq_PostForm = None,
     hq_pathValues = [], hq_ctx = None\<rparr>"

definition demo_verifier :: verifier where
  "demo_verifier cookie = Inr \<lparr>session_Authenticated = True, session_Name = ''KX1X-node''\<rparr>"

definition demo_transport :: transport where
  "demo_transport = server_transport demo_texts (alert_store_operations demo_store) (Some manager_operations)
     demo_manager (demo_world [])"

definition demo_alerts :: AlertManager where
  "demo_alerts = client_manager demo_texts (\<lambda>n. n) None demo_transport"

definition broken_alerts :: AlertManager where
  "broken_alerts = demo_alerts\<lparr>am_Create := (\<lambda>_ _ _. fail_io (new_error ''down'')), am_Write := (\<lambda>_ _ _. fail_io (new_error ''down'')),
     am_Convert := (\<lambda>_ _ _. fail_io (new_error ''down'')), am_Delete := (\<lambda>_ _. fail_io (new_error ''down''))\<rparr>"

lemma strangers_change_nothing_witness:
  "trustedSourceIP (demo_web_request ''nowhere'' ''/'') = None \<and>
   (\<exists>h w. newHandler (Some demo_verifier) (Some demo_alerts) None = Some h \<and>
     h (demo_web_request ''nowhere'' ''/'') (new_writer False) = return_io w \<and> rw_status w \<in> {401, 503})"
proof -
  obtain h where h: "newHandler (Some demo_verifier) (Some demo_alerts) None = Some h"
    by (simp add: newHandler_routes)
  have t: "trustedSourceIP (demo_web_request ''nowhere'' ''/'') = None" by code_simp
  have "hq_Method (demo_web_request ''nowhere'' ''/'') \<noteq> MethodHead" by code_simp
  then show ?thesis using strangers_change_nothing [OF h, of "demo_web_request ''nowhere'' ''/''"] t h by auto
qed

lemma broken_alerts_same: "same_calls ctx False demo_alerts broken_alerts"
  by (simp add: same_calls_def broken_alerts_def)

lemma only_admin_calls_reach_the_manager_witness:
  "admitted (Some demo_verifier) (demo_web_request ''10.1.2.3'' ''/'') =
     Some \<lparr>identity_Name = ''KX1X-node'', identity_SourceIP = ''10.1.2.3''\<rparr> \<and>
   (\<exists>ha hb. newHandler (Some demo_verifier) (Some demo_alerts) None = Some ha \<and>
     newHandler (Some demo_verifier) (Some broken_alerts) None = Some hb \<and>
     ha (demo_web_request ''10.1.2.3'' ''/'') (new_writer False) = hb (demo_web_request ''10.1.2.3'' ''/'') (new_writer False))"
proof -
  obtain ha hb where h: "newHandler (Some demo_verifier) (Some demo_alerts) None = Some ha"
    "newHandler (Some demo_verifier) (Some broken_alerts) None = Some hb"
    by (simp add: newHandler_routes)
  have "admitted (Some demo_verifier) (demo_web_request ''10.1.2.3'' ''/'') =
     Some \<lparr>identity_Name = ''KX1X-node'', identity_SourceIP = ''10.1.2.3''\<rparr>" by code_simp
  moreover have "hq_Method (demo_web_request ''10.1.2.3'' ''/'') \<noteq> MethodPost" by code_simp
  then have "ha (demo_web_request ''10.1.2.3'' ''/'') (new_writer False) = hb (demo_web_request ''10.1.2.3'' ''/'') (new_writer False)"
    by (intro only_admin_calls_reach_the_manager [OF h]) (simp add: broken_alerts_same)
  ultimately show ?thesis using h by blast
qed

subsection \<open>The CGI process\<close>

definition demo_getenv :: "string \<Rightarrow> string" where
  "demo_getenv name =
     (case map_of [(''REQUEST_METHOD'', ''POST''), (''HTTP_HOST'', ''node.local''), (''PATH_INFO'', ''/alerts/new''),
        (''QUERY_STRING'', ''a=1''), (''REMOTE_ADDR'', ''::ffff:10.1.2.3''), (''CONTENT_LENGTH'', ''5''),
        (''HTTP_COOKIE'', ''authV1=abc'')] name of None \<Rightarrow> [] | Some v \<Rightarrow> v)"

definition demo_stdin :: body where
  "demo_stdin = ConnBody \<lparr>cr_chunks = [''he'', ''llo''], cr_end = EOF\<rparr>"

definition demo_cgi :: http_request where
  "demo_cgi = (case cgi_newRequest Some demo_stdin demo_getenv of Inr r \<Rightarrow> r | Inl _ \<Rightarrow> demo_web_request [] [])"

definition demo_cgi_input :: conn_reader where
  "demo_cgi_input = \<lparr>cr_chunks = [request_bytes demo_cgi (hq_Host demo_cgi) ''hello'' 5], cr_end = EOF\<rparr>"

lemma demo_cgi_run: "cgi_newRequest Some demo_stdin demo_getenv = Inr demo_cgi"
proof -
  have "(case cgi_newRequest Some demo_stdin demo_getenv of Inr r \<Rightarrow> True | Inl _ \<Rightarrow> False)" by code_simp
  then show ?thesis by (simp add: demo_cgi_def split: sum.splits)
qed

lemma service_reads_the_environment_witness:
  "\<exists>q. server_readRequest demo_cgi_input 16384 = Inr q \<and> hq_Method q = ''POST'' \<and> url_Path (hq_URL q) = ''/alerts/new'' \<and>
     header_Values (hq_Header q) SourceIPHeader = [''10.1.2.3''] \<and> fst (ReadAll (hq_Body q)) = (''hello'', None)"
proof -
  have pre: "demo_getenv ''REMOTE_ADDR'' \<noteq> []" "list_all visible (demo_getenv ''QUERY_STRING'')"
    "CHR ''#'' \<notin> set (demo_getenv ''QUERY_STRING'')" "Some BackendAddress = Some BackendAddress" "body_ok demo_stdin"
    "request_problem demo_cgi (hq_Host demo_cgi) = None" "outgoingBody demo_cgi = Inr (''hello'', 5)"
    "5 \<le> maxRequestBodyBytes" "length (request_line demo_cgi) \<le> 8192"
    "length (concat (map field_text (request_fields demo_cgi (hq_Host demo_cgi) (length ''hello'')))) \<le> 16384"
    by code_simp+
  have input: "rest_text demo_cgi_input = request_bytes demo_cgi (hq_Host demo_cgi) ''hello'' 5 @ []"
    by (simp add: demo_cgi_input_def rest_text_def)
  obtain q a where q: "server_readRequest demo_cgi_input 16384 = Inr q" "hq_Method q = demo_getenv ''REQUEST_METHOD''"
    "requestPath Some demo_getenv = Inr (url_Path (hq_URL q))" "fst (ReadAll (hq_Body q)) = (declared_body demo_getenv demo_stdin, None)"
    "ParseAddr (demo_getenv ''REMOTE_ADDR'') = Some a"
    "header_Values (hq_Header q) SourceIPHeader = [trimmed (addr_String (Unmap a))]"
    using service_reads_the_environment [where parse_host = Some, OF demo_cgi_run pre input] by blast
  have "requestPath Some demo_getenv = Inr ''/alerts/new''" "demo_getenv ''REQUEST_METHOD'' = ''POST''"
    "declared_body demo_getenv demo_stdin = ''hello''"
    "map_option (\<lambda>a. trimmed (addr_String (Unmap a))) (ParseAddr (demo_getenv ''REMOTE_ADDR'')) = Some ''10.1.2.3''"
    by code_simp+
  with q show ?thesis by simp
qed

subsection \<open>The client over the wire\<close>

definition demo_context :: "call_context option" where
  "demo_context = Some \<lparr>ctx_identity = Some \<lparr>identity_Name = ''kx1x-node'', identity_SourceIP = ''10.1.2.3''\<rparr>\<rparr>"

lemma demo_audit_run: "mutationAuditFromContext None demo_context (demo_world []) = (Inr demo_audit, demo_world [])"
proof -
  have "FromContext demo_context = Some \<lparr>identity_Name = ''kx1x-node'', identity_SourceIP = ''10.1.2.3''\<rparr>" by code_simp
  moreover have "map_option (\<lambda>a. addr_String (Unmap a)) (ParseAddr ''10.1.2.3'') = Some ''10.1.2.3''" by code_simp
  moreover have "validateMutationAudit demo_audit = None" by code_simp
  ultimately show ?thesis
    by (auto simp: mutationAuditFromContext_def sourceAttribution_def with_lease_host_def no_attribution_def
        bind_io_def return_io_def demo_audit_def Let_def)
qed

lemma demo_request_fits: "request_fits (alert_request OperationCreate (demo_target ''new'') ''Hi'' demo_audit)"
  by code_simp

text \<open>Printing is decided on a response whose only number is the version.\<close>

fun prints :: "nat \<Rightarrow> json \<Rightarrow> bool" where
  "prints d (JNumber s) \<longleftrightarrow> s = ''2''"
| "prints d (JString s) \<longleftrightarrow> ValidString s"
| "prints d (JArray vs) \<longleftrightarrow> 0 < d \<and> list_all (prints (d - 1)) vs"
| "prints d (JObject ms) \<longleftrightarrow> 0 < d \<and> list_all (\<lambda>(k, v). ValidString k \<and> prints (d - 1) v) ms"
| "prints d _ \<longleftrightarrow> True"

lemma prints_printable: "prints d j \<Longrightarrow> printable d j"
proof (induction d j rule: prints.induct)
  case (1 d s)
  have "show_int 2 = ''2''" by code_simp
  with 1 show ?case by (metis prints.simps(1) printable.simps(1))
qed (auto simp: list_all_iff)

lemma sendable_here:
  "prints max_depth (response_json response) \<and> length (json_print (response_json response)) \<le> MaxResponseBytes \<Longrightarrow>
     sendable response"
  by (simp add: sendable_def prints_printable)

lemma ensure_absent: "w_script w = [] \<Longrightarrow> lookup (w_fs w) AlertDir (Filename t) = None \<Longrightarrow> ensureManagedWritable AlertDir t w = (Inr (), w)"
  by (simp add: ensureManagedWritable_def readEntry_def io_simps enoent_def Let_def)

text \<open>The steps of \<open>writeManagedChecked\<close> before its check.\<close>

definition written :: "target \<Rightarrow> message \<Rightarrow> unit io" where
  "written t m = bind_io (createTemporaryAlert AlertDir) (\<lambda>(file, name).
     bind_io (write_temporary t m file) (\<lambda>_. Close file))"

lemma written_demo: "fst (written (demo_target ''new'') demo_message (demo_world [])) = Inr ()"
  "w_script (snd (written (demo_target ''new'') demo_message (demo_world []))) = []"
  "lookup (w_fs (snd (written (demo_target ''new'') demo_message (demo_world [])))) AlertDir (Filename (demo_target ''new'')) = None"
  by code_simp+

lemma demo_write_unverified: "fst (writeManagedChecked AlertDir (demo_target ''new'') demo_message (return_io ()) (demo_world [])) = Inr ()" by code_simp

lemma check_passes:
  assumes "fst (written t m w) = Inr ()" "check (snd (written t m w)) = (Inr (), snd (written t m w))"
  shows "writeManagedChecked AlertDir t m check w = writeManagedChecked AlertDir t m (return_io ()) w"
  using assms
  by (auto simp: writeManagedChecked_def written_def bind_io_def map_error_def on_error_def return_io_def split: prod.splits sum.splits)

lemma demo_managed_write: "fst (writeManaged AlertDir (demo_target ''new'') demo_message (demo_world [])) = Inr ()"
  unfolding writeManaged_def
  using demo_write_unverified check_passes [where check = "ensureManagedWritable AlertDir (demo_target ''new'')",
      OF written_demo(1) ensure_absent [OF written_demo(2,3)]] by simp

abbreviation demo_absent :: goerror where
  "demo_absent \<equiv> with_backup ''inspect alert '' (demo_target ''new'') '' for conversion'' enoent"

lemma demo_absent_backup: "backupAlert AlertDir BackupDir (demo_target ''new'') managed (demo_world []) = (Inl demo_absent, demo_world [])"
  by (simp add: backupAlert_def Let_def io_simps demo_world_def demo_fs_def lookup_def demo_target_def Filename_def flip: One_nat_def)

lemma demo_results:
  "fst (Store_Write demo_store (demo_target ''new'') demo_message (demo_world [])) = Inr ()"
  "fst (Store_Delete demo_store (demo_target ''new'') (demo_world [])) = Inl demo_absent"
  "fst (Store_ConvertLegacy demo_store (demo_target ''new'') demo_message (demo_world [])) = Inl demo_absent"
proof -
  have "ensureManagedWritable AlertDir (demo_target ''new'') (demo_world []) = (Inr (), demo_world [])"
    by (rule ensure_absent) (simp_all add: demo_world_def demo_fs_def lookup_def demo_target_def Filename_def)
  moreover
  have "target_String (demo_target ''new'') \<noteq> []" "Filename (demo_target ''new'') \<noteq> []" "message_String demo_message \<noteq> []"
    "alertRoot demo_store = Some AlertDir" "backupRoot demo_store = Some BackupDir"
    by (code_simp, code_simp, code_simp, simp_all add: demo_store_def)
  ultimately show "fst (Store_Write demo_store (demo_target ''new'') demo_message (demo_world [])) = Inr ()"
    "fst (Store_Delete demo_store (demo_target ''new'') (demo_world [])) = Inl demo_absent"
    "fst (Store_ConvertLegacy demo_store (demo_target ''new'') demo_message (demo_world [])) = Inl demo_absent"
    by (simp_all add: Store_Write_def Store_Delete_def Store_ConvertLegacy_def bind_io_def demo_absent_backup demo_managed_write)
qed

lemma demo_sendable:
  "sendable (Success (ResultCreate \<lparr>cr_Target = ''new'', cr_Kind = ''managed''\<rparr>))"
  "sendable (Success (ResultWrite \<lparr>wr_Target = ''new'', wr_Kind = ''managed''\<rparr>))"
  "sendable (responseForError demo_absent)"
  by (intro sendable_here, code_simp)+

lemma remote_mutations_are_the_stores_witness:
  "fst (Client_Create demo_texts (\<lambda>n. n) None demo_context demo_transport ''new'' ''Hi'' (demo_world [])) =
     Inr \<lparr>cr_Target = ''new'', cr_Kind = ''managed''\<rparr>"
proof -
  let ?store = "alert_store_operations demo_store" and ?t = "demo_target ''new''" and ?w = "demo_world []"
  have pre: "target_Parse ''new'' = Inr ?t" "message_Parse ''Hi'' = Inr demo_message" "audit_utf8 demo_audit"
    "target_String ?t = ''new''"
    by code_simp+
  have msg: "message_String demo_message = ''Hi''" by code_simp
  have s: "sendable (response_of (\<lambda>_. ResultCreate \<lparr>cr_Target = target_String ?t, cr_Kind = ''managed''\<rparr>)
      (fst (op_Create ?store ?t demo_message ?w)))"
    "sendable (response_of (\<lambda>_. ResultWrite \<lparr>wr_Target = target_String ?t, wr_Kind = ''managed''\<rparr>)
      (fst (op_Write ?store ?t demo_message ?w)))"
    "sendable (response_of (\<lambda>r. ResultConvert \<lparr>vr_Target = target_String ?t, vr_Kind = ''managed'',
       vr_BackupName = conversion_BackupName r\<rparr>) (fst (op_ConvertLegacy ?store ?t demo_message ?w)))"
    "sendable (response_of (\<lambda>r. ResultDelete \<lparr>dr_Target = target_String ?t, dr_BackupName = delete_BackupName r\<rparr>)
       (fst (op_Delete ?store ?t ?w)))"
    using demo_sendable by (simp_all add: alert_store_operations_def demo_create demo_results response_of_def pre(4))
  have "fst (op_Create ?store ?t demo_message ?w) = Inr ()"
    using demo_create by (simp add: alert_store_operations_def)
  with remote_mutations_are_the_stores [OF pre(1,2) demo_audit_run pre(3) s demo_transport_def, of "\<lambda>n. n"] pre(4)
    demo_request_fits msg
  show ?thesis by (simp add: remote_view_def)
qed

subsection \<open>The end of the web process\<close>

lemma service_stops_cleanly_witness:
  "sv_conns closing_server 7 = Some Reading \<and>
   (\<exists>t err. server_run closing_server t \<and> sv_shut t \<and> sv_place t = Returned err \<and>
     webadmin_Serve True True True (Context_done None err) = None)"
proof -
  have "sv_closed closing_server" "sv_place closing_server = Accepting" "sv_conns closing_server 7 = Some Reading"
    by (simp_all add: closing_server_def busy_server_def)
  with service_stops_cleanly [OF closing_reachable] show ?thesis by auto
qed

end
