(* ===== verification/Store_Open.thy ===== *)
theory Store_Open
  imports Store_List
begin

text \<open>
  The life of a store: \<open>Open\<close>, \<open>openRoot\<close> and \<open>Close\<close> of internal/alertstore/store.go.  The two
  directories are reached by path, before they are open; what the operating system answers to the
  calls on a path is a record of answers.  Each result comes with the number of roots left open.
\<close>

subsection \<open>Opening a root\<close>

text \<open>\<open>os.Lstat\<close>, \<open>os.OpenRoot\<close> and \<open>root.Stat(".")\<close>, in the order of the calls.\<close>

record root_os =
  ros_Lstat :: "goerror + path_info"
  ros_OpenRoot :: "goerror option"
  ros_Stat :: "goerror + path_info"

text \<open>The error \<open>"%w: %s: %w"\<close>, and the verb \<open>%04o\<close> of permission bits.\<close>

definition invalid_root :: "sentinel \<Rightarrow> string \<Rightarrow> goerror \<Rightarrow> goerror" where
  "invalid_root s path err =
     Errorf (sentinel_text s @ '': '' @ path @ '': '' @ error_text err) [Sentinel s, err]"

definition octal4 :: "nat \<Rightarrow> string" where
  "octal4 n = map digit_char [n div 512 mod 8, n div 64 mod 8, n div 8 mod 8, n mod 8]"

definition openRoot :: "root_os \<Rightarrow> dirid \<Rightarrow> string \<Rightarrow> sentinel \<Rightarrow> nat \<Rightarrow> (goerror + dirid) \<times> nat" where
  "openRoot os root path invalidError requiredMode =
     (if path = [] then (Inl (sentinelf invalidError ''path is empty''), 0)
      else case ros_Lstat os of
        Inl err \<Rightarrow> (Inl (invalid_root invalidError path err), 0)
      | Inr info \<Rightarrow>
          if pi_kind info = Path_Symlink \<or> pi_kind info \<noteq> Path_Directory
          then (Inl (sentinelf invalidError path), 0)
          else if requiredMode \<noteq> 0 \<and> pi_perm info \<noteq> requiredMode
          then (Inl (sentinelf invalidError
                 (path @ '' has mode '' @ octal4 (pi_perm info) @ ''; want '' @ octal4 requiredMode)), 0)
          else case ros_OpenRoot os of
            Some err \<Rightarrow> (Inl (invalid_root invalidError path err), 0)
          | None \<Rightarrow>
              let opened = 1 in
              (case ros_Stat os of
                 Inl err \<Rightarrow> (Inl (invalid_root invalidError path err), opened - 1)
               | Inr openedInfo \<Rightarrow>
                   if pi_ino info \<noteq> pi_ino openedInfo
                   then (Inl (sentinelf invalidError (''directory changed while opening: '' @ path)), opened - 1)
                   else (Inr root, opened)))"

subsection \<open>Opening and closing the store\<close>

record store_config =
  config_AlertRoot :: string
  config_BackupRoot :: string

definition backup_mode :: nat where "backup_mode = 448"

definition Store_Open :: "root_os \<Rightarrow> root_os \<Rightarrow> store_config \<Rightarrow> (goerror + store) \<times> nat" where
  "Store_Open alert_os backup_os config =
     (case openRoot alert_os AlertDir (config_AlertRoot config) alertstore_ErrInvalidRoot 0 of
        (Inl err, n) \<Rightarrow> (Inl err, n)
      | (Inr alertDir, n) \<Rightarrow>
          (case openRoot backup_os BackupDir (config_BackupRoot config) alertstore_ErrInvalidBackupRoot backup_mode of
             (Inl err, k) \<Rightarrow> (Inl err, n - 1 + k)
           | (Inr backupDir, k) \<Rightarrow> (Inr \<lparr>alertRoot = Some alertDir, backupRoot = Some backupDir\<rparr>, n + k)))"

text \<open>\<open>Close\<close>, with the answers of the two calls of \<open>root.Close\<close>: the joined error and the store left.\<close>

definition Store_Close :: "goerror option \<Rightarrow> goerror option \<Rightarrow> store \<Rightarrow> goerror option \<times> store" where
  "Store_Close alert_err backup_err s =
     (errors_Join ((if alertRoot s \<noteq> None then [alert_err] else []) @ (if backupRoot s \<noteq> None then [backup_err] else [])),
      s\<lparr>alertRoot := None, backupRoot := None\<rparr>)"

subsection \<open>What opening guarantees\<close>

text \<open>The path is that of a directory, not of a symbolic link, and the directory opened is that directory.\<close>

definition genuine_root :: "root_os \<Rightarrow> string \<Rightarrow> nat \<Rightarrow> bool" where
  "genuine_root os path requiredMode \<longleftrightarrow> path \<noteq> [] \<and> ros_OpenRoot os = None \<and>
     (case (ros_Lstat os, ros_Stat os) of
        (Inr info, Inr openedInfo) \<Rightarrow> pi_kind info = Path_Directory \<and> pi_ino info = pi_ino openedInfo \<and>
          (requiredMode = 0 \<or> pi_perm info = requiredMode)
      | _ \<Rightarrow> False)"

lemma errors_is_invalid_root [simp]: "errors_is (invalid_root s path err) s"
  by (simp add: invalid_root_def)

lemma openRoot_genuine: "genuine_root os path requiredMode \<Longrightarrow> openRoot os root path s requiredMode = (Inr root, 1)"
  by (auto simp: genuine_root_def openRoot_def split: sum.splits)

lemma openRoot_refused:
  "\<not> genuine_root os path requiredMode \<Longrightarrow>
     \<exists>err. openRoot os root path s requiredMode = (Inl err, 0) \<and> errors_is err s"
  by (auto simp: genuine_root_def openRoot_def split: sum.splits option.splits)

lemma Store_Open_genuine:
  assumes "genuine_root a (config_AlertRoot c) 0" "genuine_root b (config_BackupRoot c) backup_mode"
  shows "Store_Open a b c = (Inr \<lparr>alertRoot = Some AlertDir, backupRoot = Some BackupDir\<rparr>, 2)"
  using openRoot_genuine [OF assms(1), of AlertDir alertstore_ErrInvalidRoot]
    openRoot_genuine [OF assms(2), of BackupDir alertstore_ErrInvalidBackupRoot]
  by (simp add: Store_Open_def)

lemma Store_Open_refused:
  assumes "\<not> (genuine_root a (config_AlertRoot c) 0 \<and> genuine_root b (config_BackupRoot c) backup_mode)"
  shows "\<exists>err. Store_Open a b c = (Inl err, 0) \<and>
    errors_is err (if genuine_root a (config_AlertRoot c) 0 then alertstore_ErrInvalidBackupRoot else alertstore_ErrInvalidRoot)"
proof (cases "genuine_root a (config_AlertRoot c) 0")
  case True
  with assms openRoot_genuine [OF True, of AlertDir alertstore_ErrInvalidRoot]
    openRoot_refused [of b "config_BackupRoot c" backup_mode BackupDir alertstore_ErrInvalidBackupRoot]
  show ?thesis by (auto simp: Store_Open_def)
next
  case False
  with openRoot_refused [OF False, of AlertDir alertstore_ErrInvalidRoot] show ?thesis by (auto simp: Store_Open_def)
qed

text \<open>
  C11: A store is opened exactly on genuine directories: each path is not empty and names a directory
  that is not a symbolic link, the directory opened is the one that was inspected, and the backup
  directory has mode 0700.  Then both roots are open; otherwise none is left open and the error says
  which of the two was invalid.
\<close>

theorem store_opens_genuine_directories:
  "case Store_Open alert_os backup_os config of
     (Inr s, n) \<Rightarrow> genuine_root alert_os (config_AlertRoot config) 0 \<and>
       genuine_root backup_os (config_BackupRoot config) backup_mode \<and>
       n = 2 \<and> s = \<lparr>alertRoot = Some AlertDir, backupRoot = Some BackupDir\<rparr>
   | (Inl err, n) \<Rightarrow> n = 0 \<and>
       (if genuine_root alert_os (config_AlertRoot config) 0
        then \<not> genuine_root backup_os (config_BackupRoot config) backup_mode \<and> errors_is err alertstore_ErrInvalidBackupRoot
        else errors_is err alertstore_ErrInvalidRoot)"
proof (cases "genuine_root alert_os (config_AlertRoot config) 0 \<and> genuine_root backup_os (config_BackupRoot config) backup_mode")
  case True
  then show ?thesis by (simp add: Store_Open_genuine)
next
  case False
  from Store_Open_refused [OF False] False show ?thesis by (auto split: if_splits)
qed

text \<open>A closed store does nothing any more: every operation fails at once.\<close>

lemma closed_store_refuses:
  assumes "Store_Close a b s = (err, closed)"
  shows "\<exists>e. Store_Read closed t = fail_io e" "\<exists>e. Store_Create closed t m = fail_io e"
    "\<exists>e. Store_Write closed t m = fail_io e" "\<exists>e. Store_ConvertLegacy closed t m = fail_io e"
    "\<exists>e. Store_Delete closed t = fail_io e" "\<exists>e. Store_List closed = fail_io e"
  using assms
  by (auto simp: Store_Close_def Store_Read_def Store_Create_def Store_Write_def Store_ConvertLegacy_def
      Store_Delete_def Store_List_def)

end
