(* ===== verification/Daemon.thy ===== *)
theory Daemon
  imports Store_Open Control_Safety
begin

text \<open>
  The daemon, cmd/aamm-ng/main.go: its flags, its start, its run and its end.  The context ends when
  the process is told to stop.  The Go flag package is part of the standard library: what it does
  with string flags is \<open>flags_Parse\<close>.
\<close>

subsection \<open>Flags\<close>

record daemon_config =
  dc_alertRoot :: string
  dc_backupRoot :: string
  dc_configPath :: string

definition daemon_flags :: "(string \<times> string) list" where
  "daemon_flags =
     [(''alert-root'', ''path to the alert directory''), (''backup-root'', ''path to the backup directory''),
      (''config-path'', ''path to the application configuration file'')]"

definition set_flag :: "string \<Rightarrow> string \<Rightarrow> daemon_config \<Rightarrow> daemon_config" where
  "set_flag name v c =
     (if name = ''alert-root'' then c\<lparr>dc_alertRoot := v\<rparr>
      else if name = ''backup-root'' then c\<lparr>dc_backupRoot := v\<rparr>
      else c\<lparr>dc_configPath := v\<rparr>)"

text \<open>\<open>FlagSet.usage\<close>: the flags in the order of their names, which is the order of the list.\<close>

definition flag_usage :: string where
  "flag_usage = ''Usage of aamm-ng:'' @ [LF] @
     concat (map (\<lambda>(name, usage). ''  -'' @ name @ '' string'' @ [LF] @ ''    '' @ [TAB] @ usage @ [LF]) daemon_flags)"

text \<open>The error, what has been printed to the standard error, the values and the remaining arguments.\<close>

type_synonym flags_result = "goerror option \<times> string \<times> daemon_config \<times> string list"

definition flag_failure :: "string \<Rightarrow> daemon_config \<Rightarrow> string list \<Rightarrow> flags_result" where
  "flag_failure msg c args = (Some (new_error msg), msg @ [LF] @ flag_usage, c, args)"

text \<open>\<open>name=value\<close> is cut at the first equals sign after the first character.\<close>

definition split_flag :: "string \<Rightarrow> string \<times> string option" where
  "split_flag name =
     (if CHR ''='' \<in> set (tl name)
      then (hd name # takeWhile (\<lambda>c. c \<noteq> CHR ''='') (tl name), Some (tl (dropWhile (\<lambda>c. c \<noteq> CHR ''='') (tl name))))
      else (name, None))"

fun flags_Parse :: "string list \<Rightarrow> daemon_config \<Rightarrow> flags_result" where
  "flags_Parse [] c = (None, [], c, [])"
| "flags_Parse (s # args) c =
     (if length s < 2 \<or> hd s \<noteq> CHR ''-'' then (None, [], c, s # args)
      else if s = ''--'' then (None, [], c, args)
      else
        let name = (if s ! 1 = CHR ''-'' then drop 2 s else drop 1 s)
        in if name = [] \<or> hd name = CHR ''-'' \<or> hd name = CHR ''=''
           then flag_failure (''bad flag syntax: '' @ s) c (s # args)
           else case split_flag name of (name, v) \<Rightarrow>
             if name \<notin> set (map fst daemon_flags) then
               (if name = ''help'' \<or> name = ''h'' then (Some (Sentinel Flag_ErrHelp), flag_usage, c, args)
                else flag_failure (''flag provided but not defined: -'' @ name) c args)
             else (case v of
                 Some v \<Rightarrow> flags_Parse args (set_flag name v c)
               | None \<Rightarrow>
                   (case args of
                      [] \<Rightarrow> flag_failure (''flag needs an argument: -'' @ name) c args
                    | v # rest \<Rightarrow> flags_Parse rest (set_flag name v c))))"

declare flags_Parse.simps(2) [simp del]

text \<open>The result, and what is printed to the standard error.\<close>

definition parseConfig :: "string list \<Rightarrow> (goerror + daemon_config) \<times> string" where
  "parseConfig args =
     (case flags_Parse args \<lparr>dc_alertRoot = [], dc_backupRoot = [], dc_configPath = []\<rparr> of (err, stderr, c, rest) \<Rightarrow>
        (case err of
           Some err \<Rightarrow> Inl err
         | None \<Rightarrow>
             if dc_alertRoot c = [] then Inl (new_error ''--alert-root is required'')
             else if dc_backupRoot c = [] then Inl (new_error ''--backup-root is required'')
             else if dc_configPath c = [] then Inl (new_error ''--config-path is required'')
             else if rest \<noteq> [] then Inl (new_error (''unexpected argument '' @ Quote (hd rest)))
             else Inr c, stderr))"

subsection \<open>The run of the daemon\<close>

text \<open>
  What the daemon meets outside its own code: the answers on the two roots' paths, on the socket and of
  the two closing calls, whether the configuration's directory is one, the connections that arrive
  until the listener fails, and whether the context has been cancelled by then.  \<open>dm_server_first\<close>: the
  \<open>select\<close> takes the result of the server although \<open>ready\<close> is closed as well, which it may when the
  server has ended before the \<open>select\<close> looks.
\<close>

record daemon_os =
  dm_alert :: root_os
  dm_backup :: root_os
  dm_socket :: socket_os
  dm_parent :: "fs \<Rightarrow> bool"
  dm_connections :: "connection list"
  dm_cancelled :: bool
  dm_accept_error :: goerror
  dm_server_first :: bool
  dm_close_alert :: "goerror option"
  dm_close_backup :: "goerror option"

text \<open>What the run returns: the error, the lines on the standard output and the text on the standard error,
  the responses, the audit log, the settings and the roots left open.\<close>

record daemon_run =
  run_error :: "goerror option"
  run_stdout :: "string list"
  run_stderr :: string
  run_responses :: "string list"
  run_audit :: string
  run_settings :: "Manager option"
  run_roots :: nat

definition failed_run :: "goerror \<Rightarrow> string \<Rightarrow> nat \<Rightarrow> daemon_run" where
  "failed_run err stderr roots = \<lparr>run_error = Some err, run_stdout = [], run_stderr = stderr, run_responses = [],
     run_audit = [], run_settings = None, run_roots = roots\<rparr>"

text \<open>\<open>fmt.Errorf("text: %w", err)\<close> where \<open>err\<close> may be nil, which prints as \<open>%!w(<nil>)\<close>.\<close>

definition wrapf_nil :: "string \<Rightarrow> goerror option \<Rightarrow> goerror" where
  "wrapf_nil msg err =
     (case err of Some err \<Rightarrow> wrapf msg err | None \<Rightarrow> new_error (msg @ '': %!w(<nil>)''))"

text \<open>The store is closed after a failure, and its error is joined.\<close>

definition close_after :: "goerror \<Rightarrow> goerror option \<Rightarrow> goerror" where
  "close_after err closeErr =
     (case closeErr of
        None \<Rightarrow> err
      | Some c \<Rightarrow> Joined [err, wrapf ''shutdown: close alert store'' c])"

definition finish_run :: "bool \<Rightarrow> goerror option \<Rightarrow> goerror option \<Rightarrow> goerror option \<times> string list" where
  "finish_run ready serverErr closeErr =
     (if \<not> ready then (Some (close_after (wrapf_nil ''startup: local control'' serverErr) closeErr), [])
      else case serverErr of
        Some err \<Rightarrow> (Some (close_after (wrapf ''local control'' err) closeErr), [''AAMM-NG started''])
      | None \<Rightarrow>
          (case closeErr of
             Some c \<Rightarrow> (Some (wrapf ''shutdown: close alert store'' c), [''AAMM-NG started''])
           | None \<Rightarrow> (None, [''AAMM-NG started'', ''AAMM-NG stopped''])))"

text \<open>\<open>ready\<close> is closed when the listener has been set up, before the first connection is accepted.\<close>

definition serve_store ::
  "json_texts \<Rightarrow> daemon_os \<Rightarrow> string \<Rightarrow> string \<Rightarrow> store \<Rightarrow> Manager \<Rightarrow> daemon_run io"
where
  "serve_store texts os socketDir stderr store settings =
     bind_io (ServeWithSettings texts (dm_socket os) socketDir (alert_store_operations store) manager_operations
       settings (dm_connections os) (dm_cancelled os) (dm_accept_error os)) (\<lambda>(serverErr, outs, log, settings).
     let ready = (start_listener (dm_socket os) socketDir = None \<and> \<not> dm_server_first os) in
     case Store_Close (dm_close_alert os) (dm_close_backup os) store of (closeErr, closed) \<Rightarrow>
     case finish_run ready serverErr closeErr of (err, lines) \<Rightarrow>
     return_io \<lparr>run_error = err, run_stdout = lines, run_stderr = stderr, run_responses = outs, run_audit = log,
       run_settings = Some settings,
       run_roots = length (filter (\<lambda>r. r \<noteq> None) [alertRoot closed, backupRoot closed])\<rparr>)"

text \<open>The directory of the socket's path, which \<open>run\<close> fixes.\<close>

definition runWithSocketPath :: "json_texts \<Rightarrow> daemon_os \<Rightarrow> string \<Rightarrow> string list \<Rightarrow> daemon_run io" where
  "runWithSocketPath texts os socketDir args =
     (case parseConfig args of
        (Inl err, stderr) \<Rightarrow> return_io (failed_run err stderr 0)
      | (Inr config, stderr) \<Rightarrow>
          bind_io (try_io (OpenManager texts (dm_parent os) (dc_configPath config))) (\<lambda>r.
          case r of
            Inl err \<Rightarrow> return_io (failed_run (wrapf ''startup: application configuration'' err) stderr 0)
          | Inr settings \<Rightarrow>
              (case Store_Open (dm_alert os) (dm_backup os)
                 \<lparr>config_AlertRoot = dc_alertRoot config, config_BackupRoot = dc_backupRoot config\<rparr> of
                 (Inl err, n) \<Rightarrow> return_io (failed_run (wrapf ''startup'' err) stderr n)
               | (Inr store, n) \<Rightarrow> serve_store texts os socketDir stderr store settings)))"

definition daemon_run_production :: "json_texts \<Rightarrow> daemon_os \<Rightarrow> string list \<Rightarrow> daemon_run io" where
  "daemon_run_production texts os args = runWithSocketPath texts os ''/run/aamm-ng'' args"

text \<open>\<open>main\<close>: the exit status and the last line on the standard error.\<close>

definition daemon_exit :: "goerror option \<Rightarrow> nat \<times> string" where
  "daemon_exit err =
     (case err of
        None \<Rightarrow> (0, [])
      | Some err \<Rightarrow>
          if errors_is err Flag_ErrHelp then (0, [])
          else (1, ''aamm-ng: '' @ error_text err @ [LF]))"

subsection \<open>The flags that the service manager passes\<close>

lemma daemon_flag_names: "''alert-root'' \<in> fst ` set daemon_flags" "''backup-root'' \<in> fst ` set daemon_flags"
  "''config-path'' \<in> fst ` set daemon_flags"
  by (simp_all add: daemon_flags_def)

lemma flags_Parse_value:
  assumes "name \<in> fst ` set daemon_flags"
  shows "flags_Parse ((''--'' @ name) # v # rest) c = flags_Parse rest (set_flag name v c)"
    "flags_Parse ((''--'' @ name @ ''='' @ v) # rest) c = flags_Parse rest (set_flag name v c)"
proof -
  have "\<forall>name \<in> fst ` set daemon_flags. name \<noteq> [] \<and> hd name \<noteq> CHR ''-'' \<and> hd name \<noteq> CHR ''='' \<and> CHR ''='' \<notin> set (tl name)"
    by (simp add: daemon_flags_def)
  with assms obtain n ns where name: "name = n # ns" "n \<noteq> CHR ''-''" "n \<noteq> CHR ''=''" "CHR ''='' \<notin> set ns"
    by (cases name) (metis list.sel(1,3) list.distinct(1))+
  have split: "split_flag (n # ns) = (n # ns, None)" "split_flag (n # ns @ CHR ''='' # v) = (n # ns, Some v)"
    using name(4) by (simp_all add: split_flag_def) (simp add: takeWhile_append dropWhile_append)
  have known: "n # ns \<in> fst ` set daemon_flags" using assms name(1) by simp
  show "flags_Parse ((''--'' @ name) # v # rest) c = flags_Parse rest (set_flag name v c)"
    "flags_Parse ((''--'' @ name @ ''='' @ v) # rest) c = flags_Parse rest (set_flag name v c)"
    using name(2,3) known by (simp_all add: flags_Parse.simps(2) name(1) split Let_def)
qed

lemmas flags_Parse_values = flags_Parse_value [OF daemon_flag_names(1), simplified]
  flags_Parse_value [OF daemon_flag_names(2), simplified] flags_Parse_value [OF daemon_flag_names(3), simplified]

lemma parseConfig_accepts:
  assumes "a \<noteq> []" "b \<noteq> []" "p \<noteq> []"
  shows "parseConfig [''--alert-root'', a, ''--backup-root'', b, ''--config-path'', p] =
      (Inr \<lparr>dc_alertRoot = a, dc_backupRoot = b, dc_configPath = p\<rparr>, [])"
    "parseConfig [''--alert-root='' @ a, ''--backup-root='' @ b, ''--config-path='' @ p] =
      (Inr \<lparr>dc_alertRoot = a, dc_backupRoot = b, dc_configPath = p\<rparr>, [])"
  using assms by (simp_all add: parseConfig_def flags_Parse_values set_flag_def)

lemma parseConfig_complete:
  "parseConfig args = (Inr c, stderr) \<Longrightarrow> dc_alertRoot c \<noteq> [] \<and> dc_backupRoot c \<noteq> [] \<and> dc_configPath c \<noteq> []"
  by (auto simp: parseConfig_def split: prod.splits option.splits if_splits)

subsection \<open>A whole run\<close>

text \<open>All that is checked before the daemon serves.\<close>

definition daemon_ready :: "json_texts \<Rightarrow> daemon_os \<Rightarrow> string \<Rightarrow> string list \<Rightarrow> world \<Rightarrow> bool" where
  "daemon_ready texts os socketDir args w \<longleftrightarrow>
     (case parseConfig args of
        (Inl _, _) \<Rightarrow> False
      | (Inr c, _) \<Rightarrow>
          \<not> isl (fst (OpenManager texts (dm_parent os) (dc_configPath c) w)) \<and>
          genuine_root (dm_alert os) (dc_alertRoot c) 0 \<and> genuine_root (dm_backup os) (dc_backupRoot c) backup_mode \<and>
          start_listener (dm_socket os) socketDir = None)"

lemma Store_Open_cases:
  obtains (opened) "genuine_root a (config_AlertRoot c) 0" "genuine_root b (config_BackupRoot c) backup_mode"
      "Store_Open a b c = (Inr \<lparr>alertRoot = Some AlertDir, backupRoot = Some BackupDir\<rparr>, 2)"
    | (refused) err where "\<not> (genuine_root a (config_AlertRoot c) 0 \<and> genuine_root b (config_BackupRoot c) backup_mode)"
      "Store_Open a b c = (Inl err, 0)"
proof (cases "genuine_root a (config_AlertRoot c) 0 \<and> genuine_root b (config_BackupRoot c) backup_mode")
  case True
  then show ?thesis by (intro opened) (auto simp: Store_Open_genuine)
next
  case False
  with Store_Open_refused [OF False] show ?thesis using refused by blast
qed

lemma finish_run_exact:
  "fst (finish_run ready serverErr closeErr) = None \<longleftrightarrow> ready \<and> serverErr = None \<and> closeErr = None"
  "snd (finish_run ready serverErr closeErr) = (if \<not> ready then []
     else if serverErr = None \<and> closeErr = None then [''AAMM-NG started'', ''AAMM-NG stopped''] else [''AAMM-NG started''])"
  by (cases serverErr; cases closeErr; simp add: finish_run_def)+

lemma serve_store_run:
  fixes texts os socketDir stderr settings w
  defines "store \<equiv> \<lparr>alertRoot = Some AlertDir, backupRoot = Some BackupDir\<rparr>"
    and "ready \<equiv> start_listener (dm_socket os) socketDir = None"
  shows "\<exists>r w'. serve_store texts os socketDir stderr store settings w = (Inr r, w') \<and> run_roots r = 0 \<and>
    (run_error r = None \<longleftrightarrow> ready \<and> dm_cancelled os \<and> \<not> dm_server_first os \<and> dm_close_alert os = None \<and>
       dm_close_backup os = None) \<and>
    run_stdout r = (if ready \<and> \<not> dm_server_first os
      then [''AAMM-NG started''] @ (if run_error r = None then [''AAMM-NG stopped''] else []) else []) \<and>
    length (run_responses r) = (if ready then length (dm_connections os) else 0) \<and>
    (ready \<or> run_audit r = [])"
proof (cases "start_listener (dm_socket os) socketDir")
  case (Some err)
  then show ?thesis
    by (auto simp: serve_store_def ServeWithSettings_def serveWithSettingsAuditWriter_def bind_io_def return_io_def
        Store_Close_def finish_run_def ready_def store_def)
next
  case None
  obtain close where close: "errors_Join [dm_close_alert os, dm_close_backup os] = close" by blast
  let ?outcome = "finish_run (\<not> dm_server_first os)
      (if dm_cancelled os then None else Some (wrapf ''accept control connection'' (dm_accept_error os))) close"
  obtain outs log m w1 where "serve_connections texts (alert_store_operations store) (Some manager_operations) settings
      (dm_connections os) w = (Inr (outs, log, m), w1)" and len: "length outs = length (dm_connections os)"
    using serve_returns [OF manager_returns] by blast
  with None have run: "serve_store texts os socketDir stderr store settings w =
      (Inr \<lparr>run_error = fst ?outcome, run_stdout = snd ?outcome, run_stderr = stderr, run_responses = outs, run_audit = log,
        run_settings = Some m, run_roots = 0\<rparr>, w1)"
    by (simp add: serve_store_def ServeWithSettings_def serveWithSettingsAuditWriter_def bind_io_def return_io_def
        Store_Close_def store_def close split: prod.split)
  have closed: "close = None \<longleftrightarrow> dm_close_alert os = None \<and> dm_close_backup os = None"
    unfolding close [symmetric] by simp
  show ?thesis unfolding run using None len by (simp add: ready_def finish_run_exact closed)
qed

text \<open>
  C10: The daemon's run, whatever happens outside.  It always comes back, with no root left open.  It
  serves connections only when its arguments, its settings, the two directories and the socket have
  all passed their checks, and then it answers every connection.  It says that it has started when it
  has, unless the server's end is seen first, and it ends without an error exactly when it had passed
  the checks, was told to stop, closed both roots, and the end of the server was not taken for a
  failed start: a daemon that is told to stop so early that the server's result and \<open>ready\<close> are both
  there may report a failed start with a nil error.
\<close>

theorem daemon_run_exact:
  "\<exists>r w'. runWithSocketPath texts os socketDir args w = (Inr r, w') \<and> run_roots r = 0 \<and>
    (run_error r = None \<longleftrightarrow> daemon_ready texts os socketDir args w \<and> dm_cancelled os \<and> \<not> dm_server_first os \<and>
       dm_close_alert os = None \<and> dm_close_backup os = None) \<and>
    run_stdout r = (if daemon_ready texts os socketDir args w \<and> \<not> dm_server_first os
      then [''AAMM-NG started''] @ (if run_error r = None then [''AAMM-NG stopped''] else []) else []) \<and>
    length (run_responses r) = (if daemon_ready texts os socketDir args w then length (dm_connections os) else 0) \<and>
    (daemon_ready texts os socketDir args w \<or> run_audit r = [])"
proof -
  obtain p stderr where parse: "parseConfig args = (p, stderr)" by fastforce
  show ?thesis
  proof (cases p)
    case (Inl err)
    then show ?thesis by (simp add: runWithSocketPath_def parse return_io_def failed_run_def daemon_ready_def)
  next
    case (Inr c)
    obtain m w1 where manager: "OpenManager texts (dm_parent os) (dc_configPath c) w = (m, w1)" by fastforce
    show ?thesis
    proof (cases m)
      case (Inl err)
      then show ?thesis
        by (simp add: runWithSocketPath_def parse Inr manager return_io_def failed_run_def daemon_ready_def bind_io_def try_io_def)
    next
      case m: (Inr settings)
      let ?c = "\<lparr>config_AlertRoot = dc_alertRoot c, config_BackupRoot = dc_backupRoot c\<rparr>"
      show ?thesis
      proof (cases rule: Store_Open_cases [of "dm_alert os" ?c "dm_backup os"])
        case opened
        then have "daemon_ready texts os socketDir args w = (start_listener (dm_socket os) socketDir = None)"
          by (simp add: daemon_ready_def parse Inr manager m)
        with opened serve_store_run [of texts os socketDir stderr settings w1] show ?thesis
          by (simp add: runWithSocketPath_def parse Inr manager m bind_io_def try_io_def)
      next
        case (refused err)
        then have "\<not> daemon_ready texts os socketDir args w" by (auto simp: daemon_ready_def parse Inr)
        with refused show ?thesis
          by (simp add: runWithSocketPath_def parse Inr manager m bind_io_def try_io_def return_io_def failed_run_def)
      qed
    qed
  qed
qed

end
