(* ===== verification/Spec2Isabelle.thy ===== *)
theory Spec2Isabelle
  imports Web_Markup Aredn_Examples Web_Examples Daemon
begin

text \<open>
  Verification of aamm-ng, the alert manager for AREDN mesh nodes (Go, \<open>src/\<close>).

  \<^bold>\<open>The program.\<close>  An AREDN node shows its visitors the alert files of one directory.  The daemon
  \<open>aamm-ng\<close> (\<open>cmd/aamm-ng\<close>) owns that directory, a backup directory and a settings file, and answers one
  JSON request per connection on a Unix socket.  The web process \<open>aamm-ng-web\<close> (\<open>cmd/aamm-ng-web\<close>) serves
  the administrator's pages on the loopback interface with an HTTP library of its own
  (\<open>internal/minihttp\<close>) and reaches the alerts only through the daemon's socket; run with \<open>--cgi\<close> by the
  node's web server it forwards one request to that service.  So a change of an alert goes from the
  visitor's request through the CGI bridge, the HTTP client and server, the authentication, the
  handlers, the control client, the socket, the daemon's dispatch and the store to the file system.

  \<^bold>\<open>The theories, in the order of the code.\<close>

  Go and its standard library, as far as the program uses them:
  \<^item> \<open>Prelude\<close> (byte strings, \<open>strings\<close>), \<open>Unicode_Tables\<close>, \<open>Unicode_Text\<close> (UTF-8, \<open>unicode\<close>), \<open>Go_Errors\<close> (error
    values, \<open>%w\<close>, \<open>errors.Is\<close>, \<open>errors.Join\<close>), \<open>Html_Entities\<close>, \<open>Html\<close> (\<open>html\<close>), \<open>Json\<close>, \<open>Json_Facts\<close> (\<open>encoding/json\<close>),
    \<open>Netip\<close> (\<open>net/netip\<close>), \<open>Http_Url\<close> (\<open>net/url\<close>, \<open>path\<close>).
  \<^item> \<open>File_System\<close>: directories, inodes, descriptors and the system calls of \<open>os.Root\<close> and \<open>os.File\<close>.  Before
    every call the next event of a script may change the file system as another process would, or make
    the call fail; \<open>Io_Logic\<close>, \<open>Frame_Rules\<close>, \<open>Error_Rules\<close>: a Hoare logic with rely conditions over it.

  The alerts:
  \<^item> \<open>Alert_Target\<close> (internal/alerttarget), \<open>Alert_Message\<close> (internal/alertmessage).
  \<^item> \<open>Alert_Store\<close> (store.go: \<open>Read\<close>, \<open>Create\<close>, \<open>Write\<close>), \<open>Store_Backup\<close> (conversion.go, delete.go),
    \<open>Store_List\<close> (list.go), \<open>Store_Open\<close> (store.go: \<open>Open\<close>, \<open>openRoot\<close>, \<open>Close\<close>) model internal/alertstore
    system call by system call.  A \<open>store\<close> is the two roots; the files are those of the world.
    \<open>Store_Rules\<close>, \<open>Backup_Rules\<close>: rules for its steps; \<open>Read_Rules\<close>: operations that change no file or
    directory at all, whatever others do (\<open>left_alone\<close>); \<open>Store_Safety\<close>: nothing is lost, replaced or
    published half, whatever fails and whatever other processes do to other entries;
    \<open>Store_Descriptors\<close>: no descriptor leaks; \<open>Store_Listing\<close>: reading back, retention, the listing.
    \<open>Quiet_World\<close>, \<open>Store_Examples\<close>: the guarantees at concrete worlds.

  The daemon:
  \<^item> \<open>App_Config\<close> (internal/appconfig), \<open>Config_Rules\<close>: settings are saved whole or not at all; the locale
    \<open>settings_store\<close> is what the control server relies on; and loading takes exactly what the file holds.
  \<^item> \<open>Protocol\<close> (protocol.go, results.go), \<open>Dispatch\<close> (dispatch.go, settings_dispatch.go, audit.go),
    \<open>Control_Server\<close> (server.go) of internal/localcontrol; \<open>Control_Facts\<close>, \<open>Control_Safety\<close>: audit lines,
    refused requests, valid settings; \<open>Request_Roundtrip\<close>: encoded requests decode to themselves.
  \<^item> \<open>Control_Client\<close> (client*.go, internal/auditidentity); \<open>Control_Refinement\<close>: client, wire and server
    together implement the store's own operations, for every request within the 16 KiB that one line may
    have; a longer one, which a message full of characters that JSON escapes leads to
    (\<open>less_thans_too_large\<close>), is refused by the client.
  \<^item> \<open>Daemon\<close> (cmd/aamm-ng): flags, start, run and end, with an exact account of the outcome.

  The web process:
  \<^item> \<open>Http_Text\<close> (minihttp.go), \<open>Http_Wire\<close> (wire.go), \<open>Http_Request\<close> (request.go), \<open>Http_Response\<close> and
    \<open>Http_Server\<close> (server.go), \<open>Http_Mux\<close> (mux.go), \<open>Http_Client\<close> (client.go), \<open>Http_Accept\<close> (the accept loop, the
    goroutines, \<open>Shutdown\<close> and \<open>Close\<close> of server.go, as an inductive step relation; that a closed server
    comes to its end is shown of its infinite runs, under weak fairness: what can be done is done);
    \<open>Http_Body\<close>: the contract of \<open>io.Reader\<close> as the locale \<open>io_reader\<close>, interpreted on the body readers;
    \<open>Http_Roundtrip\<close>, \<open>Http_Exchange\<close>: what one side writes the other reads; \<open>Http_Examples\<close>.
  \<^item> \<open>Aredn_Hosts\<close> (internal/arednhosts, aredndhcp, arednnodes), \<open>Aredn_Source\<close> (internal/arednsource,
    arednauth), \<open>Aredn_Facts\<close>, \<open>Aredn_Examples\<close>: who a request comes from.
  \<^item> \<open>Web_Pages\<close> (the templates of webadmin/handler.go), \<open>Web_Markup\<close>: data never becomes markup;
    \<open>Web_Admin\<close> (the rest of internal/webadmin), \<open>Web_Safety\<close>: who can reach the alert manager.
  \<^item> \<open>Cgi_Bridge\<close> (internal/cgibridge), \<open>Cgi_Safety\<close>: what the service reads of the visitor's environment.
  \<^item> \<open>Web_Process\<close> (webadmin/server.go and listener.go, cmd/aamm-ng-web): serving and stopping.
  \<^item> \<open>Control_Examples\<close>, \<open>Web_Examples\<close>: the theorems at concrete inputs.

  \<^bold>\<open>How the code is rendered.\<close>  A struct is a record, an enumeration a datatype, a byte string a list of
  characters, an error a value of \<open>goerror\<close> (or \<open>http_error\<close> in the HTTP library), a fallible function a
  sum.  An operation with effects is an \<open>io\<close>: a function of the \<open>world\<close>, with the early return on an error
  in \<open>bind_io\<close>, \<open>defer\<close> in \<open>deferred\<close> and \<open>on_error\<close>.  Go's \<open>int\<close> and \<open>int64\<close> are \<open>int\<close> or \<open>nat\<close> where a bound is
  checked by the code before it could overflow, and the check is part of the model (\<open>parse_int64\<close>,
  \<open>json_overflows\<close>, the limits on bodies); random numbers and the groups of addresses keep their width.

  \<^bold>\<open>Bounds and fuel.\<close>  The JSON reader recurses on fuel \<open>2 * length + 2\<close> and \<open>Json_Facts\<close> shows that more
  changes nothing; nesting stops at the decoder's own depth 10000.  Temporary names are tried 10
  times in the store and 10000 times by \<open>os.CreateTemp\<close>, as in the code.  Loops that read are total
  because an exhausted script of events means calm; every other recursion is structural or has a
  measure.

  \<^bold>\<open>Parameters.\<close>  What the code cannot determine is an argument: the events of the world; the answers of
  the operating system about the socket, its directory and the paths of the roots; what the network
  and the peer send; the texts of the JSON decoder's errors and the text of a re-encoded number
  (\<open>json_texts\<close>, \<open>number\<close>); the parsing of a URL's host (\<open>parse_host\<close>); the run of the route command; which
  of two results that are both there a \<open>select\<close> takes.  Hypotheses about them say only what the
  theorem at hand needs and are met in the theorem's witness.

  \<^bold>\<open>Not modelled.\<close>  Deadlines and time-outs: a connection is the sequence of what its reads return, and a
  time-out is one of the errors a read can return.  The locks of the store: it is one process whose
  operations are taken one at a time, as the daemon serves one connection at a time.  The output of
  two goroutines to one stream is kept apart (the daemon's own lines and its audit log).
  \<open>minihttp/httptest\<close>, a recorder and a loopback server that only the tests use.
\<close>

end
